(* ===== verification/Factory_Prelude.thy ===== *)
theory Factory_Prelude
  imports Main "HOL-Library.List_Lexorder" "HOL-Library.Char_ord" "HOL-Library.AList"
    "HOL-Library.Multiset"
begin

text \<open>
  Shared notation and lemmas of the development: JavaScript strings and the string
  methods the sources use, decimal numerals, insertion-ordered sets and maps, results
  of fallible code, and the collections of facts that carry the component proofs.

  A JavaScript string is a list of characters, read as the UTF-8 bytes of the text.
  On ASCII text a character is one UTF-16 code unit. White space and letter case are
  those of ASCII.
\<close>

named_theorems id_simps \<open>how the artifact-id constructors act on ids of the expected shape\<close>
named_theorems wf_intros \<open>well-formedness of constructed artifacts\<close>
named_theorems emit_defs \<open>definitions of the artifact emitters\<close>

section \<open>Results of fallible code\<close>

text \<open>A call that may throw: \<open>Inl\<close> is the thrown error, \<open>Inr\<close> the returned value.\<close>

fun and_then :: "'e + 'a \<Rightarrow> ('a \<Rightarrow> 'e + 'b) \<Rightarrow> 'e + 'b" where
  "and_then (Inl e) f = Inl e"
| "and_then (Inr a) f = f a"

fun is_ok :: "'e + 'a \<Rightarrow> bool" where
  "is_ok (Inl e) = False"
| "is_ok (Inr a) = True"

lemma is_ok_iff: "is_ok r \<longleftrightarrow> (\<exists>a. r = Inr a)"
  by (cases r) auto

lemma and_then_Inr: "and_then r f = Inr b \<longleftrightarrow> (\<exists>a. r = Inr a \<and> f a = Inr b)"
  by (cases r) auto

text \<open>A guard that throws: \<open>if (!b) throw e\<close>.\<close>

definition require :: "bool \<Rightarrow> 'e \<Rightarrow> 'e + unit" where
  "require b e = (if b then Inr () else Inl e)"

lemma require_Inr [simp]: "require b e = Inr u \<longleftrightarrow> b"
  by (simp add: require_def)

lemma require_Inl [simp]: "require b e = Inl e' \<longleftrightarrow> \<not> b \<and> e = e'"
  by (auto simp: require_def)

section \<open>Characters\<close>

definition is_digit :: "char \<Rightarrow> bool" where
  "is_digit c \<longleftrightarrow> 48 \<le> (of_char c :: nat) \<and> (of_char c :: nat) \<le> 57"

definition is_upper :: "char \<Rightarrow> bool" where
  "is_upper c \<longleftrightarrow> 65 \<le> (of_char c :: nat) \<and> (of_char c :: nat) \<le> 90"

definition is_lower :: "char \<Rightarrow> bool" where
  "is_lower c \<longleftrightarrow> 97 \<le> (of_char c :: nat) \<and> (of_char c :: nat) \<le> 122"

text \<open>The class \<open>\s\<close> of a regular expression, and what \<open>trim\<close> removes.\<close>

definition is_ws :: "char \<Rightarrow> bool" where
  "is_ws c \<longleftrightarrow> (9 \<le> (of_char c :: nat) \<and> (of_char c :: nat) \<le> 13) \<or> (of_char c :: nat) = 32"

lemma of_char_eq_numeral: "n < 256 \<Longrightarrow> (of_char c :: nat) = n \<longleftrightarrow> c = char_of n"
  by (auto simp: char_of_nat)

text \<open>An equation that evaluates by comparing characters.\<close>

lemma is_ws_code [code]:
  "is_ws c \<longleftrightarrow> c = CHR 0x09 \<or> c = CHR 0x0A \<or> c = CHR 0x0B \<or> c = CHR 0x0C \<or> c = CHR 0x0D \<or>
     c = CHR '' ''"
proof -
  have "is_ws c \<longleftrightarrow> (of_char c :: nat) \<in> {9, 10, 11, 12, 13, 32}"
    by (auto simp: is_ws_def)
  also have "\<dots> \<longleftrightarrow> c \<in> {char_of (9 :: nat), char_of (10 :: nat), char_of (11 :: nat),
      char_of (12 :: nat), char_of (13 :: nat), char_of (32 :: nat)}"
    by (simp add: of_char_eq_numeral)
  also have "\<dots> \<longleftrightarrow> c \<in> {CHR 0x09, CHR 0x0A, CHR 0x0B, CHR 0x0C, CHR 0x0D, CHR '' ''}"
    by code_simp
  finally show ?thesis by simp
qed

definition lower_char :: "char \<Rightarrow> char" where
  "lower_char c = (if is_upper c then char_of ((of_char c :: nat) + 32) else c)"

definition upper_char :: "char \<Rightarrow> char" where
  "upper_char c = (if is_lower c then char_of ((of_char c :: nat) - 32) else c)"

abbreviation nl :: char where "nl \<equiv> CHR 0x0A"
abbreviation cr :: char where "cr \<equiv> CHR 0x0D"

section \<open>String methods\<close>

definition starts_with :: "string \<Rightarrow> string \<Rightarrow> bool" where
  "starts_with p s \<longleftrightarrow> take (length p) s = p"

lemma starts_with_iff: "starts_with p s \<longleftrightarrow> (\<exists>t. s = p @ t)"
  unfolding starts_with_def by (metis append_eq_conv_conj append_take_drop_id)

lemma starts_with_append [simp]: "starts_with p (p @ t)"
  by (simp add: starts_with_def)

lemma starts_withE:
  assumes "starts_with p s"
  obtains t where "s = p @ t"
  using assms starts_with_iff by blast

lemma starts_with_Nil [simp]: "starts_with [] s"
  by (simp add: starts_with_def)

lemma starts_with_Cons_Cons [simp]:
  "starts_with (a # p) (b # s) \<longleftrightarrow> a = b \<and> starts_with p s"
  by (auto simp: starts_with_def)

lemma starts_with_Cons_Nil [simp]: "\<not> starts_with (a # p) []"
  by (simp add: starts_with_def)

lemma starts_with_code [code]:
  "starts_with [] s = True"
  "starts_with (a # p) [] = False"
  "starts_with (a # p) (b # s) = (a = b \<and> starts_with p s)"
  by simp_all

text \<open>\<open>s.replace(/^p/, r)\<close> for a literal \<open>p\<close>.\<close>

definition replace_prefix :: "string \<Rightarrow> string \<Rightarrow> string \<Rightarrow> string" where
  "replace_prefix p r s = (if starts_with p s then r @ drop (length p) s else s)"

lemma replace_prefix_append [simp]: "replace_prefix p r (p @ s) = r @ s"
  by (simp add: replace_prefix_def)

lemma replace_prefix_other: "\<not> starts_with p s \<Longrightarrow> replace_prefix p r s = s"
  by (simp add: replace_prefix_def)

fun contains_str :: "string \<Rightarrow> string \<Rightarrow> bool" where
  "contains_str p [] \<longleftrightarrow> p = []"
| "contains_str p (x # xs) \<longleftrightarrow> starts_with p (x # xs) \<or> contains_str p xs"

lemma contains_str_iff: "contains_str p s \<longleftrightarrow> (\<exists>a b. s = a @ p @ b)"
proof (induction s)
  case Nil
  then show ?case by auto
next
  case (Cons x xs)
  have "(\<exists>a b. x # xs = a @ p @ b) \<longleftrightarrow> (\<exists>b. x # xs = p @ b) \<or> (\<exists>a b. xs = a @ p @ b)"
    by (auto simp: Cons_eq_append_conv)
  then show ?case
    using Cons by (simp add: starts_with_iff)
qed

text \<open>The dash of the messages, three bytes in UTF-8.\<close>

definition em_dash :: string where
  "em_dash = [CHR 0xE2, CHR 0x80, CHR 0x94]"

fun join :: "string \<Rightarrow> string list \<Rightarrow> string" where
  "join sep [] = []"
| "join sep [s] = s"
| "join sep (s # t # ts) = s @ sep @ join sep (t # ts)"

fun split_on :: "char \<Rightarrow> string \<Rightarrow> string list" where
  "split_on c [] = [[]]"
| "split_on c (x # xs) =
     (if x = c then [] # split_on c xs
      else (case split_on c xs of [] \<Rightarrow> [[x]] | l # ls \<Rightarrow> (x # l) # ls))"

lemma split_on_nonempty [simp]: "split_on c s \<noteq> []"
  by (cases s) (auto split: list.splits)

lemma split_on_no_sep: "l \<in> set (split_on c s) \<Longrightarrow> c \<notin> set l"
proof (induction s arbitrary: l)
  case Nil
  then show ?case by simp
next
  case (Cons x xs)
  then show ?case by (auto split: if_splits list.splits)
qed

lemma split_on_plain: "c \<notin> set s \<Longrightarrow> split_on c s = [s]"
  by (induction s) auto

lemma split_on_append_sep: "c \<notin> set l \<Longrightarrow> split_on c (l @ c # s) = l # split_on c s"
  by (induction l) auto

lemma split_on_join:
  "ls \<noteq> [] \<Longrightarrow> \<forall>l \<in> set ls. c \<notin> set l \<Longrightarrow> split_on c (join [c] ls) = ls"
  by (induction "[c]" ls rule: join.induct) (auto simp: split_on_plain split_on_append_sep)

lemma join_split_on: "join [c] (split_on c s) = s"
proof (induction s)
  case Nil
  then show ?case by simp
next
  case (Cons x xs)
  then show ?case
    by (cases "split_on c xs"; cases "tl (split_on c xs)") auto
qed

lemma join_eq_Nil: "join sep (x # xs) = [] \<Longrightarrow> x = []"
  by (cases xs) auto

lemma join_nonempty: "xs \<noteq> [] \<Longrightarrow> [] \<notin> set xs \<Longrightarrow> join sep xs \<noteq> []"
  by (cases xs) (auto dest: join_eq_Nil)

lemma contains_strI: "contains_str p (a @ p @ b)"
  unfolding contains_str_iff by blast

lemma contains_str_pad: "contains_str p s \<Longrightarrow> contains_str p (a @ s @ b)"
  unfolding contains_str_iff by (metis append.assoc)

lemma contains_str_append1: "contains_str p s \<Longrightarrow> contains_str p (s @ b)"
  using contains_str_pad [of p s "[]" b] by simp

lemma contains_str_append2: "contains_str p s \<Longrightarrow> contains_str p (a @ s)"
  using contains_str_pad [of p s a "[]"] by simp

lemma contains_str_refl [simp]: "contains_str p p"
  using contains_strI [of p "[]" "[]"] by simp

lemma contains_str_trans: "contains_str p q \<Longrightarrow> contains_str q s \<Longrightarrow> contains_str p s"
  unfolding contains_str_iff by (metis append.assoc)

lemma contains_join: "x \<in> set xs \<Longrightarrow> contains_str x (join sep xs)"
proof (induction sep xs rule: join.induct)
  case (3 sep s t ts)
  then show ?case
    using contains_strI [of s "[]" "sep @ join sep (t # ts)"]
      contains_str_append2 [of x "join sep (t # ts)" "s @ sep"] by auto
qed auto

definition trim :: "string \<Rightarrow> string" where
  "trim s = rev (dropWhile is_ws (rev (dropWhile is_ws s)))"

definition to_lower :: "string \<Rightarrow> string" where
  "to_lower s = map lower_char s"

definition to_upper :: "string \<Rightarrow> string" where
  "to_upper s = map upper_char s"

lemma trim_Nil [simp]: "trim [] = []"
  by (simp add: trim_def)

lemma dropWhile_all: "\<forall>x \<in> set xs. P x \<Longrightarrow> dropWhile P xs = []"
  by (simp add: dropWhile_eq_Nil_conv)

lemma trim_trimmed:
  assumes "s = [] \<or> (\<not> is_ws (hd s) \<and> \<not> is_ws (last s))"
  shows "trim s = s"
proof (cases "s = []")
  case False
  with assms have h: "\<not> is_ws (hd s)" and l: "\<not> is_ws (last s)" by auto
  from h False have "dropWhile is_ws s = s" by (cases s) auto
  moreover from l False have "dropWhile is_ws (rev s) = rev s"
    by (simp add: dropWhile_eq_self_iff hd_rev)
  ultimately show ?thesis by (simp add: trim_def)
qed simp

lemma dropWhile_last: "dropWhile P xs \<noteq> [] \<Longrightarrow> last (dropWhile P xs) = last xs"
  by (induction xs) (auto split: if_splits)

lemma trim_ends: "trim s = [] \<or> (\<not> is_ws (hd (trim s)) \<and> \<not> is_ws (last (trim s)))"
proof (cases "trim s = []")
  case False
  define t where "t = dropWhile is_ws s"
  define r where "r = dropWhile is_ws (rev t)"
  have tr: "trim s = rev r" by (simp add: trim_def t_def r_def)
  have rne: "r \<noteq> []" using False by (simp add: tr)
  then have tne: "t \<noteq> []" by (auto simp: r_def)
  have "\<not> is_ws (hd r)" using rne unfolding r_def by (rule hd_dropWhile)
  then have "\<not> is_ws (last (trim s))" using rne by (simp add: tr last_rev)
  moreover have "last r = last (rev t)" using rne unfolding r_def by (rule dropWhile_last)
  then have "hd (trim s) = hd t" using rne tne by (simp add: tr hd_rev last_rev)
  moreover have "\<not> is_ws (hd t)" using tne unfolding t_def by (rule hd_dropWhile)
  ultimately show ?thesis by simp
qed simp

lemma trim_idem [simp]: "trim (trim s) = trim s"
  by (rule trim_trimmed) (rule trim_ends)

section \<open>Decimal numerals\<close>

text \<open>\<open>String(n)\<close> of a natural number, and \<open>padStart\<close>.\<close>

definition digit_char :: "nat \<Rightarrow> char" where
  "digit_char d = char_of (48 + d)"

fun dec :: "nat \<Rightarrow> string" where
  "dec n = (if n < 10 then [digit_char n] else dec (n div 10) @ [digit_char (n mod 10)])"

declare dec.simps [simp del]

definition pad_start :: "nat \<Rightarrow> char \<Rightarrow> string \<Rightarrow> string" where
  "pad_start n c s = replicate (n - length s) c @ s"

definition undec :: "string \<Rightarrow> nat" where
  "undec s = foldl (\<lambda>a c. 10 * a + (of_char c - 48)) 0 s"

lemma of_digit_char [simp]: "d < 10 \<Longrightarrow> (of_char (digit_char d) :: nat) = 48 + d"
  by (simp add: digit_char_def)

lemma undec_dec: "undec (dec n) = n"
proof (induction n rule: dec.induct)
  case (1 n)
  show ?case
  proof (cases "n < 10")
    case True
    then show ?thesis by (simp add: dec.simps undec_def)
  next
    case False
    with 1 have "undec (dec (n div 10)) = n div 10" by simp
    with False show ?thesis
      by (subst dec.simps) (simp add: undec_def)
  qed
qed

lemma undec_zeros: "undec (replicate k (CHR ''0'') @ s) = undec s"
  by (induction k) (simp_all add: undec_def)

lemma undec_pad: "undec (pad_start k (CHR ''0'') (dec n)) = n"
  by (simp add: pad_start_def undec_zeros undec_dec)

lemma pad_dec_inject [simp]:
  "pad_start k (CHR ''0'') (dec m) = pad_start k (CHR ''0'') (dec n) \<longleftrightarrow> m = n"
  by (metis undec_pad)

lemma dec_inject [simp]: "dec m = dec n \<longleftrightarrow> m = n"
  by (metis undec_dec)

lemma dec_digits: "c \<in> set (dec n) \<Longrightarrow> is_digit c"
proof (induction n rule: dec.induct)
  case (1 n)
  show ?case
  proof (cases "n < 10")
    case True
    with "1.prems" show ?thesis by (simp add: dec.simps is_digit_def)
  next
    case False
    with "1.prems" have "c \<in> set (dec (n div 10)) \<or> c = digit_char (n mod 10)"
      by (subst (asm) dec.simps) auto
    with "1.IH" False show ?thesis by (auto simp: is_digit_def)
  qed
qed

lemma pad_dec_digits: "c \<in> set (pad_start k (CHR ''0'') (dec n)) \<Longrightarrow> is_digit c"
  by (auto simp: pad_start_def is_digit_def dest: dec_digits)

lemma dec_nonempty [simp]: "dec n \<noteq> []"
  by (subst dec.simps) simp

section \<open>Insertion-ordered sets and maps\<close>

text \<open>
  A JavaScript \<open>Set\<close> is the list of its elements in insertion order; a \<open>Map\<close> is an
  association list (\<^const>\<open>AList.update\<close> keeps the position of an existing key, as
  \<open>Map.set\<close> does).
\<close>

definition oset_add :: "'a \<Rightarrow> 'a list \<Rightarrow> 'a list" where
  "oset_add x s = (if x \<in> set s then s else s @ [x])"

definition oset_of :: "'a list \<Rightarrow> 'a list" where
  "oset_of xs = fold oset_add xs []"

lemma set_oset_add [simp]: "set (oset_add x s) = insert x (set s)"
  by (auto simp: oset_add_def)

lemma distinct_oset_add [simp]: "distinct (oset_add x s) \<longleftrightarrow> distinct s"
  by (auto simp: oset_add_def)

lemma set_fold_oset_add: "set (fold oset_add xs s) = set s \<union> set xs"
  by (induction xs arbitrary: s) auto

lemma distinct_fold_oset_add: "distinct s \<Longrightarrow> distinct (fold oset_add xs s)"
  by (induction xs arbitrary: s) auto

lemma set_oset_of [simp]: "set (oset_of xs) = set xs"
  by (simp add: oset_of_def set_fold_oset_add)

lemma distinct_oset_of [simp]: "distinct (oset_of xs)"
  by (simp add: oset_of_def distinct_fold_oset_add)

lemma oset_of_Nil [simp]: "oset_of [] = []"
  by (simp add: oset_of_def)

text \<open>Sorting makes an ordered set depend on its elements only.\<close>

lemma sort_oset_of_cong:
  fixes xs ys :: "'a::linorder list"
  assumes "set xs = set ys"
  shows "sort (oset_of xs) = sort (oset_of ys)"
proof -
  have "mset (oset_of xs) = mset (oset_of ys)"
    using assms by (simp flip: mset_set_set)
  then show ?thesis by (metis mset_sort properties_for_sort sorted_sort)
qed

lemma sort_mset_cong:
  fixes xs ys :: "'a::linorder list"
  shows "mset xs = mset ys \<Longrightarrow> sort xs = sort ys"
  by (metis mset_sort properties_for_sort sorted_sort)

lemma sort_eq_Nil [simp]: "sort xs = [] \<longleftrightarrow> xs = []"
  by (metis length_0_conv length_sort)

section \<open>Insertion-ordered maps\<close>

text \<open>A JavaScript object or map is an association list; \<open>AList.update\<close> is the assignment.\<close>

lemma update_new: "map_of kvs k = None \<Longrightarrow> AList.update k v kvs = kvs @ [(k, v)]"
  by (induction kvs) (auto split: if_splits)

lemma length_update_le: "length (AList.update k v kvs) \<le> Suc (length kvs)"
  by (induction kvs) auto

lemma fst_update_subset: "fst ` set (AList.update k v kvs) = insert k (fst ` set kvs)"
  by (metis dom_map_of_conv_image_fst dom_update insert_is_Un)

lemma map_of_eq_Some_in: "map_of kvs k = Some v \<Longrightarrow> k \<in> fst ` set kvs"
  by (metis map_of_eq_None_iff option.distinct(1))

lemma in_dom_map_of: "k \<in> fst ` set kvs \<longleftrightarrow> (\<exists>v. map_of kvs k = Some v)"
  by (metis map_of_eq_None_iff not_None_eq)

lemma foldl_update_distinct:
  "distinct (map f xs) \<Longrightarrow> f ` set xs \<inter> fst ` set kvs = {} \<Longrightarrow>
     foldl (\<lambda>m x. AList.update (f x) x m) kvs xs = kvs @ map (\<lambda>x. (f x, x)) xs"
proof (induction xs arbitrary: kvs)
  case Nil
  then show ?case by simp
next
  case (Cons x xs)
  then have "map_of kvs (f x) = None" by (auto simp: map_of_eq_None_iff)
  with Cons show ?case by (auto simp: update_new)
qed

section \<open>Invariants and refinement\<close>

text \<open>
  A component that runs as a step relation promises an invariant: it holds at the start and
  every step keeps it. Then it holds in every state that the steps reach.
\<close>

locale invariant_system =
  fixes start :: "'s \<Rightarrow> bool" and step :: "'s \<Rightarrow> 's \<Rightarrow> bool" and inv :: "'s \<Rightarrow> bool"
  assumes inv_start: "start s \<Longrightarrow> inv s"
    and inv_step: "step s t \<Longrightarrow> inv s \<Longrightarrow> inv t"
begin

lemma inv_steps:
  assumes "step\<^sup>*\<^sup>* s t" "inv s"
  shows "inv t"
  using assms by (induction rule: rtranclp_induct) (auto intro: inv_step)

lemma inv_reachable: "start s \<Longrightarrow> step\<^sup>*\<^sup>* s t \<Longrightarrow> inv t"
  using inv_steps inv_start by blast

end

text \<open>
  A component that is called promises the same for sequences of calls; and a component with an
  abstract specification promises that every call, in a state that the invariant describes, is
  a step of the specification between the states' abstractions.
\<close>

locale call_system =
  fixes exec :: "'c \<Rightarrow> 's \<Rightarrow> 's \<times> 'r" and allowed :: "'c \<Rightarrow> bool" and inv :: "'s \<Rightarrow> bool"
  assumes inv_exec: "allowed c \<Longrightarrow> inv s \<Longrightarrow> inv (fst (exec c s))"
begin

lemma inv_calls: "list_all allowed cs \<Longrightarrow> inv s \<Longrightarrow> inv (foldl (\<lambda>s c. fst (exec c s)) s cs)"
  by (induction cs arbitrary: s) (auto intro: inv_exec)

end

locale refined_system = call_system exec allowed inv
  for exec :: "'c \<Rightarrow> 's \<Rightarrow> 's \<times> 'r" and allowed :: "'c \<Rightarrow> bool" and inv :: "'s \<Rightarrow> bool" +
  fixes abs :: "'s \<Rightarrow> 'a" and spec :: "'s \<Rightarrow> 's \<Rightarrow> 'a \<Rightarrow> 'c \<Rightarrow> 'r \<Rightarrow> 'a \<Rightarrow> bool"
  assumes spec_exec: "allowed c \<Longrightarrow> inv s \<Longrightarrow> exec c s = (s', r) \<Longrightarrow> spec s s' (abs s) c r (abs s')"
begin

lemma spec_after_calls:
  assumes "list_all allowed cs" "inv s" "allowed c"
    and "s1 = foldl (\<lambda>s c. fst (exec c s)) s cs" "exec c s1 = (s2, r)"
  shows "spec s1 s2 (abs s1) c r (abs s2)"
  by (rule spec_exec [OF assms(3) _ assms(5)]) (simp add: assms(1,2,4) inv_calls)

end

section \<open>Lists\<close>

lemma filter_eq_Nil: "filter P xs = [] \<longleftrightarrow> (\<forall>x \<in> set xs. \<not> P x)"
  by (simp add: filter_empty_conv)

lemma distinct_map_on: "distinct xs \<Longrightarrow> inj_on f (set xs) \<Longrightarrow> distinct (map f xs)"
  by (simp add: distinct_map)

lemma find_Some_in: "find P xs = Some x \<Longrightarrow> x \<in> set xs \<and> P x"
  by (induction xs) (auto split: if_splits)

text \<open>The first repeated element of a list, as the loops with a \<open>seen\<close> set find it.\<close>

fun first_dup_from :: "'a list \<Rightarrow> 'a list \<Rightarrow> 'a option" where
  "first_dup_from seen [] = None"
| "first_dup_from seen (x # xs) =
     (if x \<in> set seen then Some x else first_dup_from (oset_add x seen) xs)"

lemma first_dup_from_None:
  "first_dup_from seen xs = None \<longleftrightarrow> distinct xs \<and> set xs \<inter> set seen = {}"
  by (induction xs arbitrary: seen) auto

lemma first_dup_from_Some: "first_dup_from seen xs = Some x \<Longrightarrow> x \<in> set xs"
  by (induction xs arbitrary: seen) (auto split: if_splits)

end
