(* ===== verification/Artifact_Ids.thy ===== *)
theory Artifact_Ids
  imports Factory_Prelude
begin

text \<open>
  Artifact ids: the \<open>ArtifactId\<close> pattern of \<open>packages/schemas/src/lineage.ts\<close>, the META
  pattern of \<open>packages/verification/src/checks.ts\<close>, and the interface of the functions
  that name an artifact after another one by exchanging its type prefix.
\<close>

section \<open>The ArtifactId pattern\<close>

definition artifact_type_prefixes :: "string list" where
  "artifact_type_prefixes =
     [''PRS'', ''BC'', ''FN'', ''CONTRACT'', ''FP'', ''IS'', ''ES'', ''INV'', ''VAL'', ''DEP'',
      ''ATOM'', ''VR'', ''CTR'', ''TRJ'', ''PF'', ''INC'', ''DET'', ''DEL'', ''SIG'', ''RGD'',
      ''AC'', ''ACS'', ''RAD'', ''EXS'', ''EXT'', ''EXR'', ''EFF'', ''EFFR'', ''OBS'', ''SNB'',
      ''GOV'', ''RPRS'', ''DDI'', ''CRL'', ''SBI'', ''PSR'', ''GOVP'', ''GOVD'', ''GOVS'',
      ''GOVA'', ''GOVR'', ''SRR'', ''AMD'', ''MR'', ''CRP'', ''VCR'', ''MRP'', ''EP'', ''FORM'',
      ''EL'']"

definition id_char :: "char \<Rightarrow> bool" where
  "id_char c \<longleftrightarrow> is_upper c \<or> is_digit c \<or> c = CHR ''-''"

definition id_head :: "char \<Rightarrow> bool" where
  "id_head c \<longleftrightarrow> is_upper c \<or> is_digit c"

text \<open>The part after the prefix and its hyphen: \<open>[A-Z0-9][A-Z0-9-]*\<close>.\<close>

fun id_subject_ok :: "string \<Rightarrow> bool" where
  "id_subject_ok [] = False"
| "id_subject_ok (c # cs) = (id_head c \<and> list_all id_char cs)"

text \<open>
  No type prefix has a hyphen, so the alternation matches exactly when the text before the
  first hyphen is one of the prefixes.
\<close>

definition artifact_id_ok :: "string \<Rightarrow> bool" where
  "artifact_id_ok s =
     (let p = takeWhile (\<lambda>c. c \<noteq> CHR ''-'') s; r = drop (length p) s
      in p \<in> set artifact_type_prefixes \<and> r \<noteq> [] \<and> id_subject_ok (tl r))"

section \<open>The META pattern\<close>

definition meta_type_prefixes :: "string list" where
  "meta_type_prefixes =
     [''PRS'', ''BC'', ''FN'', ''CONTRACT'', ''FP'', ''IS'', ''ES'', ''INV'', ''VAL'', ''DEP'',
      ''ATOM'', ''VR'', ''CTR'', ''TRJ'', ''PF'', ''INC'', ''DET'', ''DEL'', ''SIG'', ''RGD'',
      ''AC'', ''ACS'', ''RAD'', ''EXS'', ''EXT'', ''EXR'', ''EFF'', ''EFFR'', ''OBS'', ''SNB'',
      ''GOV'', ''RPRS'', ''DDI'', ''CRL'', ''SBI'', ''PSR'', ''GOVP'', ''GOVD'', ''GOVS'',
      ''GOVA'', ''GOVR'', ''SRR'', ''AMD'', ''MR'', ''CRP'', ''VCR'', ''MRP'']"

definition meta_prefixed :: "string \<Rightarrow> bool" where
  "meta_prefixed s =
     (let p = takeWhile (\<lambda>c. c \<noteq> CHR ''-'') s
      in p \<in> set meta_type_prefixes \<and> starts_with ''-META-'' (drop (length p) s))"

lemma type_prefix_no_hyphen: "p \<in> set artifact_type_prefixes \<Longrightarrow> CHR ''-'' \<notin> set p"
  by (auto simp: artifact_type_prefixes_def)

lemma meta_prefixes_subset: "set meta_type_prefixes \<subseteq> set artifact_type_prefixes"
  by (simp add: meta_type_prefixes_def artifact_type_prefixes_def)

lemma takeWhile_hyphen:
  "CHR ''-'' \<notin> set p \<Longrightarrow> takeWhile (\<lambda>c. c \<noteq> CHR ''-'') (p @ CHR ''-'' # s) = p"
  by (induction p) auto

lemma artifact_id_ok_iff:
  "artifact_id_ok s \<longleftrightarrow>
     (\<exists>p t. s = p @ CHR ''-'' # t \<and> p \<in> set artifact_type_prefixes \<and> id_subject_ok t)"
  (is "_ \<longleftrightarrow> ?R")
proof
  assume ok: "artifact_id_ok s"
  let ?p = "takeWhile (\<lambda>c. c \<noteq> CHR ''-'') s"
  let ?r = "drop (length ?p) s"
  have r: "?r = dropWhile (\<lambda>c. c \<noteq> CHR ''-'') s"
    by (simp add: dropWhile_eq_drop)
  from ok have p: "?p \<in> set artifact_type_prefixes" and ne: "?r \<noteq> []"
    and sub: "id_subject_ok (tl ?r)"
    by (auto simp: artifact_id_ok_def Let_def)
  from ne have "hd ?r = CHR ''-''"
    unfolding r using hd_dropWhile by blast
  with ne have "?r = CHR ''-'' # tl ?r" by (cases ?r) auto
  then have "s = ?p @ CHR ''-'' # tl ?r"
    by (metis r takeWhile_dropWhile_id)
  with p sub show ?R by blast
next
  assume ?R
  then obtain p t where s: "s = p @ CHR ''-'' # t" and p: "p \<in> set artifact_type_prefixes"
    and t: "id_subject_ok t" by blast
  then show "artifact_id_ok s"
    using takeWhile_hyphen [OF type_prefix_no_hyphen [OF p], of t]
    by (simp add: artifact_id_ok_def)
qed

lemma artifact_id_okI [wf_intros]:
  "p \<in> set artifact_type_prefixes \<Longrightarrow> id_subject_ok t \<Longrightarrow> artifact_id_ok (p @ CHR ''-'' # t)"
  using artifact_id_ok_iff by blast

lemma meta_prefixed_iff:
  "meta_prefixed s \<longleftrightarrow> (\<exists>p t. s = p @ ''-META-'' @ t \<and> p \<in> set meta_type_prefixes)"
  (is "_ \<longleftrightarrow> ?R")
proof
  assume m: "meta_prefixed s"
  let ?p = "takeWhile (\<lambda>c. c \<noteq> CHR ''-'') s"
  from m obtain t where p: "?p \<in> set meta_type_prefixes"
    and t: "drop (length ?p) s = ''-META-'' @ t"
    by (auto simp: meta_prefixed_def Let_def elim: starts_withE)
  have "s = ?p @ drop (length ?p) s"
    by (metis dropWhile_eq_drop takeWhile_dropWhile_id)
  with p t show ?R by metis
next
  assume ?R
  then obtain p t where s: "s = p @ ''-META-'' @ t" and p: "p \<in> set meta_type_prefixes"
    by blast
  from p have "CHR ''-'' \<notin> set p"
    using meta_prefixes_subset type_prefix_no_hyphen by blast
  from takeWhile_hyphen [OF this, of "''META-'' @ t"] s p
  show "meta_prefixed s" by (simp add: meta_prefixed_def)
qed

lemma id_subject_okI: "id_head c \<Longrightarrow> list_all id_char cs \<Longrightarrow> id_subject_ok (c # cs)"
  by simp

lemma id_subject_ok_chars: "id_subject_ok s \<Longrightarrow> list_all id_char s"
  by (cases s) (auto simp: id_head_def id_char_def)

lemma id_subject_ok_append [simp]:
  "id_subject_ok s \<Longrightarrow> list_all id_char t \<Longrightarrow> id_subject_ok (s @ t)"
  by (cases s) auto

lemma digit_id_char: "is_digit c \<Longrightarrow> id_char c"
  by (simp add: id_char_def)

lemma pad_dec_id_chars [simp]: "list_all id_char (pad_start k (CHR ''0'') (dec n))"
  by (auto simp: list_all_iff intro: digit_id_char pad_dec_digits)

lemma artifact_id_chars: "artifact_id_ok s \<Longrightarrow> list_all id_char s"
proof -
  assume "artifact_id_ok s"
  then obtain p t where s: "s = p @ CHR ''-'' # t" and p: "p \<in> set artifact_type_prefixes"
    and t: "id_subject_ok t" using artifact_id_ok_iff by blast
  from p have "list_all id_char p"
    by (auto simp: artifact_type_prefixes_def id_char_def is_upper_def)
  then show ?thesis using s t id_subject_ok_chars by (auto simp: id_char_def)
qed

lemma artifact_id_subject: "artifact_id_ok s \<Longrightarrow> id_subject_ok s"
proof -
  assume ok: "artifact_id_ok s"
  then obtain p t where s: "s = p @ CHR ''-'' # t" and p: "p \<in> set artifact_type_prefixes"
    using artifact_id_ok_iff by blast
  from p have "p \<noteq> [] \<and> id_head (hd p)"
    by (auto simp: artifact_type_prefixes_def id_head_def is_upper_def)
  with s have "s \<noteq> [] \<and> id_head (hd s)" by simp
  with artifact_id_chars [OF ok] show ?thesis by (cases s) auto
qed

lemma artifact_id_nonempty: "artifact_id_ok x \<Longrightarrow> x \<noteq> []"
  by (auto simp: artifact_id_ok_def)

section \<open>Renaming an id by its type prefix\<close>

text \<open>
  The interface of the \<open>ids.ts\<close> modules: an artifact takes the id of the artifact it is
  derived from, with the type prefix \<open>src\<close> exchanged for \<open>dst\<close>; an id of another type
  is left alone.
\<close>

locale prefix_rename =
  fixes rename :: "string \<Rightarrow> string" and src :: string and dst :: string
  assumes rename_src: "rename (src @ s) = dst @ s"
    and rename_other: "\<not> starts_with src s \<Longrightarrow> rename s = s"
begin

lemma rename_inj_on: "inj_on rename {s. starts_with src s}"
  by (auto simp: inj_on_def rename_src elim!: starts_withE)

lemma rename_eq_iff: "rename (src @ s) = rename (src @ t) \<longleftrightarrow> s = t"
  by (simp add: rename_src)

lemma rename_starts: "starts_with src s \<Longrightarrow> starts_with dst (rename s)"
  by (auto simp: rename_src elim!: starts_withE)

end

text \<open>A renaming between two registered types takes artifact ids to artifact ids.\<close>

locale artifact_rename = prefix_rename +
  fixes src_type dst_type :: string
  assumes src_eq: "src = src_type @ ''-''" and dst_eq: "dst = dst_type @ ''-''"
    and src_reg: "src_type \<in> set artifact_type_prefixes"
    and dst_reg: "dst_type \<in> set artifact_type_prefixes"
begin

lemma rename_artifact_id:
  assumes ok: "artifact_id_ok s" and "starts_with src s"
  shows "artifact_id_ok (rename s)"
proof -
  from assms(2) obtain t where s: "s = src @ t" by (rule starts_withE)
  from ok obtain p u where pu: "s = p @ CHR ''-'' # u" "p \<in> set artifact_type_prefixes"
    "id_subject_ok u" using artifact_id_ok_iff by blast
  have "takeWhile (\<lambda>c. c \<noteq> CHR ''-'') s = p"
    using takeWhile_hyphen [OF type_prefix_no_hyphen [OF pu(2)]] pu(1) by simp
  moreover have "takeWhile (\<lambda>c. c \<noteq> CHR ''-'') s = src_type"
    using takeWhile_hyphen [OF type_prefix_no_hyphen [OF src_reg]] s src_eq by simp
  ultimately have "u = t" using s src_eq pu(1) by simp
  with pu(3) have "id_subject_ok t" by simp
  with dst_reg have "artifact_id_ok (dst_type @ CHR ''-'' # t)" by (rule artifact_id_okI)
  then show ?thesis by (simp add: s rename_src dst_eq)
qed

lemma rename_meta:
  assumes "dst_type \<in> set meta_type_prefixes" and "starts_with (src @ ''META-'') s"
  shows "meta_prefixed (rename s)"
proof -
  from assms(2) obtain t where "s = src @ ''META-'' @ t" by (auto elim: starts_withE)
  then have "rename s = dst_type @ ''-META-'' @ t" by (simp add: rename_src dst_eq)
  with assms(1) show ?thesis unfolding meta_prefixed_iff by blast
qed

end

lemma replace_prefix_rename: "prefix_rename (replace_prefix p q) p q"
  by unfold_locales (auto simp: replace_prefix_other)

end
