(* ===== verification/Artifact_Schemas.thy ===== *)
theory Artifact_Schemas
  imports Artifact_Ids
begin

text \<open>
  The artifact schemas of \<open>packages/schemas/src\<close> (\<open>lineage.ts\<close>, \<open>core.ts\<close>,
  \<open>coverage.ts\<close>) as records that extend the lineage mixin, with an executable predicate
  \<open>*_ok\<close> for what the schema of each record requires beyond the types of its fields.
\<close>

section \<open>Lineage\<close>

datatype explicitness = Explicit | Inferred

fun explicitness_str :: "explicitness \<Rightarrow> string" where
  "explicitness_str Explicit = ''explicit''"
| "explicitness_str Inferred = ''inferred''"

record lineage =
  artifact_id :: string
  source_refs :: "string list"
  explicitness :: explicitness
  rationale :: string

definition lineage_ok :: "'a lineage_scheme \<Rightarrow> bool" where
  "lineage_ok l \<longleftrightarrow>
     artifact_id_ok (artifact_id l) \<and> list_all artifact_id_ok (source_refs l) \<and> rationale l \<noteq> []"

section \<open>Enumerations\<close>

datatype factory_mode = Bootstrap | Steady_state

datatype atom_category = User_story | Business_rule | Constraint | Nfr | Integration | Acceptance

datatype contract_kind = Api | Schema | Behavior | Invariant_kind

datatype invariant_scope = Entity | Workflow | System

datatype violation_impact = Low | Medium | High

datatype regression_transition = Watch | Degraded | Regressed

datatype dependency_type = Blocks | Constrains | Implements | Validates | Informs

datatype validation_kind =
  Compile_kind | Lint | Unit_test | Integration_test | Scenario | Property | Security | Performance

datatype validation_priority = Required | Recommended | Optional_priority

datatype node_type = Interface | Execution | Control | Evidence

text \<open>The strings the enumerations stand for, where the code writes or compares them.\<close>

fun mode_str :: "factory_mode \<Rightarrow> string" where
  "mode_str Bootstrap = ''bootstrap''"
| "mode_str Steady_state = ''steady_state''"

fun category_str :: "atom_category \<Rightarrow> string" where
  "category_str User_story = ''user_story''"
| "category_str Business_rule = ''business_rule''"
| "category_str Constraint = ''constraint''"
| "category_str Nfr = ''nfr''"
| "category_str Integration = ''integration''"
| "category_str Acceptance = ''acceptance''"

fun dependency_str :: "dependency_type \<Rightarrow> string" where
  "dependency_str Blocks = ''blocks''"
| "dependency_str Constrains = ''constrains''"
| "dependency_str Implements = ''implements''"
| "dependency_str Validates = ''validates''"
| "dependency_str Informs = ''informs''"

lemma category_str_inject [simp]: "category_str a = category_str b \<longleftrightarrow> a = b"
  by (cases a; cases b) simp_all

section \<open>Compiler artifacts\<close>

record intent_specification = lineage +
  sourceCapabilityId :: string
  sourceFunctionId :: string
  title :: string
  problem :: string
  goal :: string
  constraints :: "string list"
  acceptanceCriteria :: "string list"
  successMetrics :: "string list"
  outOfScope :: "string list"

definition intent_specification_ok :: "'a intent_specification_scheme \<Rightarrow> bool" where
  "intent_specification_ok d \<longleftrightarrow>
     lineage_ok d \<and> starts_with ''IS-'' (artifact_id d) \<and>
     artifact_id_ok (sourceCapabilityId d) \<and> artifact_id_ok (sourceFunctionId d) \<and>
     title d \<noteq> [] \<and> problem d \<noteq> [] \<and> goal d \<noteq> [] \<and>
     acceptanceCriteria d \<noteq> [] \<and> successMetrics d \<noteq> []"

record requirement_atom = lineage +
  category :: atom_category
  subject :: string
  action :: string
  object :: string
  conditions :: "string list"
  qualifiers :: "string list"
  successCondition :: "string option"

definition requirement_atom_ok :: "'a requirement_atom_scheme \<Rightarrow> bool" where
  "requirement_atom_ok a \<longleftrightarrow>
     lineage_ok a \<and> starts_with ''ATOM-'' (artifact_id a) \<and>
     subject a \<noteq> [] \<and> action a \<noteq> [] \<and> object a \<noteq> []"

record contract = lineage +
  contract_kind :: contract_kind
  contract_statement :: string
  producerHint :: "string option"
  consumerHints :: "string list"
  contract_atoms :: "string list"  \<comment> \<open>\<open>derivedFromAtomIds\<close>\<close>

definition contract_ok :: "'a contract_scheme \<Rightarrow> bool" where
  "contract_ok c \<longleftrightarrow>
     lineage_ok c \<and> contract_statement c \<noteq> [] \<and>
     list_all artifact_id_ok (contract_atoms c) \<and> contract_atoms c \<noteq> []"

text \<open>The regression policy is a JavaScript object: its entries in order.\<close>

record detector_spec =
  detector_name :: string
  evidence_sources :: "string list"
  direct_rules :: "string list"
  warning_rules :: "string list"
  regression_policy :: "(string \<times> regression_transition) list"
  incident_tags :: "string list"

definition detector_spec_ok :: "'a detector_spec_scheme \<Rightarrow> bool" where
  "detector_spec_ok d \<longleftrightarrow>
     detector_name d \<noteq> [] \<and> evidence_sources d \<noteq> [] \<and> direct_rules d \<noteq> [] \<and>
     regression_policy d \<noteq> []"

record invariant_artifact = lineage +
  functionId :: "string option"
  scope :: invariant_scope
  invariant_statement :: string
  violationImpact :: violation_impact
  invariant_atoms :: "string list"      \<comment> \<open>\<open>derivedFromAtomIds\<close>\<close>
  invariant_contracts :: "string list"  \<comment> \<open>\<open>derivedFromContractIds\<close>\<close>
  detector :: detector_spec

definition invariant_ok :: "'a invariant_artifact_scheme \<Rightarrow> bool" where
  "invariant_ok i \<longleftrightarrow>
     lineage_ok i \<and> starts_with ''INV-'' (artifact_id i) \<and>
     (case functionId i of None \<Rightarrow> True | Some f \<Rightarrow> artifact_id_ok f) \<and>
     invariant_statement i \<noteq> [] \<and>
     list_all artifact_id_ok (invariant_atoms i) \<and>
     list_all artifact_id_ok (invariant_contracts i) \<and> detector_spec_ok (detector i)"

record dependency = lineage +
  dep_from :: string
  dep_to :: string
  dep_type :: dependency_type

definition dependency_ok :: "'a dependency_scheme \<Rightarrow> bool" where
  "dependency_ok d \<longleftrightarrow>
     lineage_ok d \<and> starts_with ''DEP-'' (artifact_id d) \<and>
     artifact_id_ok (dep_from d) \<and> artifact_id_ok (dep_to d)"

record validation_spec = lineage +
  validation_kind :: validation_kind
  validation_statement :: string
  targetRefs :: "string list"
  coversAtomIds :: "string list"
  coversContractIds :: "string list"
  coversInvariantIds :: "string list"
  priority :: validation_priority

definition validation_ok :: "'a validation_spec_scheme \<Rightarrow> bool" where
  "validation_ok v \<longleftrightarrow>
     lineage_ok v \<and> starts_with ''VAL-'' (artifact_id v) \<and> validation_statement v \<noteq> [] \<and>
     list_all artifact_id_ok (targetRefs v) \<and> list_all artifact_id_ok (coversAtomIds v) \<and>
     list_all artifact_id_ok (coversContractIds v) \<and>
     list_all artifact_id_ok (coversInvariantIds v)"

section \<open>Executable Specifications\<close>

record es_node =
  node_id :: string
  node_type :: node_type
  node_title :: string
  node_implements :: "string option"

definition es_node_ok :: "'a es_node_scheme \<Rightarrow> bool" where
  "es_node_ok n \<longleftrightarrow>
     node_id n \<noteq> [] \<and> node_title n \<noteq> [] \<and>
     (case node_implements n of None \<Rightarrow> True | Some i \<Rightarrow> artifact_id_ok i)"

record es_edge =
  edge_from :: string
  edge_to :: string
  edge_condition :: "string option"
  edge_type :: "dependency_type option"

definition es_edge_ok :: "'a es_edge_scheme \<Rightarrow> bool" where
  "es_edge_ok e \<longleftrightarrow> edge_from e \<noteq> [] \<and> edge_to e \<noteq> []"

record executable_specification = lineage +
  es_functionId :: string
  nodes :: "es_node list"
  edges :: "es_edge list"

definition executable_specification_ok :: "'a executable_specification_scheme \<Rightarrow> bool" where
  "executable_specification_ok e \<longleftrightarrow>
     lineage_ok e \<and> starts_with ''ES-'' (artifact_id e) \<and> artifact_id_ok (es_functionId e) \<and>
     nodes e \<noteq> [] \<and> list_all es_node_ok (nodes e) \<and> list_all es_edge_ok (edges e)"

section \<open>Coherence Verification reports\<close>

datatype verdict = Pass | Fail

text \<open>
  The \<open>details\<close> arrays of the checks are left out of the model: every check writes the
  empty array. \<open>bootstrap_prefix_check\<close> is optional.
\<close>

record atom_check =
  atom_status :: verdict
  orphan_atoms :: "string list"

record invariant_check =
  invariant_status :: verdict
  invariants_missing_validation :: "string list"
  invariants_missing_detector :: "string list"

record validation_check =
  validation_status :: verdict
  validations_covering_nothing :: "string list"

record dependency_check =
  dependency_status :: verdict
  dangling_dependencies :: "string list"

record prefix_check =
  prefix_status :: verdict
  non_meta_artifact_ids :: "string list"

record coherence_checks =
  atom_coverage :: atom_check
  invariant_coverage :: invariant_check
  validation_coverage :: validation_check
  dependency_closure :: dependency_check
  bootstrap_prefix_check :: "prefix_check option"

record coherence_report = lineage +
  intent_specification_id :: string
  timestamp :: string
  overall :: verdict
  checks :: coherence_checks
  remediation :: string

definition coherence_checks_ok :: "coherence_checks \<Rightarrow> bool" where
  "coherence_checks_ok c \<longleftrightarrow>
     list_all artifact_id_ok (orphan_atoms (atom_coverage c)) \<and>
     list_all artifact_id_ok (invariants_missing_validation (invariant_coverage c)) \<and>
     list_all artifact_id_ok (invariants_missing_detector (invariant_coverage c)) \<and>
     list_all artifact_id_ok (validations_covering_nothing (validation_coverage c)) \<and>
     list_all artifact_id_ok (dangling_dependencies (dependency_closure c)) \<and>
     (case bootstrap_prefix_check c of
        None \<Rightarrow> True
      | Some p \<Rightarrow> list_all artifact_id_ok (non_meta_artifact_ids p))"

text \<open>
  \<open>z.string().datetime()\<close> is a format check of the schema library; it is the parameter
  \<open>is_datetime\<close>.
\<close>

definition coherence_report_ok ::
  "(string \<Rightarrow> bool) \<Rightarrow> 'a coherence_report_scheme \<Rightarrow> bool" where
  "coherence_report_ok is_datetime r \<longleftrightarrow>
     lineage_ok r \<and> starts_with ''VR-'' (artifact_id r) \<and>
     artifact_id_ok (intent_specification_id r) \<and> is_datetime (timestamp r) \<and>
     coherence_checks_ok (checks r) \<and> remediation r \<noteq> []"

end
