(* ===== verification/Node_Paths.thy ===== *)
theory Node_Paths
  imports Factory_Prelude
begin

text \<open>
  The file system the compiler writes to, and what it uses of \<open>node:path\<close> (POSIX):
  \<open>join\<close>, \<open>resolve\<close> and \<open>dirname\<close>. A file system is a map from paths to contents.
\<close>

type_synonym file_system = "string \<rightharpoonup> string"

text \<open>
  Resolving \<open>.\<close> and \<open>..\<close> in a list of segments; \<open>keepUp\<close> says whether leading \<open>..\<close>
  segments are kept (relative paths). The accumulator is in reverse.
\<close>

fun normalize_segments :: "bool \<Rightarrow> string list \<Rightarrow> string list \<Rightarrow> string list" where
  "normalize_segments keepUp acc [] = rev acc"
| "normalize_segments keepUp acc (s # ss) =
     (if s = '''' \<or> s = ''.'' then normalize_segments keepUp acc ss
      else if s = ''..'' then
        (case acc of
           [] \<Rightarrow> normalize_segments keepUp (if keepUp then [s] else []) ss
         | t # ts \<Rightarrow> normalize_segments keepUp (if t = ''..'' then s # acc else ts) ss)
      else normalize_segments keepUp (s # acc) ss)"

definition path_normalize :: "string \<Rightarrow> string" where
  "path_normalize p =
     (let absolute = starts_with ''/'' p;
          trailing = (p \<noteq> [] \<and> last p = CHR ''/'');
          body = join ''/'' (normalize_segments (\<not> absolute) [] (split_on (CHR ''/'') p))
      in if body = [] then (if absolute then ''/'' else if trailing then ''./'' else ''.'')
         else (if absolute then ''/'' else []) @ body @ (if trailing then ''/'' else []))"

definition path_join :: "string \<Rightarrow> string \<Rightarrow> string" where
  "path_join a b =
     (if a = [] \<and> b = [] then ''.''
      else path_normalize (join ''/'' (filter (\<lambda>s. s \<noteq> []) [a, b])))"

definition path_resolve :: "string \<Rightarrow> string \<Rightarrow> string" where
  "path_resolve cwd p =
     (let full = (if starts_with ''/'' p then p else cwd @ ''/'' @ p)
      in ''/'' @ join ''/'' (normalize_segments False [] (split_on (CHR ''/'') full)))"

text \<open>\<open>dirname\<close> of a resolved path: absolute, normalized, no slash at the end.\<close>

definition path_dirname :: "string \<Rightarrow> string" where
  "path_dirname p = ''/'' @ join ''/'' (butlast (split_on (CHR ''/'') (tl p)))"

end
