(* ===== verification/Coherence_Verification.thy ===== *)
theory Coherence_Verification
  imports Artifact_Schemas Node_Paths
begin

text \<open>
  Coherence Verification (\<open>packages/verification/src\<close>): the five coverage checks
  (\<open>checks.ts\<close>), the report (\<open>coherence-verification.ts\<close>), the remediation text
  (\<open>remediation.ts\<close>) and its emission (\<open>emit.ts\<close>).
\<close>

record coherence_input =
  ci_intent :: string
  ci_mode :: factory_mode
  ci_atoms :: "requirement_atom list"
  ci_contracts :: "contract list"
  ci_invariants :: "invariant_artifact list"
  ci_dependencies :: "dependency list"
  ci_validations :: "validation_spec list"

definition status_of :: "bool \<Rightarrow> verdict" where
  "status_of b = (if b then Pass else Fail)"

lemma status_of_Pass [simp]: "status_of b = Pass \<longleftrightarrow> b"
  by (simp add: status_of_def)

lemma status_of_Fail [simp]: "status_of b = Fail \<longleftrightarrow> \<not> b"
  by (simp add: status_of_def)

section \<open>The checks\<close>

definition referenced_ids :: "coherence_input \<Rightarrow> string list" where
  "referenced_ids i =
     concat (map (\<lambda>c. source_refs c @ contract_atoms c) (ci_contracts i)) @
     concat (map (\<lambda>v. source_refs v @ invariant_atoms v) (ci_invariants i)) @
     concat (map (\<lambda>v. source_refs v @ coversAtomIds v) (ci_validations i))"

definition checkAtomVerification :: "coherence_input \<Rightarrow> atom_check" where
  "checkAtomVerification i =
     (let referenced = referenced_ids i;
          orphans = sort (map artifact_id
            (filter (\<lambda>a. artifact_id a \<notin> set referenced) (ci_atoms i)))
      in \<lparr>atom_status = status_of (orphans = []), orphan_atoms = orphans\<rparr>)"

definition checkInvariantVerification :: "coherence_input \<Rightarrow> invariant_check" where
  "checkInvariantVerification i =
     (let missingValidation = sort (map artifact_id
            (filter (\<lambda>v. \<not> list_ex (\<lambda>s. artifact_id v \<in> set (coversInvariantIds s))
                             (ci_validations i)) (ci_invariants i)));
          missingDetector = sort (map artifact_id
            (filter (\<lambda>v. \<not> detector_spec_ok (detector v)) (ci_invariants i)))
      in \<lparr>invariant_status = status_of (missingValidation = [] \<and> missingDetector = []),
          invariants_missing_validation = missingValidation,
          invariants_missing_detector = missingDetector\<rparr>)"

definition checkValidationVerification :: "coherence_input \<Rightarrow> validation_check" where
  "checkValidationVerification i =
     (let dead = sort (map artifact_id
            (filter (\<lambda>v. length (coversAtomIds v) + length (coversContractIds v) +
                         length (coversInvariantIds v) = 0) (ci_validations i)))
      in \<lparr>validation_status = status_of (dead = []), validations_covering_nothing = dead\<rparr>)"

definition known_ids :: "coherence_input \<Rightarrow> string list" where
  "known_ids i =
     map artifact_id (ci_atoms i) @ map artifact_id (ci_contracts i) @
     map artifact_id (ci_invariants i) @ map artifact_id (ci_dependencies i) @
     map artifact_id (ci_validations i)"

definition checkDependencyClosure :: "coherence_input \<Rightarrow> dependency_check" where
  "checkDependencyClosure i =
     (let known = known_ids i;
          dangling = sort (map artifact_id
            (filter (\<lambda>d. dep_from d \<notin> set known \<or> dep_to d \<notin> set known) (ci_dependencies i)))
      in \<lparr>dependency_status = status_of (dangling = []), dangling_dependencies = dangling\<rparr>)"

text \<open>Every id the bootstrap check walks, in its order.\<close>

definition mentioned_ids :: "coherence_input \<Rightarrow> string list" where
  "mentioned_ids i =
     ci_intent i #
     concat (map (\<lambda>a. artifact_id a # source_refs a) (ci_atoms i)) @
     concat (map (\<lambda>c. artifact_id c # source_refs c @ contract_atoms c) (ci_contracts i)) @
     concat (map (\<lambda>v. artifact_id v # source_refs v @
       (case functionId v of None \<Rightarrow> [] | Some f \<Rightarrow> [f]) @ invariant_atoms v @
       invariant_contracts v) (ci_invariants i)) @
     concat (map (\<lambda>d. artifact_id d # source_refs d @ [dep_from d, dep_to d])
       (ci_dependencies i)) @
     concat (map (\<lambda>v. artifact_id v # source_refs v @ targetRefs v @ coversAtomIds v @
       coversContractIds v @ coversInvariantIds v) (ci_validations i))"

definition checkBootstrapPrefix :: "coherence_input \<Rightarrow> prefix_check" where
  "checkBootstrapPrefix i =
     (let nonMeta = sort (oset_of (filter (\<lambda>s. \<not> meta_prefixed s) (mentioned_ids i)))
      in \<lparr>prefix_status = status_of (nonMeta = []), non_meta_artifact_ids = nonMeta\<rparr>)"

section \<open>Remediation\<close>

text \<open>The three characters of the texts that are not ASCII, in UTF-8.\<close>

abbreviation section_sign :: string where "section_sign \<equiv> [CHR 0xC2, CHR 0xA7]"
abbreviation ge_sign :: string where "ge_sign \<equiv> [CHR 0xE2, CHR 0x89, CHR 0xA5]"
abbreviation arrow_sign :: string where "arrow_sign \<equiv> [CHR 0xE2, CHR 0x86, CHR 0x92]"

definition plural :: "nat \<Rightarrow> string \<Rightarrow> string option \<Rightarrow> string" where
  "plural n singular pluralForm =
     dec n @ '' '' @
     (if n = 1 then singular
      else case pluralForm of None \<Rightarrow> singular @ ''s'' | Some p \<Rightarrow> p)"

definition ids_text :: "string list \<Rightarrow> string" where
  "ids_text ids = '' ('' @ join '', '' ids @ '')''"

definition atom_remediation :: "atom_check \<Rightarrow> string list" where
  "atom_remediation c =
     (if atom_status c = Fail then
        [''Atom coverage- '' @ plural (length (orphan_atoms c)) ''orphan atom'' None @
         ids_text (orphan_atoms c) @ ''. Per ConOps '' @ section_sign @
         ''7.2 Scenario B step 3- either add a downstream Contract, Invariant, or ValidationSpec that references each atom, or move the atom(s) to the Intent Specification's outOfScope list with rationale.'']
      else [])"

definition invariant_remediation :: "invariant_check \<Rightarrow> string list" where
  "invariant_remediation c =
     (let missingV = invariants_missing_validation c; missingD = invariants_missing_detector c in
      if invariant_status c = Fail then
        (if missingV \<noteq> [] then
           [''Invariant coverage (missing validation)- '' @ plural (length missingV) ''invariant'' None @
            ids_text missingV @ ''. Per ConOps '' @ section_sign @
            ''7.2 Scenario B step 4- author a ValidationSpec whose coversInvariantIds contains each ID. The invariant-authoring skill governs the work.'']
         else []) @
        (if missingD \<noteq> [] then
           [''Invariant coverage (missing detector)- '' @ plural (length missingD) ''invariant'' None @
            ids_text missingD @ ''. Per ConOps '' @ section_sign @
            ''7.2 Scenario B step 5- author a well-formed DetectorSpec with named evidence_sources, non-empty direct_rules, and populated regression_policy. If the evidence source does not yet exist, remediation is upstream at the telemetry/audit layer, not at the Intent Specification layer.'']
         else [])
      else [])"

definition validation_remediation :: "validation_check \<Rightarrow> string list" where
  "validation_remediation c =
     (let ids = validations_covering_nothing c in
      if validation_status c = Fail then
        [''Validation coverage- '' @ plural (length ids) ''dead validation'' None @ ids_text ids @
         ''. Per ConOps '' @ section_sign @ ''7.2 Scenario B step 6- either backmap each validation to '' @
         ge_sign @ ''1 atom, contract, or invariant via coversAtomIds / coversContractIds / coversInvariantIds, or remove the validation if redundant.'']
      else [])"

definition dependency_remediation :: "dependency_check \<Rightarrow> string list" where
  "dependency_remediation c =
     (let ids = dangling_dependencies c in
      if dependency_status c = Fail then
        [''Dependency closure- '' @
         plural (length ids) ''dangling dependency'' (Some ''dangling dependencies'') @ ids_text ids @
         ''. Per ConOps '' @ section_sign @
         ''7.2 Scenario B step 7- resolve each endpoint by adding the missing artifact or removing the dependency if spurious.'']
      else [])"

definition prefix_remediation :: "prefix_check option \<Rightarrow> string list" where
  "prefix_remediation c =
     (case c of
        None \<Rightarrow> []
      | Some p \<Rightarrow>
          (let ids = non_meta_artifact_ids p in
           if prefix_status p = Fail then
             [''Bootstrap prefix check- '' @ plural (length ids) ''non-META artifact ID'' None @
              ids_text ids @ ''. Per ConOps '' @ section_sign @
              ''4.1 Rule 2- re-prefix each artifact ID with META- (e.g., ATOM-FOO '' @ arrow_sign @
              '' ATOM-META-FOO), or hold the Intent Specification until the Bootstrap '' @ arrow_sign @
              '' Steady-State transition per ConOps '' @ section_sign @ ''11.'']
           else []))"

definition generateRemediation :: "coherence_checks \<Rightarrow> verdict \<Rightarrow> string" where
  "generateRemediation c ov =
     (if ov = Pass then ''no remediation required''
      else join [nl, nl]
        (atom_remediation (atom_coverage c) @ invariant_remediation (invariant_coverage c) @
         validation_remediation (validation_coverage c) @
         dependency_remediation (dependency_closure c) @
         prefix_remediation (bootstrap_prefix_check c)))"

section \<open>The report\<close>

definition allChecksPass :: "coherence_checks \<Rightarrow> bool" where
  "allChecksPass c =
     (if atom_status (atom_coverage c) \<noteq> Pass then False
      else if invariant_status (invariant_coverage c) \<noteq> Pass then False
      else if validation_status (validation_coverage c) \<noteq> Pass then False
      else if dependency_status (dependency_closure c) \<noteq> Pass then False
      else case bootstrap_prefix_check c of
        Some p \<Rightarrow> (if prefix_status p \<noteq> Pass then False else True)
      | None \<Rightarrow> True)"

definition coverageReportId :: "string \<Rightarrow> string \<Rightarrow> string" where
  "coverageReportId isid ts =
     ''VR-'' @ isid @ ''-COHERENCE-'' @
     map (\<lambda>c. if c = CHR '':'' \<or> c = CHR ''.'' then CHR ''-'' else c) ts"

definition coherence_checks_of :: "coherence_input \<Rightarrow> coherence_checks" where
  "coherence_checks_of i =
     \<lparr>atom_coverage = checkAtomVerification i,
      invariant_coverage = checkInvariantVerification i,
      validation_coverage = checkValidationVerification i,
      dependency_closure = checkDependencyClosure i,
      bootstrap_prefix_check =
        (if ci_mode i = Bootstrap then Some (checkBootstrapPrefix i) else None)\<rparr>"

text \<open>The ids the report cites: the Intent Specification and every failing artifact.\<close>

definition cited_ids :: "coherence_input \<Rightarrow> string list" where
  "cited_ids i =
     (let c = coherence_checks_of i in
      ci_intent i #
      orphan_atoms (atom_coverage c) @
      invariants_missing_validation (invariant_coverage c) @
      invariants_missing_detector (invariant_coverage c) @
      validations_covering_nothing (validation_coverage c) @
      dangling_dependencies (dependency_closure c) @
      (case bootstrap_prefix_check c of None \<Rightarrow> [] | Some p \<Rightarrow> non_meta_artifact_ids p))"

definition report_candidate :: "coherence_input \<Rightarrow> string \<Rightarrow> coherence_report" where
  "report_candidate i ts =
     (let c = coherence_checks_of i; ov = (if allChecksPass c then Pass else Fail) in
      \<lparr>artifact_id = coverageReportId (ci_intent i) ts,
       source_refs = sort (oset_of (cited_ids i)), explicitness = Explicit,
       rationale = ''Coherence Verification evaluation for '' @ ci_intent i @ '' in '' @
         mode_str (ci_mode i) @ '' mode'',
       intent_specification_id = ci_intent i, timestamp = ts, overall = ov, checks = c,
       remediation = generateRemediation c ov\<rparr>)"

datatype coherence_error = Invalid_verification_report coherence_report

definition runCoherenceVerification ::
  "(string \<Rightarrow> bool) \<Rightarrow> coherence_input \<Rightarrow> string \<Rightarrow> coherence_error + coherence_report" where
  "runCoherenceVerification is_datetime i ts =
     (let r = report_candidate i ts in
      if coherence_report_ok is_datetime r then Inr r else Inl (Invalid_verification_report r))"

text \<open>The YAML serializer is a library: the parameter \<open>to_yaml\<close>.\<close>

definition emitCoherenceVerificationReport ::
  "(coherence_report \<Rightarrow> string) \<Rightarrow> file_system \<Rightarrow> coherence_report \<Rightarrow> string \<Rightarrow>
   file_system \<times> string" where
  "emitCoherenceVerificationReport to_yaml fs r dir =
     (let path = path_join dir (artifact_id r @ ''.yaml'')
      in (fs(path \<mapsto> to_yaml r), path))"

section \<open>The interface of a coverage check\<close>

text \<open>
  What the orchestrator relies on in a check: it passes exactly when it lists no artifact,
  it lists exactly the offending ids, and it does not depend on the order of the inputs.
\<close>

definition same_artifacts :: "coherence_input \<Rightarrow> coherence_input \<Rightarrow> bool" where
  "same_artifacts i j \<longleftrightarrow>
     ci_intent i = ci_intent j \<and> ci_mode i = ci_mode j \<and>
     mset (ci_atoms i) = mset (ci_atoms j) \<and> mset (ci_contracts i) = mset (ci_contracts j) \<and>
     mset (ci_invariants i) = mset (ci_invariants j) \<and>
     mset (ci_dependencies i) = mset (ci_dependencies j) \<and>
     mset (ci_validations i) = mset (ci_validations j)"

lemma same_artifacts_sets:
  "same_artifacts i j \<Longrightarrow>
     set (ci_atoms i) = set (ci_atoms j) \<and> set (ci_contracts i) = set (ci_contracts j) \<and>
     set (ci_invariants i) = set (ci_invariants j) \<and>
     set (ci_dependencies i) = set (ci_dependencies j) \<and>
     set (ci_validations i) = set (ci_validations j)"
  by (auto simp: same_artifacts_def dest: mset_eq_setD)

locale coverage_check =
  fixes run :: "coherence_input \<Rightarrow> 'r"
    and check_status :: "'r \<Rightarrow> verdict"
    and failing :: "'r \<Rightarrow> string list"
    and offends :: "coherence_input \<Rightarrow> string \<Rightarrow> bool"
  assumes status_pass: "check_status (run i) = Pass \<longleftrightarrow> failing (run i) = []"
    and failing_offends: "x \<in> set (failing (run i)) \<longleftrightarrow> offends i x"
    and order_free: "same_artifacts i j \<Longrightarrow> run i = run j"
begin

lemma pass_iff: "check_status (run i) = Pass \<longleftrightarrow> (\<forall>x. \<not> offends i x)"
  by (metis failing_offends status_pass last_in_set list.set_intros(1) neq_Nil_conv empty_iff
      empty_set)

lemma fail_iff: "check_status (run i) = Fail \<longleftrightarrow> (\<exists>x. offends i x)"
  using pass_iff [of i] verdict.exhaust [of "check_status (run i)"] by (metis verdict.distinct(1))

lemma offends_listed: "offends i x \<Longrightarrow> x \<in> set (failing (run i)) \<and> check_status (run i) = Fail"
  using failing_offends fail_iff by blast

lemma failing_set: "set (failing (run i)) = {x. offends i x}"
  using failing_offends by auto

end

text \<open>The offending ids of the five checks.\<close>

definition orphan_atom :: "coherence_input \<Rightarrow> string \<Rightarrow> bool" where
  "orphan_atom i x \<longleftrightarrow> x \<in> artifact_id ` set (ci_atoms i) \<and> x \<notin> set (referenced_ids i)"

definition uncovered_invariant :: "coherence_input \<Rightarrow> string \<Rightarrow> bool" where
  "uncovered_invariant i x \<longleftrightarrow>
     (\<exists>v \<in> set (ci_invariants i). artifact_id v = x \<and>
        ((\<forall>s \<in> set (ci_validations i). x \<notin> set (coversInvariantIds s)) \<or>
         \<not> detector_spec_ok (detector v)))"

definition dead_validation :: "coherence_input \<Rightarrow> string \<Rightarrow> bool" where
  "dead_validation i x \<longleftrightarrow>
     (\<exists>v \<in> set (ci_validations i). artifact_id v = x \<and> coversAtomIds v = [] \<and>
        coversContractIds v = [] \<and> coversInvariantIds v = [])"

definition dangling_dependency :: "coherence_input \<Rightarrow> string \<Rightarrow> bool" where
  "dangling_dependency i x \<longleftrightarrow>
     (\<exists>d \<in> set (ci_dependencies i). artifact_id d = x \<and>
        \<not> {dep_from d, dep_to d} \<subseteq> set (known_ids i))"

definition non_meta_id :: "coherence_input \<Rightarrow> string \<Rightarrow> bool" where
  "non_meta_id i x \<longleftrightarrow> x \<in> set (mentioned_ids i) \<and> \<not> meta_prefixed x"

lemma sort_map_filter_cong:
  fixes f :: "'a \<Rightarrow> 'b::linorder"
  assumes m: "mset xs = mset ys" and P: "\<And>x. x \<in> set ys \<Longrightarrow> P x = Q x"
  shows "sort (map f (filter P xs)) = sort (map f (filter Q ys))"
proof (rule sort_mset_cong)
  have "filter_mset P (mset ys) = filter_mset Q (mset ys)"
    using P by (intro filter_mset_cong) auto
  with m show "mset (map f (filter P xs)) = mset (map f (filter Q ys))"
    by simp
qed

lemma referenced_ids_cong:
  "same_artifacts i j \<Longrightarrow> set (referenced_ids i) = set (referenced_ids j)"
  using same_artifacts_sets [of i j] by (simp add: referenced_ids_def)

lemma known_ids_cong: "same_artifacts i j \<Longrightarrow> set (known_ids i) = set (known_ids j)"
  using same_artifacts_sets [of i j] by (simp add: known_ids_def)

lemma mentioned_ids_cong:
  "same_artifacts i j \<Longrightarrow> set (mentioned_ids i) = set (mentioned_ids j)"
  using same_artifacts_sets [of i j] by (simp add: mentioned_ids_def same_artifacts_def)

lemma list_ex_cong_set: "set xs = set ys \<Longrightarrow> list_ex P xs = list_ex P ys"
  by (simp add: list_ex_iff)

interpretation atom_cov: coverage_check checkAtomVerification atom_status orphan_atoms orphan_atom
proof
  fix i j x
  show "(x \<in> set (orphan_atoms (checkAtomVerification i))) = orphan_atom i x"
    by (auto simp: checkAtomVerification_def Let_def orphan_atom_def)
  assume s: "same_artifacts i j"
  then have "sort (map artifact_id (filter (\<lambda>a. artifact_id a \<notin> set (referenced_ids i)) (ci_atoms i))) =
      sort (map artifact_id (filter (\<lambda>a. artifact_id a \<notin> set (referenced_ids j)) (ci_atoms j)))"
    by (intro sort_map_filter_cong) (simp_all add: same_artifacts_def referenced_ids_cong [OF s])
  then show "checkAtomVerification i = checkAtomVerification j"
    unfolding checkAtomVerification_def Let_def by (simp only:)
qed (simp add: checkAtomVerification_def Let_def)

interpretation invariant_cov: coverage_check checkInvariantVerification invariant_status
  "\<lambda>r. invariants_missing_validation r @ invariants_missing_detector r" uncovered_invariant
proof
  fix i j x
  show "(x \<in> set (invariants_missing_validation (checkInvariantVerification i) @
      invariants_missing_detector (checkInvariantVerification i))) = uncovered_invariant i x"
    by (auto simp: checkInvariantVerification_def Let_def uncovered_invariant_def list_ex_iff)
  assume s: "same_artifacts i j"
  have v: "list_ex P (ci_validations i) = list_ex P (ci_validations j)" for P
    using same_artifacts_sets [OF s] by (simp add: list_ex_iff)
  from s have m: "mset (ci_invariants i) = mset (ci_invariants j)"
    by (simp add: same_artifacts_def)
  show "checkInvariantVerification i = checkInvariantVerification j"
    unfolding checkInvariantVerification_def Let_def v
    by (simp add: sort_map_filter_cong [OF m refl])
qed (simp add: checkInvariantVerification_def Let_def)

interpretation validation_cov: coverage_check checkValidationVerification validation_status
  validations_covering_nothing dead_validation
proof
  fix i j x
  show "(x \<in> set (validations_covering_nothing (checkValidationVerification i))) =
      dead_validation i x"
    by (auto simp: checkValidationVerification_def Let_def dead_validation_def)
  assume "same_artifacts i j"
  then have m: "mset (ci_validations i) = mset (ci_validations j)"
    by (simp add: same_artifacts_def)
  show "checkValidationVerification i = checkValidationVerification j"
    unfolding checkValidationVerification_def Let_def
    by (simp add: sort_map_filter_cong [OF m refl])
qed (simp add: checkValidationVerification_def Let_def)

interpretation dependency_cov: coverage_check checkDependencyClosure dependency_status
  dangling_dependencies dangling_dependency
proof
  fix i j x
  show "(x \<in> set (dangling_dependencies (checkDependencyClosure i))) = dangling_dependency i x"
    by (auto simp: checkDependencyClosure_def Let_def dangling_dependency_def)
  assume s: "same_artifacts i j"
  then have m: "mset (ci_dependencies i) = mset (ci_dependencies j)"
    by (simp add: same_artifacts_def)
  show "checkDependencyClosure i = checkDependencyClosure j"
    unfolding checkDependencyClosure_def Let_def known_ids_cong [OF s]
    by (simp add: sort_map_filter_cong [OF m refl])
qed (simp add: checkDependencyClosure_def Let_def)

interpretation prefix_cov: coverage_check checkBootstrapPrefix prefix_status
  non_meta_artifact_ids non_meta_id
proof
  fix i j x
  have n: "oset_of xs = [] \<longleftrightarrow> xs = []" for xs :: "string list"
    by (metis set_oset_of set_empty)
  show "(prefix_status (checkBootstrapPrefix i) = Pass) =
      (non_meta_artifact_ids (checkBootstrapPrefix i) = [])"
    by (simp add: checkBootstrapPrefix_def Let_def)
  show "(x \<in> set (non_meta_artifact_ids (checkBootstrapPrefix i))) = non_meta_id i x"
    by (auto simp: checkBootstrapPrefix_def Let_def non_meta_id_def)
  assume s: "same_artifacts i j"
  have "sort (oset_of (filter (\<lambda>s. \<not> meta_prefixed s) (mentioned_ids i))) =
      sort (oset_of (filter (\<lambda>s. \<not> meta_prefixed s) (mentioned_ids j)))"
    by (rule sort_oset_of_cong) (simp add: mentioned_ids_cong [OF s])
  then show "checkBootstrapPrefix i = checkBootstrapPrefix j"
    unfolding checkBootstrapPrefix_def Let_def by (simp only:)
qed

section \<open>What the report says\<close>

text \<open>The specification of the verdict, over the artifacts alone.\<close>

definition coherent :: "coherence_input \<Rightarrow> bool" where
  "coherent i \<longleftrightarrow>
     (\<forall>x. \<not> orphan_atom i x \<and> \<not> uncovered_invariant i x \<and> \<not> dead_validation i x \<and>
          \<not> dangling_dependency i x \<and> (ci_mode i = Bootstrap \<longrightarrow> \<not> non_meta_id i x))"

lemma allChecksPass_iff: "allChecksPass (coherence_checks_of i) \<longleftrightarrow> coherent i"
  by (auto simp: allChecksPass_def coherence_checks_of_def coherent_def atom_cov.pass_iff
      invariant_cov.pass_iff validation_cov.pass_iff dependency_cov.pass_iff prefix_cov.pass_iff)

lemma coherence_checks_cong: "same_artifacts i j \<Longrightarrow> coherence_checks_of i = coherence_checks_of j"
  using atom_cov.order_free [of i j] invariant_cov.order_free [of i j]
    validation_cov.order_free [of i j] dependency_cov.order_free [of i j]
    prefix_cov.order_free [of i j]
  by (simp add: coherence_checks_of_def same_artifacts_def)

lemma report_candidate_cong: "same_artifacts i j \<Longrightarrow> report_candidate i ts = report_candidate j ts"
  using coherence_checks_cong [of i j]
  by (simp add: report_candidate_def cited_ids_def same_artifacts_def)

lemma runCoherenceVerification_Inr:
  "runCoherenceVerification dt i ts = Inr r \<longleftrightarrow>
     r = report_candidate i ts \<and> coherence_report_ok dt r"
  by (auto simp: runCoherenceVerification_def Let_def)

lemma report_overall: "overall (report_candidate i ts) = (if coherent i then Pass else Fail)"
  by (simp add: report_candidate_def Let_def allChecksPass_iff)

lemma set_cited_ids:
  "set (cited_ids i) = insert (ci_intent i)
     {x. orphan_atom i x \<or> uncovered_invariant i x \<or> dead_validation i x \<or>
         dangling_dependency i x \<or> (ci_mode i = Bootstrap \<and> non_meta_id i x)}"
  using invariant_cov.failing_set [of i]
  by (auto simp: cited_ids_def coherence_checks_of_def Let_def atom_cov.failing_set
      validation_cov.failing_set dependency_cov.failing_set prefix_cov.failing_set)

lemma report_source_refs:
  "source_refs (report_candidate i ts) = sort (oset_of (cited_ids i))"
  by (simp add: report_candidate_def Let_def)

section \<open>The report is valid\<close>

definition coherence_input_ok :: "coherence_input \<Rightarrow> bool" where
  "coherence_input_ok i \<longleftrightarrow>
     artifact_id_ok (ci_intent i) \<and> list_all requirement_atom_ok (ci_atoms i) \<and>
     list_all contract_ok (ci_contracts i) \<and> list_all invariant_ok (ci_invariants i) \<and>
     list_all dependency_ok (ci_dependencies i) \<and> list_all validation_ok (ci_validations i)"

text \<open>The characters of an ISO 8601 timestamp in UTC.\<close>

definition timestamp_char :: "char \<Rightarrow> bool" where
  "timestamp_char c \<longleftrightarrow> id_char c \<or> c = CHR '':'' \<or> c = CHR ''.''"

lemma coverageReportId_ok:
  assumes "artifact_id_ok i" "list_all timestamp_char ts"
  shows "artifact_id_ok (coverageReportId i ts)"
proof -
  let ?ts = "map (\<lambda>c. if c = CHR '':'' \<or> c = CHR ''.'' then CHR ''-'' else c) ts"
  have "list_all id_char ?ts"
    using assms(2) by (induction ts) (auto simp: timestamp_char_def id_char_def)
  moreover have "list_all id_char ''-COHERENCE-''"
    by (simp add: id_char_def is_upper_def)
  ultimately have "id_subject_ok (i @ ''-COHERENCE-'' @ ?ts)"
    using artifact_id_subject [OF assms(1)] id_subject_ok_append
    by (simp only: id_subject_ok_append list_all_append)
  then have "artifact_id_ok (''VR'' @ CHR ''-'' # i @ ''-COHERENCE-'' @ ?ts)"
    by (intro artifact_id_okI) (simp_all add: artifact_type_prefixes_def)
  then show ?thesis by (simp add: coverageReportId_def)
qed

lemmas artifact_oks = requirement_atom_ok_def contract_ok_def invariant_ok_def dependency_ok_def
  validation_ok_def lineage_ok_def

lemma list_all_concat_map:
  "(\<And>x. Q x \<Longrightarrow> list_all P (f x)) \<Longrightarrow> list_all Q xs \<Longrightarrow> list_all P (concat (map f xs))"
  by (induction xs) auto

lemma mentioned_ids_valid:
  assumes "coherence_input_ok i"
  shows "list_all artifact_id_ok (mentioned_ids i)"
proof -
  note ok = assms [unfolded coherence_input_ok_def]
  have "list_all artifact_id_ok
      (concat (map (\<lambda>a. artifact_id a # source_refs a) (ci_atoms i)))"
    using ok by (intro list_all_concat_map [where Q = requirement_atom_ok]) (auto simp: artifact_oks)
  moreover have "list_all artifact_id_ok
      (concat (map (\<lambda>c. artifact_id c # source_refs c @ contract_atoms c) (ci_contracts i)))"
    using ok by (intro list_all_concat_map [where Q = contract_ok]) (auto simp: artifact_oks)
  moreover have "list_all artifact_id_ok
      (concat (map (\<lambda>v. artifact_id v # source_refs v @
        (case functionId v of None \<Rightarrow> [] | Some f \<Rightarrow> [f]) @ invariant_atoms v @
        invariant_contracts v) (ci_invariants i)))"
    using ok by (intro list_all_concat_map [where Q = invariant_ok])
      (auto simp: artifact_oks split: option.splits)
  moreover have "list_all artifact_id_ok
      (concat (map (\<lambda>d. artifact_id d # source_refs d @ [dep_from d, dep_to d])
        (ci_dependencies i)))"
    using ok by (intro list_all_concat_map [where Q = dependency_ok]) (auto simp: artifact_oks)
  moreover have "list_all artifact_id_ok
      (concat (map (\<lambda>v. artifact_id v # source_refs v @ targetRefs v @ coversAtomIds v @
        coversContractIds v @ coversInvariantIds v) (ci_validations i)))"
    using ok by (intro list_all_concat_map [where Q = validation_ok]) (auto simp: artifact_oks)
  ultimately show ?thesis
    using ok by (simp add: mentioned_ids_def)
qed

lemma mentioned_own:
  "artifact_id ` set (ci_atoms i) \<union> artifact_id ` set (ci_invariants i) \<union>
   artifact_id ` set (ci_dependencies i) \<union> artifact_id ` set (ci_validations i) \<subseteq>
   set (mentioned_ids i)"
  by (auto simp: mentioned_ids_def)

lemma cited_ids_mentioned: "set (cited_ids i) \<subseteq> set (mentioned_ids i)"
proof
  fix x assume "x \<in> set (cited_ids i)"
  then consider "x = ci_intent i" | "orphan_atom i x" | "uncovered_invariant i x"
    | "dead_validation i x" | "dangling_dependency i x" | "non_meta_id i x"
    by (auto simp: set_cited_ids)
  then show "x \<in> set (mentioned_ids i)"
    using mentioned_own [of i]
    by cases (auto simp: orphan_atom_def uncovered_invariant_def dead_validation_def
        dangling_dependency_def non_meta_id_def mentioned_ids_def)
qed

lemma cited_ids_ok:
  "list_all artifact_id_ok (mentioned_ids i) \<Longrightarrow> x \<in> set (cited_ids i) \<Longrightarrow> artifact_id_ok x"
  using cited_ids_mentioned [of i] by (auto simp: list_all_iff)

lemma coherence_checks_valid:
  assumes "list_all artifact_id_ok (mentioned_ids i)"
  shows "coherence_checks_ok (coherence_checks_of i)"
proof -
  have "artifact_id_ok x" if "x \<in> set (cited_ids i)" for x
    using that assms cited_ids_ok by blast
  then show ?thesis
    unfolding cited_ids_def coherence_checks_ok_def list_all_iff Let_def
    by (auto split: option.splits)
qed

lemma invariant_status_fail:
  "invariant_status (checkInvariantVerification i) = Fail \<longleftrightarrow>
     invariants_missing_validation (checkInvariantVerification i) \<noteq> [] \<or>
     invariants_missing_detector (checkInvariantVerification i) \<noteq> []"
  by (simp add: checkInvariantVerification_def Let_def)

lemma remediation_parts_nonempty:
  "[] \<notin> set (atom_remediation a)" "[] \<notin> set (invariant_remediation v)"
  "[] \<notin> set (validation_remediation w)" "[] \<notin> set (dependency_remediation d)"
  "[] \<notin> set (prefix_remediation p)"
  by (auto simp: atom_remediation_def invariant_remediation_def validation_remediation_def
      dependency_remediation_def prefix_remediation_def Let_def split: option.splits if_splits)

lemma remediation_parts_fail:
  "atom_remediation a = [] \<longleftrightarrow> atom_status a \<noteq> Fail"
  "validation_remediation w = [] \<longleftrightarrow> validation_status w \<noteq> Fail"
  "dependency_remediation d = [] \<longleftrightarrow> dependency_status d \<noteq> Fail"
  "prefix_remediation (Some p) = [] \<longleftrightarrow> prefix_status p \<noteq> Fail"
  "invariant_remediation (checkInvariantVerification i) = [] \<longleftrightarrow>
     invariant_status (checkInvariantVerification i) \<noteq> Fail"
  by (auto simp: atom_remediation_def validation_remediation_def dependency_remediation_def
      prefix_remediation_def Let_def invariant_remediation_def invariant_status_fail)

lemma not_Pass: "v \<noteq> Pass \<longleftrightarrow> v = Fail"
  by (cases v) simp_all

lemma generateRemediation_nonempty:
  "generateRemediation (coherence_checks_of i)
     (if allChecksPass (coherence_checks_of i) then Pass else Fail) \<noteq> []"
proof (cases "allChecksPass (coherence_checks_of i)")
  case False
  let ?c = "coherence_checks_of i"
  let ?parts = "atom_remediation (atom_coverage ?c) @
    invariant_remediation (invariant_coverage ?c) @
    validation_remediation (validation_coverage ?c) @
    dependency_remediation (dependency_closure ?c) @
    prefix_remediation (bootstrap_prefix_check ?c)"
  have "?parts \<noteq> []"
    using False
    by (auto simp: allChecksPass_def coherence_checks_of_def remediation_parts_fail not_Pass
        split: if_splits)
  moreover have "[] \<notin> set ?parts" by (simp add: remediation_parts_nonempty)
  ultimately have "join [nl, nl] ?parts \<noteq> []" by (rule join_nonempty)
  with False show ?thesis by (simp add: generateRemediation_def)
qed (simp add: generateRemediation_def)

lemma report_candidate_valid:
  assumes ok: "list_all artifact_id_ok (mentioned_ids i)" and ts: "dt ts" "list_all timestamp_char ts"
  shows "coherence_report_ok dt (report_candidate i ts)"
proof -
  let ?r = "report_candidate i ts"
  have i: "artifact_id_ok (ci_intent i)" using ok by (simp add: mentioned_ids_def)
  have "lineage_ok ?r"
    using coverageReportId_ok [OF i ts(2)] cited_ids_ok [OF ok]
    by (auto simp: lineage_ok_def report_candidate_def Let_def list_all_iff)
  moreover have "starts_with ''VR-'' (artifact_id ?r)"
    by (simp add: report_candidate_def Let_def coverageReportId_def)
  moreover have "remediation ?r \<noteq> []"
    using generateRemediation_nonempty [of i] by (simp add: report_candidate_def Let_def)
  ultimately show ?thesis
    using i ts(1) coherence_checks_valid [OF ok]
    by (simp add: coherence_report_ok_def) (simp add: report_candidate_def Let_def)
qed

section \<open>The remediation text names what failed\<close>

lemma ids_text_contains: "x \<in> set ids \<Longrightarrow> contains_str x (ids_text ids)"
  unfolding ids_text_def by (intro contains_str_pad contains_join)

lemma part_named:
  assumes "x \<in> set ids"
  shows "\<exists>p \<in> set (a @ [b @ c @ ids_text ids @ d] @ e). contains_str x p"
  by (intro bexI [of _ "b @ c @ ids_text ids @ d"] contains_str_append2 contains_str_append1
      ids_text_contains assms) simp

lemmas part_named_only = part_named [where a = "[]" and e = "[]", unfolded append_Nil append_Nil2]

lemma atom_remediation_names:
  "x \<in> set (orphan_atoms a) \<Longrightarrow> atom_status a = Fail \<Longrightarrow>
     \<exists>p \<in> set (atom_remediation a). contains_str x p"
  unfolding atom_remediation_def by (subst if_P, assumption, rule part_named_only)

lemma invariant_remediation_names:
  assumes x: "x \<in> set (invariants_missing_validation v @ invariants_missing_detector v)"
    and f: "invariant_status v = Fail"
  shows "\<exists>p \<in> set (invariant_remediation v). contains_str x p"
proof (cases "x \<in> set (invariants_missing_validation v)")
  case True
  then have "invariants_missing_validation v \<noteq> []" by auto
  then show ?thesis
    unfolding invariant_remediation_def Let_def if_P [OF f]
    by (subst if_P, assumption) (rule part_named [where a = "[]", OF True, unfolded append_Nil])
next
  case False
  with x have d: "x \<in> set (invariants_missing_detector v)" by simp
  then have "invariants_missing_detector v \<noteq> []" by auto
  then show ?thesis
    unfolding invariant_remediation_def Let_def if_P [OF f]
    by (subst (2) if_P, assumption) (rule part_named [where e = "[]", OF d, unfolded append_Nil2])
qed

lemma validation_remediation_names:
  "x \<in> set (validations_covering_nothing w) \<Longrightarrow> validation_status w = Fail \<Longrightarrow>
     \<exists>p \<in> set (validation_remediation w). contains_str x p"
  unfolding validation_remediation_def Let_def by (subst if_P, assumption, rule part_named_only)

lemma dependency_remediation_names:
  "x \<in> set (dangling_dependencies d) \<Longrightarrow> dependency_status d = Fail \<Longrightarrow>
     \<exists>p \<in> set (dependency_remediation d). contains_str x p"
  unfolding dependency_remediation_def Let_def by (subst if_P, assumption, rule part_named_only)

lemma prefix_remediation_names:
  "x \<in> set (non_meta_artifact_ids q) \<Longrightarrow> prefix_status q = Fail \<Longrightarrow>
     \<exists>p \<in> set (prefix_remediation (Some q)). contains_str x p"
  unfolding prefix_remediation_def Let_def option.case
  by (subst if_P, assumption, rule part_named_only)

lemma remediation_contains_part:
  assumes "p \<in> set (atom_remediation (atom_coverage c) @
      invariant_remediation (invariant_coverage c) @
      validation_remediation (validation_coverage c) @
      dependency_remediation (dependency_closure c) @ prefix_remediation (bootstrap_prefix_check c))"
    and "contains_str x p"
  shows "contains_str x (generateRemediation c Fail)"
proof -
  have "contains_str p (generateRemediation c Fail)"
    unfolding generateRemediation_def using assms(1) by (simp add: contains_join)
  with assms(2) show ?thesis by (rule contains_str_trans)
qed

text \<open>Every id a failing check lists is in the text.\<close>

lemma remediation_names:
  assumes "orphan_atom i x \<or> uncovered_invariant i x \<or> dead_validation i x \<or>
    dangling_dependency i x \<or> (ci_mode i = Bootstrap \<and> non_meta_id i x)"
  shows "contains_str x (generateRemediation (coherence_checks_of i) Fail)"
proof -
  let ?c = "coherence_checks_of i"
  have names: "contains_str x (generateRemediation ?c Fail)"
    if "\<exists>p \<in> set parts. contains_str x p"
      "set parts \<subseteq> set (atom_remediation (atom_coverage ?c) @
        invariant_remediation (invariant_coverage ?c) @
        validation_remediation (validation_coverage ?c) @
        dependency_remediation (dependency_closure ?c) @
        prefix_remediation (bootstrap_prefix_check ?c))" for parts
    using that remediation_contains_part by blast
  from assms show ?thesis
  proof (elim disjE conjE)
    assume "orphan_atom i x"
    from atom_remediation_names [OF conjunct1 conjunct2, OF atom_cov.offends_listed
        atom_cov.offends_listed, OF this this]
    show ?thesis by (rule names) (auto simp: coherence_checks_of_def)
  next
    assume "uncovered_invariant i x"
    from invariant_remediation_names [OF conjunct1 conjunct2, OF invariant_cov.offends_listed
        invariant_cov.offends_listed, OF this this]
    show ?thesis by (rule names) (auto simp: coherence_checks_of_def)
  next
    assume "dead_validation i x"
    from validation_remediation_names [OF conjunct1 conjunct2, OF validation_cov.offends_listed
        validation_cov.offends_listed, OF this this]
    show ?thesis by (rule names) (auto simp: coherence_checks_of_def)
  next
    assume "dangling_dependency i x"
    from dependency_remediation_names [OF conjunct1 conjunct2, OF dependency_cov.offends_listed
        dependency_cov.offends_listed, OF this this]
    show ?thesis by (rule names) (auto simp: coherence_checks_of_def)
  next
    assume b: "ci_mode i = Bootstrap" and "non_meta_id i x"
    from prefix_remediation_names [OF conjunct1 conjunct2, OF prefix_cov.offends_listed
        prefix_cov.offends_listed, OF this(2) this(2)]
    show ?thesis by (rule names) (auto simp: coherence_checks_of_def b)
  qed
qed

section \<open>Properties\<close>

text \<open>An input on which the properties are instantiated: one atom that nothing refers to.\<close>

definition sample_atom :: "string \<Rightarrow> requirement_atom" where
  "sample_atom i =
     \<lparr>artifact_id = i, source_refs = [''IS-A''], explicitness = Explicit, rationale = ''r'',
      category = Constraint, subject = ''s'', action = ''a'', object = ''o'', conditions = [],
      qualifiers = [], successCondition = None\<rparr>"

definition sample_input :: "string list \<Rightarrow> coherence_input" where
  "sample_input ids =
     \<lparr>ci_intent = ''IS-A'', ci_mode = Steady_state, ci_atoms = map sample_atom ids,
      ci_contracts = [], ci_invariants = [], ci_dependencies = [], ci_validations = []\<rparr>"

lemma sample_run:
  "runCoherenceVerification (\<lambda>t. True) (sample_input [''ATOM-B'', ''ATOM-A'']) ''T'' =
     Inr (report_candidate (sample_input [''ATOM-B'', ''ATOM-A'']) ''T'')"
proof -
  have "list_all artifact_id_ok (mentioned_ids (sample_input [''ATOM-B'', ''ATOM-A'']))"
    by code_simp
  then have "coherence_report_ok (\<lambda>t. True)
      (report_candidate (sample_input [''ATOM-B'', ''ATOM-A'']) ''T'')"
    by (rule report_candidate_valid) (simp_all add: timestamp_char_def id_char_def is_upper_def)
  then show ?thesis by (simp add: runCoherenceVerification_def)
qed

lemma sample_orphan: "orphan_atom (sample_input [''ATOM-B'', ''ATOM-A'']) ''ATOM-A''"
  by (simp add: orphan_atom_def sample_input_def sample_atom_def referenced_ids_def)

text \<open>
  C5. The verdict is exact: a report passes exactly when every atom is referenced downstream,
  every invariant has a validation and a well-formed detector, every validation covers
  something, both ends of every dependency are known, and, in bootstrap mode, every id
  mentioned anywhere is a META id.
\<close>

theorem coherence_verdict_exact:
  assumes "runCoherenceVerification dt i ts = Inr r"
  shows "overall r = Pass \<longleftrightarrow> coherent i"
  using assms by (simp add: runCoherenceVerification_Inr report_overall)

lemma coherence_verdict_exact_witness:
  "\<not> coherent (sample_input [''ATOM-B'', ''ATOM-A'']) \<and>
   overall (report_candidate (sample_input [''ATOM-B'', ''ATOM-A'']) ''T'') = Fail"
  using coherence_verdict_exact [OF sample_run] sample_orphan
  by (auto simp: coherent_def not_Pass)

text \<open>
  Lineage: the report cites the intent and exactly the ids that some active check lists
  as failing, each once, in ascending order.
\<close>

theorem coherence_report_lineage:
  assumes "runCoherenceVerification dt i ts = Inr r"
  shows "set (source_refs r) = insert (ci_intent i)
      {x. orphan_atom i x \<or> uncovered_invariant i x \<or> dead_validation i x \<or>
          dangling_dependency i x \<or> (ci_mode i = Bootstrap \<and> non_meta_id i x)} \<and>
    sorted (source_refs r) \<and> distinct (source_refs r)"
  using assms by (simp_all add: runCoherenceVerification_Inr report_source_refs set_cited_ids)

lemma coherence_report_lineage_witness:
  "''ATOM-A'' \<in> set (source_refs (report_candidate (sample_input [''ATOM-B'', ''ATOM-A'']) ''T''))"
  using coherence_report_lineage [OF sample_run] sample_orphan by simp

text \<open>
  C6. Determinism: the whole report, byte for byte, depends on the intermediates as multisets
  and not on the order in which the passes list them.
\<close>

theorem coherence_order_free:
  assumes "same_artifacts i j"
  shows "runCoherenceVerification dt i ts = runCoherenceVerification dt j ts"
  using report_candidate_cong [OF assms] by (simp add: runCoherenceVerification_def)

lemma coherence_order_free_witness:
  "runCoherenceVerification (\<lambda>t. t = ''T'') (sample_input [''ATOM-B'', ''ATOM-A'']) ''T'' =
   runCoherenceVerification (\<lambda>t. t = ''T'') (sample_input [''ATOM-A'', ''ATOM-B'']) ''T''"
  by (rule coherence_order_free) (simp add: same_artifacts_def sample_input_def)

text \<open>
  Coherence Verification does not throw: when the ids of the intermediates are artifact
  ids and the timestamp is a UTC datetime, the report conforms to its own schema, whatever
  the verdict.
\<close>

theorem coherence_report_valid:
  assumes "list_all artifact_id_ok (mentioned_ids i)" "dt ts" "list_all timestamp_char ts"
  shows "\<exists>r. runCoherenceVerification dt i ts = Inr r \<and> coherence_report_ok dt r"
  using report_candidate_valid [where dt = dt, OF assms] by (simp add: runCoherenceVerification_def)

lemma coherence_report_valid_witness:
  "\<exists>r. runCoherenceVerification (\<lambda>t. t = ''T'') (sample_input [''ATOM-A'']) ''T'' = Inr r \<and>
    coherence_report_ok (\<lambda>t. t = ''T'') r"
proof -
  have "list_all artifact_id_ok (mentioned_ids (sample_input [''ATOM-A'']))" by code_simp
  then show ?thesis
    by (rule coherence_report_valid) (simp_all add: timestamp_char_def id_char_def is_upper_def)
qed

text \<open>
  The remediation text is complete: a failing report names every offending id of every
  failing check, and a passing one asks for nothing.
\<close>

theorem remediation_complete:
  assumes "runCoherenceVerification dt i ts = Inr r"
  shows "(overall r = Pass \<longrightarrow> remediation r = ''no remediation required'') \<and>
    (overall r = Fail \<longrightarrow>
      (\<forall>x. orphan_atom i x \<or> uncovered_invariant i x \<or> dead_validation i x \<or>
           dangling_dependency i x \<or> (ci_mode i = Bootstrap \<and> non_meta_id i x) \<longrightarrow>
         contains_str x (remediation r)))"
proof -
  have r: "remediation r = generateRemediation (coherence_checks_of i) (overall r)"
    using assms by (simp add: runCoherenceVerification_Inr report_candidate_def Let_def)
  have "overall r = Pass \<longrightarrow> remediation r = ''no remediation required''"
    by (simp add: r generateRemediation_def)
  with remediation_names [of i] show ?thesis by (simp add: r)
qed

lemma remediation_complete_witness:
  "contains_str ''ATOM-A''
     (remediation (report_candidate (sample_input [''ATOM-B'', ''ATOM-A'']) ''T''))"
proof -
  have "overall (report_candidate (sample_input [''ATOM-B'', ''ATOM-A'']) ''T'') = Fail"
    using sample_orphan by (auto simp: report_overall coherent_def)
  with remediation_complete [OF sample_run] sample_orphan show ?thesis by blast
qed

end
