(* ===== verification/Intent_Markdown.thy ===== *)
theory Intent_Markdown
  imports Artifact_Schemas Complex_Main "HOL-Library.Monad_Syntax"
begin

text \<open>
  The first compiler pass: \<open>packages/compiler/src/parse-markdown.ts\<close> splits a Markdown file
  into front matter and sections, and \<open>passes/00-normalize.ts\<close> turns these into an
  IntentSpecification draft. The YAML parser is a library; it is the parameter
  \<open>parse_yaml\<close>, which returns \<open>None\<close> where it throws.
\<close>

section \<open>Values of unknown shape\<close>

datatype json = JNull | JBool bool | JNum rat | JStr string | JArr "json list"
  | JObj "(string \<times> json) list"

text \<open>
  A JavaScript object used as a dictionary of strings. An array-index key is the decimal
  numeral of a number below 4294967295. Assigning a string to the key
  \<open>__proto__\<close> has no effect, and \<open>Object.entries\<close> lists array-index keys first, in
  ascending order, then the other keys in insertion order.
\<close>

definition obj_set :: "string \<Rightarrow> 'a \<Rightarrow> (string \<times> 'a) list \<Rightarrow> (string \<times> 'a) list" where
  "obj_set k v ob = (if k = ''__proto__'' then ob else AList.update k v ob)"

definition array_index_key :: "string \<Rightarrow> bool" where
  "array_index_key k \<longleftrightarrow>
     k \<noteq> [] \<and> list_all is_digit k \<and> (hd k \<noteq> CHR ''0'' \<or> k = ''0'') \<and>
     (length k < 10 \<or> (length k = 10 \<and> k < ''4294967295''))"

definition obj_entries :: "(string \<times> 'a) list \<Rightarrow> (string \<times> 'a) list" where
  "obj_entries ob =
     sort_key (\<lambda>e. undec (fst e)) (filter (\<lambda>e. array_index_key (fst e)) ob) @
     filter (\<lambda>e. \<not> array_index_key (fst e)) ob"

lemma mset_obj_entries [simp]: "mset (obj_entries ob) = mset ob"
  by (simp add: obj_entries_def multiset_partition)

lemma set_obj_entries [simp]: "set (obj_entries ob) = set ob"
  by (metis mset_obj_entries set_mset_mset)

lemma obj_entries_plain: "\<forall>e \<in> set ob. \<not> array_index_key (fst e) \<Longrightarrow> obj_entries ob = ob"
  by (simp add: obj_entries_def filter_False)

lemma not_index_first: "c # s = k \<Longrightarrow> \<not> is_digit c \<Longrightarrow> \<not> array_index_key k"
  by (auto simp: array_index_key_def)

section \<open>Front matter\<close>

text \<open>The lines before the first line that trims to \<open>---\<close>, and the lines after it.\<close>

fun split_at_fence :: "string list \<Rightarrow> (string list \<times> string list) option" where
  "split_at_fence [] = None"
| "split_at_fence (l # ls) =
     (if trim l = ''---'' then Some ([], ls)
      else map_option (\<lambda>(a, b). (l # a, b)) (split_at_fence ls))"

lemma split_at_fence_append:
  "\<forall>l \<in> set a. trim l \<noteq> ''---'' \<Longrightarrow> trim f = ''---'' \<Longrightarrow>
     split_at_fence (a @ f # b) = Some (a, b)"
  by (induction a) auto

definition splitFrontmatter ::
  "(string \<Rightarrow> json option) \<Rightarrow> string \<Rightarrow> ((string \<times> json) list \<times> string) option" where
  "splitFrontmatter parse_yaml raw =
     (let lines = split_on nl raw in
      if trim (hd lines) \<noteq> ''---'' then Some ([], raw)
      else case split_at_fence (tl lines) of
        None \<Rightarrow> Some ([], raw)
      | Some (yaml, body) \<Rightarrow>
          (case parse_yaml (join [nl] yaml) of
             None \<Rightarrow> None
           | Some (JObj ob) \<Rightarrow> Some (ob, join [nl] body)
           | Some _ \<Rightarrow> Some ([], join [nl] body)))"

section \<open>Sections\<close>

text \<open>
  The pattern \<open>.+\<close> up to the end of the input: no carriage return and no Unicode line
  separator (three UTF-8 bytes); the lines have no line feed.
\<close>

definition no_line_break :: "string \<Rightarrow> bool" where
  "no_line_break s \<longleftrightarrow>
     nl \<notin> set s \<and> cr \<notin> set s \<and> \<not> contains_str [CHR 0xE2, CHR 0x80, CHR 0xA8] s \<and>
     \<not> contains_str [CHR 0xE2, CHR 0x80, CHR 0xA9] s"

definition heading :: "string \<Rightarrow> string \<Rightarrow> string option" where
  "heading mark line =
     (let rest = drop (length mark) line in
      if starts_with mark line \<and> rest \<noteq> [] \<and> no_line_break rest then Some (trim rest) else None)"

record section_state =
  doc_title :: "string option"
  sections_so_far :: "(string \<times> string) list"
  current_section :: "string option"
  current_content :: "string list"

definition flush_section :: "section_state \<Rightarrow> (string \<times> string) list" where
  "flush_section st =
     (case current_section st of
        None \<Rightarrow> sections_so_far st
      | Some s \<Rightarrow> obj_set s (trim (join [nl] (current_content st))) (sections_so_far st))"

definition section_line :: "section_state \<Rightarrow> string \<Rightarrow> section_state" where
  "section_line st line =
     (if heading ''# '' line \<noteq> None \<and> doc_title st = None \<and> current_section st = None
      then st\<lparr>doc_title := heading ''# '' line\<rparr>
      else case heading ''## '' line of
        Some h \<Rightarrow>
          st\<lparr>sections_so_far := flush_section st, current_section := Some h, current_content := []\<rparr>
      | None \<Rightarrow>
          (if current_section st = None then st
           else st\<lparr>current_content := current_content st @ [line]\<rparr>))"

definition splitSections :: "string \<Rightarrow> string option \<times> (string \<times> string) list" where
  "splitSections body =
     (let st = foldl section_line
                 \<lparr>doc_title = None, sections_so_far = [], current_section = None,
                  current_content = []\<rparr> (split_on nl body)
      in (doc_title st, flush_section st))"

record parsed_markdown =
  frontmatter :: "(string \<times> json) list"
  md_sections :: "(string \<times> string) list"
  md_title :: "string option"

definition parseMarkdown :: "(string \<Rightarrow> json option) \<Rightarrow> string \<Rightarrow> parsed_markdown option" where
  "parseMarkdown parse_yaml raw =
     (case splitFrontmatter parse_yaml raw of
        None \<Rightarrow> None
      | Some (fm, body) \<Rightarrow>
          (let (t, secs) = splitSections body
           in Some \<lparr>frontmatter = fm, md_sections = secs, md_title = t\<rparr>))"

section \<open>List items\<close>

text \<open>\<open>^\d+\.\s+(.*)$\<close>: the captured text. Both repetitions are greedy.\<close>

definition numbered_item :: "string \<Rightarrow> string option" where
  "numbered_item line =
     (let ds = takeWhile is_digit line; r = drop (length ds) line in
      if ds = [] \<or> r = [] \<or> hd r \<noteq> CHR ''.'' then None
      else let ws = takeWhile is_ws (tl r); item = drop (length ws) (tl r) in
        if ws = [] \<or> \<not> no_line_break item then None else Some item)"

definition flush_item :: "string list \<Rightarrow> string list \<Rightarrow> string list" where
  "flush_item items current =
     (let joined = trim (join [nl] current)
      in if current \<noteq> [] \<and> joined \<noteq> [] then items @ [joined] else items)"

text \<open>The state is the items so far, the lines of the current item and whether one is open.\<close>

fun numbered_line ::
  "string list \<times> string list \<times> bool \<Rightarrow> string \<Rightarrow> string list \<times> string list \<times> bool" where
  "numbered_line (items, current, inItem) line =
     (case numbered_item line of
        Some t \<Rightarrow> (flush_item items current, [t], True)
      | None \<Rightarrow> (if inItem then (items, current @ [line], True) else (items, current, False)))"

definition splitNumberedList :: "string \<Rightarrow> string list" where
  "splitNumberedList content =
     (case foldl numbered_line ([], [], False) (split_on nl content) of
        (items, current, inItem) \<Rightarrow> flush_item items current)"

text \<open>
  \<open>split(/\n\s*\n/)\<close>. A separator starts at a line feed whose run of white space has
  another line feed and, the repetition being greedy, ends at the last one of the run.
\<close>

definition after_last_nl :: "string \<Rightarrow> string" where
  "after_last_nl w = rev (takeWhile (\<lambda>c. c \<noteq> nl) (rev w))"

lemma length_after_last_nl: "length (after_last_nl w) \<le> length w"
  unfolding after_last_nl_def by (metis length_rev length_takeWhile_le)

lemma length_after_separator:
  "length (after_last_nl (takeWhile is_ws cs) @ dropWhile is_ws cs) \<le> length cs"
proof -
  have "length cs = length (takeWhile is_ws cs) + length (dropWhile is_ws cs)"
    by (metis length_append takeWhile_dropWhile_id)
  then show ?thesis using length_after_last_nl [of "takeWhile is_ws cs"] by simp
qed

function split_blank :: "string \<Rightarrow> string \<Rightarrow> string list" where
  "split_blank acc [] = [acc]"
| "split_blank acc (c # cs) =
     (let w = takeWhile is_ws cs in
      if c = nl \<and> nl \<in> set w
      then acc # split_blank [] (after_last_nl w @ dropWhile is_ws cs)
      else split_blank (acc @ [c]) cs)"
  by pat_completeness auto
termination
  using length_after_separator
  by (relation "measure (\<lambda>(acc, s). length s)") (simp_all add: less_Suc_eq_le)

declare split_blank.simps [simp del]

definition sub_heading :: "string \<Rightarrow> bool" where
  "sub_heading line =
     (let t = trim line; h = takeWhile (\<lambda>c. c = CHR ''#'') t; r = drop (length h) t
      in h \<noteq> [] \<and> r \<noteq> [] \<and> is_ws (hd r))"

definition paragraph_of :: "string \<Rightarrow> string" where
  "paragraph_of block =
     trim (join [nl] (filter (\<lambda>l. \<not> sub_heading l) (split_on nl block)))"

definition splitParagraphs :: "string \<Rightarrow> string list" where
  "splitParagraphs content =
     filter (\<lambda>p. p \<noteq> []) (map paragraph_of (split_blank [] content))"

lemma splitParagraphs_nonempty: "p \<in> set (splitParagraphs c) \<Longrightarrow> p \<noteq> [] \<and> trim p = p"
  by (auto simp: splitParagraphs_def paragraph_of_def)

lemma flush_item_items:
  "i \<in> set (flush_item items current) \<Longrightarrow> i \<in> set items \<or> (i \<noteq> [] \<and> trim i = i)"
  by (auto simp: flush_item_def Let_def split: if_splits)

lemma numbered_lines_items:
  "foldl numbered_line st ls = (items, cur, b) \<Longrightarrow>
     \<forall>i \<in> set (fst st). i \<noteq> [] \<and> trim i = i \<Longrightarrow> \<forall>i \<in> set items. i \<noteq> [] \<and> trim i = i"
proof (induction ls arbitrary: st)
  case Nil
  then show ?case by simp
next
  case (Cons l ls)
  obtain i0 c0 b0 where st: "st = (i0, c0, b0)" by (cases st) auto
  have "\<forall>i \<in> set (fst (numbered_line st l)). i \<noteq> [] \<and> trim i = i"
    using Cons.prems(2) unfolding st
    by (auto split: option.splits dest: flush_item_items)
  with Cons.IH [of "numbered_line st l"] Cons.prems(1) show ?case by simp
qed

lemma splitNumberedList_nonempty: "i \<in> set (splitNumberedList c) \<Longrightarrow> i \<noteq> [] \<and> trim i = i"
proof -
  assume i: "i \<in> set (splitNumberedList c)"
  obtain items cur b where f: "foldl numbered_line ([], [], False) (split_on nl c) = (items, cur, b)"
    by (metis prod_cases3)
  with i have "i \<in> set (flush_item items cur)" by (simp add: splitNumberedList_def)
  with numbered_lines_items [OF f] show ?thesis by (auto dest: flush_item_items)
qed

section \<open>The draft\<close>

text \<open>
  \<open>SECTION_TO_FIELD[key]\<close>. The table is a plain object, so the key \<open>constructor\<close> finds the
  property it inherits from \<open>Object.prototype\<close>; no other inherited name is in lower case.
\<close>

datatype field_lookup = Field string | Inherited_property | No_field

definition section_to_field :: "string \<Rightarrow> field_lookup" where
  "section_to_field key =
     (if key = ''problem'' then Field ''problem''
      else if key = ''goal'' then Field ''goal''
      else if key = ''constraints'' then Field ''constraints''
      else if key = ''acceptance criteria'' then Field ''acceptanceCriteria''
      else if key = ''success metrics'' then Field ''successMetrics''
      else if key = ''out of scope'' then Field ''outOfScope''
      else if key = ''constructor'' then Inherited_property
      else No_field)"

definition list_fields :: "string list" where
  "list_fields = [''constraints'', ''acceptanceCriteria'', ''successMetrics'', ''outOfScope'']"

definition splitListItems :: "string \<Rightarrow> string \<Rightarrow> string list" where
  "splitListItems field content =
     (if field = ''acceptanceCriteria'' then splitNumberedList content
      else splitParagraphs content)"

text \<open>One iteration of the loop over the sections: the draft object and the unrecognized list.\<close>

fun place_section ::
  "(string \<times> json) list \<times> string list \<Rightarrow> string \<times> string \<Rightarrow> (string \<times> json) list \<times> string list" where
  "place_section (draft, unrecognized) (head, content) =
     (case section_to_field (trim (to_lower head)) of
        No_field \<Rightarrow> (draft, unrecognized @ [head])
      | Inherited_property \<Rightarrow>
          (AList.update ''function Object() { [native code] }'' (JStr content) draft, unrecognized)
      | Field f \<Rightarrow>
          (if f \<in> set list_fields
           then (AList.update f (JArr (map JStr (splitListItems f content))) draft, unrecognized)
           else (AList.update f (JStr content) draft, unrecognized)))"

subsection \<open>Parsing the draft against the IntentSpecification schema\<close>

fun json_str :: "json option \<Rightarrow> string option" where
  "json_str (Some (JStr s)) = Some s"
| "json_str _ = None"

fun json_strs :: "json list \<Rightarrow> string list option" where
  "json_strs [] = Some []"
| "json_strs (JStr s # js) = map_option (Cons s) (json_strs js)"
| "json_strs (_ # js) = None"

fun json_str_list :: "json option \<Rightarrow> string list option" where
  "json_str_list (Some (JArr js)) = json_strs js"
| "json_str_list _ = None"

text \<open>\<open>z.array(z.string()).default([])\<close>: only an absent field takes the default.\<close>

fun json_str_list_default :: "json option \<Rightarrow> string list option" where
  "json_str_list_default None = Some []"
| "json_str_list_default (Some j) = json_str_list (Some j)"

fun json_explicitness :: "json option \<Rightarrow> explicitness option" where
  "json_explicitness (Some (JStr s)) =
     (if s = ''explicit'' then Some Explicit else if s = ''inferred'' then Some Inferred else None)"
| "json_explicitness _ = None"

lemma json_strs_map [simp]: "json_strs (map JStr xs) = Some xs"
  by (induction xs) auto

definition draft_of_object :: "(string \<times> json) list \<Rightarrow> intent_specification option" where
  "draft_of_object ob =
     do {
       i \<leftarrow> json_str (map_of ob ''id'');
       refs \<leftarrow> json_str_list (map_of ob ''source_refs'');
       ex \<leftarrow> json_explicitness (map_of ob ''explicitness'');
       why \<leftarrow> json_str (map_of ob ''rationale'');
       cap \<leftarrow> json_str (map_of ob ''sourceCapabilityId'');
       fn \<leftarrow> json_str (map_of ob ''sourceFunctionId'');
       ti \<leftarrow> json_str (map_of ob ''title'');
       pr \<leftarrow> json_str (map_of ob ''problem'');
       go \<leftarrow> json_str (map_of ob ''goal'');
       cs \<leftarrow> json_str_list_default (map_of ob ''constraints'');
       acs \<leftarrow> json_str_list (map_of ob ''acceptanceCriteria'');
       ms \<leftarrow> json_str_list (map_of ob ''successMetrics'');
       out \<leftarrow> json_str_list_default (map_of ob ''outOfScope'');
       let d = \<lparr>artifact_id = i, source_refs = refs, explicitness = ex, rationale = why,
                sourceCapabilityId = cap, sourceFunctionId = fn, title = ti, problem = pr,
                goal = go, constraints = cs, acceptanceCriteria = acs, successMetrics = ms,
                outOfScope = out\<rparr>;
       if intent_specification_ok d then Some d else None
     }"

lemma draft_of_object_ok: "draft_of_object ob = Some d \<Longrightarrow> intent_specification_ok d"
  by (auto simp: draft_of_object_def Let_def split: bind_splits if_splits)

subsection \<open>normalize\<close>

record normalized_intent =
  draft :: intent_specification
  intent_sections :: "(string \<times> string) list"
  unrecognizedSections :: "string list"
  sourceFile :: string

datatype normalize_error = Yaml_error | Invalid_intent_specification string

definition normalize ::
  "(string \<Rightarrow> json option) \<Rightarrow> string \<Rightarrow> string \<Rightarrow> normalize_error + normalized_intent" where
  "normalize parse_yaml raw file =
     (case parseMarkdown parse_yaml raw of
        None \<Rightarrow> Inl Yaml_error
      | Some pm \<Rightarrow>
          (let es = obj_entries (md_sections pm);
               (ob, unrecognized) = foldl place_section (frontmatter pm, []) es
           in case draft_of_object ob of
                None \<Rightarrow> Inl (Invalid_intent_specification file)
              | Some d \<Rightarrow>
                  Inr \<lparr>draft = d, intent_sections = foldl (\<lambda>acc (h, c). obj_set h c acc) [] es,
                       unrecognizedSections = unrecognized, sourceFile = file\<rparr>))"

lemma normalize_draft_ok: "normalize py raw file = Inr n \<Longrightarrow> intent_specification_ok (draft n)"
  by (auto simp: normalize_def Let_def draft_of_object_ok split: option.splits prod.splits)

lemma normalize_sourceFile: "normalize py raw file = Inr n \<Longrightarrow> sourceFile n = file"
  by (auto simp: normalize_def Let_def split: option.splits prod.splits)

lemma normalize_error_cases:
  "normalize py raw file = Inl e \<Longrightarrow> e = Yaml_error \<or> e = Invalid_intent_specification file"
  by (auto simp: normalize_def Let_def split: option.splits prod.splits)

section \<open>Round trips\<close>

text \<open>An item that fills one line of a numbered list.\<close>

definition plain_item :: "string \<Rightarrow> bool" where
  "plain_item t \<longleftrightarrow> t \<noteq> [] \<and> trim t = t \<and> no_line_break t"

definition numbered_list :: "nat \<Rightarrow> string list \<Rightarrow> string list" where
  "numbered_list k items = map (\<lambda>(i, t). dec i @ ''. '' @ t) (enumerate k items)"

lemma takeWhile_dec: "\<not> is_digit c \<Longrightarrow> takeWhile is_digit (dec k @ c # s) = dec k"
  by (simp add: takeWhile_append2 dec_digits)

lemma numbered_item_line: "plain_item t \<Longrightarrow> numbered_item (dec k @ ''. '' @ t) = Some t"
proof -
  assume t: "plain_item t"
  then have "\<not> is_ws (hd t)" "t \<noteq> []" using trim_ends [of t] by (auto simp: plain_item_def)
  then have ws: "takeWhile is_ws t = []" by (cases t) auto
  have "takeWhile is_digit (dec k @ ''. '' @ t) = dec k"
    using takeWhile_dec [of "CHR ''.''" k "CHR '' '' # t"] by (simp add: is_digit_def)
  moreover have "is_ws (CHR '' '')" by (simp add: is_ws_def)
  ultimately show ?thesis
    using t ws by (simp add: numbered_item_def plain_item_def)
qed

lemma flush_plain: "plain_item t \<Longrightarrow> flush_item items [t] = items @ [t]"
  by (simp add: flush_item_def plain_item_def)

lemma numbered_lines:
  "list_all plain_item its \<Longrightarrow>
     (case foldl numbered_line (items, cur, b) (numbered_list k its) of
        (items', cur', b') \<Rightarrow> flush_item items' cur') = flush_item items cur @ its"
proof (induction its arbitrary: items cur b k)
  case Nil
  then show ?case by (simp add: numbered_list_def)
next
  case (Cons t its)
  then have "numbered_line (items, cur, b) (dec k @ ''. '' @ t) = (flush_item items cur, [t], True)"
    using numbered_item_line by simp
  with Cons.IH [of "flush_item items cur" "[t]" True "Suc k"] Cons.prems flush_plain
  show ?case by (simp add: numbered_list_def)
qed

lemma nl_not_digit [simp]: "nl \<notin> set (dec k)"
  using dec_digits [of nl k] by (auto simp: is_digit_def)

lemma splitNumberedList_lines:
  assumes "list_all plain_item its"
  shows "splitNumberedList (join [nl] (numbered_list k its)) = its"
proof (cases "its = []")
  case True
  then show ?thesis
    by (simp add: numbered_list_def splitNumberedList_def numbered_item_def flush_item_def)
next
  case False
  have "\<forall>l \<in> set (numbered_list k its). nl \<notin> set l"
    using assms by (fastforce simp: numbered_list_def in_set_enumerate_eq list_all_iff
        plain_item_def no_line_break_def)
  moreover from False have "numbered_list k its \<noteq> []" by (cases its) (auto simp: numbered_list_def)
  ultimately have "split_on nl (join [nl] (numbered_list k its)) = numbered_list k its"
    by (intro split_on_join)
  then show ?thesis
    using numbered_lines [OF assms, of "[]" "[]" False k]
    by (simp add: splitNumberedList_def flush_item_def)
qed

lemma splitFrontmatter_lines:
  assumes ys: "\<forall>l \<in> set ys. nl \<notin> set l \<and> trim l \<noteq> ''---''" and bs: "\<forall>l \<in> set bs. nl \<notin> set l"
    and py: "parse_yaml (join [nl] ys) = Some (JObj ob)"
  shows "splitFrontmatter parse_yaml (join [nl] (''---'' # ys @ ''---'' # bs)) =
    Some (ob, join [nl] bs)"
proof -
  have t: "trim ''---'' = ''---''" by (rule trim_trimmed) (simp add: is_ws_def)
  have "split_on nl (join [nl] (''---'' # ys @ ''---'' # bs)) = ''---'' # ys @ ''---'' # bs"
    using ys bs by (intro split_on_join) auto
  then show ?thesis
    using split_at_fence_append [of ys "''---''" bs] ys t py
    by (simp add: splitFrontmatter_def)
qed

lemma place_section_unrecognized:
  "snd (foldl place_section st es) =
     snd st @ map fst (filter (\<lambda>e. section_to_field (trim (to_lower (fst e))) = No_field) es)"
proof (induction es arbitrary: st)
  case (Cons e es)
  obtain d u where "st = (d, u)" by fastforce
  moreover obtain h c where "e = (h, c)" by fastforce
  ultimately show ?case
    using Cons by (auto split: field_lookup.splits)
qed simp

section \<open>Properties\<close>

text \<open>Front matter that holds every field of an intent specification.\<close>

definition sample_frontmatter :: "string \<Rightarrow> (string \<times> json) list" where
  "sample_frontmatter isid =
     [(''id'', JStr isid), (''source_refs'', JArr []), (''explicitness'', JStr ''explicit''),
      (''rationale'', JStr ''why''), (''sourceCapabilityId'', JStr ''BC-META-A''),
      (''sourceFunctionId'', JStr ''FP-META-A''), (''title'', JStr ''T''),
      (''problem'', JStr ''P''), (''goal'', JStr ''G''),
      (''constraints'', JArr [JStr ''fail closed'']),
      (''acceptanceCriteria'', JArr [JStr ''works'']), (''successMetrics'', JArr [JStr ''fast'']),
      (''outOfScope'', JArr [])]"

text \<open>
  C29. Acceptance criteria survive the trip through Markdown: a numbered list of one-line
  criteria, numbered from any start, is read back as exactly these criteria, in order.
\<close>

theorem numbered_list_roundtrip:
  assumes "list_all plain_item items"
  shows "splitNumberedList (join [nl] (numbered_list k items)) = items"
  using assms by (rule splitNumberedList_lines)

lemma numbered_list_roundtrip_witness:
  "splitNumberedList (join [nl] (numbered_list 9 [''2. is a number'', ''works''])) =
     [''2. is a number'', ''works'']"
  by (rule numbered_list_roundtrip)
     (simp add: plain_item_def no_line_break_def trim_def is_ws_def)

text \<open>
  Front matter is cut out at the first line that reads \<open>---\<close> after the opening one: the
  parser gets exactly the lines between the two, and the body is exactly what follows,
  including further lines that read \<open>---\<close>.
\<close>

theorem frontmatter_split:
  assumes "\<forall>l \<in> set ys. nl \<notin> set l \<and> trim l \<noteq> ''---''" "\<forall>l \<in> set bs. nl \<notin> set l"
    and "parse_yaml (join [nl] ys) = Some (JObj ob)"
  shows "splitFrontmatter parse_yaml (join [nl] (''---'' # ys @ ''---'' # bs)) =
    Some (ob, join [nl] bs)"
  using assms by (rule splitFrontmatter_lines)

lemma frontmatter_split_witness:
  "splitFrontmatter (\<lambda>y. if y = ''id: a'' then Some (JObj [(''id'', JStr ''a'')]) else None)
     (join [nl] [''---'', ''id: a'', ''---'', ''# T'', ''---'']) =
     Some ([(''id'', JStr ''a'')], join [nl] [''# T'', ''---''])"
  using frontmatter_split [of "[''id: a'']" "[''# T'', ''---'']"
      "\<lambda>y. if y = ''id: a'' then Some (JObj [(''id'', JStr ''a'')]) else None"
      "[(''id'', JStr ''a'')]"]
  by (simp add: trim_def is_ws_def)

text \<open>
  A normalized intent is valid and accounts for its sections: the draft conforms to the
  schema, and the unrecognized sections are, in order, those whose heading, trimmed and in
  lower case, has no entry in the table of fields.
\<close>

theorem normalize_accounts:
  assumes "normalize parse_yaml raw file = Inr n"
    and "parseMarkdown parse_yaml raw = Some pm"
  shows "intent_specification_ok (draft n) \<and> sourceFile n = file \<and>
    unrecognizedSections n =
      map fst (filter (\<lambda>e. section_to_field (trim (to_lower (fst e))) = No_field)
        (obj_entries (md_sections pm)))"
proof -
  have "unrecognizedSections n =
      snd (foldl place_section (frontmatter pm, []) (obj_entries (md_sections pm)))"
    using assms by (auto simp: normalize_def Let_def split: option.splits prod.splits)
  with assms(1) show ?thesis
    by (simp add: normalize_draft_ok normalize_sourceFile place_section_unrecognized)
qed

lemma normalize_accounts_witness:
  "\<exists>n. normalize (\<lambda>y. Some (JObj (sample_frontmatter ''IS-A'')))
      (join [nl] [''---'', ''---'', ''## Notes'', ''x'', ''## Goal'', ''g'']) ''f'' = Inr n \<and>
     unrecognizedSections n = [''Notes'']"
proof -
  let ?py = "\<lambda>y. Some (JObj (sample_frontmatter ''IS-A''))"
  let ?raw = "join [nl] [''---'', ''---'', ''## Notes'', ''x'', ''## Goal'', ''g'']"
  have "is_ok (normalize ?py ?raw ''f'')" by code_simp
  then obtain n where n: "normalize ?py ?raw ''f'' = Inr n" by (auto simp: is_ok_iff)
  have "parseMarkdown ?py ?raw = Some \<lparr>frontmatter = sample_frontmatter ''IS-A'',
      md_sections = [(''Notes'', ''x''), (''Goal'', ''g'')], md_title = None\<rparr>" by code_simp
  from normalize_accounts [OF n this]
  have "unrecognizedSections n = map fst (filter
      (\<lambda>e. section_to_field (trim (to_lower (fst e))) = No_field)
      (obj_entries [(''Notes'', ''x''), (''Goal'', ''g'')]))" by simp
  also have "\<dots> = [''Notes'']" by code_simp
  finally show ?thesis using n by blast
qed

text \<open>A section named \<open>Constructor\<close> finds an inherited property and is not accounted for.\<close>

lemma constructor_section: "section_to_field (trim (to_lower ''Constructor'')) = Inherited_property"
  by code_simp

end
