(* ===== verification/Compiler_Passes.thy ===== *)
theory Compiler_Passes
  imports Intent_Markdown
begin

text \<open>
  The transformation passes of the compiler (\<open>packages/compiler/src/passes\<close>): atoms
  (\<open>01-extract-atoms.ts\<close>), contracts (\<open>02-derive-contracts.ts\<close>), invariants
  (\<open>03-derive-invariants.ts\<close>), dependencies (\<open>04\<close>), validations (\<open>05\<close>) and the id
  helpers of \<open>_shared.ts\<close>. Sorting by id uses \<open>localeCompare\<close>, which on the characters of
  artifact ids (hyphen, digits, capitals) is the lexicographic order of the characters.
\<close>

section \<open>Id helpers\<close>

definition is_subject :: "string \<Rightarrow> string" where
  "is_subject i = replace_prefix ''IS-'' [] i"

definition contractId :: "string \<Rightarrow> string \<Rightarrow> string" where
  "contractId i tag = ''CONTRACT-'' @ is_subject i @ ''-'' @ tag"

definition executableSpecificationId :: "string \<Rightarrow> string" where
  "executableSpecificationId i = ''ES-'' @ is_subject i"

definition atomId :: "string \<Rightarrow> string \<Rightarrow> nat \<Rightarrow> string" where
  "atomId i tag index =
     ''ATOM-'' @ is_subject i @ ''-'' @ tag @ ''-'' @ pad_start 2 (CHR ''0'') (dec index)"

lemma is_subject_IS [simp]: "is_subject (CHR ''I'' # CHR ''S'' # CHR ''-'' # s) = s"
  using replace_prefix_append [of "''IS-''" "[]" s] by (simp add: is_subject_def)

section \<open>Atoms\<close>

definition makeAtom ::
  "string \<Rightarrow> string \<Rightarrow> atom_category \<Rightarrow> string \<Rightarrow> string \<Rightarrow> nat \<Rightarrow> requirement_atom" where
  "makeAtom aid isid cat obj section index =
     \<lparr>artifact_id = aid, source_refs = [isid], explicitness = Explicit,
      rationale = ''Extracted from '' @ isid @ '' '' @ section @ '' item '' @ dec index,
      category = cat, subject = ''Coherence Verification'', action = ''shall'', object = obj,
      conditions = [], qualifiers = [], successCondition = None\<rparr>"

definition section_atoms ::
  "string \<Rightarrow> string \<Rightarrow> atom_category \<Rightarrow> string \<Rightarrow> string list \<Rightarrow> requirement_atom list" where
  "section_atoms isid tag cat section items =
     map (\<lambda>(i, t). makeAtom (atomId isid tag (i + 1)) isid cat t section (i + 1))
       (enumerate 0 items)"

definition extractAtoms :: "normalized_intent \<Rightarrow> requirement_atom list" where
  "extractAtoms n =
     (let d = draft n; i = artifact_id d in
      section_atoms i ''AC'' Acceptance ''acceptance criteria'' (acceptanceCriteria d) @
      section_atoms i ''CONSTRAINT'' Constraint ''constraints'' (constraints d) @
      section_atoms i ''METRIC'' Nfr ''success metrics'' (successMetrics d))"

section \<open>Contracts\<close>

fun categoryForKind :: "atom_category \<Rightarrow> contract_kind" where
  "categoryForKind Constraint = Invariant_kind"
| "categoryForKind Acceptance = Behavior"
| "categoryForKind Nfr = Behavior"
| "categoryForKind _ = Behavior"

definition buildContract :: "string \<Rightarrow> atom_category \<Rightarrow> requirement_atom list \<Rightarrow> contract" where
  "buildContract isid cat as =
     (let ids = map artifact_id as in
      \<lparr>artifact_id = contractId isid (to_upper (category_str cat)),
       source_refs = isid # ids, explicitness = Explicit,
       rationale = ''Derived from '' @ dec (length as) @ '' '' @ category_str cat @
         ''-category atoms in '' @ isid,
       contract_kind = categoryForKind cat,
       contract_statement = ''Aggregate contract for '' @ category_str cat @
         ''-category requirements of '' @ isid,
       producerHint = None, consumerHints = [], contract_atoms = ids\<rparr>)"

text \<open>The buckets by category: a \<open>Map\<close> filled in the order of the atoms.\<close>

definition add_to_bucket ::
  "(atom_category \<times> requirement_atom list) list \<Rightarrow> requirement_atom \<Rightarrow>
   (atom_category \<times> requirement_atom list) list" where
  "add_to_bucket m a =
     AList.update (category a)
       ((case map_of m (category a) of None \<Rightarrow> [] | Some b \<Rightarrow> b) @ [a]) m"

definition by_category ::
  "requirement_atom list \<Rightarrow> (atom_category \<times> requirement_atom list) list" where
  "by_category as = foldl add_to_bucket [] as"

definition deriveContracts :: "normalized_intent \<Rightarrow> requirement_atom list \<Rightarrow> contract list" where
  "deriveContracts n as =
     sort_key artifact_id
       (map (\<lambda>(c, b). buildContract (artifact_id (draft n)) c b)
         (filter (\<lambda>(c, b). b \<noteq> []) (by_category as)))"

section \<open>Invariants\<close>

text \<open>
  The patterns of the templates, on the lower-cased text. \<open>any_char\<close> is \<open>.\<close>: one UTF-16
  code unit that ends no line (in UTF-8, one to three bytes).
\<close>

definition line_break_at :: "string \<Rightarrow> bool" where
  "line_break_at s \<longleftrightarrow>
     starts_with [nl] s \<or> starts_with [cr] s \<or> starts_with [CHR 0xE2, CHR 0x80, CHR 0xA8] s \<or>
     starts_with [CHR 0xE2, CHR 0x80, CHR 0xA9] s"

fun any_char :: "string \<Rightarrow> string option" where
  "any_char [] = None"
| "any_char (c # cs) =
     (if line_break_at (c # cs) then None
      else if (of_char c :: nat) < 128 then Some cs
      else if 192 \<le> (of_char c :: nat) \<and> (of_char c :: nat) < 224 then Some (drop 1 cs)
      else if 224 \<le> (of_char c :: nat) \<and> (of_char c :: nat) < 240 then Some (drop 2 cs)
      else None)"

text \<open>\<open>/a.?b/\<close>\<close>

definition optional_gap_here :: "string \<Rightarrow> string \<Rightarrow> string \<Rightarrow> bool" where
  "optional_gap_here a b s \<longleftrightarrow>
     starts_with a s \<and>
     (starts_with b (drop (length a) s) \<or>
      (case any_char (drop (length a) s) of None \<Rightarrow> False | Some r \<Rightarrow> starts_with b r))"

fun optional_gap :: "string \<Rightarrow> string \<Rightarrow> string \<Rightarrow> bool" where
  "optional_gap a b [] \<longleftrightarrow> optional_gap_here a b []"
| "optional_gap a b (c # cs) \<longleftrightarrow> optional_gap_here a b (c # cs) \<or> optional_gap a b cs"

text \<open>\<open>/a.+b/\<close>\<close>

fun later_on_line :: "string \<Rightarrow> string \<Rightarrow> bool" where
  "later_on_line b [] = False"
| "later_on_line b (c # cs) \<longleftrightarrow>
     \<not> line_break_at (c # cs) \<and> (starts_with b cs \<or> later_on_line b cs)"

fun gap :: "string \<Rightarrow> string \<Rightarrow> string \<Rightarrow> bool" where
  "gap a b [] = False"
| "gap a b (c # cs) \<longleftrightarrow>
     (starts_with a (c # cs) \<and> later_on_line b (drop (length a) (c # cs))) \<or> gap a b cs"

record invariant_template =
  template_tag :: string
  template_matches :: "string \<Rightarrow> bool"
  template_statement :: string
  template_detector :: detector_spec
  template_impact :: violation_impact

definition determinism_template :: invariant_template where
  "determinism_template =
     \<lparr>template_tag = ''DETERMINISM'',
      template_matches =
        (\<lambda>s. contains_str ''determinis'' (to_lower s) \<or> contains_str ''byte-identic'' (to_lower s)),
      template_statement = ''Coherence Verification produces byte-identical CoherenceVerificationReport contents for identical validated inputs modulo id and timestamp'',
      template_detector =
        \<lparr>detector_name = ''coherence_verification_determinism_detector'',
         evidence_sources = [''build.test_output'', ''ci.regression_replay''],
         direct_rules = [''golden test mismatch between two runs of the same fixture''],
         warning_rules = [], regression_policy = [(''direct_violation'', Regressed)],
         incident_tags = [''determinism'', ''audit'']\<rparr>,
      template_impact = High\<rparr>"

definition fail_closed_template :: invariant_template where
  "fail_closed_template =
     \<lparr>template_tag = ''FAIL-CLOSED'',
      template_matches =
        (\<lambda>s. optional_gap ''fail'' ''closed'' (to_lower s) \<or>
             contains_str ''partial pass is fail'' (to_lower s) \<or>
             optional_gap ''soft'' ''warning'' (to_lower s)),
      template_statement = ''Coherence Verification emits overall=fail whenever any active coverage check fails; there is no soft-warning mode'',
      template_detector =
        \<lparr>detector_name = ''coherence_verification_fail_closed_detector'',
         evidence_sources = [''build.test_output''],
         direct_rules = [''CoherenceVerificationReport with overall=pass and any check.status=fail''],
         warning_rules = [], regression_policy = [(''direct_violation'', Regressed)],
         incident_tags = [''fail_closed'', ''discipline'']\<rparr>,
      template_impact = High\<rparr>"

definition lineage_template :: invariant_template where
  "lineage_template =
     \<lparr>template_tag = ''LINEAGE'',
      template_matches =
        (\<lambda>s. contains_str ''lineage'' (to_lower s) \<or> contains_str ''source_refs'' (to_lower s) \<or>
             contains_str ''rationale'' (to_lower s)),
      template_statement = ''Every CoherenceVerificationReport's source_refs cites the Intent Specification ID and every artifact ID referenced in failing check detail arrays'',
      template_detector =
        \<lparr>detector_name = ''coherence_verification_lineage_detector'',
         evidence_sources = [''build.test_output'', ''audit.verification_report_scan''],
         direct_rules =
           [''CoherenceVerificationReport whose source_refs omits the compiled Intent Specification ID'',
            ''CoherenceVerificationReport whose source_refs omits a flagged artifact ID present in a failing check's detail array''],
         warning_rules = [], regression_policy = [(''direct_violation'', Regressed)],
         incident_tags = [''lineage'', ''audit'']\<rparr>,
      template_impact = High\<rparr>"

definition emission_template :: invariant_template where
  "emission_template =
     \<lparr>template_tag = ''EMISSION'',
      template_matches =
        (\<lambda>s. contains_str ''emit'' (to_lower s) \<or> contains_str ''emission'' (to_lower s) \<or>
             gap ''writes'' ''report'' (to_lower s) \<or>
             gap ''verification report'' ''disk'' (to_lower s)),
      template_statement = ''Coherence Verification writes a Verification Report to specs/verification-reports/ on every invocation, pass or fail, before returning control'',
      template_detector =
        \<lparr>detector_name = ''coherence_verification_emission_detector'',
         evidence_sources = [''build.test_output'', ''ci.filesystem_snapshot''],
         direct_rules = [''Coherence Verification invocation where verification-reports directory contains no matching file after return''],
         warning_rules = [], regression_policy = [(''direct_violation'', Regressed)],
         incident_tags = [''emission'', ''audit'']\<rparr>,
      template_impact = Medium\<rparr>"

definition invariant_templates :: "invariant_template list" where
  "invariant_templates =
     [determinism_template, fail_closed_template, lineage_template, emission_template]"

definition template_invariant ::
  "string \<Rightarrow> string list \<Rightarrow> requirement_atom \<Rightarrow> invariant_template \<Rightarrow> invariant_artifact" where
  "template_invariant isid contract_ids a t =
     \<lparr>artifact_id = ''INV-'' @ is_subject isid @ ''-'' @ template_tag t,
      source_refs = [artifact_id a, isid], explicitness = Explicit,
      rationale = ''Derived from constraint atom '' @ artifact_id a @ '' matching template '' @
        template_tag t,
      functionId = None, scope = Workflow, invariant_statement = template_statement t,
      violationImpact = template_impact t, invariant_atoms = [artifact_id a],
      invariant_contracts = contract_ids, detector = template_detector t\<rparr>"

text \<open>The state of the two loops: the invariants so far and the tags emitted.\<close>

definition try_template ::
  "string \<Rightarrow> string list \<Rightarrow> requirement_atom \<Rightarrow> invariant_artifact list \<times> string list \<Rightarrow>
   invariant_template \<Rightarrow> invariant_artifact list \<times> string list" where
  "try_template isid cids a st t =
     (let (invs, emitted) = st in
      if template_tag t \<in> set emitted then (invs, emitted)
      else if \<not> template_matches t (object a) then (invs, emitted)
      else (invs @ [template_invariant isid cids a t], oset_add (template_tag t) emitted))"

definition try_atom ::
  "string \<Rightarrow> string list \<Rightarrow> invariant_artifact list \<times> string list \<Rightarrow> requirement_atom \<Rightarrow>
   invariant_artifact list \<times> string list" where
  "try_atom isid cids st a =
     (if category a \<noteq> Constraint then st
      else foldl (try_template isid cids a) st invariant_templates)"

definition deriveInvariants ::
  "normalized_intent \<Rightarrow> requirement_atom list \<Rightarrow> contract list \<Rightarrow> invariant_artifact list" where
  "deriveInvariants n as cs =
     (let isid = artifact_id (draft n);
          cids = (case find (\<lambda>c. artifact_id c = contractId isid ''CONSTRAINT'') cs of
                    None \<Rightarrow> [] | Some c \<Rightarrow> [artifact_id c])
      in sort_key artifact_id (fst (foldl (try_atom isid cids) ([], []) as)))"

section \<open>Dependencies and validations\<close>

definition deriveDependencies ::
  "normalized_intent \<Rightarrow> requirement_atom list \<Rightarrow> contract list \<Rightarrow> invariant_artifact list \<Rightarrow>
   dependency list" where
  "deriveDependencies n as cs invs = []"

definition validation_for :: "string \<Rightarrow> nat \<Rightarrow> invariant_artifact \<Rightarrow> validation_spec" where
  "validation_for isid index iv =
     \<lparr>artifact_id = ''VAL-'' @ is_subject isid @ ''-VAL-'' @ pad_start 2 (CHR ''0'') (dec index),
      source_refs = [artifact_id iv, isid] @ invariant_atoms iv, explicitness = Explicit,
      rationale = ''Regression validation covering invariant '' @ artifact_id iv @
        ''; required by Coherence Verification invariant_coverage discipline'',
      validation_kind = Property,
      validation_statement = ''Assert invariant- '' @ invariant_statement iv,
      targetRefs = [artifact_id iv], coversAtomIds = invariant_atoms iv,
      coversContractIds = [], coversInvariantIds = [artifact_id iv], priority = Required\<rparr>"

definition deriveValidations ::
  "normalized_intent \<Rightarrow> requirement_atom list \<Rightarrow> contract list \<Rightarrow> invariant_artifact list \<Rightarrow>
   dependency list \<Rightarrow> validation_spec list" where
  "deriveValidations n as cs invs deps =
     sort_key artifact_id
       (map (\<lambda>(i, iv). validation_for (artifact_id (draft n)) (i + 1) iv) (enumerate 0 invs))"

section \<open>What the passes produce\<close>

text \<open>Atoms: one per listed item, in order, with distinct ids.\<close>

lemma length_section_atoms [simp]: "length (section_atoms i tag c sec items) = length items"
  by (simp add: section_atoms_def)

lemma section_atoms_object: "map object (section_atoms i tag c sec items) = items"
  by (simp add: section_atoms_def makeAtom_def comp_def split_def)

lemma section_atoms_elim:
  assumes "a \<in> set (section_atoms i tag c sec items)"
  obtains k t where "t \<in> set items" "a = makeAtom (atomId i tag (k + 1)) i c t sec (k + 1)"
proof -
  from assms obtain k where "k < length items"
    "a = makeAtom (atomId i tag (k + 1)) i c (items ! k) sec (k + 1)"
    unfolding section_atoms_def by (auto simp: in_set_enumerate_eq)
  with that [of "items ! k" k] show ?thesis by simp
qed

lemma atomId_inject: "atomId i tag m = atomId i tag n \<longleftrightarrow> m = n"
  by (simp add: atomId_def)

lemma section_atoms_ids:
  "map artifact_id (section_atoms i tag c sec items) =
     map (\<lambda>k. atomId i tag (k + 1)) [0..<length items]"
  by (rule nth_equalityI) (simp_all add: section_atoms_def makeAtom_def nth_enumerate_eq)

lemma distinct_section_atoms: "distinct (map artifact_id (section_atoms i tag c sec items))"
  by (simp add: section_atoms_ids distinct_map inj_on_def atomId_inject)

lemma extractAtoms_category:
  "a \<in> set (extractAtoms n) \<Longrightarrow> category a \<in> {Acceptance, Constraint, Nfr}"
  by (auto simp: extractAtoms_def Let_def makeAtom_def elim!: section_atoms_elim)

lemma extractAtoms_source:
  "a \<in> set (extractAtoms n) \<Longrightarrow> source_refs a = [artifact_id (draft n)]"
  by (auto simp: extractAtoms_def Let_def makeAtom_def elim!: section_atoms_elim)

lemma extractAtoms_object:
  "map object (extractAtoms n) =
     acceptanceCriteria (draft n) @ constraints (draft n) @ successMetrics (draft n)"
  by (simp add: extractAtoms_def Let_def section_atoms_object)

lemma atomId_tag_differs:
  "hd s \<noteq> hd t \<Longrightarrow> s \<noteq> [] \<Longrightarrow> t \<noteq> [] \<Longrightarrow> atomId i s m \<noteq> atomId i t n"
  by (cases s; cases t) (auto simp: atomId_def)

lemma section_atoms_disjoint:
  assumes "hd s \<noteq> hd t" "s \<noteq> []" "t \<noteq> []"
  shows "set (map artifact_id (section_atoms i s c1 n1 xs)) \<inter>
         set (map artifact_id (section_atoms i t c2 n2 ys)) = {}"
  unfolding section_atoms_ids using atomId_tag_differs [OF assms] by auto

lemma distinct_extractAtoms: "distinct (map artifact_id (extractAtoms n))"
  by (simp add: extractAtoms_def Let_def distinct_section_atoms section_atoms_disjoint
      Int_Un_distrib del: set_map)

text \<open>Contracts: one for each category that has atoms, holding exactly its atoms.\<close>

lemma map_of_add_to_bucket:
  "map_of (add_to_bucket m a) =
     (map_of m)(category a \<mapsto> (case map_of m (category a) of None \<Rightarrow> [] | Some b \<Rightarrow> b) @ [a])"
  by (simp add: add_to_bucket_def update_conv')

lemma distinct_add_to_bucket:
  "distinct (map fst m) \<Longrightarrow> distinct (map fst (add_to_bucket m a))"
  by (simp add: add_to_bucket_def distinct_update)

lemma by_category_rev_induct: "by_category (as @ [a]) = add_to_bucket (by_category as) a"
  by (simp add: by_category_def)

lemma distinct_by_category: "distinct (map fst (by_category as))"
  by (induction as rule: rev_induct)
     (simp_all add: by_category_rev_induct distinct_add_to_bucket, simp add: by_category_def)

lemma map_of_by_category:
  "map_of (by_category as) c =
     (if \<exists>a \<in> set as. category a = c then Some (filter (\<lambda>a. category a = c) as) else None)"
proof (induction as arbitrary: c rule: rev_induct)
  case Nil
  then show ?case by (simp add: by_category_def)
next
  case (snoc a as)
  show ?case
    by (auto simp: by_category_rev_induct map_of_add_to_bucket snoc filter_empty_conv)
qed

lemma in_by_category:
  "(c, b) \<in> set (by_category as) \<longleftrightarrow>
     b = filter (\<lambda>a. category a = c) as \<and> (\<exists>a \<in> set as. category a = c)"
  unfolding map_of_eq_Some_iff [OF distinct_by_category, symmetric] map_of_by_category
  by (auto split: if_splits)

lemma in_deriveContracts:
  "k \<in> set (deriveContracts n as) \<longleftrightarrow>
     (\<exists>c. (\<exists>a \<in> set as. category a = c) \<and>
          k = buildContract (artifact_id (draft n)) c (filter (\<lambda>a. category a = c) as))"
proof -
  have "set (filter (\<lambda>(c, b). b \<noteq> []) (by_category as)) =
      {(c, filter (\<lambda>a. category a = c) as) | c. \<exists>a \<in> set as. category a = c}"
    by (auto simp: in_by_category filter_empty_conv)
  then show ?thesis by (auto simp: deriveContracts_def simp del: set_filter)
qed

lemma deriveContracts_covers:
  assumes "a \<in> set as"
  shows "\<exists>k \<in> set (deriveContracts n as). artifact_id a \<in> set (contract_atoms k)"
proof -
  let ?k = "buildContract (artifact_id (draft n)) (category a)
    (filter (\<lambda>x. category x = category a) as)"
  have "?k \<in> set (deriveContracts n as)" using assms by (auto simp: in_deriveContracts)
  moreover have "artifact_id a \<in> set (contract_atoms ?k)"
    using assms by (auto simp: buildContract_def Let_def)
  ultimately show ?thesis by blast
qed

lemma sorted_deriveContracts: "sorted (map artifact_id (deriveContracts n as))"
  by (simp add: deriveContracts_def)

text \<open>Invariants: what the two loops keep.\<close>

definition emitted_ok ::
  "string \<Rightarrow> string list \<Rightarrow> requirement_atom list \<Rightarrow> invariant_artifact list \<times> string list \<Rightarrow> bool" where
  "emitted_ok isid cids as st \<longleftrightarrow>
     (\<forall>iv \<in> set (fst st). \<exists>a \<in> set as. \<exists>t \<in> set invariant_templates.
        category a = Constraint \<and> template_matches t (object a) \<and>
        iv = template_invariant isid cids a t) \<and>
     distinct (map artifact_id (fst st)) \<and>
     (\<forall>iv \<in> set (fst st). \<exists>t \<in> set invariant_templates. template_tag t \<in> set (snd st) \<and>
        artifact_id iv = ''INV-'' @ is_subject isid @ ''-'' @ template_tag t)"

lemma try_template_ok:
  assumes "emitted_ok isid cids as st" "a \<in> set as" "category a = Constraint"
    "t \<in> set invariant_templates"
  shows "emitted_ok isid cids as (try_template isid cids a st t)"
  using assms
  by (cases st) (auto simp: emitted_ok_def try_template_def Let_def template_invariant_def)

lemma foldl_try_template_ok:
  "emitted_ok isid cids as st \<Longrightarrow> a \<in> set as \<Longrightarrow> category a = Constraint \<Longrightarrow>
   set ts \<subseteq> set invariant_templates \<Longrightarrow>
   emitted_ok isid cids as (foldl (try_template isid cids a) st ts)"
  by (induction ts arbitrary: st) (simp_all add: try_template_ok)

lemma foldl_try_atom_ok:
  "emitted_ok isid cids as st \<Longrightarrow> set bs \<subseteq> set as \<Longrightarrow>
   emitted_ok isid cids as (foldl (try_atom isid cids) st bs)"
  by (induction bs arbitrary: st) (simp_all add: try_atom_def foldl_try_template_ok)

lemma derived_emitted_ok:
  "emitted_ok isid cids as (foldl (try_atom isid cids) ([], []) as)"
  by (rule foldl_try_atom_ok) (simp_all add: emitted_ok_def)

lemma in_deriveInvariants:
  assumes "iv \<in> set (deriveInvariants n as cs)"
  obtains a t cids where "a \<in> set as" "category a = Constraint" "t \<in> set invariant_templates"
    "template_matches t (object a)" "iv = template_invariant (artifact_id (draft n)) cids a t"
    "set cids \<subseteq> artifact_id ` set cs"
proof -
  let ?cids = "case find (\<lambda>c. artifact_id c = contractId (artifact_id (draft n)) ''CONSTRAINT'') cs of
      None \<Rightarrow> [] | Some c \<Rightarrow> [artifact_id c]"
  have sub: "set ?cids \<subseteq> artifact_id ` set cs"
    by (cases "find (\<lambda>c. artifact_id c = contractId (artifact_id (draft n)) ''CONSTRAINT'') cs")
       (auto dest: find_Some_in)
  have "iv \<in> set (fst (foldl (try_atom (artifact_id (draft n)) ?cids) ([], []) as))"
    using assms by (simp add: deriveInvariants_def Let_def)
  then obtain a t where "a \<in> set as" "t \<in> set invariant_templates" "category a = Constraint"
    "template_matches t (object a)" "iv = template_invariant (artifact_id (draft n)) ?cids a t"
    using derived_emitted_ok [of "artifact_id (draft n)" ?cids as] unfolding emitted_ok_def by blast
  with sub show ?thesis using that by blast
qed

lemma distinct_deriveInvariants: "distinct (map artifact_id (deriveInvariants n as cs))"
proof -
  let ?cids = "case find (\<lambda>c. artifact_id c = contractId (artifact_id (draft n)) ''CONSTRAINT'') cs of
      None \<Rightarrow> [] | Some c \<Rightarrow> [artifact_id c]"
  let ?l = "fst (foldl (try_atom (artifact_id (draft n)) ?cids) ([], []) as)"
  have "distinct (map artifact_id ?l)"
    using derived_emitted_ok [of "artifact_id (draft n)" ?cids as] by (simp add: emitted_ok_def)
  moreover have "mset (map artifact_id (sort_key artifact_id ?l)) = mset (map artifact_id ?l)"
    by simp
  ultimately have "distinct (map artifact_id (sort_key artifact_id ?l))"
    by (metis mset_eq_imp_distinct_iff)
  then show ?thesis by (simp add: deriveInvariants_def Let_def)
qed

lemma template_detectors_ok:
  "t \<in> set invariant_templates \<Longrightarrow> detector_spec_ok (template_detector t)"
  by (auto simp: invariant_templates_def detector_spec_ok_def determinism_template_def
      fail_closed_template_def lineage_template_def emission_template_def)

lemma deriveInvariants_detector:
  "iv \<in> set (deriveInvariants n as cs) \<Longrightarrow> detector_spec_ok (detector iv)"
  by (erule in_deriveInvariants) (simp add: template_invariant_def template_detectors_ok)

text \<open>Validations: one for each invariant, covering it.\<close>

lemma in_deriveValidations:
  "v \<in> set (deriveValidations n as cs invs deps) \<longleftrightarrow>
     (\<exists>k < length invs. v = validation_for (artifact_id (draft n)) (k + 1) (invs ! k))"
proof -
  have "set (enumerate 0 invs) = (\<lambda>k. (k, invs ! k)) ` {..<length invs}"
    by (auto simp: in_set_enumerate_eq)
  then show ?thesis by (auto simp: deriveValidations_def image_image)
qed

lemma deriveValidations_covers:
  "iv \<in> set invs \<Longrightarrow>
     \<exists>v \<in> set (deriveValidations n as cs invs deps). artifact_id iv \<in> set (coversInvariantIds v)"
proof -
  assume "iv \<in> set invs"
  then obtain k where k: "k < length invs" "iv = invs ! k" by (auto simp: in_set_conv_nth)
  let ?v = "validation_for (artifact_id (draft n)) (k + 1) (invs ! k)"
  have "?v \<in> set (deriveValidations n as cs invs deps)"
    using k by (auto simp: in_deriveValidations)
  moreover have "artifact_id iv \<in> set (coversInvariantIds ?v)"
    using k by (simp add: validation_for_def)
  ultimately show ?thesis by blast
qed

lemma deriveValidations_not_dead:
  "v \<in> set (deriveValidations n as cs invs deps) \<Longrightarrow> coversInvariantIds v \<noteq> []"
  by (auto simp: in_deriveValidations validation_for_def)

lemma length_deriveValidations [simp]:
  "length (deriveValidations n as cs invs deps) = length invs"
  by (simp add: deriveValidations_def)

section \<open>Exactness of the passes\<close>

text \<open>The buckets hold every atom once.\<close>

lemma update_buckets:
  "distinct (map fst m) \<Longrightarrow>
     mset (concat (map snd
       (AList.update k ((case map_of m k of None \<Rightarrow> [] | Some b \<Rightarrow> b) @ [a]) m))) =
     add_mset a (mset (concat (map snd m)))"
proof (induction m)
  case (Cons e m)
  obtain k' b where e: "e = (k', b)" by fastforce
  show ?case
  proof (cases "k' = k")
    case False
    with Cons e show ?thesis by simp
  qed (simp add: e)
qed simp

lemma buckets_hold_all: "mset (concat (map snd (by_category as))) = mset as"
proof (induction as rule: rev_induct)
  case Nil
  then show ?case by (simp add: by_category_def)
next
  case (snoc a as)
  then show ?case
    by (simp add: by_category_rev_induct add_to_bucket_def update_buckets distinct_by_category)
qed

lemma contract_atoms_build: "contract_atoms (buildContract i c as) = map artifact_id as"
  by (simp add: buildContract_def Let_def)

lemma mset_map_sort_key: "mset (map f (sort_key g xs)) = mset (map f xs)"
  by simp

lemma mset_concat_perm: "mset xs = mset ys \<Longrightarrow> mset (concat xs) = mset (concat ys)"
  by (metis mset_concat mset_map sum_mset_sum_list)

lemma concat_nonempty: "concat (map f (filter (\<lambda>x. f x \<noteq> []) xs)) = concat (map f xs)"
  by (induction xs) auto

text \<open>The tags the loops emit, and the invariants they stand for.\<close>

definition matched_tags :: "requirement_atom list \<Rightarrow> string set" where
  "matched_tags as =
     {template_tag t |t. t \<in> set invariant_templates \<and>
        (\<exists>a \<in> set as. category a = Constraint \<and> template_matches t (object a))}"

definition tag_id :: "string \<Rightarrow> string \<Rightarrow> string" where
  "tag_id isid tag = ''INV-'' @ is_subject isid @ ''-'' @ tag"

lemma try_template_tags:
  "set (snd (try_template isid cids a st t)) =
     set (snd st) \<union> (if template_matches t (object a) then {template_tag t} else {})"
  by (cases st) (auto simp: try_template_def)

lemma try_template_ids:
  "artifact_id ` set (fst st) = tag_id isid ` set (snd st) \<Longrightarrow>
     artifact_id ` set (fst (try_template isid cids a st t)) =
     tag_id isid ` set (snd (try_template isid cids a st t))"
  by (cases st) (auto simp: try_template_def template_invariant_def tag_id_def oset_add_def)

lemma foldl_try_template_tags:
  "set (snd (foldl (try_template isid cids a) st ts)) =
     set (snd st) \<union> {template_tag t |t. t \<in> set ts \<and> template_matches t (object a)}"
  by (induction ts arbitrary: st) (auto simp: try_template_tags)

lemma foldl_try_template_ids:
  "artifact_id ` set (fst st) = tag_id isid ` set (snd st) \<Longrightarrow>
     artifact_id ` set (fst (foldl (try_template isid cids a) st ts)) =
     tag_id isid ` set (snd (foldl (try_template isid cids a) st ts))"
  by (induction ts arbitrary: st) (simp_all add: try_template_ids)

lemma foldl_try_atom_tags:
  "set (snd (foldl (try_atom isid cids) st as)) = set (snd st) \<union> matched_tags as"
proof (induction as arbitrary: st)
  case Nil
  then show ?case by (simp add: matched_tags_def)
next
  case (Cons a as)
  have "matched_tags (a # as) = matched_tags as \<union>
      (if category a = Constraint
       then {template_tag t |t. t \<in> set invariant_templates \<and> template_matches t (object a)} else {})"
    by (auto simp: matched_tags_def)
  with Cons show ?case by (auto simp: try_atom_def foldl_try_template_tags)
qed

lemma foldl_try_atom_ids:
  "artifact_id ` set (fst st) = tag_id isid ` set (snd st) \<Longrightarrow>
     artifact_id ` set (fst (foldl (try_atom isid cids) st as)) =
     tag_id isid ` set (snd (foldl (try_atom isid cids) st as))"
  by (induction as arbitrary: st) (simp_all add: try_atom_def foldl_try_template_ids)

section \<open>Properties\<close>

text \<open>
  C28. Atom extraction loses nothing: the objects of the atoms are the acceptance criteria,
  the constraints and the success metrics, each list in its order; every atom cites the
  intent; and no two atoms share an id, however many items a list has.
\<close>

theorem extractAtoms_exact:
  "map object (extractAtoms n) =
     acceptanceCriteria (draft n) @ constraints (draft n) @ successMetrics (draft n) \<and>
   map category (extractAtoms n) =
     replicate (length (acceptanceCriteria (draft n))) Acceptance @
     replicate (length (constraints (draft n))) Constraint @
     replicate (length (successMetrics (draft n))) Nfr \<and>
   list_all (\<lambda>a. source_refs a = [artifact_id (draft n)]) (extractAtoms n) \<and>
   distinct (map artifact_id (extractAtoms n))"
proof -
  have "map category (section_atoms i tag c sec items) = replicate (length items) c" for i tag c sec items
    by (rule nth_equalityI) (simp_all add: section_atoms_def nth_enumerate_eq makeAtom_def)
  then have "map category (extractAtoms n) =
     replicate (length (acceptanceCriteria (draft n))) Acceptance @
     replicate (length (constraints (draft n))) Constraint @
     replicate (length (successMetrics (draft n))) Nfr"
    by (simp add: extractAtoms_def Let_def)
  then show ?thesis
    using extractAtoms_object extractAtoms_source distinct_extractAtoms by (simp add: list_all_iff)
qed

text \<open>
  The contracts partition the atoms: taken together they cite every atom exactly once,
  whatever the atoms are, and they come in ascending order of ids.
\<close>

theorem deriveContracts_partition:
  "mset (concat (map contract_atoms (deriveContracts n as))) = mset (map artifact_id as) \<and>
   sorted (map artifact_id (deriveContracts n as))"
proof -
  let ?b = "by_category as" and ?i = "artifact_id (draft n)"
  let ?g = "\<lambda>(c, b). buildContract ?i c b"
  have "mset (map contract_atoms (deriveContracts n as)) =
      mset (map contract_atoms (map ?g (filter (\<lambda>(c, b). b \<noteq> []) ?b)))"
    unfolding deriveContracts_def by (rule mset_map_sort_key)
  then have "mset (concat (map contract_atoms (deriveContracts n as))) =
      mset (concat (map contract_atoms (map ?g (filter (\<lambda>(c, b). b \<noteq> []) ?b))))"
    by (rule mset_concat_perm)
  also have "map contract_atoms (map ?g (filter (\<lambda>(c, b). b \<noteq> []) ?b)) =
      map (\<lambda>e. map artifact_id (snd e)) (filter (\<lambda>e. map artifact_id (snd e) \<noteq> []) ?b)"
    by (simp add: split_def contract_atoms_build)
  also have "concat \<dots> = map artifact_id (concat (map snd ?b))"
    unfolding concat_nonempty by (simp add: map_concat comp_def)
  also have "mset \<dots> = mset (map artifact_id as)"
    using buckets_hold_all [of as] by (simp only: mset_map)
  finally show ?thesis using sorted_deriveContracts by blast
qed

text \<open>
  The invariants are exactly the templates that match: there is an invariant for a
  template if and only if some constraint atom matches its pattern, and never two for one.
\<close>

theorem deriveInvariants_exact:
  "artifact_id ` set (deriveInvariants n as cs) =
     {''INV-'' @ is_subject (artifact_id (draft n)) @ ''-'' @ template_tag t |t.
        t \<in> set invariant_templates \<and>
        (\<exists>a \<in> set as. category a = Constraint \<and> template_matches t (object a))} \<and>
   distinct (map artifact_id (deriveInvariants n as cs))"
proof -
  let ?i = "artifact_id (draft n)"
  have "artifact_id ` set (fst (foldl (try_atom ?i c) ([], []) as)) = tag_id ?i ` matched_tags as"
    for c using foldl_try_atom_ids [of "([], [])" ?i c as] by (simp add: foldl_try_atom_tags)
  then have "artifact_id ` set (deriveInvariants n as cs) = tag_id ?i ` matched_tags as"
    by (simp add: deriveInvariants_def Let_def)
  also have "\<dots> = {''INV-'' @ is_subject ?i @ ''-'' @ template_tag t |t.
        t \<in> set invariant_templates \<and>
        (\<exists>a \<in> set as. category a = Constraint \<and> template_matches t (object a))}"
    by (auto simp: matched_tags_def tag_id_def)
  finally show ?thesis using distinct_deriveInvariants by blast
qed

text \<open>
  Validations and invariants correspond one to one: every invariant is covered by exactly
  one validation, no validation covers anything else, and each carries the atoms of its
  invariant.
\<close>

theorem deriveValidations_bijective:
  "mset (map coversInvariantIds (deriveValidations n as cs invs deps)) =
     mset (map (\<lambda>v. [artifact_id v]) invs) \<and>
   mset (map coversAtomIds (deriveValidations n as cs invs deps)) = mset (map invariant_atoms invs) \<and>
   list_all (\<lambda>v. coversContractIds v = []) (deriveValidations n as cs invs deps)"
proof -
  let ?f = "\<lambda>(i, iv). validation_for (artifact_id (draft n)) (i + 1) iv"
  have "map coversInvariantIds (map ?f (enumerate 0 invs)) = map (\<lambda>v. [artifact_id v]) invs"
    "map coversAtomIds (map ?f (enumerate 0 invs)) = map invariant_atoms invs"
    by (auto intro!: nth_equalityI simp: nth_enumerate_eq validation_for_def)
  then have "mset (map coversInvariantIds (deriveValidations n as cs invs deps)) =
      mset (map (\<lambda>v. [artifact_id v]) invs)"
    "mset (map coversAtomIds (deriveValidations n as cs invs deps)) = mset (map invariant_atoms invs)"
    unfolding deriveValidations_def mset_map_sort_key by (simp_all only:)
  then show ?thesis by (auto simp: list_all_iff in_deriveValidations validation_for_def)
qed

end
