(* ===== verification/Executable_Assembly.thy ===== *)
theory Executable_Assembly
  imports Artifact_Schemas Compiler_Passes Node_Paths
begin

text \<open>
  Executable Specification Assembly
  (\<open>packages/compiler/src/passes/08-assemble-executable-specification.ts\<close>) and the emission
  of the assembled artifact (\<open>_executable-specification-emit.ts\<close>).
\<close>

fun typeForContract :: "contract_kind \<Rightarrow> node_type" where
  "typeForContract Behavior = Execution"
| "typeForContract Invariant_kind = Control"
| "typeForContract Api = Interface"
| "typeForContract Schema = Interface"

section \<open>Nodes and edges\<close>

definition contract_node :: "contract \<Rightarrow> es_node" where
  "contract_node c =
     \<lparr>node_id = artifact_id c, node_type = typeForContract (contract_kind c),
      node_title = contract_statement c, node_implements = Some (artifact_id c)\<rparr>"

definition invariant_node :: "invariant_artifact \<Rightarrow> es_node" where
  "invariant_node v =
     \<lparr>node_id = artifact_id v, node_type = Control, node_title = invariant_statement v,
      node_implements = Some (artifact_id v)\<rparr>"

definition validation_node :: "validation_spec \<Rightarrow> es_node" where
  "validation_node v =
     \<lparr>node_id = artifact_id v, node_type = Evidence, node_title = validation_statement v,
      node_implements = Some (artifact_id v)\<rparr>"

definition es_nodes ::
  "contract list \<Rightarrow> invariant_artifact list \<Rightarrow> validation_spec list \<Rightarrow> es_node list" where
  "es_nodes cs invs vals =
     map contract_node cs @ map invariant_node invs @ map validation_node vals"

datatype assembly_error =
    Coherence_not_passed string          \<comment> \<open>the report id\<close>
  | Dangling_dependency string string string  \<comment> \<open>dependency, from, to\<close>
  | Invalid_executable_specification

text \<open>The loop over the dependencies: an edge each, or the error of the first dangling one.\<close>

fun dependency_edges :: "string list \<Rightarrow> dependency list \<Rightarrow> assembly_error + es_edge list" where
  "dependency_edges ids [] = Inr []"
| "dependency_edges ids (d # ds) =
     (if dep_from d \<notin> set ids \<or> dep_to d \<notin> set ids
      then Inl (Dangling_dependency (artifact_id d) (dep_from d) (dep_to d))
      else and_then (dependency_edges ids ds)
        (\<lambda>es. Inr (\<lparr>edge_from = dep_from d, edge_to = dep_to d, edge_condition = None,
                    edge_type = Some (dep_type d)\<rparr> # es)))"

definition validates_edge :: "string \<Rightarrow> string \<Rightarrow> es_edge" where
  "validates_edge v t =
     \<lparr>edge_from = v, edge_to = t, edge_condition = None, edge_type = Some Validates\<rparr>"

definition validation_edges :: "string list \<Rightarrow> validation_spec \<Rightarrow> es_edge list" where
  "validation_edges ids v =
     map (validates_edge (artifact_id v)) (filter (\<lambda>i. i \<in> set ids) (coversInvariantIds v)) @
     map (validates_edge (artifact_id v)) (filter (\<lambda>i. i \<in> set ids) (coversContractIds v))"

text \<open>The order of the edges: from, to, dependency type (the empty text when it is absent).\<close>

definition edge_key :: "es_edge \<Rightarrow> string list" where
  "edge_key e =
     [edge_from e, edge_to e, (case edge_type e of None \<Rightarrow> [] | Some t \<Rightarrow> dependency_str t)]"

section \<open>Assembly\<close>

definition assembly_refs ::
  "string \<Rightarrow> string \<Rightarrow> requirement_atom list \<Rightarrow> contract list \<Rightarrow> invariant_artifact list \<Rightarrow>
   dependency list \<Rightarrow> validation_spec list \<Rightarrow> string list" where
  "assembly_refs isid rid as cs invs deps vals =
     isid # rid # map artifact_id cs @ map artifact_id invs @ map artifact_id deps @
     map artifact_id vals @ map artifact_id as"

definition assembleExecutableSpecification ::
  "intent_specification \<Rightarrow> requirement_atom list \<Rightarrow> contract list \<Rightarrow> invariant_artifact list \<Rightarrow>
   dependency list \<Rightarrow> validation_spec list \<Rightarrow> coherence_report \<Rightarrow>
   assembly_error + executable_specification" where
  "assembleExecutableSpecification d as cs invs deps vals r =
     (if overall r \<noteq> Pass then Inl (Coherence_not_passed (artifact_id r))
      else
        let ns = es_nodes cs invs vals; ids = map node_id ns in
        and_then (dependency_edges ids deps) (\<lambda>des.
          let candidate =
            \<lparr>artifact_id = executableSpecificationId (artifact_id d),
             source_refs = sort (oset_of
               (assembly_refs (artifact_id d) (artifact_id r) as cs invs deps vals)),
             explicitness = Explicit,
             rationale = ''ExecutableSpecification assembled from validated intermediates of '' @
               artifact_id d @ ''; Coherence Verification verdict pass cited in source_refs'',
             es_functionId = sourceFunctionId d,
             nodes = sort_key node_id ns,
             edges = sort_key edge_key (des @ concat (map (validation_edges ids) vals))\<rparr>
          in if executable_specification_ok candidate then Inr candidate
             else Inl Invalid_executable_specification))"

text \<open>The YAML serializer is a library: the parameter \<open>to_yaml\<close>.\<close>

definition emitExecutableSpecification ::
  "(executable_specification \<Rightarrow> string) \<Rightarrow> file_system \<Rightarrow> executable_specification \<Rightarrow> string \<Rightarrow>
   file_system \<times> string" where
  "emitExecutableSpecification to_yaml fs e dir =
     (let path = path_join dir (artifact_id e @ ''.yaml'')
      in (fs(path \<mapsto> to_yaml e), path))"

section \<open>What assembly guarantees\<close>

lemma set_es_nodes_ids:
  "node_id ` set (es_nodes cs invs vals) =
     artifact_id ` set cs \<union> artifact_id ` set invs \<union> artifact_id ` set vals"
  by (auto simp: es_nodes_def contract_node_def invariant_node_def validation_node_def image_Un
      image_image)

lemma dependency_edges_Inr:
  "dependency_edges ids ds = Inr es \<Longrightarrow>
     (\<forall>d \<in> set ds. dep_from d \<in> set ids \<and> dep_to d \<in> set ids) \<and>
     map (\<lambda>e. (edge_from e, edge_to e, edge_type e)) es =
       map (\<lambda>d. (dep_from d, dep_to d, Some (dep_type d))) ds"
  by (induction ds arbitrary: es) (auto simp: and_then_Inr split: if_splits)

lemma dependency_edges_ok:
  "dependency_edges ids ds = Inr es \<longleftrightarrow>
     (\<forall>d \<in> set ds. dep_from d \<in> set ids \<and> dep_to d \<in> set ids) \<and>
     es = map (\<lambda>d. \<lparr>edge_from = dep_from d, edge_to = dep_to d, edge_condition = None,
                    edge_type = Some (dep_type d)\<rparr>) ds"
  by (induction ds arbitrary: es) (auto simp: and_then_Inr)

lemma dependency_edges_Inl:
  "dependency_edges ids ds = Inl e \<Longrightarrow>
     \<exists>d \<in> set ds. (dep_from d \<notin> set ids \<or> dep_to d \<notin> set ids) \<and>
       e = Dangling_dependency (artifact_id d) (dep_from d) (dep_to d)"
proof (induction ds)
  case (Cons d ds)
  then show ?case
    by (cases "dependency_edges ids ds") (auto split: if_splits)
qed simp

lemma assemble_Inr:
  assumes "assembleExecutableSpecification d as cs invs deps vals r = Inr e"
  shows "overall r = Pass"
    "\<forall>x \<in> set deps. dep_from x \<in> node_id ` set (es_nodes cs invs vals) \<and>
                     dep_to x \<in> node_id ` set (es_nodes cs invs vals)"
    "executable_specification_ok e"
    "artifact_id e = executableSpecificationId (artifact_id d)"
    "source_refs e =
       sort (oset_of (assembly_refs (artifact_id d) (artifact_id r) as cs invs deps vals))"
    "es_functionId e = sourceFunctionId d"
    "nodes e = sort_key node_id (es_nodes cs invs vals)"
    "edges e = sort_key edge_key
       (map (\<lambda>x. \<lparr>edge_from = dep_from x, edge_to = dep_to x, edge_condition = None,
                  edge_type = Some (dep_type x)\<rparr>) deps @
        concat (map (validation_edges (map node_id (es_nodes cs invs vals))) vals))"
  using assms
  by (auto simp: assembleExecutableSpecification_def Let_def and_then_Inr dependency_edges_ok
      split: if_splits)

lemma in_validation_edges:
  "e \<in> set (validation_edges ids v) \<longleftrightarrow>
     (\<exists>t \<in> set ids. t \<in> set (coversInvariantIds v) \<union> set (coversContractIds v) \<and>
        e = validates_edge (artifact_id v) t)"
  by (auto simp: validation_edges_def)

lemma assemble_edges_closed:
  assumes "assembleExecutableSpecification d as cs invs deps vals r = Inr e"
    and "x \<in> set (edges e)"
  shows "edge_from x \<in> node_id ` set (nodes e) \<and> edge_to x \<in> node_id ` set (nodes e)"
proof -
  note a = assemble_Inr [OF assms(1)]
  have vid: "artifact_id v \<in> node_id ` set (es_nodes cs invs vals)" if "v \<in> set vals" for v
    using that by (auto simp: set_es_nodes_ids)
  from assms(2) a(8) consider
      dp where "dp \<in> set deps" "edge_from x = dep_from dp" "edge_to x = dep_to dp"
    | v t where "v \<in> set vals" "t \<in> node_id ` set (es_nodes cs invs vals)"
        "x = validates_edge (artifact_id v) t"
    by (fastforce simp: in_validation_edges)
  then show ?thesis
    using a(2,7) vid by cases (auto simp: validates_edge_def)
qed

subsection \<open>Independence of the order\<close>

lemma sort_key_inj_perm:
  assumes "mset xs = mset ys" "inj_on f (set xs)"
  shows "sort_key f xs = sort_key f ys"
  by (rule sort_key_inj_key_eq) (use assms in auto)

lemma distinct_map_inj_on: "distinct (map f xs) \<Longrightarrow> inj_on f (set xs)"
  by (simp add: distinct_map)

lemma dependency_str_inject [simp]: "dependency_str a = dependency_str b \<longleftrightarrow> a = b"
  by (cases a; cases b) simp_all

text \<open>The edges assembly makes carry a type and no condition, so their keys tell them apart.\<close>

definition typed_edge :: "es_edge \<Rightarrow> bool" where
  "typed_edge e \<longleftrightarrow> edge_condition e = None \<and> edge_type e \<noteq> None"

lemma edge_key_inj: "\<forall>e \<in> E. typed_edge e \<Longrightarrow> inj_on edge_key E"
proof (rule inj_onI)
  fix x y assume E: "\<forall>e \<in> E. typed_edge e" "x \<in> E" "y \<in> E" and k: "edge_key x = edge_key y"
  from E have "typed_edge x" "typed_edge y" by blast+
  then obtain t u where "edge_type x = Some t" "edge_type y = Some u" "edge_condition x = None"
    "edge_condition y = None" unfolding typed_edge_def by blast
  with k show "x = y" by (cases x; cases y) (simp add: edge_key_def)
qed

lemma mset_concat_map_cong:
  "mset xs = mset ys \<Longrightarrow> mset (concat (map f xs)) = mset (concat (map f ys))"
  by (simp add: mset_concat sum_mset_sum_list [symmetric] flip: mset_map)
     (simp add: image_mset.compositionality)

lemma validation_edges_cong: "set ids = set ids' \<Longrightarrow> validation_edges ids = validation_edges ids'"
  by (rule ext) (simp add: validation_edges_def)

lemma assemble_order_free_lemma:
  assumes r: "assembleExecutableSpecification d as cs invs deps vals r = Inr e"
    and m: "mset as = mset as'" "mset cs = mset cs'" "mset invs = mset invs'"
      "mset deps = mset deps'" "mset vals = mset vals'"
    and dist: "distinct (map node_id (es_nodes cs invs vals))"
  shows "assembleExecutableSpecification d as' cs' invs' deps' vals' r = Inr e"
proof -
  let ?ns = "es_nodes cs invs vals" and ?ns' = "es_nodes cs' invs' vals'"
  let ?f = "\<lambda>x. \<lparr>edge_from = dep_from x, edge_to = dep_to x, edge_condition = None,
    edge_type = Some (dep_type x)\<rparr>"
  let ?es = "map ?f deps @ concat (map (validation_edges (map node_id ?ns)) vals)"
  let ?es' = "map ?f deps' @ concat (map (validation_edges (map node_id ?ns')) vals')"
  note a = assemble_Inr [OF r]
  note sets = m [THEN mset_eq_setD]
  have mn: "mset ?ns = mset ?ns'" using m by (simp add: es_nodes_def)
  then have ids: "set (map node_id ?ns) = set (map node_id ?ns')"
    by (metis mset_eq_setD set_map)
  have n: "sort_key node_id ?ns = sort_key node_id ?ns'"
    using mn distinct_map_inj_on [OF dist] by (rule sort_key_inj_perm)
  have "\<forall>x \<in> set ?es. typed_edge x"
    by (auto simp: typed_edge_def in_validation_edges validates_edge_def)
  moreover have "mset ?es = mset ?es'"
    using m mset_concat_map_cong [OF m(5)] by (simp add: validation_edges_cong [OF ids])
  ultimately have es: "sort_key edge_key ?es = sort_key edge_key ?es'"
    by (intro sort_key_inj_perm edge_key_inj)
  have refs: "sort (oset_of (assembly_refs i x as cs invs deps vals)) =
      sort (oset_of (assembly_refs i x as' cs' invs' deps' vals'))" for i x
    by (rule sort_oset_of_cong) (simp add: assembly_refs_def sets)
  have "dependency_edges (map node_id ?ns') deps' = Inr (map ?f deps')"
    using a(2) ids sets(4) by (simp add: dependency_edges_ok)
  moreover have "dependency_edges (map node_id ?ns) deps = Inr (map ?f deps)"
    using a(2) by (simp add: dependency_edges_ok)
  ultimately show ?thesis
    using r a(1) unfolding assembleExecutableSpecification_def Let_def
    by (simp only: and_then.simps n es refs if_False not_True_eq_False simp_thms)
qed

section \<open>Properties\<close>

definition sample_report :: "verdict \<Rightarrow> coherence_report" where
  "sample_report v =
     \<lparr>artifact_id = ''VR-A'', source_refs = [''IS-A''], explicitness = Explicit, rationale = ''r'',
      intent_specification_id = ''IS-A'', timestamp = ''T'', overall = v,
      checks =
        \<lparr>atom_coverage = \<lparr>atom_status = v, orphan_atoms = []\<rparr>,
         invariant_coverage = \<lparr>invariant_status = Pass, invariants_missing_validation = [],
           invariants_missing_detector = []\<rparr>,
         validation_coverage = \<lparr>validation_status = Pass, validations_covering_nothing = []\<rparr>,
         dependency_closure = \<lparr>dependency_status = Pass, dangling_dependencies = []\<rparr>,
         bootstrap_prefix_check = None\<rparr>,
      remediation = ''none''\<rparr>"

definition sample_intent :: intent_specification where
  "sample_intent =
     \<lparr>artifact_id = ''IS-A'', source_refs = [], explicitness = Explicit, rationale = ''r'',
      sourceCapabilityId = ''BC-A'', sourceFunctionId = ''FP-A'', title = ''t'', problem = ''p'',
      goal = ''g'', constraints = [], acceptanceCriteria = [''c''], successMetrics = [''m''],
      outOfScope = []\<rparr>"

definition sample_contract :: "string \<Rightarrow> contract" where
  "sample_contract i =
     \<lparr>artifact_id = i, source_refs = [''IS-A''], explicitness = Explicit, rationale = ''r'',
      contract_kind = Behavior, contract_statement = ''s'', producerHint = None,
      consumerHints = [], contract_atoms = [''ATOM-A'']\<rparr>"

definition sample_dependency :: "string \<Rightarrow> string \<Rightarrow> dependency" where
  "sample_dependency a b =
     \<lparr>artifact_id = ''DEP-A'', source_refs = [''IS-A''], explicitness = Explicit, rationale = ''r'',
      dep_from = a, dep_to = b, dep_type = Blocks\<rparr>"

definition sample_specification :: executable_specification where
  "sample_specification =
     \<lparr>artifact_id = ''ES-A'',
      source_refs = [''CONTRACT-A'', ''CONTRACT-B'', ''DEP-A'', ''IS-A'', ''VR-A''],
      explicitness = Explicit,
      rationale = ''ExecutableSpecification assembled from validated intermediates of IS-A; Coherence Verification verdict pass cited in source_refs'',
      es_functionId = ''FP-A'',
      nodes =
        [\<lparr>node_id = ''CONTRACT-A'', node_type = Execution, node_title = ''s'',
          node_implements = Some ''CONTRACT-A''\<rparr>,
         \<lparr>node_id = ''CONTRACT-B'', node_type = Execution, node_title = ''s'',
          node_implements = Some ''CONTRACT-B''\<rparr>],
      edges =
        [\<lparr>edge_from = ''CONTRACT-A'', edge_to = ''CONTRACT-B'', edge_condition = None,
          edge_type = Some Blocks\<rparr>]\<rparr>"

lemma sample_assembly:
  "assembleExecutableSpecification sample_intent []
     [sample_contract ''CONTRACT-B'', sample_contract ''CONTRACT-A''] []
     [sample_dependency ''CONTRACT-A'' ''CONTRACT-B''] [] (sample_report Pass) =
   Inr sample_specification"
  by code_simp

text \<open>
  C7. What assembly returns is valid and closed: the report had passed; there is one node for
  each contract, invariant and validation, in ascending order of ids; every edge joins two
  of the nodes; and every intermediate is cited.
\<close>

theorem assembly_sound:
  assumes "assembleExecutableSpecification d as cs invs deps vals r = Inr e"
  shows "overall r = Pass \<and> executable_specification_ok e \<and>
    mset (map node_id (nodes e)) =
      mset (map artifact_id cs) + mset (map artifact_id invs) + mset (map artifact_id vals) \<and>
    sorted (map node_id (nodes e)) \<and>
    (\<forall>x \<in> set (edges e). edge_from x \<in> node_id ` set (nodes e) \<and> edge_to x \<in> node_id ` set (nodes e)) \<and>
    set (source_refs e) = {artifact_id d, artifact_id r} \<union> artifact_id ` set as \<union>
      artifact_id ` set cs \<union> artifact_id ` set invs \<union> artifact_id ` set deps \<union> artifact_id ` set vals"
proof -
  note a = assemble_Inr [OF assms]
  have "map node_id (es_nodes cs invs vals) =
      map artifact_id cs @ map artifact_id invs @ map artifact_id vals"
    by (simp add: es_nodes_def contract_node_def invariant_node_def validation_node_def)
  then have "mset (map node_id (nodes e)) =
      mset (map artifact_id cs) + mset (map artifact_id invs) + mset (map artifact_id vals)"
    unfolding a(7) by (metis mset_map mset_sort mset_append add.assoc)
  with a assemble_edges_closed [OF assms] show ?thesis
    by (auto simp: assembly_refs_def)
qed

lemma assembly_sound_witness: "sorted (map node_id (nodes sample_specification))"
  using assembly_sound [OF sample_assembly] by simp

text \<open>
  Determinism: as long as no two nodes share an id, the assembled specification does not
  depend on the order in which the intermediates arrive.
\<close>

theorem assembly_order_free:
  assumes "assembleExecutableSpecification d as cs invs deps vals r = Inr e"
    and "mset as = mset as'" "mset cs = mset cs'" "mset invs = mset invs'"
      "mset deps = mset deps'" "mset vals = mset vals'"
    and "distinct (map artifact_id cs @ map artifact_id invs @ map artifact_id vals)"
  shows "assembleExecutableSpecification d as' cs' invs' deps' vals' r = Inr e"
proof -
  have "distinct (map node_id (es_nodes cs invs vals))"
    using assms(7)
    by (simp add: es_nodes_def contract_node_def invariant_node_def validation_node_def comp_def
        image_image)
  with assms(1-6) show ?thesis by (rule assemble_order_free_lemma)
qed

lemma assembly_order_free_witness:
  "assembleExecutableSpecification sample_intent []
     [sample_contract ''CONTRACT-A'', sample_contract ''CONTRACT-B''] []
     [sample_dependency ''CONTRACT-A'' ''CONTRACT-B''] [] (sample_report Pass) =
   Inr sample_specification"
  by (rule assembly_order_free [OF sample_assembly]) (simp_all add: sample_contract_def)

text \<open>
  The errors of assembly: a report that has not passed is refused before anything else,
  with its id; otherwise a dependency with an end that is not a node stops assembly, and the
  error names a dependency that is dangling.
\<close>

theorem assembly_errors:
  shows "(overall r \<noteq> Pass \<longrightarrow> assembleExecutableSpecification d as cs invs deps vals r =
      Inl (Coherence_not_passed (artifact_id r))) \<and>
    (overall r = Pass \<longrightarrow>
      (\<exists>x \<in> set deps. \<not> {dep_from x, dep_to x} \<subseteq> artifact_id ` set cs \<union> artifact_id ` set invs \<union>
        artifact_id ` set vals) \<longrightarrow>
      (\<exists>x \<in> set deps. \<not> {dep_from x, dep_to x} \<subseteq> artifact_id ` set cs \<union> artifact_id ` set invs \<union>
        artifact_id ` set vals \<and>
        assembleExecutableSpecification d as cs invs deps vals r =
          Inl (Dangling_dependency (artifact_id x) (dep_from x) (dep_to x))))"
proof (intro conjI impI)
  assume p: "overall r = Pass"
  let ?ids = "map node_id (es_nodes cs invs vals)"
  have ids: "set ?ids = artifact_id ` set cs \<union> artifact_id ` set invs \<union> artifact_id ` set vals"
    by (simp add: set_es_nodes_ids)
  assume "\<exists>x \<in> set deps. \<not> {dep_from x, dep_to x} \<subseteq> artifact_id ` set cs \<union>
    artifact_id ` set invs \<union> artifact_id ` set vals"
  then have "\<nexists>es. dependency_edges ?ids deps = Inr es"
    unfolding dependency_edges_ok ids by blast
  then obtain err where err: "dependency_edges ?ids deps = Inl err"
    by (cases "dependency_edges ?ids deps") auto
  from dependency_edges_Inl [OF err] obtain x where x: "x \<in> set deps"
    "dep_from x \<notin> set ?ids \<or> dep_to x \<notin> set ?ids"
    "err = Dangling_dependency (artifact_id x) (dep_from x) (dep_to x)" by blast
  have "assembleExecutableSpecification d as cs invs deps vals r = Inl err"
    using p err by (simp add: assembleExecutableSpecification_def Let_def)
  with x show "\<exists>x \<in> set deps. \<not> {dep_from x, dep_to x} \<subseteq> artifact_id ` set cs \<union>
      artifact_id ` set invs \<union> artifact_id ` set vals \<and>
      assembleExecutableSpecification d as cs invs deps vals r =
        Inl (Dangling_dependency (artifact_id x) (dep_from x) (dep_to x))"
    unfolding ids by blast
qed (simp add: assembleExecutableSpecification_def)

lemma assembly_errors_witness:
  "assembleExecutableSpecification sample_intent [] [sample_contract ''CONTRACT-A''] []
     [sample_dependency ''CONTRACT-A'' ''CONTRACT-B''] [] (sample_report Pass) =
   Inl (Dangling_dependency ''DEP-A'' ''CONTRACT-A'' ''CONTRACT-B'')"
  using assembly_errors [of "sample_report Pass" sample_intent "[]"
      "[sample_contract ''CONTRACT-A'']" "[]" "[sample_dependency ''CONTRACT-A'' ''CONTRACT-B'']" "[]"]
  by (simp add: sample_report_def sample_contract_def sample_dependency_def)

end
