(* ===== verification/Governance_Schemas.thy ===== *)
theory Governance_Schemas
  imports Artifact_Schemas
begin

text \<open>
  The schemas of \<open>packages/schemas/src\<close> that govern the execution of an Executable
  Specification: architecture candidates (\<open>architecture-candidate.ts\<close>), runtime admission
  (\<open>runtime-admission.ts\<close>) and domain adapters (\<open>domain-adapter.ts\<close>).
\<close>

section \<open>Architecture candidates\<close>

datatype candidate_status = Proposed | Selected | Rejected | Archived

datatype topology_shape = Single_node | Linear_chain | Fan_out | Other_shape

datatype binding_mode = Fixed | Policy_selected | Unbound

datatype tool_mode = Allowlist | Restricted | No_tools

datatype convergence_mode = Single_pass | Gated_iteration | Manual_review

record architecture_candidate = lineage +
  ac_sourceIntentSpecificationId :: string
  ac_sourceExecutableSpecificationId :: string
  candidateStatus :: candidate_status
  topology :: "topology_shape \<times> string"
  modelBinding :: "binding_mode \<times> string"
  candidate_toolPolicy :: "tool_mode \<times> string"
  convergencePolicy :: "convergence_mode \<times> string"

definition architecture_candidate_ok :: "'a architecture_candidate_scheme \<Rightarrow> bool" where
  "architecture_candidate_ok c \<longleftrightarrow>
     lineage_ok c \<and> starts_with ''AC-'' (artifact_id c) \<and>
     artifact_id_ok (ac_sourceIntentSpecificationId c) \<and>
     artifact_id_ok (ac_sourceExecutableSpecificationId c) \<and>
     snd (topology c) \<noteq> [] \<and> snd (modelBinding c) \<noteq> [] \<and>
     snd (candidate_toolPolicy c) \<noteq> [] \<and> snd (convergencePolicy c) \<noteq> []"

section \<open>Runtime admission\<close>

datatype admission_decision = Allow | Deny

fun decision_str :: "admission_decision \<Rightarrow> string" where
  "decision_str Allow = ''allow''"
| "decision_str Deny = ''deny''"

record runtime_admission = lineage +
  rad_sourceExecutableSpecificationId :: string
  rad_sourceArchitectureCandidateId :: string
  rad_sourceSelectionId :: string
  decision :: admission_decision
  reason :: string

definition runtime_admission_ok :: "'a runtime_admission_scheme \<Rightarrow> bool" where
  "runtime_admission_ok r \<longleftrightarrow>
     lineage_ok r \<and> starts_with ''RAD-'' (artifact_id r) \<and>
     artifact_id_ok (rad_sourceExecutableSpecificationId r) \<and>
     artifact_id_ok (rad_sourceArchitectureCandidateId r) \<and>
     artifact_id_ok (rad_sourceSelectionId r) \<and> reason r \<noteq> []"

section \<open>Domain adapters\<close>

text \<open>\<open>/^adapter\.[a-z0-9][a-z0-9-]*$/\<close>\<close>

definition kebab_head :: "char \<Rightarrow> bool" where
  "kebab_head c \<longleftrightarrow> is_lower c \<or> is_digit c"

definition domain_adapter_id_ok :: "string \<Rightarrow> bool" where
  "domain_adapter_id_ok s \<longleftrightarrow>
     starts_with ''adapter.'' s \<and>
     (case drop 8 s of [] \<Rightarrow> False
      | c # cs \<Rightarrow> kebab_head c \<and> list_all (\<lambda>x. kebab_head x \<or> x = CHR ''-'') cs)"

datatype kernel_concept = Domain_substrate | Execution_workspace | Handoff_artifact
  | Effector_realization_artifact | Verification_evidence_source | Human_governance_input
  | Lifecycle_transition_substrate | Agent_call_role

fun kernel_concept_str :: "kernel_concept \<Rightarrow> string" where
  "kernel_concept_str Domain_substrate = ''domain_substrate''"
| "kernel_concept_str Execution_workspace = ''execution_workspace''"
| "kernel_concept_str Handoff_artifact = ''handoff_artifact''"
| "kernel_concept_str Effector_realization_artifact = ''effector_realization_artifact''"
| "kernel_concept_str Verification_evidence_source = ''verification_evidence_source''"
| "kernel_concept_str Human_governance_input = ''human_governance_input''"
| "kernel_concept_str Lifecycle_transition_substrate = ''lifecycle_transition_substrate''"
| "kernel_concept_str Agent_call_role = ''agent_call_role''"

datatype execution_mode = Simulate | Execute | Verify | Observe

fun execution_mode_str :: "execution_mode \<Rightarrow> string" where
  "execution_mode_str Simulate = ''simulate''"
| "execution_mode_str Execute = ''execute''"
| "execution_mode_str Verify = ''verify''"
| "execution_mode_str Observe = ''observe''"

text \<open>\<open>DomainExecutionMode.safeParse\<close>\<close>

definition parse_execution_mode :: "string \<Rightarrow> execution_mode option" where
  "parse_execution_mode s = find (\<lambda>m. execution_mode_str m = s) [Simulate, Execute, Verify, Observe]"

record term_mapping =
  adapterTerm :: string
  kernelConcept :: kernel_concept
  description :: string

record domain_adapter_contract =
  adapterId :: string
  domain :: string
  substrate :: string
  substrateTermMappings :: "term_mapping list"
  supportedExecutionModes :: "execution_mode list"
  adapter_evidenceSources :: "string list"
  effectors :: "string list"

definition domain_adapter_contract_ok :: "domain_adapter_contract \<Rightarrow> bool" where
  "domain_adapter_contract_ok c \<longleftrightarrow>
     domain_adapter_id_ok (adapterId c) \<and> domain c \<noteq> [] \<and> substrate c \<noteq> [] \<and>
     list_all (\<lambda>m. adapterTerm m \<noteq> [] \<and> description m \<noteq> []) (substrateTermMappings c) \<and>
     substrateTermMappings c \<noteq> [] \<and> supportedExecutionModes c \<noteq> [] \<and>
     list_all (\<lambda>s. s \<noteq> []) (adapter_evidenceSources c) \<and> adapter_evidenceSources c \<noteq> [] \<and>
     list_all (\<lambda>s. s \<noteq> []) (effectors c) \<and> effectors c \<noteq> []"

lemma parse_execution_mode_str [simp]: "parse_execution_mode (execution_mode_str m) = Some m"
  by (cases m) (simp_all add: parse_execution_mode_def)

lemma parse_execution_mode_Some: "parse_execution_mode s = Some m \<longleftrightarrow> s = execution_mode_str m"
proof
  assume "parse_execution_mode s = Some m"
  from find_Some_in [OF this [unfolded parse_execution_mode_def]]
  show "s = execution_mode_str m" by simp
next
  assume "s = execution_mode_str m"
  then show "parse_execution_mode s = Some m" by (simp only: parse_execution_mode_str)
qed

end
