(* ===== verification/Trellis_Canonical_Json.thy ===== *)
theory Trellis_Canonical_Json
  imports Intent_Markdown
begin

text \<open>
  Canonical JSON and content hashes of execution packets
  (\<open>packages/schemas/src/_attic/trellis-canonical-json.ts\<close>). The parts of the host the
  code calls and that depend on Unicode tables, number formatting or cryptography are the
  fields of a record: NFC normalization, the collation key that \<open>localeCompare\<close> compares by,
  the text of a number, and SHA-256.
\<close>

record host =
  nfc :: "string \<Rightarrow> string"
  collation_key :: "string \<Rightarrow> string"
  number_text :: "rat \<Rightarrow> string"
  sha256Hex :: "string \<Rightarrow> string"

section \<open>JSON.stringify and String\<close>

definition hex_digit :: "nat \<Rightarrow> char" where
  "hex_digit d = (if d < 10 then char_of (48 + d) else char_of (87 + d))"

definition escape_char :: "char \<Rightarrow> string" where
  "escape_char c =
     (let n = (of_char c :: nat) in
      if n = 34 then [CHR 0x5C, c] else if n = 92 then [c, c]
      else if n = 8 then [CHR 0x5C, CHR ''b''] else if n = 9 then [CHR 0x5C, CHR ''t'']
      else if n = 10 then [CHR 0x5C, CHR ''n''] else if n = 12 then [CHR 0x5C, CHR ''f'']
      else if n = 13 then [CHR 0x5C, CHR ''r'']
      else if n < 32 then CHR 0x5C # ''u00'' @ [hex_digit (n div 16), hex_digit (n mod 16)]
      else [c])"

definition quote_text :: "string \<Rightarrow> string" where
  "quote_text s = [CHR 0x22] @ concat (map escape_char s) @ [CHR 0x22]"

fun json_text :: "host \<Rightarrow> json \<Rightarrow> string" where
  "json_text h JNull = ''null''"
| "json_text h (JBool b) = (if b then ''true'' else ''false'')"
| "json_text h (JNum q) = number_text h q"
| "json_text h (JStr s) = quote_text s"
| "json_text h (JArr js) = ''['' @ join '','' (map (json_text h) js) @ '']''"
| "json_text h (JObj kvs) =
     ''{'' @ join '','' (map (\<lambda>(k, v). quote_text k @ '':'' @ json_text h v) kvs) @ ''}''"

fun js_String :: "host \<Rightarrow> json \<Rightarrow> string" where
  "js_String h JNull = ''null''"
| "js_String h (JBool b) = (if b then ''true'' else ''false'')"
| "js_String h (JNum q) = number_text h q"
| "js_String h (JStr s) = s"
| "js_String h (JArr js) =
     join '','' (map (\<lambda>j. if j = JNull then [] else js_String h j) js)"
| "js_String h (JObj kvs) = ''[object Object]''"

section \<open>Canonical form\<close>

definition array_sort_keys :: "(string \<times> string list) list" where
  "array_sort_keys =
     [(''source_refs'', [''$'']), (''roles'', [''roleId'']), (''nodes'', [''roleId'']),
      (''edges'', [''from'', ''to'', ''reason'']), (''bindings'', [''bindingId'']),
      (''requiredEvidence'', [''evidenceId'']), (''failureClasses'', [''code'']),
      (''sourceVerification'', [''sourceRef'', ''sourceField'']),
      (''unmappedExecutableRefs'', [''$'']), (''policyWarnings'', [''$'']),
      (''deterministicInputs'', [''$'']), (''uncertaintyRefs'', [''$'']),
      (''diagnostics'', [''code'', ''message'']), (''uncertaintyEntries'', [''$''])]"

text \<open>\<open>String(value[key] ?? "")\<close>\<close>

definition key_text :: "host \<Rightarrow> (string \<times> json) list \<Rightarrow> string \<Rightarrow> string" where
  "key_text h kvs k =
     (case map_of kvs k of None \<Rightarrow> [] | Some JNull \<Rightarrow> [] | Some j \<Rightarrow> js_String h j)"

definition sortKey :: "host \<Rightarrow> string list \<Rightarrow> json \<Rightarrow> string" where
  "sortKey h keys j =
     (if keys = [''$''] then (case j of JStr s \<Rightarrow> s | _ \<Rightarrow> json_text h j)
      else case j of
        JObj kvs \<Rightarrow> join [CHR 0x00] (map (key_text h kvs) keys)
      | _ \<Rightarrow> json_text h j)"

definition sortArray :: "host \<Rightarrow> string option \<Rightarrow> json list \<Rightarrow> json list" where
  "sortArray h property items =
     (case (case property of None \<Rightarrow> None | Some p \<Rightarrow> map_of array_sort_keys p) of
        None \<Rightarrow> items
      | Some keys \<Rightarrow> sort_key (\<lambda>j. collation_key h (sortKey h keys j)) items)"

definition shouldOmitForPacketHash :: "string list \<Rightarrow> string \<Rightarrow> bool" where
  "shouldOmitForPacketHash path k \<longleftrightarrow>
     (path = [''audit''] \<and> k = ''packetHash'') \<or>
     (path = [''instructionTuning''] \<and> k = ''outputPacketHash'') \<or>
     (path = [''instructionTuning''] \<and> k = ''generatedAt'')"

text \<open>
  The keys of an object are distinct, so walking its sorted keys is walking its entries
  sorted by key.
\<close>

definition kept_entries :: "string list \<Rightarrow> (string \<times> json) list \<Rightarrow> (string \<times> json) list" where
  "kept_entries path kvs =
     sort_key fst
       (filter (\<lambda>(k, v). \<not> shouldOmitForPacketHash path k \<and> k \<noteq> ''__proto__'') kvs)"

lemma kept_entries_in: "kv \<in> set (kept_entries path kvs) \<Longrightarrow> kv \<in> set kvs"
  by (simp add: kept_entries_def)

lemma size_json_entry: "(k, v) \<in> set kvs \<Longrightarrow> size v < size (JObj kvs)"
  by (induction kvs) auto

lemma kept_entries_size: "(k, v) \<in> set (kept_entries path kvs) \<Longrightarrow> size v < size (JObj kvs)"
  by (rule size_json_entry) (rule kept_entries_in)

function (sequential) canonicalize :: "host \<Rightarrow> string option \<Rightarrow> string list \<Rightarrow> json \<Rightarrow> json" where
  "canonicalize h property path JNull = JNull"
| "canonicalize h property path (JStr s) = JStr (nfc h s)"
| "canonicalize h property path (JNum q) = JNum q"
| "canonicalize h property path (JBool b) = JBool b"
| "canonicalize h property path (JArr js) =
     JArr (sortArray h property (map (canonicalize h property path) js))"
| "canonicalize h property path (JObj kvs) =
     JObj (map (\<lambda>(k, v). (k, canonicalize h (Some k) (path @ [k]) v)) (kept_entries path kvs))"
  by pat_completeness auto

termination
  by (relation "measure (\<lambda>(h, property, path, j). size j)")
     (auto dest: kept_entries_size size_list_estimation' simp: less_Suc_eq_le
       intro: size_list_estimation')

definition canonicalTrellisJson :: "host \<Rightarrow> json \<Rightarrow> string" where
  "canonicalTrellisJson h j = json_text h (canonicalize h None [] j)"

definition trellisContentHash :: "host \<Rightarrow> json \<Rightarrow> string" where
  "trellisContentHash h j = sha256Hex h (canonicalTrellisJson h j)"

section \<open>What the hash ignores\<close>

lemma map_sort_key_fst:
  "(\<And>x. fst (f x) = fst x) \<Longrightarrow> map f (sort_key fst xs) = sort_key fst (map f xs)"
proof (induction xs)
  case (Cons x xs)
  have "map f (insort_key fst y ys) = insort_key fst (f y) (map f ys)" for y ys
    using Cons.prems by (induction ys) auto
  with Cons show ?case by simp
qed simp

text \<open>
  The canonical form of an object depends only on the canonical forms of the entries it
  keeps, whatever the order of the entries.
\<close>

lemma canonicalize_JObj:
  "canonicalize h property path (JObj kvs) =
     JObj (sort_key fst
       (map (\<lambda>(k, v). (k, canonicalize h (Some k) (path @ [k]) v))
         (filter (\<lambda>(k, v). \<not> shouldOmitForPacketHash path k \<and> k \<noteq> ''__proto__'') kvs)))"
  by (simp add: kept_entries_def map_sort_key_fst split_def)

lemma canonicalize_JObj_cong:
  assumes "map (\<lambda>(k, v). (k, canonicalize h (Some k) (path @ [k]) v))
        (filter (\<lambda>(k, v). \<not> shouldOmitForPacketHash path k \<and> k \<noteq> ''__proto__'') kvs) =
      map (\<lambda>(k, v). (k, canonicalize h (Some k) (path @ [k]) v))
        (filter (\<lambda>(k, v). \<not> shouldOmitForPacketHash path k \<and> k \<noteq> ''__proto__'') kvs')"
  shows "canonicalize h property path (JObj kvs) = canonicalize h property path (JObj kvs')"
  unfolding canonicalize_JObj assms ..

lemma sort_key_distinct_perm:
  fixes xs ys :: "(string \<times> 'b) list"
  assumes m: "mset xs = mset ys" and d: "distinct (map fst xs)"
  shows "sort_key fst xs = sort_key fst ys"
proof (rule properties_for_sort_key)
  show "mset (sort_key fst ys) = mset xs" using m by simp
  show "sorted (map fst (sort_key fst ys))" by simp
  have len: "length (filter (\<lambda>x. q = fst x) zs) \<le> 1" if "distinct (map fst zs)"
    for zs :: "(string \<times> 'b) list" and q
    using that by (induction zs) (auto simp: filter_empty_conv image_iff)
  have one: "as = bs" if "mset bs = mset as" "length as \<le> 1" for as bs :: "(string \<times> 'b) list"
    using that by (cases as; cases "tl as") auto
  fix k assume "k \<in> set (sort_key fst ys)"
  have "length (filter (\<lambda>x. fst k = fst x) xs) \<le> 1" by (rule len [OF d])
  moreover have "mset (filter (\<lambda>x. fst k = fst x) (sort_key fst ys)) =
      mset (filter (\<lambda>x. fst k = fst x) xs)" using m by simp
  ultimately show "filter (\<lambda>x. fst k = fst x) (sort_key fst ys) = filter (\<lambda>x. fst k = fst x) xs"
    using one by metis
qed

lemma canonicalize_key_order:
  assumes "mset kvs = mset kvs'" "distinct (map fst kvs)"
  shows "canonicalize h property path (JObj kvs) = canonicalize h property path (JObj kvs')"
proof -
  let ?P = "\<lambda>(k, v). \<not> shouldOmitForPacketHash path k \<and> k \<noteq> ''__proto__''"
  have "kept_entries path kvs = kept_entries path kvs'"
    unfolding kept_entries_def
  proof (rule sort_key_distinct_perm)
    show "mset (filter ?P kvs) = mset (filter ?P kvs')" using assms(1) by simp
    show "distinct (map fst (filter ?P kvs))" using assms(2) by (rule distinct_map_filter)
  qed
  then show ?thesis by simp
qed

end
