(* ===== verification/Trellis_Packet.thy ===== *)
theory Trellis_Packet
  imports Governance_Schemas Trellis_Canonical_Json
begin

text \<open>
  Trellis Execution Packets (\<open>packages/schemas/src/_attic/trellis-execution-packet.ts\<close>):
  the packet as records, its schema as the predicate \<open>packet_ok\<close>, its JSON, its content
  hash, and its certification. Fields whose schema is a single literal are not stored;
  they appear in the JSON.
\<close>

definition nonempty_strings :: "string list \<Rightarrow> bool" where
  "nonempty_strings xs \<longleftrightarrow> list_all (\<lambda>s. s \<noteq> []) xs"

section \<open>The packet\<close>

record tuning_provenance =
  transformationVersion :: string
  inputExecutableSpecificationHash :: string
  outputPacketHash :: string
  generatedAt :: string
  deterministicInputs :: "string list"
  uncertaintyRefs :: "string list"

record runtime_profile =
  profileId :: string
  roleCatalogRef :: string
  toolCatalogRef :: string
  memoryCatalogRef :: string
  policyCatalogRef :: string
  modelPolicyRef :: "string option"

record execution_request =
  req_adapterId :: string
  req_functionId :: string
  req_intentSpecificationId :: string
  req_executableSpecificationId :: string
  req_runId :: string
  req_mode :: execution_mode
  req_parameters :: "(string \<times> json) list"

record adapter_binding =
  bound_adapterId :: string
  adapterContractRef :: string
  adapterContractHash :: string
  executionMode :: execution_mode
  requiredEffectors :: "string list"
  requiredEvidenceSources :: "string list"
  executionRequest :: execution_request

record role_instruction =
  roleId :: string
  roleKind :: string
  objective :: string
  role_inputs :: "string list"
  role_outputs :: "string list"
  toolBindingRefs :: "string list"
  evidenceObligations :: "string list"
  stopConditions :: "string list"
  escalationConditions :: "string list"
  instruction :: string
  role_provenanceRefs :: "string list"

record graph_node =
  graph_roleId :: string
  executableNodeRefs :: "string list"
  dependsOn :: "string list"
  parallelizable :: bool

record graph_edge =
  graph_from :: string
  graph_to :: string
  graph_reason :: string
  blocking :: bool

record context_bundle =
  intentSummary :: string
  executableSummary :: string
  context_invariants :: "string list"
  validationRefs :: "string list"
  domainContextRefs :: "string list"
  memoryRefs :: "string list"
  omittedContext :: "(string \<times> string) list"
  context_provenanceRefs :: "string list"

datatype tool_operation = Read_op | Write_op | Execute_op

datatype tool_idempotency = Required_idem | Best_effort | Not_applicable

record tool_binding =
  bindingId :: string
  toolName :: string
  binding_roles :: "string list"
  operation :: tool_operation
  parameterSchemaRef :: string
  scopeSchemaRef :: string
  tool_scope :: "string list"
  tool_constraints :: "string list"
  timeoutMs :: nat
  approvalRequired :: bool
  idempotency :: tool_idempotency
  evidenceRequired :: bool

datatype verifier_target = Fidelity | Persistence | Both

record evidence_requirement =
  evidenceId :: string
  producedByRole :: string
  verifies :: "string list"
  verifierTarget :: verifier_target
  evidence_source :: string
  collectionSource :: string
  expectedOutcome :: string
  retentionPolicy :: string
  hashRequired :: bool
  requiredForCompletion :: bool

datatype failure_code = Role_output_invalid | Required_evidence_missing | Tool_policy_violation
  | Adapter_contract_violation | Invariant_violation | Validation_failed | Runtime_timeout
  | Runtime_resource_exhausted | Human_escalation_required

datatype repair_authority = No_authority | Same_scope | Narrower_scope

record failure_class =
  failure_code :: failure_code
  retryable :: bool
  repairAuthority :: repair_authority
  recertificationRequired :: bool

record repair_policy =
  maxRepairAttempts :: nat
  failureClasses :: "failure_class list"
  patchAuthority :: "(string \<times> string list) list"
  escalationTarget :: string

record completion_contract =
  successStatus :: string
  failureStatuses :: "string list"
  requiredOutputs :: "string list"
  completion_evidence :: "string list"  \<comment> \<open>\<open>requiredEvidence\<close>\<close>
  executionResultSchemaRef :: string

datatype lifecycle_from = From_designed | From_in_progress | From_produced | From_accepted

datatype lifecycle_to = To_in_progress | To_produced | To_accepted | To_monitored | To_none

datatype required_verification = No_verification | Fidelity_verification | Persistence_verification

record lifecycle_pathway =
  pathway_from :: lifecycle_from
  pathway_to :: lifecycle_to
  requiredVerification :: required_verification

record packet_audit =
  packetHash :: string
  canonicalOrdering :: "string list"
  sourceVerification :: "(string \<times> string \<times> string list) list"
  unmappedExecutableRefs :: "string list"
  policyWarnings :: "string list"

record packet = lineage +
  packetVersion :: string
  packet_functionId :: string
  packet_intentSpecificationId :: string
  packet_executableSpecificationId :: string
  selectedArchitectureCandidateId :: string
  runtimeAdmissionId :: string
  instructionTuning :: tuning_provenance
  runtimeProfile :: runtime_profile
  adapter :: adapter_binding
  packet_roles :: "role_instruction list"
  graph_nodes :: "graph_node list"
  graph_edges :: "graph_edge list"
  contextBundle :: context_bundle
  tool_bindings :: "tool_binding list"   \<comment> \<open>\<open>toolPolicy.bindings\<close>\<close>
  requiredEvidence :: "evidence_requirement list"  \<comment> \<open>\<open>evidencePlan.requiredEvidence\<close>\<close>
  fidelity_inputs :: "string list"
  persistence_inputs :: "string list"
  repairPolicy :: repair_policy
  completionContract :: completion_contract
  lifecyclePathway :: lifecycle_pathway
  audit :: packet_audit

section \<open>The schema\<close>

definition provenance_ok :: "(string \<Rightarrow> bool) \<Rightarrow> tuning_provenance \<Rightarrow> bool" where
  "provenance_ok is_datetime t \<longleftrightarrow>
     transformationVersion t \<noteq> [] \<and> inputExecutableSpecificationHash t \<noteq> [] \<and>
     outputPacketHash t \<noteq> [] \<and> is_datetime (generatedAt t) \<and>
     nonempty_strings (deterministicInputs t) \<and> deterministicInputs t \<noteq> [] \<and>
     list_all (starts_with ''UNC-'') (uncertaintyRefs t)"

definition runtime_profile_ok :: "runtime_profile \<Rightarrow> bool" where
  "runtime_profile_ok r \<longleftrightarrow>
     profileId r \<noteq> [] \<and> roleCatalogRef r \<noteq> [] \<and> toolCatalogRef r \<noteq> [] \<and>
     memoryCatalogRef r \<noteq> [] \<and> policyCatalogRef r \<noteq> [] \<and> modelPolicyRef r \<noteq> Some []"

definition execution_request_ok :: "execution_request \<Rightarrow> bool" where
  "execution_request_ok r \<longleftrightarrow>
     domain_adapter_id_ok (req_adapterId r) \<and> artifact_id_ok (req_functionId r) \<and>
     artifact_id_ok (req_intentSpecificationId r) \<and>
     artifact_id_ok (req_executableSpecificationId r) \<and> req_runId r \<noteq> []"

definition adapter_binding_ok :: "adapter_binding \<Rightarrow> bool" where
  "adapter_binding_ok a \<longleftrightarrow>
     domain_adapter_id_ok (bound_adapterId a) \<and> adapterContractRef a \<noteq> [] \<and>
     adapterContractHash a \<noteq> [] \<and>
     nonempty_strings (requiredEffectors a) \<and> requiredEffectors a \<noteq> [] \<and>
     nonempty_strings (requiredEvidenceSources a) \<and> requiredEvidenceSources a \<noteq> [] \<and>
     execution_request_ok (executionRequest a)"

definition role_instruction_ok :: "role_instruction \<Rightarrow> bool" where
  "role_instruction_ok r \<longleftrightarrow>
     roleId r \<noteq> [] \<and> roleKind r \<noteq> [] \<and> objective r \<noteq> [] \<and> nonempty_strings (role_inputs r) \<and>
     nonempty_strings (role_outputs r) \<and> role_outputs r \<noteq> [] \<and>
     nonempty_strings (toolBindingRefs r) \<and> nonempty_strings (evidenceObligations r) \<and>
     nonempty_strings (stopConditions r) \<and> stopConditions r \<noteq> [] \<and>
     nonempty_strings (escalationConditions r) \<and> instruction r \<noteq> [] \<and>
     nonempty_strings (role_provenanceRefs r) \<and> role_provenanceRefs r \<noteq> []"

definition graph_node_ok :: "graph_node \<Rightarrow> bool" where
  "graph_node_ok n \<longleftrightarrow>
     graph_roleId n \<noteq> [] \<and> nonempty_strings (executableNodeRefs n) \<and>
     executableNodeRefs n \<noteq> [] \<and> nonempty_strings (dependsOn n)"

definition graph_edge_ok :: "graph_edge \<Rightarrow> bool" where
  "graph_edge_ok e \<longleftrightarrow> graph_from e \<noteq> [] \<and> graph_to e \<noteq> [] \<and> graph_reason e \<noteq> []"

definition context_bundle_ok :: "context_bundle \<Rightarrow> bool" where
  "context_bundle_ok c \<longleftrightarrow>
     intentSummary c \<noteq> [] \<and> executableSummary c \<noteq> [] \<and>
     nonempty_strings (context_invariants c) \<and> nonempty_strings (validationRefs c) \<and>
     nonempty_strings (domainContextRefs c) \<and> nonempty_strings (memoryRefs c) \<and>
     list_all (\<lambda>(r, w). r \<noteq> [] \<and> w \<noteq> []) (omittedContext c) \<and>
     nonempty_strings (context_provenanceRefs c) \<and> context_provenanceRefs c \<noteq> []"

definition tool_binding_ok :: "tool_binding \<Rightarrow> bool" where
  "tool_binding_ok b \<longleftrightarrow>
     bindingId b \<noteq> [] \<and> toolName b \<noteq> [] \<and> nonempty_strings (binding_roles b) \<and>
     binding_roles b \<noteq> [] \<and> parameterSchemaRef b \<noteq> [] \<and> scopeSchemaRef b \<noteq> [] \<and>
     nonempty_strings (tool_scope b) \<and> nonempty_strings (tool_constraints b) \<and>
     0 < timeoutMs b \<and>
     \<not> ((operation b = Write_op \<or> operation b = Execute_op) \<and> tool_scope b = [])"

definition evidence_requirement_ok :: "evidence_requirement \<Rightarrow> bool" where
  "evidence_requirement_ok e \<longleftrightarrow>
     evidenceId e \<noteq> [] \<and> producedByRole e \<noteq> [] \<and> nonempty_strings (verifies e) \<and>
     verifies e \<noteq> [] \<and> evidence_source e \<noteq> [] \<and> collectionSource e \<noteq> [] \<and>
     expectedOutcome e \<noteq> [] \<and> retentionPolicy e \<noteq> []"

definition repair_policy_ok :: "repair_policy \<Rightarrow> bool" where
  "repair_policy_ok r \<longleftrightarrow>
     failureClasses r \<noteq> [] \<and>
     list_all (\<lambda>(role, sc). role \<noteq> [] \<and> nonempty_strings sc) (patchAuthority r) \<and>
     escalationTarget r \<noteq> []"

definition completion_contract_ok :: "completion_contract \<Rightarrow> bool" where
  "completion_contract_ok c \<longleftrightarrow>
     successStatus c \<noteq> [] \<and> nonempty_strings (failureStatuses c) \<and> failureStatuses c \<noteq> [] \<and>
     nonempty_strings (requiredOutputs c) \<and> requiredOutputs c \<noteq> [] \<and>
     nonempty_strings (completion_evidence c) \<and> completion_evidence c \<noteq> [] \<and>
     executionResultSchemaRef c \<noteq> []"

definition lifecycle_pathway_ok :: "lifecycle_pathway \<Rightarrow> bool" where
  "lifecycle_pathway_ok p \<longleftrightarrow>
     \<not> (pathway_to p = To_accepted \<and> requiredVerification p \<noteq> Fidelity_verification) \<and>
     \<not> (pathway_to p = To_monitored \<and> requiredVerification p \<noteq> Persistence_verification)"

definition packet_audit_ok :: "packet_audit \<Rightarrow> bool" where
  "packet_audit_ok a \<longleftrightarrow>
     packetHash a \<noteq> [] \<and> nonempty_strings (canonicalOrdering a) \<and> canonicalOrdering a \<noteq> [] \<and>
     list_all (\<lambda>(r, f, c). r \<noteq> [] \<and> f \<noteq> [] \<and> nonempty_strings c \<and> c \<noteq> []) (sourceVerification a) \<and>
     sourceVerification a \<noteq> [] \<and> nonempty_strings (unmappedExecutableRefs a) \<and>
     nonempty_strings (policyWarnings a)"

definition packet_ok :: "(string \<Rightarrow> bool) \<Rightarrow> packet \<Rightarrow> bool" where
  "packet_ok is_datetime p \<longleftrightarrow>
     lineage_ok p \<and> starts_with ''EP-'' (artifact_id p) \<and> packetVersion p \<noteq> [] \<and>
     artifact_id_ok (packet_functionId p) \<and> artifact_id_ok (packet_intentSpecificationId p) \<and>
     artifact_id_ok (packet_executableSpecificationId p) \<and>
     artifact_id_ok (selectedArchitectureCandidateId p) \<and>
     starts_with ''AC-'' (selectedArchitectureCandidateId p) \<and>
     artifact_id_ok (runtimeAdmissionId p) \<and> starts_with ''RAD-'' (runtimeAdmissionId p) \<and>
     5 \<le> length (source_refs p) \<and>
     provenance_ok is_datetime (instructionTuning p) \<and> runtime_profile_ok (runtimeProfile p) \<and>
     adapter_binding_ok (adapter p) \<and>
     packet_roles p \<noteq> [] \<and> list_all role_instruction_ok (packet_roles p) \<and>
     graph_nodes p \<noteq> [] \<and> list_all graph_node_ok (graph_nodes p) \<and>
     list_all graph_edge_ok (graph_edges p) \<and> context_bundle_ok (contextBundle p) \<and>
     tool_bindings p \<noteq> [] \<and> list_all tool_binding_ok (tool_bindings p) \<and>
     requiredEvidence p \<noteq> [] \<and> list_all evidence_requirement_ok (requiredEvidence p) \<and>
     nonempty_strings (fidelity_inputs p) \<and> nonempty_strings (persistence_inputs p) \<and>
     repair_policy_ok (repairPolicy p) \<and> completion_contract_ok (completionContract p) \<and>
     lifecycle_pathway_ok (lifecyclePathway p) \<and> packet_audit_ok (audit p)"

section \<open>The JSON of a packet\<close>

abbreviation JStrs :: "string list \<Rightarrow> json" where
  "JStrs xs \<equiv> JArr (map JStr xs)"

abbreviation JNat :: "nat \<Rightarrow> json" where
  "JNat n \<equiv> JNum (rat_of_nat n)"

definition opt_entry :: "string \<Rightarrow> string option \<Rightarrow> (string \<times> json) list" where
  "opt_entry k v = (case v of None \<Rightarrow> [] | Some s \<Rightarrow> [(k, JStr s)])"

fun node_type_str :: "node_type \<Rightarrow> string" where
  "node_type_str Interface = ''interface''"
| "node_type_str Execution = ''execution''"
| "node_type_str Control = ''control''"
| "node_type_str Evidence = ''evidence''"

definition lineage_entries :: "'a lineage_scheme \<Rightarrow> (string \<times> json) list" where
  "lineage_entries l =
     [(''id'', JStr (artifact_id l)), (''source_refs'', JStrs (source_refs l)),
      (''explicitness'', JStr (explicitness_str (explicitness l))),
      (''rationale'', JStr (rationale l))]"

definition es_json :: "executable_specification \<Rightarrow> json" where
  "es_json e =
     JObj (lineage_entries e @
       [(''functionId'', JStr (es_functionId e)),
        (''nodes'', JArr (map (\<lambda>n. JObj
           ([(''id'', JStr (node_id n)), (''type'', JStr (node_type_str (node_type n))),
             (''title'', JStr (node_title n))] @ opt_entry ''implements'' (node_implements n)))
           (nodes e))),
        (''edges'', JArr (map (\<lambda>x. JObj
           ([(''from'', JStr (edge_from x)), (''to'', JStr (edge_to x))] @
            opt_entry ''condition'' (edge_condition x) @
            opt_entry ''dependencyType'' (map_option dependency_str (edge_type x))))
           (edges e)))])"

definition adapter_contract_json :: "domain_adapter_contract \<Rightarrow> json" where
  "adapter_contract_json c =
     JObj [(''adapterId'', JStr (adapterId c)), (''domain'', JStr (domain c)),
       (''substrate'', JStr (substrate c)),
       (''substrateTermMappings'', JArr (map (\<lambda>m. JObj
          [(''adapterTerm'', JStr (adapterTerm m)),
           (''kernelConcept'', JStr (kernel_concept_str (kernelConcept m))),
           (''description'', JStr (description m))]) (substrateTermMappings c))),
       (''supportedExecutionModes'', JStrs (map execution_mode_str (supportedExecutionModes c))),
       (''evidenceSources'', JStrs (adapter_evidenceSources c)),
       (''effectors'', JStrs (effectors c))]"

definition provenance_json :: "tuning_provenance \<Rightarrow> json" where
  "provenance_json t =
     JObj [(''transformationVersion'', JStr (transformationVersion t)),
       (''inputExecutableSpecificationHash'', JStr (inputExecutableSpecificationHash t)),
       (''outputPacketHash'', JStr (outputPacketHash t)),
       (''generatedAt'', JStr (generatedAt t)),
       (''deterministicInputs'', JStrs (deterministicInputs t)),
       (''uncertaintyRefs'', JStrs (uncertaintyRefs t))]"

definition audit_json :: "packet_audit \<Rightarrow> json" where
  "audit_json a =
     JObj [(''packetHash'', JStr (packetHash a)),
       (''canonicalOrdering'', JStrs (canonicalOrdering a)),
       (''sourceVerification'', JArr (map (\<lambda>(r, f, c). JObj
          [(''sourceRef'', JStr r), (''sourceField'', JStr f), (''consumedByPacketField'', JStrs c)])
          (sourceVerification a))),
       (''unmappedExecutableRefs'', JStrs (unmappedExecutableRefs a)),
       (''policyWarnings'', JStrs (policyWarnings a))]"

definition runtime_profile_json :: "runtime_profile \<Rightarrow> json" where
  "runtime_profile_json r =
     JObj ([(''profileId'', JStr (profileId r)), (''roleCatalogRef'', JStr (roleCatalogRef r)),
       (''toolCatalogRef'', JStr (toolCatalogRef r)),
       (''memoryCatalogRef'', JStr (memoryCatalogRef r)),
       (''policyCatalogRef'', JStr (policyCatalogRef r))] @
       opt_entry ''modelPolicyRef'' (modelPolicyRef r) @
       [(''suppliedBy'', JStr ''trellis-runtime'')])"

definition adapter_binding_json :: "adapter_binding \<Rightarrow> json" where
  "adapter_binding_json a =
     (let r = executionRequest a in
      JObj [(''adapterId'', JStr (bound_adapterId a)),
        (''adapterContractRef'', JStr (adapterContractRef a)),
        (''adapterContractHash'', JStr (adapterContractHash a)),
        (''executionMode'', JStr (execution_mode_str (executionMode a))),
        (''requiredEffectors'', JStrs (requiredEffectors a)),
        (''requiredEvidenceSources'', JStrs (requiredEvidenceSources a)),
        (''executionRequest'', JObj
          [(''adapterId'', JStr (req_adapterId r)), (''functionId'', JStr (req_functionId r)),
           (''intentSpecificationId'', JStr (req_intentSpecificationId r)),
           (''executableSpecificationId'', JStr (req_executableSpecificationId r)),
           (''runId'', JStr (req_runId r)), (''mode'', JStr (execution_mode_str (req_mode r))),
           (''parameters'', JObj (req_parameters r))])])"

definition role_json :: "role_instruction \<Rightarrow> json" where
  "role_json r =
     JObj [(''roleId'', JStr (roleId r)), (''roleKind'', JStr (roleKind r)),
       (''objective'', JStr (objective r)), (''inputs'', JStrs (role_inputs r)),
       (''outputs'', JStrs (role_outputs r)), (''toolBindingRefs'', JStrs (toolBindingRefs r)),
       (''evidenceObligations'', JStrs (evidenceObligations r)),
       (''stopConditions'', JStrs (stopConditions r)),
       (''escalationConditions'', JStrs (escalationConditions r)),
       (''instruction'', JStr (instruction r)),
       (''provenanceRefs'', JStrs (role_provenanceRefs r))]"

definition role_graph_json :: "graph_node list \<Rightarrow> graph_edge list \<Rightarrow> json" where
  "role_graph_json ns es =
     JObj [(''nodes'', JArr (map (\<lambda>n. JObj
         [(''roleId'', JStr (graph_roleId n)),
          (''executableNodeRefs'', JStrs (executableNodeRefs n)),
          (''dependsOn'', JStrs (dependsOn n)), (''parallelizable'', JBool (parallelizable n))]) ns)),
       (''edges'', JArr (map (\<lambda>e. JObj
         [(''from'', JStr (graph_from e)), (''to'', JStr (graph_to e)),
          (''reason'', JStr (graph_reason e)), (''blocking'', JBool (blocking e))]) es))]"

definition context_json :: "context_bundle \<Rightarrow> json" where
  "context_json c =
     JObj [(''intentSummary'', JStr (intentSummary c)),
       (''executableSummary'', JStr (executableSummary c)),
       (''invariants'', JStrs (context_invariants c)),
       (''validationRefs'', JStrs (validationRefs c)),
       (''domainContextRefs'', JStrs (domainContextRefs c)),
       (''memoryRefs'', JStrs (memoryRefs c)),
       (''omittedContext'', JArr (map (\<lambda>(r, w). JObj [(''ref'', JStr r), (''reason'', JStr w)])
          (omittedContext c))),
       (''provenanceRefs'', JStrs (context_provenanceRefs c))]"

fun operation_str :: "tool_operation \<Rightarrow> string" where
  "operation_str Read_op = ''read''"
| "operation_str Write_op = ''write''"
| "operation_str Execute_op = ''execute''"

fun idempotency_str :: "tool_idempotency \<Rightarrow> string" where
  "idempotency_str Required_idem = ''required''"
| "idempotency_str Best_effort = ''best-effort''"
| "idempotency_str Not_applicable = ''not-applicable''"

definition tool_binding_json :: "tool_binding \<Rightarrow> json" where
  "tool_binding_json b =
     JObj [(''bindingId'', JStr (bindingId b)), (''toolName'', JStr (toolName b)),
       (''roles'', JStrs (binding_roles b)), (''operation'', JStr (operation_str (operation b))),
       (''parameterSchemaRef'', JStr (parameterSchemaRef b)),
       (''scopeSchemaRef'', JStr (scopeSchemaRef b)), (''scope'', JStrs (tool_scope b)),
       (''constraints'', JStrs (tool_constraints b)), (''timeoutMs'', JNat (timeoutMs b)),
       (''approvalRequired'', JBool (approvalRequired b)),
       (''idempotency'', JStr (idempotency_str (idempotency b))),
       (''evidenceRequired'', JBool (evidenceRequired b))]"

fun verifier_target_str :: "verifier_target \<Rightarrow> string" where
  "verifier_target_str Fidelity = ''fidelity''"
| "verifier_target_str Persistence = ''persistence''"
| "verifier_target_str Both = ''both''"

definition evidence_json :: "evidence_requirement \<Rightarrow> json" where
  "evidence_json e =
     JObj [(''evidenceId'', JStr (evidenceId e)), (''producedByRole'', JStr (producedByRole e)),
       (''verifies'', JStrs (verifies e)),
       (''verifierTarget'', JStr (verifier_target_str (verifierTarget e))),
       (''source'', JStr (evidence_source e)), (''collectionSource'', JStr (collectionSource e)),
       (''expectedOutcome'', JStr (expectedOutcome e)),
       (''retentionPolicy'', JStr (retentionPolicy e)), (''hashRequired'', JBool (hashRequired e)),
       (''requiredForCompletion'', JBool (requiredForCompletion e))]"

fun failure_code_str :: "failure_code \<Rightarrow> string" where
  "failure_code_str Role_output_invalid = ''role-output-invalid''"
| "failure_code_str Required_evidence_missing = ''required-evidence-missing''"
| "failure_code_str Tool_policy_violation = ''tool-policy-violation''"
| "failure_code_str Adapter_contract_violation = ''adapter-contract-violation''"
| "failure_code_str Invariant_violation = ''invariant-violation''"
| "failure_code_str Validation_failed = ''validation-failed''"
| "failure_code_str Runtime_timeout = ''runtime-timeout''"
| "failure_code_str Runtime_resource_exhausted = ''runtime-resource-exhausted''"
| "failure_code_str Human_escalation_required = ''human-escalation-required''"

fun repair_authority_str :: "repair_authority \<Rightarrow> string" where
  "repair_authority_str No_authority = ''none''"
| "repair_authority_str Same_scope = ''same-scope''"
| "repair_authority_str Narrower_scope = ''narrower-scope''"

definition repair_policy_json :: "repair_policy \<Rightarrow> json" where
  "repair_policy_json r =
     JObj [(''maxRepairAttempts'', JNat (maxRepairAttempts r)),
       (''failureClasses'', JArr (map (\<lambda>c. JObj
          [(''code'', JStr (failure_code_str (failure_code c))), (''retryable'', JBool (retryable c)),
           (''repairAuthority'', JStr (repair_authority_str (repairAuthority c))),
           (''recertificationRequired'', JBool (recertificationRequired c))]) (failureClasses r))),
       (''patchAuthority'', JArr (map (\<lambda>(role, sc). JObj
          [(''roleId'', JStr role), (''scope'', JStrs sc)]) (patchAuthority r))),
       (''escalationTarget'', JStr (escalationTarget r))]"

definition completion_json :: "completion_contract \<Rightarrow> json" where
  "completion_json c =
     JObj [(''successStatus'', JStr (successStatus c)),
       (''failureStatuses'', JStrs (failureStatuses c)),
       (''requiredOutputs'', JStrs (requiredOutputs c)),
       (''requiredEvidence'', JStrs (completion_evidence c)),
       (''executionResultSchemaRef'', JStr (executionResultSchemaRef c))]"

fun pathway_from_str :: "lifecycle_from \<Rightarrow> string" where
  "pathway_from_str From_designed = ''designed''"
| "pathway_from_str From_in_progress = ''in_progress''"
| "pathway_from_str From_produced = ''produced''"
| "pathway_from_str From_accepted = ''accepted''"

fun pathway_to_str :: "lifecycle_to \<Rightarrow> string" where
  "pathway_to_str To_in_progress = ''in_progress''"
| "pathway_to_str To_produced = ''produced''"
| "pathway_to_str To_accepted = ''accepted''"
| "pathway_to_str To_monitored = ''monitored''"
| "pathway_to_str To_none = ''none''"

fun required_verification_str :: "required_verification \<Rightarrow> string" where
  "required_verification_str No_verification = ''none''"
| "required_verification_str Fidelity_verification = ''fidelity-verification''"
| "required_verification_str Persistence_verification = ''persistence-verification''"

definition pathway_json :: "lifecycle_pathway \<Rightarrow> json" where
  "pathway_json p =
     JObj [(''from'', JStr (pathway_from_str (pathway_from p))),
       (''to'', JStr (pathway_to_str (pathway_to p))),
       (''requiredVerification'', JStr (required_verification_str (requiredVerification p)))]"

text \<open>The fields of the packet other than the two that hold its hash.\<close>

definition packet_content_entries :: "packet \<Rightarrow> (string \<times> json) list" where
  "packet_content_entries p =
     lineage_entries p @
     [(''packetVersion'', JStr (packetVersion p)), (''functionId'', JStr (packet_functionId p)),
      (''intentSpecificationId'', JStr (packet_intentSpecificationId p)),
      (''executableSpecificationId'', JStr (packet_executableSpecificationId p)),
      (''selectedArchitectureCandidateId'', JStr (selectedArchitectureCandidateId p)),
      (''runtimeAdmissionId'', JStr (runtimeAdmissionId p)),
      (''runtimeProfile'', runtime_profile_json (runtimeProfile p)),
      (''adapter'', adapter_binding_json (adapter p)),
      (''roles'', JArr (map role_json (packet_roles p))),
      (''roleGraph'', role_graph_json (graph_nodes p) (graph_edges p)),
      (''contextBundle'', context_json (contextBundle p)),
      (''toolPolicy'', JObj [(''defaultPolicy'', JStr ''deny''),
         (''bindings'', JArr (map tool_binding_json (tool_bindings p)))]),
      (''evidencePlan'', JObj
         [(''requiredEvidence'', JArr (map evidence_json (requiredEvidence p))),
          (''verificationInputs'', JObj
             [(''fidelity'', JStrs (fidelity_inputs p)),
              (''persistence'', JStrs (persistence_inputs p))])]),
      (''repairPolicy'', repair_policy_json (repairPolicy p)),
      (''completionContract'', completion_json (completionContract p)),
      (''lifecyclePathway'', pathway_json (lifecyclePathway p))]"

definition packet_json :: "packet \<Rightarrow> json" where
  "packet_json p =
     JObj (packet_content_entries p @
       [(''instructionTuning'', provenance_json (instructionTuning p)),
        (''audit'', audit_json (audit p))])"

definition computeTrellisPacketHash :: "host \<Rightarrow> packet \<Rightarrow> string" where
  "computeTrellisPacketHash h p = trellisContentHash h (packet_json p)"

text \<open>Writing the hash into a packet, or another generation time, does not change the hash.\<close>

lemma provenance_hash_free:
  "canonicalize h (Some ''instructionTuning'') [''instructionTuning'']
     (provenance_json (t\<lparr>outputPacketHash := x, generatedAt := y\<rparr>)) =
   canonicalize h (Some ''instructionTuning'') [''instructionTuning''] (provenance_json t)"
  unfolding provenance_json_def
  by (rule canonicalize_JObj_cong) (simp add: shouldOmitForPacketHash_def)

lemma audit_hash_free:
  "canonicalize h (Some ''audit'') [''audit''] (audit_json (a\<lparr>packetHash := x\<rparr>)) =
   canonicalize h (Some ''audit'') [''audit''] (audit_json a)"
  unfolding audit_json_def
  by (rule canonicalize_JObj_cong) (simp add: shouldOmitForPacketHash_def)

lemma packet_hash_free:
  "computeTrellisPacketHash h
     (p\<lparr>instructionTuning := (instructionTuning p)\<lparr>outputPacketHash := x, generatedAt := y\<rparr>,
        audit := (audit p)\<lparr>packetHash := z\<rparr>\<rparr>) =
   computeTrellisPacketHash h p"
proof -
  let ?q = "p\<lparr>instructionTuning := (instructionTuning p)\<lparr>outputPacketHash := x, generatedAt := y\<rparr>,
    audit := (audit p)\<lparr>packetHash := z\<rparr>\<rparr>"
  have c: "packet_content_entries ?q = packet_content_entries p"
    by (simp add: packet_content_entries_def lineage_entries_def)
  have "canonicalize h None [] (packet_json ?q) = canonicalize h None [] (packet_json p)"
    unfolding packet_json_def c
    by (rule canonicalize_JObj_cong)
       (simp add: shouldOmitForPacketHash_def provenance_hash_free audit_hash_free)
  then show ?thesis
    by (simp add: computeTrellisPacketHash_def trellisContentHash_def canonicalTrellisJson_def)
qed

section \<open>Certification\<close>

record certification =
  cert_valid :: bool
  cert_diagnostics :: "string list"
  cert_hash :: string

text \<open>The diagnostic of a reference that does not resolve.\<close>

definition missing_ref :: "string list \<Rightarrow> string \<Rightarrow> string \<Rightarrow> string list" where
  "missing_ref known message x = (if x \<in> set known then [] else [message @ x])"

definition certification_diagnostics :: "host \<Rightarrow> packet \<Rightarrow> string list" where
  "certification_diagnostics h p =
     (let roleIds = map roleId (packet_roles p);
          toolBindingIds = map bindingId (tool_bindings p);
          evidenceIds = map evidenceId (requiredEvidence p);
          computedHash = computeTrellisPacketHash h p
      in (if packetHash (audit p) \<noteq> computedHash
          then [''audit.packetHash does not match canonical packet hash''] else []) @
         (if outputPacketHash (instructionTuning p) \<noteq> computedHash
          then [''instructionTuning.outputPacketHash does not match canonical packet hash'']
          else []) @
         (if unmappedExecutableRefs (audit p) \<noteq> []
          then [''audit.unmappedExecutableRefs must be empty''] else []) @
         concat (map (\<lambda>n.
             missing_ref roleIds ''roleGraph node references missing role: '' (graph_roleId n) @
             concat (map (missing_ref roleIds ''roleGraph dependency references missing role: '')
               (dependsOn n))) (graph_nodes p)) @
         concat (map (\<lambda>e.
             missing_ref roleIds ''roleGraph edge.from references missing role: '' (graph_from e) @
             missing_ref roleIds ''roleGraph edge.to references missing role: '' (graph_to e))
             (graph_edges p)) @
         concat (map (\<lambda>r.
             concat (map (missing_ref toolBindingIds
               (''role '' @ roleId r @ '' references missing tool binding: '')) (toolBindingRefs r)) @
             concat (map (missing_ref evidenceIds
               (''role '' @ roleId r @ '' references missing evidence obligation: ''))
               (evidenceObligations r))) (packet_roles p)) @
         concat (map (\<lambda>b.
             concat (map (missing_ref roleIds
               (''tool binding '' @ bindingId b @ '' references missing role: '')) (binding_roles b)))
             (tool_bindings p)) @
         concat (map (\<lambda>e.
             missing_ref roleIds (''evidence '' @ evidenceId e @ '' references missing role: '')
               (producedByRole e)) (requiredEvidence p)) @
         concat (map (missing_ref evidenceIds ''completionContract references missing evidence: '')
           (completion_evidence (completionContract p))) @
         (if sourceVerification (audit p) = []
          then [''audit.sourceVerification must not be empty''] else []))"

text \<open>
  The issues the schema library reports of a value that does not parse are the parameter
  \<open>schema_issues\<close>.
\<close>

definition certifyTrellisExecutionPacket ::
  "host \<Rightarrow> (string \<Rightarrow> bool) \<Rightarrow> (packet \<Rightarrow> string list) \<Rightarrow> packet \<Rightarrow> certification" where
  "certifyTrellisExecutionPacket h is_datetime schema_issues p =
     (if \<not> packet_ok is_datetime p
      then \<lparr>cert_valid = False, cert_diagnostics = schema_issues p, cert_hash = []\<rparr>
      else (let ds = certification_diagnostics h p in
        \<lparr>cert_valid = (ds = []), cert_diagnostics = ds,
         cert_hash = computeTrellisPacketHash h p\<rparr>))"

text \<open>What certification promises: every reference inside the packet resolves.\<close>

definition packet_closed :: "packet \<Rightarrow> bool" where
  "packet_closed p \<longleftrightarrow>
     (let roleIds = set (map roleId (packet_roles p));
          bindings = set (map bindingId (tool_bindings p));
          evidence = set (map evidenceId (requiredEvidence p))
      in (\<forall>n \<in> set (graph_nodes p). graph_roleId n \<in> roleIds \<and> set (dependsOn n) \<subseteq> roleIds) \<and>
         (\<forall>e \<in> set (graph_edges p). graph_from e \<in> roleIds \<and> graph_to e \<in> roleIds) \<and>
         (\<forall>r \<in> set (packet_roles p). set (toolBindingRefs r) \<subseteq> bindings \<and>
            set (evidenceObligations r) \<subseteq> evidence) \<and>
         (\<forall>b \<in> set (tool_bindings p). set (binding_roles b) \<subseteq> roleIds) \<and>
         (\<forall>e \<in> set (requiredEvidence p). producedByRole e \<in> roleIds) \<and>
         set (completion_evidence (completionContract p)) \<subseteq> evidence)"

lemma missing_ref_Nil [simp]: "missing_ref known m x = [] \<longleftrightarrow> x \<in> set known"
  by (simp add: missing_ref_def)

lemma if_list_Nil [simp]: "(if b then [x] else []) = [] \<longleftrightarrow> \<not> b"
  by simp

lemma certification_diagnostics_Nil:
  "certification_diagnostics h p = [] \<longleftrightarrow>
     packetHash (audit p) = computeTrellisPacketHash h p \<and>
     outputPacketHash (instructionTuning p) = computeTrellisPacketHash h p \<and>
     unmappedExecutableRefs (audit p) = [] \<and> sourceVerification (audit p) \<noteq> [] \<and>
     packet_closed p"
  unfolding certification_diagnostics_def packet_closed_def Let_def
  by (simp add: subset_eq ball_conj_distrib) (simp only: conj_ac)

lemma certify_valid:
  "cert_valid (certifyTrellisExecutionPacket h dt zi p) \<longleftrightarrow>
     packet_ok dt p \<and> certification_diagnostics h p = []"
  by (simp add: certifyTrellisExecutionPacket_def Let_def)

end
