(* ===== verification/Instruction_Tuning.thy ===== *)
theory Instruction_Tuning
  imports Trellis_Packet
begin

text \<open>
  Instruction Tuning (\<open>packages/compiler/src/instruction-tuning.ts\<close>): an Executable
  Specification, its selected architecture candidate and its runtime admission are projected
  into a certified Trellis Execution Packet, or blocked with diagnostics.
\<close>

section \<open>Slugs and ids\<close>

text \<open>\<open>replace(/[^..]+/g, "-")\<close>: every run of characters outside the class becomes a hyphen.\<close>

lemma dropWhile_shorter [termination_simp]: "length (dropWhile P xs) < Suc (length xs)"
  by (simp add: less_Suc_eq_le length_dropWhile_le)

fun collapse :: "(char \<Rightarrow> bool) \<Rightarrow> string \<Rightarrow> string" where
  "collapse P [] = []"
| "collapse P (c # cs) =
     (if P c then c # collapse P cs else CHR ''-'' # collapse P (dropWhile (\<lambda>x. \<not> P x) cs))"

text \<open>\<open>replace(/^-+|-+$/g, "")\<close>\<close>

definition strip_hyphens :: "string \<Rightarrow> string" where
  "strip_hyphens s =
     rev (dropWhile (\<lambda>c. c = CHR ''-'') (rev (dropWhile (\<lambda>c. c = CHR ''-'') s)))"

text \<open>\<open>s || d\<close>\<close>

definition or_default :: "string \<Rightarrow> string \<Rightarrow> string" where
  "or_default s d = (if s = [] then d else s)"

text \<open>\<open>replace(/^[A-Z]+-/, "")\<close>\<close>

definition drop_type_prefix :: "string \<Rightarrow> string" where
  "drop_type_prefix s =
     (let p = takeWhile is_upper s; r = drop (length p) s
      in if p \<noteq> [] \<and> starts_with ''-'' r then tl r else s)"

definition subject_of :: "string \<Rightarrow> string" where
  "subject_of v =
     or_default (strip_hyphens (collapse id_char (to_upper (drop_type_prefix v)))) ''UNKNOWN''"

definition uncertaintyId :: "string \<Rightarrow> string" where
  "uncertaintyId seed =
     ''UNC-'' @ or_default (strip_hyphens (collapse id_head (to_upper seed))) ''INSTRUCTION-TUNING''"

definition roleIdFor :: "string \<Rightarrow> string" where
  "roleIdFor n =
     ''role-'' @ or_default (strip_hyphens (collapse kebab_head (to_lower n))) ''node''"

definition roleKindFor :: "es_node \<Rightarrow> string" where
  "roleKindFor n =
     or_default (collapse (\<lambda>c. kebab_head c \<or> c = CHR ''-'') (to_lower (node_type_str (node_type n))))
       ''executor''"

definition uniqueArtifactIds :: "string list \<Rightarrow> string list" where
  "uniqueArtifactIds vs = oset_of (filter artifact_id_ok vs)"

definition firstOrDefault :: "string list \<Rightarrow> string \<Rightarrow> string" where
  "firstOrDefault vs d = (case vs of [] \<Rightarrow> d | v # _ \<Rightarrow> v)"

definition firstDuplicate :: "string list \<Rightarrow> string option" where
  "firstDuplicate vs = first_dup_from [] vs"

text \<open>\<open>ArtifactId.parse\<close>, which throws.\<close>

datatype tuning_error = Invalid_artifact_id string | Invalid_packet | Invalid_result

definition parse_artifact_id :: "string \<Rightarrow> tuning_error + string" where
  "parse_artifact_id s = (if artifact_id_ok s then Inr s else Inl (Invalid_artifact_id s))"

definition packetIdFor :: "string \<Rightarrow> string \<Rightarrow> string \<Rightarrow> string \<Rightarrow> tuning_error + string" where
  "packetIdFor f e c a =
     parse_artifact_id (''EP-'' @ subject_of f @ ''-'' @ subject_of e @ ''-'' @ subject_of c @
       ''-'' @ subject_of a)"

definition artifactIdOrDerived :: "string \<Rightarrow> string \<Rightarrow> tuning_error + string" where
  "artifactIdOrDerived pre c =
     (if artifact_id_ok c \<and> starts_with (pre @ ''-'') c then Inr c
      else parse_artifact_id (pre @ ''-'' @ subject_of c))"

section \<open>Cycles of the role graph\<close>

text \<open>
  The \<open>outgoing\<close> map: the targets of the edges that leave a node of the graph, in order.
  Edges with an empty end, or that leave no node of the graph, are skipped.
\<close>

definition outgoing :: "string list \<Rightarrow> es_edge list \<Rightarrow> string \<Rightarrow> string list" where
  "outgoing ns es n =
     (if n \<in> set ns
      then map edge_to (filter (\<lambda>e. edge_from e \<noteq> [] \<and> edge_to e \<noteq> [] \<and> edge_from e = n) es)
      else [])"

lemma fewer_unvisited:
  "n \<notin> set visiting \<Longrightarrow> n \<in> set ns \<Longrightarrow>
     card (set ns - insert n (set visiting)) < card (set ns - set visiting)"
  by (rule psubset_card_mono) auto

text \<open>
  The depth-first search. A call that returns false leaves \<open>visiting\<close> as it found it, and
  after a call that returns true nothing is read any more, so \<open>visiting\<close> is an argument
  and \<open>visited\<close> is threaded. The measure is the number of nodes that are not being visited:
  only a node of the graph has outgoing edges.
\<close>

function (sequential)
      visit :: "string list \<Rightarrow> es_edge list \<Rightarrow> string list \<Rightarrow> string list \<Rightarrow> string \<Rightarrow>
        bool \<times> string list"
  and visit_all :: "string list \<Rightarrow> es_edge list \<Rightarrow> string list \<Rightarrow> string list \<Rightarrow> string list \<Rightarrow>
        bool \<times> string list"
where
  "visit ns es visiting visited n =
     (if n \<in> set visiting then (True, visited)
      else if n \<in> set visited then (False, visited)
      else if n \<notin> set ns then (False, n # visited)
      else (case visit_all ns es (n # visiting) visited (outgoing ns es n) of
              (True, vd) \<Rightarrow> (True, vd)
            | (False, vd) \<Rightarrow> (False, n # vd)))"
| "visit_all ns es visiting visited [] = (False, visited)"
| "visit_all ns es visiting visited (m # ms) =
     (case visit ns es visiting visited m of
        (True, vd) \<Rightarrow> (True, vd)
      | (False, vd) \<Rightarrow> visit_all ns es visiting vd ms)"
  by pat_completeness auto

termination
  by (relation "measures
        [\<lambda>x. case x of Inl (ns, es, vg, vd, n) \<Rightarrow> card (set ns - set vg)
                     | Inr (ns, es, vg, vd, ms) \<Rightarrow> card (set ns - set vg),
         \<lambda>x. case x of Inl (ns, es, vg, vd, n) \<Rightarrow> 0 | Inr (ns, es, vg, vd, ms) \<Rightarrow> Suc (length ms)]")
     (simp_all add: fewer_unvisited del: card_Diff_insert)

definition hasCycle :: "string list \<Rightarrow> es_edge list \<Rightarrow> bool" where
  "hasCycle ns es = fst (visit_all ns es [] [] ns)"

text \<open>The specification: the edges between the nodes close a cycle.\<close>

definition edge_rel :: "string list \<Rightarrow> es_edge list \<Rightarrow> (string \<times> string) set" where
  "edge_rel ns es = {(a, b). b \<in> set (outgoing ns es a)}"

lemma visit_sound:
  "visit ns es visiting visited n = (True, vd) \<Longrightarrow>
     (\<And>v. v \<in> set visiting \<Longrightarrow> (v, n) \<in> (edge_rel ns es)\<^sup>+) \<Longrightarrow> \<exists>x. (x, x) \<in> (edge_rel ns es)\<^sup>+"
  "visit_all ns es visiting visited ms = (True, vd) \<Longrightarrow>
     (\<And>v m. v \<in> set visiting \<Longrightarrow> m \<in> set ms \<Longrightarrow> (v, m) \<in> (edge_rel ns es)\<^sup>+) \<Longrightarrow>
     \<exists>x. (x, x) \<in> (edge_rel ns es)\<^sup>+"
proof (induction ns es visiting visited n and ns es visiting visited ms arbitrary: vd and vd
    rule: visit_visit_all.induct)
  case (1 ns es visiting visited n)
  show ?case
  proof (cases "n \<in> set visiting")
    case True
    with 1(3) show ?thesis by blast
  next
    case False
    with 1(2) have new: "n \<notin> set visited" "n \<in> set ns"
      and rec: "visit_all ns es (n # visiting) visited (outgoing ns es n) = (True, vd)"
      by (auto split: if_splits prod.splits bool.splits)
    have "(v, m) \<in> (edge_rel ns es)\<^sup>+" if "v \<in> set (n # visiting)" "m \<in> set (outgoing ns es n)" for v m
    proof -
      have e: "(n, m) \<in> edge_rel ns es" using that(2) by (simp add: edge_rel_def)
      show ?thesis
      proof (cases "v = n")
        case False
        with that(1) 1(3) have "(v, n) \<in> (edge_rel ns es)\<^sup>+" by simp
        then show ?thesis using e by (rule trancl_into_trancl)
      qed (use e in blast)
    qed
    with 1(1) [OF False new(1) _ rec] new(2) show ?thesis by blast
  qed
next
  case (2 ns es visiting visited)
  then show ?case by simp
next
  case (3 ns es visiting visited m ms)
  obtain b vd' where v: "visit ns es visiting visited m = (b, vd')" by fastforce
  show ?case
  proof (cases b)
    case True
    with 3(1) [of vd'] v 3(4) show ?thesis by simp
  next
    case False
    with 3(3) v have "visit_all ns es visiting vd' ms = (True, vd)" by simp
    with 3(2) [OF v [symmetric], of vd] False 3(4) show ?thesis by simp
  qed
qed

text \<open>A set of finished nodes: closed under the edges, and without a cycle through it.\<close>

definition finished :: "string list \<Rightarrow> es_edge list \<Rightarrow> string list \<Rightarrow> bool" where
  "finished ns es vd \<longleftrightarrow>
     (\<forall>x \<in> set vd. set (outgoing ns es x) \<subseteq> set vd \<and> (x, x) \<notin> (edge_rel ns es)\<^sup>+)"

lemma finished_reach:
  assumes "finished ns es vd" "(x, y) \<in> (edge_rel ns es)\<^sup>*" "x \<in> set vd"
  shows "y \<in> set vd"
  using assms(2,3) by induction (use assms(1) in \<open>auto simp: finished_def edge_rel_def\<close>)

lemma finished_insert:
  assumes f: "finished ns es vd" and n: "n \<notin> set vd" and out: "set (outgoing ns es n) \<subseteq> set vd"
  shows "finished ns es (n # vd)"
proof -
  have "(n, n) \<notin> (edge_rel ns es)\<^sup>+"
  proof
    assume "(n, n) \<in> (edge_rel ns es)\<^sup>+"
    then obtain m where "(n, m) \<in> edge_rel ns es" "(m, n) \<in> (edge_rel ns es)\<^sup>*"
      by (blast dest: tranclD)
    moreover from this(1) out have "m \<in> set vd" by (auto simp: edge_rel_def)
    ultimately show False using finished_reach [OF f] n by blast
  qed
  with f out show ?thesis by (auto simp: finished_def)
qed

lemma visit_complete:
  "visit ns es visiting visited n = (False, vd) \<Longrightarrow> finished ns es visited \<Longrightarrow>
     set visiting \<inter> set visited = {} \<Longrightarrow>
     finished ns es vd \<and> insert n (set visited) \<subseteq> set vd \<and> set visiting \<inter> set vd = {}"
  "visit_all ns es visiting visited ms = (False, vd) \<Longrightarrow> finished ns es visited \<Longrightarrow>
     set visiting \<inter> set visited = {} \<Longrightarrow>
     finished ns es vd \<and> set ms \<union> set visited \<subseteq> set vd \<and> set visiting \<inter> set vd = {}"
proof (induction ns es visiting visited n and ns es visiting visited ms arbitrary: vd and vd
    rule: visit_visit_all.induct)
  case (1 ns es visiting visited n)
  from 1(2) have nv: "n \<notin> set visiting" by (auto split: if_splits)
  consider "n \<in> set visited" | "n \<notin> set visited" "n \<notin> set ns" | "n \<notin> set visited" "n \<in> set ns"
    by blast
  then show ?case
  proof cases
    case 1
    with "1.prems" nv show ?thesis by auto
  next
    case 2
    then have "outgoing ns es n = []" by (simp add: outgoing_def)
    with finished_insert [OF "1.prems"(2) 2(1)] 2 "1.prems" nv show ?thesis by auto
  next
    case 3
    with "1.prems"(1) nv obtain vd' where
      rec: "visit_all ns es (n # visiting) visited (outgoing ns es n) = (False, vd')"
      and vd: "vd = n # vd'" by (auto split: prod.splits bool.splits)
    have d: "set (n # visiting) \<inter> set visited = {}" using 3 "1.prems"(3) by auto
    from "1.IH" [OF nv 3(1) _ rec "1.prems"(2) d] 3
    have f: "finished ns es vd'" and sub: "set (outgoing ns es n) \<union> set visited \<subseteq> set vd'"
      and dis: "set (n # visiting) \<inter> set vd' = {}" by auto
    from dis sub have "finished ns es vd" unfolding vd
      by (intro finished_insert [OF f]) auto
    with sub dis vd nv show ?thesis by auto
  qed
next
  case (2 ns es visiting visited)
  then show ?case by auto
next
  case (3 ns es visiting visited m ms)
  from 3(3) obtain vd' where v: "visit ns es visiting visited m = (False, vd')"
    and r: "visit_all ns es visiting vd' ms = (False, vd)"
    by (auto split: prod.splits bool.splits)
  from 3(1) [OF v 3(4,5)] have h: "finished ns es vd'" "insert m (set visited) \<subseteq> set vd'"
    "set visiting \<inter> set vd' = {}" by auto
  from 3(2) [OF v [symmetric] _ r h(1) h(3)] h(2) show ?case by auto
qed

lemma hasCycle_iff: "hasCycle ns es \<longleftrightarrow> (\<exists>x. (x, x) \<in> (edge_rel ns es)\<^sup>+)"
proof (cases "visit_all ns es [] [] ns")
  case (Pair b vd)
  show ?thesis
  proof (cases b)
    case True
    with Pair visit_sound(2) [of ns es "[]" "[]" ns vd] show ?thesis by (simp add: hasCycle_def)
  next
    case False
    with Pair visit_complete(2) [of ns es "[]" "[]" ns vd]
    have f: "finished ns es vd" and sub: "set ns \<subseteq> set vd" by (auto simp: finished_def)
    have "x \<in> set ns" if "(x, x) \<in> (edge_rel ns es)\<^sup>+" for x
      using tranclD [OF that] by (auto simp: edge_rel_def outgoing_def split: if_splits)
    with f sub have "\<not> (\<exists>x. (x, x) \<in> (edge_rel ns es)\<^sup>+)" by (auto simp: finished_def)
    with Pair False show ?thesis by (simp add: hasCycle_def)
  qed
qed

section \<open>Inputs and results\<close>

text \<open>
  \<open>Partial<InstructionTuningInput>\<close>; the execution mode is unchecked text. Executable
  Specifications have passed their schema, so a node always has its id, type and title, and
  an edge has neither a \<open>reason\<close> nor a \<open>label\<close>: the defaults for these do not arise.
\<close>

record tuning_input =
  in_executableSpecification :: "executable_specification option"
  in_candidate :: "architecture_candidate option"
  in_admission :: "runtime_admission option"
  in_adapter :: "domain_adapter_contract option"
  in_profile :: "runtime_profile option"
  in_generatedAt :: "string option"
  in_executionMode :: "string option"

record diagnostic =
  diag_code :: string
  diag_blocking :: bool
  diag_refs :: "string list"
  diag_message :: string

datatype tuning_result =
    Emitted packet "diagnostic list"
  | Blocked "diagnostic list" "string list"

fun truthy :: "string option \<Rightarrow> bool" where
  "truthy None = False"
| "truthy (Some s) = (s \<noteq> [])"

definition missingInputs :: "tuning_input \<Rightarrow> string list" where
  "missingInputs i =
     (if in_executableSpecification i = None then [''executableSpecification''] else []) @
     (if in_candidate i = None then [''selectedArchitectureCandidate''] else []) @
     (if in_admission i = None then [''runtimeAdmission''] else []) @
     (if in_adapter i = None then [''domainAdapterContract''] else []) @
     (if in_profile i = None then [''runtimeProfile''] else []) @
     (if \<not> truthy (in_generatedAt i) then [''generatedAt''] else [])"

definition blocking_diagnostic :: "string \<Rightarrow> string list \<Rightarrow> string \<Rightarrow> diagnostic" where
  "blocking_diagnostic code refs message =
     \<lparr>diag_code = code, diag_blocking = True, diag_refs = refs, diag_message = message\<rparr>"

definition diagnostic_ok :: "diagnostic \<Rightarrow> bool" where
  "diagnostic_ok d \<longleftrightarrow>
     diag_code d \<noteq> [] \<and> list_all artifact_id_ok (diag_refs d) \<and> diag_refs d \<noteq> [] \<and>
     diag_message d \<noteq> []"

text \<open>\<open>InstructionTuningResult.parse\<close> on the two forms of the result.\<close>

fun tuning_result_ok :: "(string \<Rightarrow> bool) \<Rightarrow> tuning_result \<Rightarrow> bool" where
  "tuning_result_ok dt (Emitted p ds) \<longleftrightarrow> packet_ok dt p \<and> list_all diagnostic_ok ds"
| "tuning_result_ok dt (Blocked ds us) \<longleftrightarrow>
     list_all diagnostic_ok ds \<and> ds \<noteq> [] \<and> list_all (starts_with ''UNC-'') us \<and> us \<noteq> []"

definition parse_result ::
  "(string \<Rightarrow> bool) \<Rightarrow> tuning_result \<Rightarrow> tuning_error + tuning_result" where
  "parse_result dt r = (if tuning_result_ok dt r then Inr r else Inl Invalid_result)"

definition blocked ::
  "(string \<Rightarrow> bool) \<Rightarrow> string \<Rightarrow> string \<Rightarrow> string list \<Rightarrow> string list \<Rightarrow>
   tuning_error + tuning_result" where
  "blocked dt code message refs seeds =
     (let rs = (if refs \<noteq> [] then refs else [''IS-MISSING-CONTEXT''])
      in parse_result dt (Blocked [blocking_diagnostic code rs message] (map uncertaintyId seeds)))"

definition adapter_contract_ref :: string where
  "adapter_contract_ref = ''CONTRACT-CODING-DOMAIN-ADAPTER''"

definition sourceRefsFor ::
  "executable_specification \<Rightarrow> architecture_candidate \<Rightarrow> runtime_admission \<Rightarrow> string list" where
  "sourceRefsFor es ac rad =
     uniqueArtifactIds
       ([ac_sourceIntentSpecificationId ac, artifact_id es, artifact_id ac, artifact_id rad,
         adapter_contract_ref] @ source_refs es)"

section \<open>The packet draft\<close>

definition read_binding_id :: string where
  "read_binding_id = ''tool-read-executable-specification''"

definition evidence_id :: "string \<Rightarrow> string" where
  "evidence_id role = ''evidence-'' @ role"

definition role_for :: "string \<Rightarrow> string \<Rightarrow> es_node \<Rightarrow> role_instruction" where
  "role_for esid acid n =
     (let role = roleIdFor (node_id n) in
      \<lparr>roleId = role, roleKind = roleKindFor n, objective = node_title n,
       role_inputs = [esid], role_outputs = [''output-'' @ role],
       toolBindingRefs = [read_binding_id], evidenceObligations = [evidence_id role],
       stopConditions = [role @ '' output emitted''],
       escalationConditions = [''tool policy violation'', ''required evidence missing''],
       instruction = ''Execute packet role '' @ role @ '' for Executable Specification node '' @
         node_id n @ ''.'',
       role_provenanceRefs = [esid, acid]\<rparr>)"

definition graph_node_for :: "es_edge list \<Rightarrow> string \<Rightarrow> graph_node" where
  "graph_node_for es n =
     \<lparr>graph_roleId = roleIdFor n, executableNodeRefs = [n],
      dependsOn = map (\<lambda>e. roleIdFor (edge_from e)) (filter (\<lambda>e. edge_to e = n) es),
      parallelizable = \<not> list_ex (\<lambda>e. edge_to e = n \<or> edge_from e = n) es\<rparr>"

definition graph_edge_for :: "es_edge \<Rightarrow> graph_edge" where
  "graph_edge_for e =
     \<lparr>graph_from = roleIdFor (edge_from e), graph_to = roleIdFor (edge_to e),
      graph_reason = ''Executable Specification dependency'', blocking = True\<rparr>"

definition read_binding :: "string list \<Rightarrow> tool_binding" where
  "read_binding roles =
     \<lparr>bindingId = read_binding_id, toolName = ''readExecutableSpecification'',
      binding_roles = roles, operation = Read_op,
      parameterSchemaRef = ''schema.tool.readExecutableSpecification'',
      scopeSchemaRef = ''schema.scope.executableSpecification'', tool_scope = [],
      tool_constraints = [''read-only''], timeoutMs = 30000, approvalRequired = False,
      idempotency = Not_applicable, evidenceRequired = False\<rparr>"

definition evidence_for :: "string \<Rightarrow> evidence_requirement" where
  "evidence_for n =
     (let role = roleIdFor n in
      \<lparr>evidenceId = evidence_id role, producedByRole = role, verifies = [n],
       verifierTarget = Fidelity, evidence_source = ''trellis-role-output'',
       collectionSource = ''execution_artifacts'', expectedOutcome = role @ '' completed'',
       retentionPolicy = ''retain-with-execution-result'', hashRequired = True,
       requiredForCompletion = True\<rparr>)"

definition tuning_repair_policy :: repair_policy where
  "tuning_repair_policy =
     \<lparr>maxRepairAttempts = 1,
      failureClasses =
        [\<lparr>failure_code = Role_output_invalid, retryable = True, repairAuthority = Same_scope,
          recertificationRequired = False\<rparr>,
         \<lparr>failure_code = Tool_policy_violation, retryable = False, repairAuthority = No_authority,
          recertificationRequired = True\<rparr>,
         \<lparr>failure_code = Required_evidence_missing, retryable = False,
          repairAuthority = No_authority, recertificationRequired = True\<rparr>],
      patchAuthority = [], escalationTarget = ''human-governance''\<rparr>"

definition tuning_audit :: "string \<Rightarrow> string \<Rightarrow> packet_audit" where
  "tuning_audit esid acid =
     \<lparr>packetHash = ''pending'',
      canonicalOrdering = [''source_refs'', ''roles.roleId'', ''roleGraph.nodes.roleId'',
        ''toolPolicy.bindings.bindingId'', ''evidencePlan.requiredEvidence.evidenceId''],
      sourceVerification =
        [(esid, ''nodes'', [''roles'', ''roleGraph'', ''evidencePlan'']),
         (acid, ''topology'', [''roleGraph'', ''repairPolicy''])],
      unmappedExecutableRefs = [], policyWarnings = []\<rparr>"

definition packet_draft ::
  "host \<Rightarrow> executable_specification \<Rightarrow> architecture_candidate \<Rightarrow> runtime_admission \<Rightarrow>
   domain_adapter_contract \<Rightarrow> runtime_profile \<Rightarrow> string \<Rightarrow> execution_mode \<Rightarrow>
   string \<Rightarrow> string \<Rightarrow> string \<Rightarrow> string \<Rightarrow> packet" where
  "packet_draft h es ac rad ad prof tm mode pid fid isid esid =
     (let refs = sourceRefsFor es ac rad; ids = map node_id (nodes es);
          roles = map roleIdFor ids; evidence = map evidence_id roles
      in \<lparr>artifact_id = pid, source_refs = refs, explicitness = Inferred,
          rationale = ''Instruction Tuning projected '' @ esid @ '' through '' @ artifact_id ac @
            '' into a Trellis Execution Packet.'',
          packetVersion = ''trellis-packet-v1'', packet_functionId = fid,
          packet_intentSpecificationId = isid, packet_executableSpecificationId = esid,
          selectedArchitectureCandidateId = artifact_id ac, runtimeAdmissionId = artifact_id rad,
          instructionTuning =
            \<lparr>transformationVersion = ''instruction-tuning-v1'',
             inputExecutableSpecificationHash = trellisContentHash h (es_json es),
             outputPacketHash = ''pending'', generatedAt = tm,
             deterministicInputs =
               [esid, artifact_id ac, artifact_id rad, adapterId ad, profileId prof],
             uncertaintyRefs = []\<rparr>,
          runtimeProfile = prof,
          adapter =
            \<lparr>bound_adapterId = adapterId ad, adapterContractRef = adapter_contract_ref,
             adapterContractHash = trellisContentHash h (adapter_contract_json ad),
             executionMode = mode,
             requiredEffectors = [firstOrDefault (effectors ad) ''domain-effector''],
             requiredEvidenceSources =
               [firstOrDefault (adapter_evidenceSources ad) ''domain-evidence''],
             executionRequest =
               \<lparr>req_adapterId = adapterId ad, req_functionId = fid,
                req_intentSpecificationId = isid, req_executableSpecificationId = esid,
                req_runId = ''trellis-'' @ pid, req_mode = mode,
                req_parameters = [(''runtimeProfileId'', JStr (profileId prof))]\<rparr>\<rparr>,
          packet_roles = map (role_for esid (artifact_id ac)) (nodes es),
          graph_nodes = map (graph_node_for (edges es)) ids,
          graph_edges = map graph_edge_for (edges es),
          contextBundle =
            \<lparr>intentSummary = ''Intent '' @ isid,
             executableSummary = ''Executable Specification '' @ esid, context_invariants = [],
             validationRefs = filter (starts_with ''VAL-'') refs,
             domainContextRefs = [adapterId ad], memoryRefs = [], omittedContext = [],
             context_provenanceRefs = [isid, esid]\<rparr>,
          tool_bindings = [read_binding roles],
          requiredEvidence = map evidence_for ids,
          fidelity_inputs = evidence, persistence_inputs = [],
          repairPolicy = tuning_repair_policy,
          completionContract =
            \<lparr>successStatus = ''succeeded'',
             failureStatuses = [''failed'', ''blocked'', ''aborted''],
             requiredOutputs = map (\<lambda>r. ''output-'' @ r) roles, completion_evidence = evidence,
             executionResultSchemaRef = ''TrellisExecutionResult''\<rparr>,
          lifecyclePathway =
            \<lparr>pathway_from = From_in_progress, pathway_to = To_produced,
             requiredVerification = No_verification\<rparr>,
          audit = tuning_audit esid (artifact_id ac)\<rparr>)"

section \<open>tuneInstructions\<close>

definition with_hash :: "string \<Rightarrow> packet \<Rightarrow> packet" where
  "with_hash x p =
     p\<lparr>instructionTuning := (instructionTuning p)\<lparr>outputPacketHash := x\<rparr>,
       audit := (audit p)\<lparr>packetHash := x\<rparr>\<rparr>"

text \<open>The end of the function: the draft is parsed, hashed, certified and emitted.\<close>

definition finish_packet ::
  "host \<Rightarrow> (string \<Rightarrow> bool) \<Rightarrow> (packet \<Rightarrow> string list) \<Rightarrow> string list \<Rightarrow> packet \<Rightarrow>
   tuning_error + tuning_result" where
  "finish_packet h dt schema_issues refs p =
     (if \<not> packet_ok dt p then Inl Invalid_packet
      else let q = with_hash (computeTrellisPacketHash h p) p in
        if \<not> packet_ok dt q then Inl Invalid_packet
        else let c = certifyTrellisExecutionPacket h dt schema_issues q in
          if \<not> cert_valid c
          then Inr (Blocked
            (map (blocking_diagnostic ''instruction-tuning:certification-failed'' refs)
              (cert_diagnostics c)) [''UNC-INSTRUCTION-TUNING-CERTIFICATION-FAILED''])
          else parse_result dt (Emitted q []))"

text \<open>The projection of the executable nodes, once every gate has been passed.\<close>

definition project_packet ::
  "host \<Rightarrow> (string \<Rightarrow> bool) \<Rightarrow> (packet \<Rightarrow> string list) \<Rightarrow> executable_specification \<Rightarrow>
   architecture_candidate \<Rightarrow> runtime_admission \<Rightarrow> domain_adapter_contract \<Rightarrow> runtime_profile \<Rightarrow>
   string \<Rightarrow> execution_mode \<Rightarrow> tuning_error + tuning_result" where
  "project_packet h dt schema_issues es ac rad ad prof tm mode =
     and_then (artifactIdOrDerived ''FN'' (es_functionId es)) (\<lambda>fid.
     and_then (artifactIdOrDerived ''IS'' (ac_sourceIntentSpecificationId ac)) (\<lambda>isid.
     and_then (artifactIdOrDerived ''ES'' (artifact_id es)) (\<lambda>esid.
     and_then (packetIdFor fid esid (artifact_id ac) (artifact_id rad)) (\<lambda>pid.
       finish_packet h dt schema_issues (sourceRefsFor es ac rad)
         (packet_draft h es ac rad ad prof tm mode pid fid isid esid)))))"

text \<open>The gates on the Executable Specification's graph.\<close>

definition dangling_edge :: "string list \<Rightarrow> es_edge \<Rightarrow> bool" where
  "dangling_edge ids e \<longleftrightarrow>
     edge_from e = [] \<or> edge_to e = [] \<or> edge_from e \<notin> set ids \<or> edge_to e \<notin> set ids"

definition tune_graph ::
  "host \<Rightarrow> (string \<Rightarrow> bool) \<Rightarrow> (packet \<Rightarrow> string list) \<Rightarrow> executable_specification \<Rightarrow>
   architecture_candidate \<Rightarrow> runtime_admission \<Rightarrow> domain_adapter_contract \<Rightarrow> runtime_profile \<Rightarrow>
   string \<Rightarrow> execution_mode \<Rightarrow> tuning_error + tuning_result" where
  "tune_graph h dt schema_issues es ac rad ad prof tm mode =
     (let refs = sourceRefsFor es ac rad; ids = map node_id (nodes es) in
      if nodes es = [] then
        blocked dt ''instruction-tuning:no-executable-nodes''
          ''Executable Specification has no nodes to project into Trellis roles.'' refs
          [artifact_id es]
      else case firstDuplicate ids of
        Some d \<Rightarrow>
          blocked dt ''instruction-tuning:duplicate-node''
            (''Executable Specification contains duplicate node id '' @ d @ ''.'') refs [d]
      | None \<Rightarrow>
        (case find (dangling_edge ids) (edges es) of
           Some e \<Rightarrow>
             blocked dt ''instruction-tuning:dangling-edge''
               (''Executable edge references missing endpoint: '' @ edge_from e @ '' -> '' @
                edge_to e @ ''.'') refs [edge_from e @ ''-'' @ edge_to e]
         | None \<Rightarrow>
           if hasCycle ids (edges es) then
             blocked dt ''instruction-tuning:role-graph-cycle''
               ''Executable dependencies project to a cyclic Trellis role graph.'' refs ids
           else project_packet h dt schema_issues es ac rad ad prof tm mode))"

definition tune_complete ::
  "host \<Rightarrow> (string \<Rightarrow> bool) \<Rightarrow> (packet \<Rightarrow> string list) \<Rightarrow> executable_specification \<Rightarrow>
   architecture_candidate \<Rightarrow> runtime_admission \<Rightarrow> domain_adapter_contract \<Rightarrow> runtime_profile \<Rightarrow>
   string \<Rightarrow> string \<Rightarrow> tuning_error + tuning_result" where
  "tune_complete h dt schema_issues es ac rad ad prof tm mode =
     (let refs = sourceRefsFor es ac rad in
      case parse_execution_mode mode of
        None \<Rightarrow>
          blocked dt ''instruction-tuning:unsupported-execution-mode''
            (''Domain adapter '' @ adapterId ad @ '' does not support '' @ mode @ ''.'') refs [mode]
      | Some m \<Rightarrow>
        if m \<notin> set (supportedExecutionModes ad) then
          blocked dt ''instruction-tuning:unsupported-execution-mode''
            (''Domain adapter '' @ adapterId ad @ '' does not support '' @ mode @ ''.'') refs [mode]
        else if decision rad \<noteq> Allow then
          blocked dt ''instruction-tuning:runtime-admission-denied''
            (''Runtime admission '' @ artifact_id rad @ '' denied execution.'') refs [artifact_id rad]
        else if candidateStatus ac \<noteq> Selected then
          blocked dt ''instruction-tuning:architecture-candidate-not-selected''
            (''Architecture candidate '' @ artifact_id ac @ '' is not selected.'') refs
            [artifact_id ac]
        else if ac_sourceExecutableSpecificationId ac \<noteq> artifact_id es then
          blocked dt ''instruction-tuning:architecture-candidate-source-mismatch''
            (''Architecture candidate '' @ artifact_id ac @ '' does not source '' @
             artifact_id es @ ''.'') refs [artifact_id ac, artifact_id es]
        else if rad_sourceExecutableSpecificationId rad \<noteq> artifact_id es then
          blocked dt ''instruction-tuning:runtime-admission-executable-mismatch''
            (''Runtime admission '' @ artifact_id rad @ '' does not source '' @
             artifact_id es @ ''.'') refs [artifact_id rad, artifact_id es]
        else if rad_sourceArchitectureCandidateId rad \<noteq> artifact_id ac then
          blocked dt ''instruction-tuning:runtime-admission-candidate-mismatch''
            (''Runtime admission '' @ artifact_id rad @ '' does not source '' @
             artifact_id ac @ ''.'') refs [artifact_id rad, artifact_id ac]
        else tune_graph h dt schema_issues es ac rad ad prof tm m)"

definition tuneInstructions ::
  "host \<Rightarrow> (string \<Rightarrow> bool) \<Rightarrow> (packet \<Rightarrow> string list) \<Rightarrow> tuning_input \<Rightarrow>
   tuning_error + tuning_result" where
  "tuneInstructions h dt schema_issues i =
     (case (in_executableSpecification i, in_candidate i, in_admission i, in_adapter i,
            in_profile i) of
        (Some es, Some ac, Some rad, Some ad, Some prof) \<Rightarrow>
          (if truthy (in_generatedAt i)
           then tune_complete h dt schema_issues es ac rad ad prof (the (in_generatedAt i))
             (case in_executionMode i of None \<Rightarrow> ''execute'' | Some m \<Rightarrow> m)
           else blocked dt ''instruction-tuning:missing-input''
             (''Missing required Instruction Tuning inputs: '' @ join '', '' (missingInputs i) @ ''.'')
             [] (missingInputs i))
      | _ \<Rightarrow> blocked dt ''instruction-tuning:missing-input''
          (''Missing required Instruction Tuning inputs: '' @ join '', '' (missingInputs i) @ ''.'')
          [] (missingInputs i))"

section \<open>Slugs make valid ids\<close>

lemma strip_hyphens_ends:
  "strip_hyphens s = [] \<or> hd (strip_hyphens s) \<noteq> CHR ''-''"
proof (cases "strip_hyphens s = []")
  case False
  define t where "t = dropWhile (\<lambda>c. c = CHR ''-'') s"
  define r where "r = dropWhile (\<lambda>c. c = CHR ''-'') (rev t)"
  have s: "strip_hyphens s = rev r" by (simp add: strip_hyphens_def t_def r_def)
  with False have rne: "r \<noteq> []" by simp
  then have tne: "t \<noteq> []" by (auto simp: r_def)
  have "last r = last (rev t)" using rne unfolding r_def by (rule dropWhile_last)
  then have "hd (strip_hyphens s) = hd t" using rne tne by (simp add: s hd_rev last_rev)
  moreover have "hd t \<noteq> CHR ''-''"
    using tne hd_dropWhile [of "\<lambda>c. c = CHR ''-''" s] unfolding t_def by blast
  ultimately show ?thesis by simp
qed simp

lemma set_strip_hyphens: "set (strip_hyphens s) \<subseteq> set s"
  unfolding strip_hyphens_def
  by (metis set_dropWhileD set_rev subsetI)

lemma collapse_chars: "c \<in> set (collapse P s) \<Longrightarrow> P c \<or> c = CHR ''-''"
  by (induction P s rule: collapse.induct) (auto split: if_splits)

lemma id_char_cases: "id_char c \<Longrightarrow> c \<noteq> CHR ''-'' \<Longrightarrow> id_head c"
  by (auto simp: id_char_def id_head_def)

lemma hyphen_id_char [simp]: "id_char (CHR ''-'')"
  by (simp add: id_char_def)

lemma slug_id_subject:
  assumes "strip_hyphens (collapse P s) \<noteq> []" "\<And>c. P c \<Longrightarrow> id_char c"
  shows "id_subject_ok (strip_hyphens (collapse P s))"
proof -
  let ?s = "strip_hyphens (collapse P s)"
  have chars: "id_char c" if "c \<in> set ?s" for c
    using that set_strip_hyphens collapse_chars assms(2) by (metis hyphen_id_char subsetD)
  with assms(1) strip_hyphens_ends [of "collapse P s"] show ?thesis
    by (cases ?s) (auto simp: list_all_iff intro: id_char_cases)
qed

lemma subject_of_ok: "id_subject_ok (subject_of v)"
proof (cases "strip_hyphens (collapse id_char (to_upper (drop_type_prefix v))) = []")
  case True
  then show ?thesis
    by (simp add: subject_of_def or_default_def id_char_def id_head_def is_upper_def)
next
  case False
  with slug_id_subject [of id_char] show ?thesis by (simp add: subject_of_def or_default_def)
qed

lemma parse_artifact_id_Inr [simp]: "parse_artifact_id s = Inr t \<longleftrightarrow> artifact_id_ok s \<and> t = s"
  by (auto simp: parse_artifact_id_def)

lemma packetIdFor_total:
  "packetIdFor f e c a =
     Inr (''EP-'' @ subject_of f @ ''-'' @ subject_of e @ ''-'' @ subject_of c @ ''-'' @ subject_of a)"
proof -
  have "list_all id_char (subject_of v)" for v by (intro id_subject_ok_chars subject_of_ok)
  then have "id_subject_ok
      (subject_of f @ ''-'' @ subject_of e @ ''-'' @ subject_of c @ ''-'' @ subject_of a)"
    by (intro id_subject_ok_append subject_of_ok) simp
  then have "artifact_id_ok (''EP'' @ CHR ''-'' # subject_of f @ ''-'' @ subject_of e @ ''-'' @
      subject_of c @ ''-'' @ subject_of a)"
    by (intro artifact_id_okI) (simp_all add: artifact_type_prefixes_def)
  then show ?thesis by (simp add: packetIdFor_def parse_artifact_id_def)
qed

lemma artifactIdOrDerived_total:
  assumes "pre \<in> set artifact_type_prefixes"
  obtains x where "artifactIdOrDerived pre c = Inr x" "artifact_id_ok x" "starts_with (pre @ ''-'') x"
proof -
  have "artifact_id_ok (pre @ CHR ''-'' # subject_of c)"
    using assms subject_of_ok by (rule artifact_id_okI)
  then show ?thesis
    using that starts_with_append [of "pre @ ''-''" "subject_of c"]
    by (cases "artifact_id_ok c \<and> starts_with (pre @ ''-'') c")
       (auto simp: artifactIdOrDerived_def parse_artifact_id_def)
qed

section \<open>What tuning guarantees\<close>

text \<open>The gates, as a predicate on the inputs.\<close>

definition tuning_gates ::
  "executable_specification \<Rightarrow> architecture_candidate \<Rightarrow> runtime_admission \<Rightarrow>
   domain_adapter_contract \<Rightarrow> string \<Rightarrow> bool" where
  "tuning_gates es ac rad ad mode \<longleftrightarrow>
     (\<exists>m \<in> set (supportedExecutionModes ad). mode = execution_mode_str m) \<and>
     decision rad = Allow \<and> candidateStatus ac = Selected \<and>
     ac_sourceExecutableSpecificationId ac = artifact_id es \<and>
     rad_sourceExecutableSpecificationId rad = artifact_id es \<and>
     rad_sourceArchitectureCandidateId rad = artifact_id ac \<and>
     nodes es \<noteq> [] \<and> distinct (map node_id (nodes es)) \<and>
     (\<forall>e \<in> set (edges es). \<not> dangling_edge (map node_id (nodes es)) e) \<and>
     (\<forall>x. (x, x) \<notin> (edge_rel (map node_id (nodes es)) (edges es))\<^sup>+)"

lemma firstDuplicate_None: "firstDuplicate vs = None \<longleftrightarrow> distinct vs"
  by (simp add: firstDuplicate_def first_dup_from_None)

lemma uncertaintyId_prefix [simp]: "starts_with ''UNC-'' (uncertaintyId s)"
  by (simp add: uncertaintyId_def)

lemma uniqueArtifactIds_ok [simp]: "list_all artifact_id_ok (uniqueArtifactIds vs)"
  by (simp add: uniqueArtifactIds_def list_all_iff)

lemma sourceRefsFor_ok [simp]: "list_all artifact_id_ok (sourceRefsFor es ac rad)"
  by (simp add: sourceRefsFor_def)

lemma missing_context_ok: "artifact_id_ok ''IS-MISSING-CONTEXT''"
  by code_simp

lemma blocked_total:
  assumes "code \<noteq> []" "message \<noteq> []" "seeds \<noteq> []" "list_all artifact_id_ok refs"
  obtains ds us where "blocked dt code message refs seeds = Inr (Blocked ds us)"
proof
  let ?rs = "if refs \<noteq> [] then refs else [''IS-MISSING-CONTEXT'']"
  have "list_all artifact_id_ok ?rs" "?rs \<noteq> []" using assms(4) missing_context_ok by auto
  then show "blocked dt code message refs seeds =
      Inr (Blocked [blocking_diagnostic code ?rs message] (map uncertaintyId seeds))"
    using assms by (auto simp: blocked_def Let_def parse_result_def blocking_diagnostic_def
        diagnostic_ok_def list_all_iff)
qed

lemma blocked_not_Emitted [simp]: "blocked dt code message refs seeds \<noteq> Inr (Emitted p ds)"
  by (simp add: blocked_def Let_def parse_result_def)

lemma finish_packet_Emitted:
  assumes "finish_packet h dt zi refs p = Inr (Emitted q ds)"
  shows "q = with_hash (computeTrellisPacketHash h p) p \<and> ds = [] \<and> packet_ok dt q \<and>
    certification_diagnostics h q = []"
  using assms
  by (auto simp: finish_packet_def Let_def parse_result_def certify_valid split: if_splits)

lemma tune_graph_Emitted:
  assumes "tune_graph h dt zi es ac rad ad prof tm m = Inr (Emitted q ds)"
  shows "nodes es \<noteq> [] \<and> distinct (map node_id (nodes es)) \<and>
    (\<forall>e \<in> set (edges es). \<not> dangling_edge (map node_id (nodes es)) e) \<and>
    \<not> hasCycle (map node_id (nodes es)) (edges es) \<and>
    project_packet h dt zi es ac rad ad prof tm m = Inr (Emitted q ds)"
  using assms unfolding tune_graph_def Let_def
  by (auto simp: firstDuplicate_None find_None_iff split: if_splits option.splits)

lemma tune_complete_Emitted:
  assumes "tune_complete h dt zi es ac rad ad prof tm mode = Inr (Emitted q ds)"
  obtains m where "mode = execution_mode_str m" "tuning_gates es ac rad ad mode"
    "project_packet h dt zi es ac rad ad prof tm m = Inr (Emitted q ds)"
proof -
  from assms obtain m where m: "parse_execution_mode mode = Some m"
    "m \<in> set (supportedExecutionModes ad)" "decision rad = Allow" "candidateStatus ac = Selected"
    "ac_sourceExecutableSpecificationId ac = artifact_id es"
    "rad_sourceExecutableSpecificationId rad = artifact_id es"
    "rad_sourceArchitectureCandidateId rad = artifact_id ac"
    and g: "tune_graph h dt zi es ac rad ad prof tm m = Inr (Emitted q ds)"
    unfolding tune_complete_def Let_def by (auto split: if_splits option.splits)
  from m(1) have "mode = execution_mode_str m" by (simp add: parse_execution_mode_Some)
  with that m tune_graph_Emitted [OF g] show ?thesis
    by (auto simp: tuning_gates_def hasCycle_iff)
qed

lemma project_packet_Emitted:
  assumes "project_packet h dt zi es ac rad ad prof tm m = Inr (Emitted q ds)"
  obtains pid fid isid esid where
    "q = with_hash (computeTrellisPacketHash h q)
       (packet_draft h es ac rad ad prof tm m pid fid isid esid)"
    "ds = []" "packet_ok dt q" "certification_diagnostics h q = []"
proof -
  from assms obtain pid fid isid esid where
    "finish_packet h dt zi (sourceRefsFor es ac rad)
       (packet_draft h es ac rad ad prof tm m pid fid isid esid) = Inr (Emitted q ds)"
    unfolding project_packet_def by (auto simp: and_then_Inr)
  from finish_packet_Emitted [OF this] show ?thesis
    using that certification_diagnostics_Nil [of h q] by (auto simp: with_hash_def)
qed

subsection \<open>Gated inputs are always emitted\<close>

definition tuning_inputs_ok ::
  "executable_specification \<Rightarrow> architecture_candidate \<Rightarrow> runtime_admission \<Rightarrow>
   domain_adapter_contract \<Rightarrow> runtime_profile \<Rightarrow> bool" where
  "tuning_inputs_ok es ac rad ad prof \<longleftrightarrow>
     executable_specification_ok es \<and> architecture_candidate_ok ac \<and> runtime_admission_ok rad \<and>
     domain_adapter_contract_ok ad \<and> runtime_profile_ok prof \<and>
     starts_with ''IS-'' (ac_sourceIntentSpecificationId ac)"

lemma nonempty_strings_simps [simp]:
  "nonempty_strings []"
  "nonempty_strings (x # xs) \<longleftrightarrow> x \<noteq> [] \<and> nonempty_strings xs"
  by (simp_all add: nonempty_strings_def)

lemma nonempty_strings_map: "(\<And>x. x \<in> set xs \<Longrightarrow> f x \<noteq> []) \<Longrightarrow> nonempty_strings (map f xs)"
  by (simp add: nonempty_strings_def list_all_iff)

lemma roleIdFor_nonempty [simp]: "roleIdFor n \<noteq> []"
  by (simp add: roleIdFor_def)

lemma evidence_id_nonempty [simp]: "evidence_id n \<noteq> []"
  by (simp add: evidence_id_def)

lemma role_for_ok:
  "es_node_ok n \<Longrightarrow> esid \<noteq> [] \<Longrightarrow> acid \<noteq> [] \<Longrightarrow> role_instruction_ok (role_for esid acid n)"
  by (simp add: role_instruction_ok_def role_for_def Let_def es_node_ok_def roleKindFor_def
      or_default_def read_binding_id_def)

lemma graph_node_for_ok: "n \<noteq> [] \<Longrightarrow> graph_node_ok (graph_node_for es n)"
  by (simp add: graph_node_ok_def graph_node_for_def nonempty_strings_map)

lemma graph_edge_for_ok [simp]: "graph_edge_ok (graph_edge_for e)"
  by (simp add: graph_edge_ok_def graph_edge_for_def)

lemma evidence_for_ok: "n \<noteq> [] \<Longrightarrow> evidence_requirement_ok (evidence_for n)"
  by (simp add: evidence_requirement_ok_def evidence_for_def Let_def)

lemma read_binding_ok: "rs \<noteq> [] \<Longrightarrow> nonempty_strings rs \<Longrightarrow> tool_binding_ok (read_binding rs)"
  by (simp add: tool_binding_ok_def read_binding_def read_binding_id_def)

lemma firstOrDefault_nonempty: "nonempty_strings vs \<Longrightarrow> d \<noteq> [] \<Longrightarrow> firstOrDefault vs d \<noteq> []"
  by (cases vs) (simp_all add: firstOrDefault_def)

lemma tuning_repair_policy_ok [simp]: "repair_policy_ok tuning_repair_policy"
  by (simp add: repair_policy_ok_def tuning_repair_policy_def)

lemma tuning_audit_ok: "esid \<noteq> [] \<Longrightarrow> acid \<noteq> [] \<Longrightarrow> packet_audit_ok (tuning_audit esid acid)"
  by (simp add: packet_audit_ok_def tuning_audit_def)

text \<open>The five refs that every packet cites differ by their type prefix.\<close>

lemma sourceRefsFor_length:
  assumes "tuning_inputs_ok es ac rad ad prof"
  shows "5 \<le> length (sourceRefsFor es ac rad)"
proof -
  let ?five = "{ac_sourceIntentSpecificationId ac, artifact_id es, artifact_id ac, artifact_id rad,
    adapter_contract_ref}"
  have c: "artifact_id_ok adapter_contract_ref" by (simp add: adapter_contract_ref_def) code_simp
  have "?five \<subseteq> set (sourceRefsFor es ac rad)"
    using assms c
    by (auto simp: sourceRefsFor_def uniqueArtifactIds_def tuning_inputs_ok_def
        executable_specification_ok_def architecture_candidate_ok_def runtime_admission_ok_def
        lineage_ok_def)
  then have "card ?five \<le> card (set (sourceRefsFor es ac rad))" by (simp add: card_mono)
  also have "\<dots> = length (sourceRefsFor es ac rad)"
    by (rule distinct_card) (simp only: sourceRefsFor_def uniqueArtifactIds_def distinct_oset_of)
  finally have "card ?five \<le> length (sourceRefsFor es ac rad)" .
  moreover have "card ?five = 5"
    using assms
    by (auto simp: tuning_inputs_ok_def executable_specification_ok_def adapter_contract_ref_def
        architecture_candidate_ok_def runtime_admission_ok_def elim!: starts_withE)
  ultimately show ?thesis by simp
qed

lemma packet_draft_ok:
  assumes ok: "tuning_inputs_ok es ac rad ad prof"
    and tm: "dt tm" and sha: "\<And>s. sha256Hex h s \<noteq> []"
    and ids: "artifact_id_ok pid" "starts_with ''EP-'' pid" "artifact_id_ok fid"
      "artifact_id_ok isid" "artifact_id_ok esid"
  shows "packet_ok dt (packet_draft h es ac rad ad prof tm mode pid fid isid esid)"
proof -
  have ne: "pid \<noteq> []" "fid \<noteq> []" "isid \<noteq> []" "esid \<noteq> []"
    using ids artifact_id_nonempty by blast+
  have ac: "artifact_id_ok (artifact_id ac)" "starts_with ''AC-'' (artifact_id ac)"
    and rad: "artifact_id_ok (artifact_id rad)" "starts_with ''RAD-'' (artifact_id rad)"
    and ad: "domain_adapter_id_ok (adapterId ad)" and prof: "runtime_profile_ok prof"
    and eff: "nonempty_strings (effectors ad)" "nonempty_strings (adapter_evidenceSources ad)"
    and nodes: "nodes es \<noteq> []" "list_all es_node_ok (nodes es)"
    using ok
    by (auto simp: tuning_inputs_ok_def architecture_candidate_ok_def runtime_admission_ok_def
        lineage_ok_def domain_adapter_contract_ok_def nonempty_strings_def
        executable_specification_ok_def)
  have acne: "artifact_id ac \<noteq> []" "artifact_id rad \<noteq> []" "adapterId ad \<noteq> []" "profileId prof \<noteq> []"
    using ac rad ad prof artifact_id_nonempty
    by (auto simp: domain_adapter_id_ok_def runtime_profile_ok_def)
  have nid: "node_id n \<noteq> []" if "n \<in> set (nodes es)" for n
    using that nodes(2) by (auto simp: list_all_iff es_node_ok_def)
  have refs: "nonempty_strings (filter (starts_with ''VAL-'') (sourceRefsFor es ac rad))"
    using sourceRefsFor_ok artifact_id_nonempty by (fastforce simp: nonempty_strings_def list_all_iff)
  have len: "5 \<le> length (sourceRefsFor es ac rad)" by (rule sourceRefsFor_length [OF ok])
  let ?ids = "map node_id (nodes es)"
  have parts:
    "list_all role_instruction_ok (map (role_for esid (artifact_id ac)) (nodes es))"
    "list_all graph_node_ok (map (graph_node_for (edges es)) ?ids)"
    "list_all graph_edge_ok (map graph_edge_for (edges es))"
    "tool_binding_ok (read_binding (map roleIdFor ?ids))"
    "list_all evidence_requirement_ok (map evidence_for ?ids)"
    using nodes nid ne acne
    by (auto simp: list_all_iff role_for_ok graph_node_for_ok evidence_for_ok
        intro!: read_binding_ok nonempty_strings_map)
  have lists: "nonempty_strings (map evidence_id (map roleIdFor ?ids))"
    "nonempty_strings (map (\<lambda>r. ''output-'' @ r) (map roleIdFor ?ids))"
    by (auto intro!: nonempty_strings_map)
  show ?thesis
    unfolding packet_ok_def
    using ids ne ac rad ad prof len parts lists refs nodes(1) acne tm sha
      firstOrDefault_nonempty [OF eff(1), of "''domain-effector''"]
      firstOrDefault_nonempty [OF eff(2), of "''domain-evidence''"] tuning_audit_ok
    by (simp add: packet_draft_def Let_def lineage_ok_def provenance_ok_def adapter_binding_ok_def
        execution_request_ok_def context_bundle_ok_def completion_contract_ok_def
        lifecycle_pathway_ok_def adapter_contract_ref_def trellisContentHash_def comp_def)
qed

lemma with_hash_ok: "packet_ok dt p \<Longrightarrow> x \<noteq> [] \<Longrightarrow> packet_ok dt (with_hash x p)"
  by (simp add: packet_ok_def with_hash_def lineage_ok_def provenance_ok_def packet_audit_ok_def)

lemma hash_with_hash: "computeTrellisPacketHash h (with_hash x p) = computeTrellisPacketHash h p"
  using packet_hash_free
    [where h = h and p = p and x = x and y = "generatedAt (instructionTuning p)" and z = x]
  by (simp add: with_hash_def)

lemma packet_closed_with_hash [simp]: "packet_closed (with_hash x p) = packet_closed p"
  by (simp add: packet_closed_def with_hash_def)

lemma packet_draft_closed:
  assumes "\<forall>e \<in> set (edges es). \<not> dangling_edge (map node_id (nodes es)) e"
  shows "packet_closed (packet_draft h es ac rad ad prof tm mode pid fid isid esid)"
proof -
  have edge: "\<exists>n \<in> set (nodes es). node_id n = edge_from e"
    "\<exists>n \<in> set (nodes es). node_id n = edge_to e" if "e \<in> set (edges es)" for e
    using that assms by (fastforce simp: dangling_edge_def)+
  have "set (dependsOn (graph_node_for (edges es) n)) \<subseteq> (roleIdFor \<circ> node_id) ` set (nodes es)" for n
    using edge(1) by (force simp: graph_node_for_def)
  moreover have "graph_from (graph_edge_for e) \<in> (roleIdFor \<circ> node_id) ` set (nodes es) \<and>
      graph_to (graph_edge_for e) \<in> (roleIdFor \<circ> node_id) ` set (nodes es)"
    if "e \<in> set (edges es)" for e
    using edge [OF that] by (force simp: graph_edge_for_def)
  moreover have "roleId (role_for esid (artifact_id ac) n) = roleIdFor (node_id n)"
    "toolBindingRefs (role_for esid (artifact_id ac) n) = [read_binding_id]"
    "evidenceObligations (role_for esid (artifact_id ac) n) = [evidence_id (roleIdFor (node_id n))]"
    "graph_roleId (graph_node_for (edges es) i) = roleIdFor i"
    "evidenceId (evidence_for i) = evidence_id (roleIdFor i)"
    "producedByRole (evidence_for i) = roleIdFor i" for n i
    by (simp_all add: role_for_def graph_node_for_def evidence_for_def Let_def)
  ultimately show ?thesis
    by (auto simp: packet_closed_def packet_draft_def Let_def read_binding_def image_image comp_def)
qed

lemma finish_packet_emits:
  assumes "packet_ok dt p" "packet_closed p" "unmappedExecutableRefs (audit p) = []"
    and sha: "\<And>s. sha256Hex h s \<noteq> []"
  shows "finish_packet h dt zi refs p =
    Inr (Emitted (with_hash (computeTrellisPacketHash h p) p) [])"
proof -
  let ?q = "with_hash (computeTrellisPacketHash h p) p"
  have "computeTrellisPacketHash h p \<noteq> []"
    using sha by (simp add: computeTrellisPacketHash_def trellisContentHash_def)
  with assms(1) have q: "packet_ok dt ?q" by (rule with_hash_ok)
  moreover from assms(1) have "sourceVerification (audit ?q) \<noteq> []"
    by (simp add: with_hash_def packet_ok_def packet_audit_ok_def)
  ultimately have "certification_diagnostics h ?q = []"
    using assms(2,3) by (simp add: certification_diagnostics_Nil hash_with_hash)
      (simp add: with_hash_def)
  with assms(1) q show ?thesis
    by (simp add: finish_packet_def Let_def certify_valid parse_result_def)
qed

lemma project_packet_emits:
  assumes ok: "tuning_inputs_ok es ac rad ad prof"
    and edges: "\<forall>e \<in> set (edges es). \<not> dangling_edge (map node_id (nodes es)) e"
    and tm: "dt tm" and sha: "\<And>s. sha256Hex h s \<noteq> []"
  shows "\<exists>q. project_packet h dt zi es ac rad ad prof tm m = Inr (Emitted q [])"
proof -
  obtain fid where f: "artifactIdOrDerived ''FN'' (es_functionId es) = Inr fid" "artifact_id_ok fid"
    by (rule artifactIdOrDerived_total [of "''FN''"]) (auto simp: artifact_type_prefixes_def)
  obtain isid where i: "artifactIdOrDerived ''IS'' (ac_sourceIntentSpecificationId ac) = Inr isid"
    "artifact_id_ok isid"
    by (rule artifactIdOrDerived_total [of "''IS''"]) (auto simp: artifact_type_prefixes_def)
  obtain esid where e: "artifactIdOrDerived ''ES'' (artifact_id es) = Inr esid" "artifact_id_ok esid"
    by (rule artifactIdOrDerived_total [of "''ES''"]) (auto simp: artifact_type_prefixes_def)
  obtain pid where p: "packetIdFor fid esid (artifact_id ac) (artifact_id rad) = Inr pid"
    and pid: "artifact_id_ok pid" "starts_with ''EP-'' pid"
    using packetIdFor_total [of fid esid "artifact_id ac" "artifact_id rad"]
    by (auto simp: packetIdFor_def)
  let ?d = "packet_draft h es ac rad ad prof tm m pid fid isid esid"
  have "packet_ok dt ?d" using packet_draft_ok [where dt = dt, OF ok tm sha pid f(2) i(2) e(2)] .
  moreover have "packet_closed ?d" by (rule packet_draft_closed [OF edges])
  moreover have "unmappedExecutableRefs (audit ?d) = []"
    by (simp add: packet_draft_def Let_def tuning_audit_def)
  ultimately show ?thesis
    using finish_packet_emits [of dt ?d h zi "sourceRefsFor es ac rad"] sha f i e p
    by (simp add: project_packet_def)
qed

lemma tune_complete_emits:
  assumes ok: "tuning_inputs_ok es ac rad ad prof" and tm: "dt tm"
    and sha: "\<And>s. sha256Hex h s \<noteq> []" and gates: "tuning_gates es ac rad ad mode"
  shows "\<exists>q. tune_complete h dt zi es ac rad ad prof tm mode = Inr (Emitted q [])"
proof -
  from gates obtain m where m: "m \<in> set (supportedExecutionModes ad)" "mode = execution_mode_str m"
    and closed: "\<forall>e \<in> set (edges es). \<not> dangling_edge (map node_id (nodes es)) e"
    by (auto simp: tuning_gates_def)
  have f: "find (dangling_edge (map node_id (nodes es))) (edges es) = None"
    using closed by (simp add: find_None_iff)
  have "\<not> hasCycle (map node_id (nodes es)) (edges es)"
    using gates by (simp add: tuning_gates_def hasCycle_iff)
  moreover have "firstDuplicate (map node_id (nodes es)) = None"
    using gates by (simp add: tuning_gates_def firstDuplicate_None)
  ultimately have "tune_complete h dt zi es ac rad ad prof tm mode =
      project_packet h dt zi es ac rad ad prof tm m"
    using gates m f by (simp add: tune_complete_def tune_graph_def Let_def tuning_gates_def)
  with project_packet_emits [where dt = dt and zi = zi and m = m, OF ok closed tm sha]
  show ?thesis by simp
qed

lemma blocked_ex:
  "code \<noteq> [] \<Longrightarrow> message \<noteq> [] \<Longrightarrow> seeds \<noteq> [] \<Longrightarrow> list_all artifact_id_ok refs \<Longrightarrow>
     \<exists>ds us. blocked dt code message refs seeds = Inr (Blocked ds us)"
  by (meson blocked_total)

lemma tune_graph_blocks:
  assumes "\<not> (nodes es \<noteq> [] \<and> distinct (map node_id (nodes es)) \<and>
      (\<forall>e \<in> set (edges es). \<not> dangling_edge (map node_id (nodes es)) e) \<and>
      \<not> hasCycle (map node_id (nodes es)) (edges es))"
  shows "\<exists>ds us. tune_graph h dt zi es ac rad ad prof tm m = Inr (Blocked ds us)"
proof (cases "nodes es = []")
  case True
  then show ?thesis by (simp add: tune_graph_def Let_def blocked_ex)
next
  case False
  show ?thesis
  proof (cases "firstDuplicate (map node_id (nodes es))")
    case (Some d)
    with False show ?thesis by (simp add: tune_graph_def Let_def blocked_ex)
  next
    case None
    show ?thesis
    proof (cases "find (dangling_edge (map node_id (nodes es))) (edges es)")
      case (Some e)
      with False None show ?thesis by (simp add: tune_graph_def Let_def blocked_ex)
    next
      case None
      with \<open>firstDuplicate (map node_id (nodes es)) = None\<close> False assms
      have "hasCycle (map node_id (nodes es)) (edges es)"
        by (auto simp: find_None_iff firstDuplicate_None)
      with None \<open>firstDuplicate (map node_id (nodes es)) = None\<close> False show ?thesis
        by (simp add: tune_graph_def Let_def blocked_ex)
    qed
  qed
qed

lemma tune_complete_blocks:
  assumes "\<not> tuning_gates es ac rad ad mode"
  shows "\<exists>ds us. tune_complete h dt zi es ac rad ad prof tm mode = Inr (Blocked ds us)"
proof (cases "parse_execution_mode mode")
  case None
  then show ?thesis by (simp add: tune_complete_def Let_def blocked_ex)
next
  case (Some m)
  then have "mode = execution_mode_str m" by (simp add: parse_execution_mode_Some)
  with Some assms tune_graph_blocks [of es h dt zi ac rad ad prof tm m] show ?thesis
    by (auto simp: tune_complete_def Let_def blocked_ex tuning_gates_def hasCycle_iff)
qed

section \<open>Properties\<close>

definition sample_es :: "string \<Rightarrow> executable_specification" where
  "sample_es target =
     \<lparr>artifact_id = ''ES-A'', source_refs = [''IS-A'', ''CONTRACT-A'', ''VAL-A''],
      explicitness = Explicit, rationale = ''r'', es_functionId = ''FP-A'',
      nodes =
        [\<lparr>node_id = ''CONTRACT-A'', node_type = Execution, node_title = ''s'',
          node_implements = Some ''CONTRACT-A''\<rparr>,
         \<lparr>node_id = ''VAL-A'', node_type = Evidence, node_title = ''v'',
          node_implements = Some ''VAL-A''\<rparr>],
      edges =
        [\<lparr>edge_from = ''VAL-A'', edge_to = target, edge_condition = None,
          edge_type = Some Validates\<rparr>]\<rparr>"

definition sample_candidate :: architecture_candidate where
  "sample_candidate =
     \<lparr>artifact_id = ''AC-A'', source_refs = [''ES-A''], explicitness = Inferred, rationale = ''r'',
      ac_sourceIntentSpecificationId = ''IS-A'', ac_sourceExecutableSpecificationId = ''ES-A'',
      candidateStatus = Selected, topology = (Linear_chain, ''t''), modelBinding = (Fixed, ''m''),
      candidate_toolPolicy = (Restricted, ''p''), convergencePolicy = (Single_pass, ''c'')\<rparr>"

definition sample_admission :: runtime_admission where
  "sample_admission =
     \<lparr>artifact_id = ''RAD-A'', source_refs = [''ES-A''], explicitness = Inferred, rationale = ''r'',
      rad_sourceExecutableSpecificationId = ''ES-A'', rad_sourceArchitectureCandidateId = ''AC-A'',
      rad_sourceSelectionId = ''ACS-A'', decision = Allow, reason = ''ok''\<rparr>"

definition sample_adapter :: domain_adapter_contract where
  "sample_adapter =
     \<lparr>adapterId = ''adapter.coding'', domain = ''coding'', substrate = ''git'',
      substrateTermMappings = [\<lparr>adapterTerm = ''repository'', kernelConcept = Domain_substrate,
        description = ''d''\<rparr>],
      supportedExecutionModes = [Simulate, Execute], adapter_evidenceSources = [''ci''],
      effectors = [''git'']\<rparr>"

definition sample_profile :: runtime_profile where
  "sample_profile = \<lparr>profileId = ''p'', roleCatalogRef = ''r'', toolCatalogRef = ''t'',
     memoryCatalogRef = ''m'', policyCatalogRef = ''q'', modelPolicyRef = None\<rparr>"

definition sample_tuning :: "string \<Rightarrow> tuning_input" where
  "sample_tuning target =
     \<lparr>in_executableSpecification = Some (sample_es target), in_candidate = Some sample_candidate,
      in_admission = Some sample_admission, in_adapter = Some sample_adapter,
      in_profile = Some sample_profile, in_generatedAt = Some ''T'', in_executionMode = None\<rparr>"

definition trivial_host :: host where
  "trivial_host = \<lparr>nfc = (\<lambda>s. s), collation_key = (\<lambda>s. s), number_text = (\<lambda>q. ''1''),
     sha256Hex = (\<lambda>s. ''c0de'')\<rparr>"

lemma sample_inputs_ok:
  "tuning_inputs_ok (sample_es ''CONTRACT-A'') sample_candidate sample_admission sample_adapter
     sample_profile"
  by code_simp

lemma sample_gates:
  "tuning_gates (sample_es ''CONTRACT-A'') sample_candidate sample_admission sample_adapter ''execute''"
proof -
  have "\<not> hasCycle (map node_id (nodes (sample_es ''CONTRACT-A''))) (edges (sample_es ''CONTRACT-A''))"
    by code_simp
  then show ?thesis
    by (simp add: tuning_gates_def hasCycle_iff)
       (simp add: sample_es_def sample_candidate_def sample_admission_def sample_adapter_def
         dangling_edge_def)
qed

lemma sample_no_gates:
  "\<not> tuning_gates (sample_es ''VAL-A'') sample_candidate sample_admission sample_adapter ''execute''"
proof -
  have "hasCycle (map node_id (nodes (sample_es ''VAL-A''))) (edges (sample_es ''VAL-A''))"
    by code_simp
  then show ?thesis by (auto simp: tuning_gates_def hasCycle_iff)
qed

text \<open>
  C8. The depth-first search is exact, and it always ends: it answers true exactly when the
  edges that leave nodes of the graph close a cycle.
\<close>

theorem hasCycle_exact:
  "hasCycle ns es \<longleftrightarrow>
     (\<exists>x. (x, x) \<in> {(a, b). \<exists>e \<in> set es. edge_from e = a \<and> edge_to e = b \<and> a \<in> set ns \<and>
        a \<noteq> [] \<and> b \<noteq> []}\<^sup>+)"
proof -
  have "edge_rel ns es = {(a, b). \<exists>e \<in> set es. edge_from e = a \<and> edge_to e = b \<and> a \<in> set ns \<and>
        a \<noteq> [] \<and> b \<noteq> []}"
    by (auto simp: edge_rel_def outgoing_def split: if_splits)
  then show ?thesis by (simp add: hasCycle_iff)
qed

text \<open>
  C9. Tuning never throws on valid inputs, and its gates are exact: it emits a packet, without
  diagnostics, exactly when the adapter supports the mode, the admission allows, the candidate
  is selected, the three source ids agree, and the graph has distinct nodes, closed edges and
  no cycle. In every other case it returns a blocked result.
\<close>

theorem tuning_gates_exact:
  assumes input: "in_executableSpecification i = Some es" "in_candidate i = Some ac"
      "in_admission i = Some rad" "in_adapter i = Some ad" "in_profile i = Some prof"
      "in_generatedAt i = Some tm" "tm \<noteq> []"
    and mode: "mode = (case in_executionMode i of None \<Rightarrow> ''execute'' | Some m \<Rightarrow> m)"
    and ok: "tuning_inputs_ok es ac rad ad prof" and tm: "dt tm"
    and sha: "\<And>s. sha256Hex h s \<noteq> []"
  shows "if tuning_gates es ac rad ad mode
    then \<exists>p. tuneInstructions h dt zi i = Inr (Emitted p [])
    else \<exists>ds us. tuneInstructions h dt zi i = Inr (Blocked ds us)"
proof -
  have "tuneInstructions h dt zi i = tune_complete h dt zi es ac rad ad prof tm mode"
    by (simp add: tuneInstructions_def input mode)
  with tune_complete_emits [where dt = dt and mode = mode, OF ok tm sha]
    tune_complete_blocks [of es ac rad ad mode]
  show ?thesis by simp
qed

lemma tuning_gates_exact_witness:
  "(\<exists>p. tuneInstructions trivial_host (\<lambda>t. True) (\<lambda>p. []) (sample_tuning ''CONTRACT-A'') =
      Inr (Emitted p [])) \<and>
   (\<exists>ds us. tuneInstructions trivial_host (\<lambda>t. True) (\<lambda>p. []) (sample_tuning ''VAL-A'') =
      Inr (Blocked ds us))"
proof -
  have "tuning_inputs_ok (sample_es ''VAL-A'') sample_candidate sample_admission sample_adapter
      sample_profile" by code_simp
  then show ?thesis
    using tuning_gates_exact [of "sample_tuning ''CONTRACT-A''" "sample_es ''CONTRACT-A''"
        sample_candidate sample_admission sample_adapter sample_profile "''T''" "''execute''"
        "\<lambda>t. True" trivial_host "\<lambda>p. []"]
      tuning_gates_exact [of "sample_tuning ''VAL-A''" "sample_es ''VAL-A''"
        sample_candidate sample_admission sample_adapter sample_profile "''T''" "''execute''"
        "\<lambda>t. True" trivial_host "\<lambda>p. []"]
      sample_inputs_ok sample_gates sample_no_gates
    by (simp add: sample_tuning_def trivial_host_def)
qed

text \<open>
  C10. Every emitted packet is certified, whatever the inputs: it conforms to its schema, both
  copies of its hash are the hash of the packet itself, and every role, tool binding and
  evidence reference inside it resolves.
\<close>

theorem emitted_packet_certified:
  assumes "tuneInstructions h dt zi i = Inr (Emitted p ds)"
  shows "ds = [] \<and> packet_ok dt p \<and> packet_closed p \<and>
    packetHash (audit p) = computeTrellisPacketHash h p \<and>
    outputPacketHash (instructionTuning p) = computeTrellisPacketHash h p"
proof -
  from assms obtain es ac rad ad prof tm mode where
    "tune_complete h dt zi es ac rad ad prof tm mode = Inr (Emitted p ds)"
    by (auto simp: tuneInstructions_def split: option.splits if_splits)
  then obtain m where "project_packet h dt zi es ac rad ad prof tm m = Inr (Emitted p ds)"
    by (rule tune_complete_Emitted)
  then have "ds = [] \<and> packet_ok dt p \<and> certification_diagnostics h p = []"
    by (rule project_packet_Emitted) simp
  then show ?thesis by (simp add: certification_diagnostics_Nil)
qed

lemma emitted_packet_certified_witness:
  "\<exists>p. tuneInstructions trivial_host (\<lambda>t. True) (\<lambda>p. []) (sample_tuning ''CONTRACT-A'') =
      Inr (Emitted p []) \<and> packet_closed p"
proof -
  have "\<exists>p. tune_complete trivial_host (\<lambda>t. True) (\<lambda>p. []) (sample_es ''CONTRACT-A'')
      sample_candidate sample_admission sample_adapter sample_profile ''T'' ''execute'' =
      Inr (Emitted p [])"
    using sample_inputs_ok sample_gates by (intro tune_complete_emits) (simp_all add: trivial_host_def)
  then obtain p where "tuneInstructions trivial_host (\<lambda>t. True) (\<lambda>p. []) (sample_tuning ''CONTRACT-A'') =
      Inr (Emitted p [])" by (auto simp: tuneInstructions_def sample_tuning_def)
  with emitted_packet_certified [OF this] show ?thesis by blast
qed

text \<open>
  The packet hash covers the content and not itself: it is unchanged by writing any hash
  into the two hash fields and by another generation time, so hashing the draft and hashing
  the finished packet agree.
\<close>

theorem packet_hash_self_consistent:
  "computeTrellisPacketHash h
     (with_hash x (p\<lparr>instructionTuning := (instructionTuning p)\<lparr>generatedAt := tm\<rparr>\<rparr>)) =
   computeTrellisPacketHash h p"
  using packet_hash_free [where h = h and p = p and x = "outputPacketHash (instructionTuning p)"
      and y = tm and z = "packetHash (audit p)"]
  by (simp add: hash_with_hash)

text \<open>Two artifact ids that are different nodes of a graph can be one role.\<close>

lemma role_collision:
  "artifact_id_ok ''CONTRACT-A-B'' \<and> artifact_id_ok ''CONTRACT-A--B'' \<and>
   roleIdFor ''CONTRACT-A-B'' = roleIdFor ''CONTRACT-A--B''"
  by code_simp

end
