(* ===== verification/Compile.thy ===== *)
theory Compile
  imports Coherence_Verification Executable_Assembly Instruction_Tuning
begin

text \<open>
  The compile orchestrator (\<open>packages/compiler/src/compile.ts\<close>), the coherence pass that
  adapts its intermediates (\<open>passes/07-coherence-verification.ts\<close>), the no-op preflight
  (\<open>06-consistency-check.ts\<close>) and the command line (\<open>cli.ts\<close>).
\<close>

section \<open>State, options and results\<close>

text \<open>What the compiler uses of its host: libraries, the clock and the working directory.\<close>

record compiler_env =
  env_host :: host
  parse_yaml :: "string \<Rightarrow> json option"
  is_datetime :: "string \<Rightarrow> bool"
  schema_issues :: "packet \<Rightarrow> string list"
  report_yaml :: "coherence_report \<Rightarrow> string"
  es_yaml :: "executable_specification \<Rightarrow> string"
  cwd :: string
  now :: string

record compile_options =
  opt_mode :: "factory_mode option"
  opt_reports_dir :: "string option"
  opt_es_dir :: "string option"
  opt_timestamp :: "string option"
  opt_tuning :: "tuning_input option"

definition no_options :: compile_options where
  "no_options = \<lparr>opt_mode = None, opt_reports_dir = None, opt_es_dir = None, opt_timestamp = None,
     opt_tuning = None\<rparr>"

record intermediates =
  im_intent :: intent_specification
  im_atoms :: "requirement_atom list"
  im_contracts :: "contract list"
  im_invariants :: "invariant_artifact list"
  im_dependencies :: "dependency list"
  im_validations :: "validation_spec list"

record compile_result =
  report :: coherence_report
  reportPath :: string
  result_intermediates :: intermediates
  result_mode :: factory_mode
  executableSpecification :: "executable_specification option"
  executableSpecificationPath :: "string option"
  instructionTuningResult :: "tuning_result option"

datatype compile_error = Read_error string | Normalize_error normalize_error
  | Coherence_error coherence_error | Assembly_error assembly_error | Tuning_error tuning_error

section \<open>Passes 0 to 7\<close>

definition consistencyCheck :: "intermediates \<Rightarrow> unit" where
  "consistencyCheck im = ()"

definition determineMode :: "string \<Rightarrow> factory_mode" where
  "determineMode isid = (if starts_with ''IS-META-'' isid then Bootstrap else Steady_state)"

definition intermediates_of :: "normalized_intent \<Rightarrow> intermediates" where
  "intermediates_of n =
     (let as = extractAtoms n; cs = deriveContracts n as; invs = deriveInvariants n as cs;
          deps = deriveDependencies n as cs invs; vals = deriveValidations n as cs invs deps
      in \<lparr>im_intent = draft n, im_atoms = as, im_contracts = cs, im_invariants = invs,
          im_dependencies = deps, im_validations = vals\<rparr>)"

definition coherence_input_of :: "intermediates \<Rightarrow> factory_mode \<Rightarrow> coherence_input" where
  "coherence_input_of im mode =
     \<lparr>ci_intent = artifact_id (im_intent im), ci_mode = mode, ci_atoms = im_atoms im,
      ci_contracts = im_contracts im, ci_invariants = im_invariants im,
      ci_dependencies = im_dependencies im, ci_validations = im_validations im\<rparr>"

definition runCoherenceVerificationPass ::
  "compiler_env \<Rightarrow> file_system \<Rightarrow> intermediates \<Rightarrow> factory_mode \<Rightarrow> string \<Rightarrow> string \<Rightarrow>
   (coherence_error + coherence_report \<times> string) \<times> file_system" where
  "runCoherenceVerificationPass env fs im mode ts dir =
     (case runCoherenceVerification (is_datetime env) (coherence_input_of im mode) ts of
        Inl e \<Rightarrow> (Inl e, fs)
      | Inr r \<Rightarrow> (let (fs', path) = emitCoherenceVerificationReport (report_yaml env) fs r dir
                in (Inr (r, path), fs')))"

section \<open>compile\<close>

definition sibling_dir :: "string \<Rightarrow> string \<Rightarrow> string" where
  "sibling_dir name path = path_resolve (path_dirname (path_dirname path)) name"

definition defaultVerificationReportsDir :: "string \<Rightarrow> string" where
  "defaultVerificationReportsDir path = sibling_dir ''verification-reports'' path"

definition defaultExecutableSpecificationsDir :: "string \<Rightarrow> string" where
  "defaultExecutableSpecificationsDir path = sibling_dir ''executable-specifications'' path"

definition or_else :: "'a option \<Rightarrow> 'a \<Rightarrow> 'a" where
  "or_else x d = (case x of None \<Rightarrow> d | Some y \<Rightarrow> y)"

lemma or_else_simps [simp]: "or_else None d = d" "or_else (Some x) d = x"
  by (simp_all add: or_else_def)

text \<open>Instruction tuning, when the options ask for it.\<close>

definition tune_option ::
  "compiler_env \<Rightarrow> tuning_input option \<Rightarrow> executable_specification \<Rightarrow> string \<Rightarrow>
   compile_error + tuning_result option" where
  "tune_option env tuning es ts =
     (case tuning of
        None \<Rightarrow> Inr None
      | Some t \<Rightarrow>
          (case tuneInstructions (env_host env) (is_datetime env) (schema_issues env)
             (t\<lparr>in_executableSpecification := Some es,
                in_generatedAt := Some (or_else (in_generatedAt t) ts)\<rparr>) of
             Inl e \<Rightarrow> Inl (Tuning_error e)
           | Inr r \<Rightarrow> Inr (Some r)))"

text \<open>The part of the orchestrator after the report has been emitted.\<close>

definition assemble_and_emit ::
  "compiler_env \<Rightarrow> file_system \<Rightarrow> string \<Rightarrow> compile_options \<Rightarrow> intermediates \<Rightarrow> factory_mode \<Rightarrow>
   string \<Rightarrow> coherence_report \<Rightarrow> string \<Rightarrow> (compile_error + compile_result) \<times> file_system" where
  "assemble_and_emit env fs path opts im mode ts r rpath =
     (if overall r \<noteq> Pass then
        (Inr \<lparr>report = r, reportPath = rpath, result_intermediates = im, result_mode = mode,
              executableSpecification = None, executableSpecificationPath = None,
              instructionTuningResult = None\<rparr>, fs)
      else case assembleExecutableSpecification (im_intent im) (im_atoms im) (im_contracts im)
          (im_invariants im) (im_dependencies im) (im_validations im) r of
        Inl e \<Rightarrow> (Inl (Assembly_error e), fs)
      | Inr es \<Rightarrow>
          (let dir = or_else (opt_es_dir opts) (defaultExecutableSpecificationsDir path);
               (fs', espath) = emitExecutableSpecification (es_yaml env) fs es dir
           in case tune_option env (opt_tuning opts) es ts of
                Inl e \<Rightarrow> (Inl e, fs')
              | Inr t \<Rightarrow>
                  (Inr \<lparr>report = r, reportPath = rpath, result_intermediates = im,
                        result_mode = mode, executableSpecification = Some es,
                        executableSpecificationPath = Some espath,
                        instructionTuningResult = t\<rparr>, fs')))"

definition compile ::
  "compiler_env \<Rightarrow> file_system \<Rightarrow> string \<Rightarrow> compile_options \<Rightarrow>
   (compile_error + compile_result) \<times> file_system" where
  "compile env fs file opts =
     (let path = path_resolve (cwd env) file in
      case fs path of
        None \<Rightarrow> (Inl (Read_error path), fs)
      | Some raw \<Rightarrow>
        (case normalize (parse_yaml env) raw path of
           Inl e \<Rightarrow> (Inl (Normalize_error e), fs)
         | Inr n \<Rightarrow>
           (let im = intermediates_of n;
                checked = consistencyCheck im;
                mode = or_else (opt_mode opts) (determineMode (artifact_id (draft n)));
                ts = or_else (opt_timestamp opts) (now env);
                dir = or_else (opt_reports_dir opts) (defaultVerificationReportsDir path)
            in case runCoherenceVerificationPass env fs im mode ts dir of
                 (Inl e, fs') \<Rightarrow> (Inl (Coherence_error e), fs')
               | (Inr (r, rpath), fs') \<Rightarrow>
                   assemble_and_emit env fs' path opts im mode ts r rpath)))"

section \<open>The command line\<close>

datatype cli_error = Bad_mode "string option" | Missing_reports_dir | Unexpected_argument string
  | Unknown_flag string | Usage

record cli_state =
  cli_path :: "string option"
  cli_mode :: "factory_mode option"
  cli_reports_dir :: "string option"

fun parse_loop :: "string list \<Rightarrow> cli_state \<Rightarrow> cli_error + cli_state" where
  "parse_loop [] st = Inr st"
| "parse_loop (arg # rest) st =
     (if arg = ''--mode'' then
        (case rest of
           [] \<Rightarrow> Inl (Bad_mode None)
         | nxt # rest' \<Rightarrow>
             (if nxt = ''bootstrap'' then parse_loop rest' (st\<lparr>cli_mode := Some Bootstrap\<rparr>)
              else if nxt = ''steady_state'' then
                parse_loop rest' (st\<lparr>cli_mode := Some Steady_state\<rparr>)
              else Inl (Bad_mode (Some nxt))))
      else if arg = ''--verification-reports-dir'' then
        (case rest of
           [] \<Rightarrow> Inl Missing_reports_dir
         | nxt # rest' \<Rightarrow> parse_loop rest' (st\<lparr>cli_reports_dir := Some nxt\<rparr>))
      else if \<not> starts_with ''--'' arg then
        (if cli_path st \<noteq> None then Inl (Unexpected_argument arg)
         else parse_loop rest (st\<lparr>cli_path := Some arg\<rparr>))
      else Inl (Unknown_flag arg))"

text \<open>\<open>parseArgs\<close>; the first two elements of \<open>argv\<close> are the interpreter and the script.\<close>

definition parseArgs :: "string list \<Rightarrow> cli_error + string \<times> compile_options" where
  "parseArgs argv =
     (case parse_loop (drop 2 argv)
        \<lparr>cli_path = None, cli_mode = None, cli_reports_dir = None\<rparr> of
        Inl e \<Rightarrow> Inl e
      | Inr st \<Rightarrow>
          (case cli_path st of
             None \<Rightarrow> Inl Usage
           | Some p \<Rightarrow> Inr (p, no_options\<lparr>opt_mode := cli_mode st,
                                       opt_reports_dir := cli_reports_dir st\<rparr>)))"

text \<open>The exit code of \<open>main\<close>, and the file system it leaves.\<close>

definition main_exit :: "compiler_env \<Rightarrow> file_system \<Rightarrow> string list \<Rightarrow> nat \<times> file_system" where
  "main_exit env fs argv =
     (case parseArgs argv of
        Inl e \<Rightarrow> (2, fs)
      | Inr (p, opts) \<Rightarrow>
          (case compile env fs p opts of
             (Inl e, fs') \<Rightarrow> (2, fs')
           | (Inr r, fs') \<Rightarrow> (if overall (report r) = Fail then 1 else 0, fs')))"

section \<open>Ids of the intermediates\<close>

text \<open>Every id the passes make is a type prefix, the subject of the intent, and more.\<close>

definition derived_id :: "string \<Rightarrow> string \<Rightarrow> bool" where
  "derived_id t x \<longleftrightarrow>
     (\<exists>p s. p \<in> set meta_type_prefixes \<and> x = p @ CHR ''-'' # t @ s \<and> list_all id_char s)"

lemma derived_idI:
  "p \<in> set meta_type_prefixes \<Longrightarrow> list_all id_char s \<Longrightarrow> x = p @ CHR ''-'' # t @ s \<Longrightarrow> derived_id t x"
  unfolding derived_id_def by blast

lemma derived_id_ok: "derived_id t x \<Longrightarrow> id_subject_ok t \<Longrightarrow> artifact_id_ok x"
  using meta_prefixes_subset unfolding derived_id_def by (auto intro!: artifact_id_okI)

lemma derived_id_meta: "derived_id t x \<Longrightarrow> starts_with ''META-'' t \<Longrightarrow> meta_prefixed x"
  unfolding derived_id_def meta_prefixed_iff
  by (auto elim!: starts_withE) (metis append.assoc append_Cons)

lemma intent_subject:
  assumes "intent_specification_ok d"
  obtains t where "artifact_id d = ''IS-'' @ t" "id_subject_ok t"
proof -
  from assms have ok: "artifact_id_ok (artifact_id d)" and "starts_with ''IS-'' (artifact_id d)"
    by (auto simp: intent_specification_ok_def lineage_ok_def)
  then obtain t where t: "artifact_id d = ''IS-'' @ t" by (blast elim: starts_withE)
  from ok obtain p u where pu: "artifact_id d = p @ CHR ''-'' # u" "p \<in> set artifact_type_prefixes"
    "id_subject_ok u" using artifact_id_ok_iff by blast
  have "takeWhile (\<lambda>c. c \<noteq> CHR ''-'') (artifact_id d) = p"
    using takeWhile_hyphen [OF type_prefix_no_hyphen [OF pu(2)]] pu(1) by simp
  with t pu(1) have "u = t" by auto
  with that t pu(3) show ?thesis by simp
qed

lemma atomId_derived:
  "list_all id_char tag \<Longrightarrow> derived_id t (atomId (''IS-'' @ t) tag k)"
  by (rule derived_idI [of "''ATOM''" "''-'' @ tag @ ''-'' @ pad_start 2 (CHR ''0'') (dec k)"])
     (simp_all add: meta_type_prefixes_def atomId_def)

lemma atom_tags [simp]:
  "list_all id_char ''AC''" "list_all id_char ''CONSTRAINT''" "list_all id_char ''METRIC''"
  by (simp_all add: id_char_def is_upper_def)

lemma intent_derived: "derived_id t (''IS-'' @ t)"
  by (rule derived_idI [of "''IS''" "[]"]) (simp_all add: meta_type_prefixes_def)

lemma extractAtoms_derived:
  assumes "artifact_id (draft n) = ''IS-'' @ t" "a \<in> set (extractAtoms n)"
  shows "derived_id t (artifact_id a)"
proof -
  have "derived_id t (artifact_id (makeAtom (atomId (''IS-'' @ t) tag k) i c ob sec m))"
    if "list_all id_char tag" for tag k i c ob sec m
    using atomId_derived [OF that] by (simp add: makeAtom_def)
  with assms atom_tags show ?thesis
    unfolding extractAtoms_def Let_def set_append assms(1)
    by (auto simp del: append.simps elim!: section_atoms_elim)
qed

lemma category_tags:
  "c \<in> {Acceptance, Constraint, Nfr} \<Longrightarrow> list_all id_char (to_upper (category_str c))"
  by (auto; code_simp)

lemma buildContract_derived:
  assumes "c \<in> {Acceptance, Constraint, Nfr}"
  shows "derived_id t (artifact_id (buildContract (''IS-'' @ t) c as))"
  using category_tags [OF assms]
  by (intro derived_idI [of "''CONTRACT''" "''-'' @ to_upper (category_str c)"])
     (simp_all add: meta_type_prefixes_def buildContract_def Let_def contractId_def)

lemma template_tags: "tp \<in> set invariant_templates \<Longrightarrow> list_all id_char (template_tag tp)"
  by (auto simp: invariant_templates_def determinism_template_def fail_closed_template_def
      lineage_template_def emission_template_def id_char_def is_upper_def)

lemma template_invariant_derived:
  assumes "tp \<in> set invariant_templates"
  shows "derived_id t (artifact_id (template_invariant (''IS-'' @ t) cids a tp))"
  using template_tags [OF assms]
  by (intro derived_idI [of "''INV''" "''-'' @ template_tag tp"])
     (simp_all add: meta_type_prefixes_def template_invariant_def)

lemma validation_for_derived: "derived_id t (artifact_id (validation_for (''IS-'' @ t) k iv))"
  by (rule derived_idI [of "''VAL''" "''-VAL-'' @ pad_start 2 (CHR ''0'') (dec k)"])
     (simp_all add: meta_type_prefixes_def validation_for_def id_char_def is_upper_def)

text \<open>The facts about the intermediates that the coherence checks and assembly need.\<close>

definition derived_intermediates :: "string \<Rightarrow> intermediates \<Rightarrow> bool" where
  "derived_intermediates t im \<longleftrightarrow>
     artifact_id (im_intent im) = ''IS-'' @ t \<and>
     (\<forall>a \<in> set (im_atoms im). derived_id t (artifact_id a) \<and> source_refs a = [''IS-'' @ t]) \<and>
     (\<forall>c \<in> set (im_contracts im). derived_id t (artifact_id c) \<and>
        source_refs c = (''IS-'' @ t) # contract_atoms c \<and> contract_statement c \<noteq> [] \<and>
        set (contract_atoms c) \<subseteq> artifact_id ` set (im_atoms im)) \<and>
     (\<forall>v \<in> set (im_invariants im). derived_id t (artifact_id v) \<and> functionId v = None \<and>
        invariant_statement v \<noteq> [] \<and> detector_spec_ok (detector v) \<and>
        set (source_refs v) \<subseteq> {''IS-'' @ t} \<union> artifact_id ` set (im_atoms im) \<and>
        set (invariant_atoms v) \<subseteq> artifact_id ` set (im_atoms im) \<and>
        set (invariant_contracts v) \<subseteq> artifact_id ` set (im_contracts im)) \<and>
     im_dependencies im = [] \<and>
     (\<forall>v \<in> set (im_validations im). derived_id t (artifact_id v) \<and> validation_statement v \<noteq> [] \<and>
        coversContractIds v = [] \<and> coversInvariantIds v \<noteq> [] \<and>
        set (coversInvariantIds v) \<subseteq> artifact_id ` set (im_invariants im) \<and>
        set (targetRefs v) \<subseteq> artifact_id ` set (im_invariants im) \<and>
        set (coversAtomIds v) \<subseteq> artifact_id ` set (im_atoms im) \<and>
        set (source_refs v) \<subseteq> {''IS-'' @ t} \<union> artifact_id ` set (im_invariants im) \<union>
          artifact_id ` set (im_atoms im)) \<and>
     (\<forall>a \<in> set (im_atoms im). \<exists>c \<in> set (im_contracts im). artifact_id a \<in> set (contract_atoms c)) \<and>
     (\<forall>v \<in> set (im_invariants im). \<exists>s \<in> set (im_validations im).
        artifact_id v \<in> set (coversInvariantIds s))"

lemma template_statements: "tp \<in> set invariant_templates \<Longrightarrow> template_statement tp \<noteq> []"
  by (auto simp: invariant_templates_def determinism_template_def fail_closed_template_def
      lineage_template_def emission_template_def)

lemma derived_contracts_facts:
  assumes t: "artifact_id (draft n) = ''IS-'' @ t"
    and c: "c \<in> set (deriveContracts n (extractAtoms n))"
  shows "derived_id t (artifact_id c) \<and> source_refs c = (''IS-'' @ t) # contract_atoms c \<and>
    contract_statement c \<noteq> [] \<and> set (contract_atoms c) \<subseteq> artifact_id ` set (extractAtoms n)"
proof -
  from c t obtain k where k: "\<exists>a \<in> set (extractAtoms n). category a = k"
    "c = buildContract (''IS-'' @ t) k (filter (\<lambda>a. category a = k) (extractAtoms n))"
    by (auto simp: in_deriveContracts)
  then have "k \<in> {Acceptance, Constraint, Nfr}" using extractAtoms_category by blast
  from buildContract_derived [OF this] k(2) show ?thesis
    by (auto simp: buildContract_def Let_def)
qed

lemma derived_invariants_facts:
  assumes t: "artifact_id (draft n) = ''IS-'' @ t"
    and v: "v \<in> set (deriveInvariants n as cs)"
  shows "derived_id t (artifact_id v) \<and> functionId v = None \<and> invariant_statement v \<noteq> [] \<and>
    detector_spec_ok (detector v) \<and> set (source_refs v) \<subseteq> {''IS-'' @ t} \<union> artifact_id ` set as \<and>
    set (invariant_atoms v) \<subseteq> artifact_id ` set as \<and>
    set (invariant_contracts v) \<subseteq> artifact_id ` set cs"
proof -
  from in_deriveInvariants [OF v] t obtain a tp cids where
    a: "a \<in> set as" "tp \<in> set invariant_templates" "set cids \<subseteq> artifact_id ` set cs"
    "v = template_invariant (''IS-'' @ t) cids a tp" by metis
  with template_invariant_derived template_statements template_detectors_ok show ?thesis
    by (simp add: template_invariant_def)
qed

lemma derived_validations_facts:
  assumes t: "artifact_id (draft n) = ''IS-'' @ t"
    and atoms: "\<And>iv. iv \<in> set invs \<Longrightarrow> set (invariant_atoms iv) \<subseteq> A"
    and v: "v \<in> set (deriveValidations n as cs invs deps)"
  shows "derived_id t (artifact_id v) \<and> validation_statement v \<noteq> [] \<and>
    coversContractIds v = [] \<and> coversInvariantIds v \<noteq> [] \<and>
    set (coversInvariantIds v) \<subseteq> artifact_id ` set invs \<and>
    set (targetRefs v) \<subseteq> artifact_id ` set invs \<and> set (coversAtomIds v) \<subseteq> A \<and>
    set (source_refs v) \<subseteq> {''IS-'' @ t} \<union> artifact_id ` set invs \<union> A"
proof -
  from v t obtain k where "k < length invs" "v = validation_for (''IS-'' @ t) (k + 1) (invs ! k)"
    by (auto simp: in_deriveValidations)
  with atoms [of "invs ! k"] validation_for_derived show ?thesis
    by (auto simp: validation_for_def)
qed

lemma intermediates_derived:
  assumes t: "artifact_id (draft n) = ''IS-'' @ t"
  shows "derived_intermediates t (intermediates_of n)"
proof -
  let ?as = "extractAtoms n" and ?cs = "deriveContracts n (extractAtoms n)"
  let ?invs = "deriveInvariants n ?as ?cs"
  have "set (invariant_atoms iv) \<subseteq> artifact_id ` set ?as" if "iv \<in> set ?invs" for iv
    using derived_invariants_facts [OF t that] by blast
  note vals = derived_validations_facts [OF t this, of ?invs]
  show ?thesis
    unfolding derived_intermediates_def intermediates_of_def Let_def deriveDependencies_def
    using t extractAtoms_derived [OF t] extractAtoms_source [of _ n]
      derived_contracts_facts [OF t] derived_invariants_facts [OF t] vals
      deriveContracts_covers [of _ ?as n] deriveValidations_covers
    by (simp add: deriveDependencies_def)
qed

section \<open>The verdict on compiled intermediates\<close>

definition intermediate_ids :: "string \<Rightarrow> intermediates \<Rightarrow> string set" where
  "intermediate_ids t im =
     insert (''IS-'' @ t) (artifact_id ` set (im_atoms im) \<union> artifact_id ` set (im_contracts im) \<union>
       artifact_id ` set (im_invariants im) \<union> artifact_id ` set (im_validations im))"

lemma concat_map_subset:
  "(\<And>x. x \<in> set xs \<Longrightarrow> set (f x) \<subseteq> K) \<Longrightarrow> set (concat (map f xs)) \<subseteq> K"
  by (simp add: UN_subset_iff)

lemma derived_mentioned_ids:
  assumes "derived_intermediates t im"
  shows "set (mentioned_ids (coherence_input_of im mode)) \<subseteq> intermediate_ids t im"
proof -
  let ?K = "intermediate_ids t im"
  note d = assms [unfolded derived_intermediates_def]
  have K: "''IS-'' @ t \<in> ?K" "artifact_id ` set (im_atoms im) \<subseteq> ?K"
    "artifact_id ` set (im_contracts im) \<subseteq> ?K" "artifact_id ` set (im_invariants im) \<subseteq> ?K"
    "artifact_id ` set (im_validations im) \<subseteq> ?K"
    by (auto simp: intermediate_ids_def)
  have at: "set (artifact_id a # source_refs a) \<subseteq> ?K" if "a \<in> set (im_atoms im)" for a
    using that d K(1,2) by auto
  have ct: "set (artifact_id c # source_refs c @ contract_atoms c) \<subseteq> ?K"
    if c: "c \<in> set (im_contracts im)" for c
  proof -
    from c d have r: "source_refs c = (''IS-'' @ t) # contract_atoms c"
      and a: "set (contract_atoms c) \<subseteq> artifact_id ` set (im_atoms im)" by blast+
    from c K(3) have "artifact_id c \<in> ?K" by blast
    with order_trans [OF a K(2)] K(1) show ?thesis by (simp add: r)
  qed
  have iv: "set (artifact_id v # source_refs v @
      (case functionId v of None \<Rightarrow> [] | Some f \<Rightarrow> [f]) @ invariant_atoms v @
      invariant_contracts v) \<subseteq> ?K" if v: "v \<in> set (im_invariants im)" for v
  proof -
    from v d have f: "functionId v = None"
      and r: "set (source_refs v) \<subseteq> {''IS-'' @ t} \<union> artifact_id ` set (im_atoms im)"
      and a: "set (invariant_atoms v) \<subseteq> artifact_id ` set (im_atoms im)"
      and c: "set (invariant_contracts v) \<subseteq> artifact_id ` set (im_contracts im)" by blast+
    have "set (source_refs v) \<subseteq> ?K" using r K(1,2) by blast
    moreover have "artifact_id v \<in> ?K" using v K(4) by blast
    ultimately show ?thesis
      using order_trans [OF a K(2)] order_trans [OF c K(3)] by (simp add: f)
  qed
  have vl: "set (artifact_id v # source_refs v @ targetRefs v @ coversAtomIds v @
      coversContractIds v @ coversInvariantIds v) \<subseteq> ?K" if v: "v \<in> set (im_validations im)" for v
  proof -
    from v d have z: "coversContractIds v = []"
      and i: "set (coversInvariantIds v) \<subseteq> artifact_id ` set (im_invariants im)"
      and g: "set (targetRefs v) \<subseteq> artifact_id ` set (im_invariants im)"
      and a: "set (coversAtomIds v) \<subseteq> artifact_id ` set (im_atoms im)"
      and r: "set (source_refs v) \<subseteq> {''IS-'' @ t} \<union> artifact_id ` set (im_invariants im) \<union>
         artifact_id ` set (im_atoms im)" by blast+
    have "set (source_refs v) \<subseteq> ?K" using r K(1,2,4) by blast
    moreover have "artifact_id v \<in> ?K" using v K(5) by blast
    ultimately show ?thesis
      using order_trans [OF i K(4)] order_trans [OF g K(4)] order_trans [OF a K(2)]
      by (simp add: z)
  qed
  note blocks = concat_map_subset [where K = ?K and xs = "im_atoms im", OF at]
    concat_map_subset [where K = ?K and xs = "im_contracts im", OF ct]
    concat_map_subset [where K = ?K and xs = "im_invariants im", OF iv]
    concat_map_subset [where K = ?K and xs = "im_validations im", OF vl]
  have "artifact_id (im_intent im) = ''IS-'' @ t" "im_dependencies im = []"
    using d by blast+
  then show ?thesis
    unfolding mentioned_ids_def coherence_input_of_def
    using K(1) blocks by (simp del: set_concat set_map)
qed

lemma derived_mentioned:
  assumes "derived_intermediates t im"
  shows "\<forall>x \<in> set (mentioned_ids (coherence_input_of im mode)). derived_id t x"
proof -
  have "derived_id t x" if "x \<in> intermediate_ids t im" for x
    using that assms intent_derived
    by (auto simp: derived_intermediates_def intermediate_ids_def)
  with derived_mentioned_ids [OF assms] show ?thesis by blast
qed

lemma meta_intent: "meta_prefixed (''IS-'' @ t) \<longleftrightarrow> starts_with ''META-'' t"
  by (simp add: meta_prefixed_def meta_type_prefixes_def)

lemma derived_coherent:
  assumes "derived_intermediates t im"
  shows "coherent (coherence_input_of im mode) \<longleftrightarrow>
    (mode = Bootstrap \<longrightarrow> starts_with ''META-'' t)"
proof -
  let ?i = "coherence_input_of im mode"
  note d = assms [unfolded derived_intermediates_def]
  have "\<not> orphan_atom ?i x" for x
    using d by (auto simp: orphan_atom_def referenced_ids_def coherence_input_of_def)
  moreover have "\<not> uncovered_invariant ?i x" for x
    using d unfolding uncovered_invariant_def coherence_input_of_def by simp blast
  moreover have "\<not> dead_validation ?i x" for x
    using d by (auto simp: dead_validation_def coherence_input_of_def)
  moreover have "\<not> dangling_dependency ?i x" for x
    using d by (auto simp: dangling_dependency_def coherence_input_of_def)
  moreover have "(\<forall>x. \<not> non_meta_id ?i x) \<longleftrightarrow> starts_with ''META-'' t"
  proof
    assume "\<forall>x. \<not> non_meta_id ?i x"
    then have "meta_prefixed (''IS-'' @ t)"
      using d by (auto simp: non_meta_id_def mentioned_ids_def coherence_input_of_def)
    then show "starts_with ''META-'' t" by (simp only: meta_intent)
  next
    assume "starts_with ''META-'' t"
    then show "\<forall>x. \<not> non_meta_id ?i x"
      using derived_mentioned [OF assms] derived_id_meta by (auto simp: non_meta_id_def)
  qed
  ultimately show ?thesis by (auto simp: coherent_def coherence_input_of_def)
qed

lemma report_candidate_id: "artifact_id (report_candidate i ts) = coverageReportId (ci_intent i) ts"
  by (simp add: report_candidate_def Let_def)

lemma derived_input_ids:
  assumes "derived_intermediates t im" "id_subject_ok t"
  shows "list_all artifact_id_ok (mentioned_ids (coherence_input_of im mode))"
  using derived_mentioned [OF assms(1)] derived_id_ok [OF _ assms(2)] by (auto simp: list_all_iff)

lemma node_parts:
  "n \<in> set (es_nodes cs invs vals) \<Longrightarrow>
     (\<exists>c \<in> set cs. n = contract_node c) \<or> (\<exists>v \<in> set invs. n = invariant_node v) \<or>
     (\<exists>v \<in> set vals. n = validation_node v)"
  by (auto simp: es_nodes_def)

lemma derived_nodes_ok:
  assumes "derived_intermediates t im" "id_subject_ok t"
  shows "list_all es_node_ok (es_nodes (im_contracts im) (im_invariants im) (im_validations im))"
  using assms(1) derived_id_ok [OF _ assms(2)] artifact_id_nonempty
  unfolding derived_intermediates_def list_all_iff
  by (auto dest!: node_parts simp: es_node_ok_def contract_node_def invariant_node_def
      validation_node_def)

lemma sort_key_list_all [simp]: "list_all P (sort_key f xs) = list_all P xs"
  by (simp add: list_all_iff)

lemma sort_key_Nil_iff [simp]: "sort_key f xs = [] \<longleftrightarrow> xs = []"
  by (metis length_0_conv length_sort)

lemma derived_edges_ok:
  assumes "derived_intermediates t im" "id_subject_ok t"
  shows "list_all es_edge_ok (concat (map (validation_edges (map node_id
    (es_nodes (im_contracts im) (im_invariants im) (im_validations im)))) (im_validations im)))"
proof -
  let ?ns = "es_nodes (im_contracts im) (im_invariants im) (im_validations im)"
  have "node_id n \<noteq> []" if "n \<in> set ?ns" for n
    using derived_nodes_ok [OF assms] that by (auto simp: list_all_iff es_node_ok_def)
  moreover have "artifact_id v \<noteq> []" if "v \<in> set (im_validations im)" for v
    using that assms(1) derived_id_ok [OF _ assms(2)] artifact_id_nonempty
    by (auto simp: derived_intermediates_def)
  ultimately show ?thesis
    by (auto simp: list_all_iff in_validation_edges validates_edge_def es_edge_ok_def)
qed

lemma derived_refs_ok:
  assumes "derived_intermediates t im" "id_subject_ok t" "artifact_id_ok rid"
  shows "list_all artifact_id_ok (assembly_refs (artifact_id (im_intent im)) rid (im_atoms im)
    (im_contracts im) (im_invariants im) (im_dependencies im) (im_validations im))"
  using assms derived_id_ok [OF _ assms(2)] intent_derived [of t]
  by (auto simp: derived_intermediates_def assembly_refs_def list_all_iff)

lemma executableSpecificationId_ok:
  "id_subject_ok t \<Longrightarrow> artifact_id_ok (executableSpecificationId (''IS-'' @ t))"
  using artifact_id_okI [of "''ES''" t]
  by (simp add: executableSpecificationId_def artifact_type_prefixes_def)

lemma derived_assembles:
  assumes d: "derived_intermediates t im" and t: "id_subject_ok t"
    and ne: "im_contracts im \<noteq> []" and f: "artifact_id_ok (sourceFunctionId (im_intent im))"
    and r: "overall r = Pass" "artifact_id_ok (artifact_id r)"
  shows "\<exists>es. assembleExecutableSpecification (im_intent im) (im_atoms im) (im_contracts im)
    (im_invariants im) (im_dependencies im) (im_validations im) r = Inr es"
proof -
  have i: "artifact_id (im_intent im) = ''IS-'' @ t" and deps: "im_dependencies im = []"
    using d by (auto simp: derived_intermediates_def)
  have nn: "es_nodes (im_contracts im) (im_invariants im) (im_validations im) \<noteq> []"
    using ne by (simp add: es_nodes_def)
  have pre: "starts_with ''ES-'' (executableSpecificationId (''IS-'' @ t))"
    by (simp add: executableSpecificationId_def)
  show ?thesis
    using derived_nodes_ok [OF d t] derived_edges_ok [OF d t] derived_refs_ok [OF d t r(2)]
      executableSpecificationId_ok [OF t] nn pre f r(1) i deps
    by (simp add: assembleExecutableSpecification_def Let_def executable_specification_ok_def
        lineage_ok_def list_all_iff)
qed

section \<open>The outcome of a compile\<close>

definition compile_mode :: "compile_options \<Rightarrow> normalized_intent \<Rightarrow> factory_mode" where
  "compile_mode opts n = or_else (opt_mode opts) (determineMode (artifact_id (draft n)))"

lemma coherence_pass_derived:
  assumes d: "derived_intermediates t im" "id_subject_ok t"
    and ts: "is_datetime env ts" "list_all timestamp_char ts"
  shows "runCoherenceVerificationPass env fs im mode ts dir =
    (let r = report_candidate (coherence_input_of im mode) ts;
         path = path_join dir (artifact_id r @ ''.yaml'')
     in (Inr (r, path), fs(path \<mapsto> report_yaml env r)))"
  using report_candidate_valid [where dt = "is_datetime env", OF derived_input_ids [OF d] ts]
  by (simp add: runCoherenceVerificationPass_def runCoherenceVerification_def Let_def
      emitCoherenceVerificationReport_def)

lemma report_id_ok:
  assumes "derived_intermediates t im" "id_subject_ok t" "list_all timestamp_char ts"
  shows "artifact_id_ok (artifact_id (report_candidate (coherence_input_of im mode) ts))"
proof -
  have "ci_intent (coherence_input_of im mode) = ''IS-'' @ t"
    using assms(1) by (simp add: derived_intermediates_def coherence_input_of_def)
  moreover have "artifact_id_ok (''IS-'' @ t)"
    using intent_derived assms(2) by (rule derived_id_ok)
  ultimately show ?thesis
    using coverageReportId_ok assms(3) by (simp add: report_candidate_id)
qed

lemma im_intent_of [simp]: "im_intent (intermediates_of n) = draft n"
  by (simp add: intermediates_of_def Let_def)

lemma contracts_nonempty:
  assumes "intent_specification_ok (draft n)"
  shows "im_contracts (intermediates_of n) \<noteq> []"
proof -
  have "acceptanceCriteria (draft n) \<noteq> []" using assms by (simp add: intent_specification_ok_def)
  then have "extractAtoms n \<noteq> []"
    by (metis extractAtoms_object append_is_Nil_conv list.map_disc_iff)
  then obtain a where "a \<in> set (extractAtoms n)" using hd_in_set by blast
  from deriveContracts_covers [OF this, of n] show ?thesis
    by (auto simp: intermediates_of_def Let_def)
qed

text \<open>The intermediates of a normalized intent, as the lemmas above use them.\<close>

lemma normalized_intermediates:
  assumes "normalize py raw file = Inr n"
  obtains t where "artifact_id (draft n) = ''IS-'' @ t" "id_subject_ok t"
    "derived_intermediates t (intermediates_of n)" "im_contracts (intermediates_of n) \<noteq> []"
    "artifact_id_ok (sourceFunctionId (draft n))"
proof -
  have ok: "intent_specification_ok (draft n)" using assms by (rule normalize_draft_ok)
  then obtain t where t: "artifact_id (draft n) = ''IS-'' @ t" "id_subject_ok t"
    by (rule intent_subject)
  from ok have f: "artifact_id_ok (sourceFunctionId (draft n))"
    by (simp add: intent_specification_ok_def)
  show ?thesis
    by (rule that [OF t intermediates_derived [OF t(1)] contracts_nonempty [OF ok] f])
qed

lemma is_meta_subject: "starts_with ''IS-META-'' (''IS-'' @ t) \<longleftrightarrow> starts_with ''META-'' t"
  by simp

text \<open>What the orchestrator writes and returns, once the intent has been read and normalized.\<close>

lemma compile_normalized:
  assumes raw: "fs (path_resolve (cwd env) file) = Some raw"
    and n: "normalize (parse_yaml env) raw (path_resolve (cwd env) file) = Inr n"
    and ts: "is_datetime env (or_else (opt_timestamp opts) (now env))"
      "list_all timestamp_char (or_else (opt_timestamp opts) (now env))"
  obtains r rpath where
    "r = report_candidate (coherence_input_of (intermediates_of n) (compile_mode opts n))
       (or_else (opt_timestamp opts) (now env))"
    "rpath = path_join (or_else (opt_reports_dir opts)
       (defaultVerificationReportsDir (path_resolve (cwd env) file))) (artifact_id r @ ''.yaml'')"
    "compile env fs file opts =
       assemble_and_emit env (fs(rpath \<mapsto> report_yaml env r)) (path_resolve (cwd env) file) opts
         (intermediates_of n) (compile_mode opts n)
         (or_else (opt_timestamp opts) (now env)) r rpath"
    "overall r = (if compile_mode opts n = Bootstrap \<and>
        \<not> starts_with ''IS-META-'' (artifact_id (draft n)) then Fail else Pass)"
    "artifact_id_ok (artifact_id r)"
proof -
  obtain t where t: "artifact_id (draft n) = ''IS-'' @ t" "id_subject_ok t"
    and d: "derived_intermediates t (intermediates_of n)"
    using n by (rule normalized_intermediates)
  let ?mode = "compile_mode opts n" and ?im = "intermediates_of n"
  let ?ts = "or_else (opt_timestamp opts) (now env)"
  have "overall (report_candidate (coherence_input_of ?im ?mode) ?ts) =
      (if ?mode = Bootstrap \<and> \<not> starts_with ''IS-META-'' (artifact_id (draft n)) then Fail else Pass)"
    unfolding report_overall derived_coherent [OF d] t(1) is_meta_subject by simp
  then show ?thesis
    using that raw n report_id_ok [OF d t(2) ts(2)] coherence_pass_derived [OF d t(2) ts]
    by (simp add: compile_def Let_def compile_mode_def [symmetric])
qed

text \<open>Assembly of a passing report, and its emission.\<close>

lemma assemble_and_emit_pass:
  assumes d: "derived_intermediates t im" "id_subject_ok t" "im_contracts im \<noteq> []"
      "artifact_id_ok (sourceFunctionId (im_intent im))"
    and r: "overall r = Pass" "artifact_id_ok (artifact_id r)"
    and tuning: "opt_tuning opts = None"
  obtains es espath where
    "assembleExecutableSpecification (im_intent im) (im_atoms im) (im_contracts im)
       (im_invariants im) (im_dependencies im) (im_validations im) r = Inr es"
    "espath = path_join (or_else (opt_es_dir opts) (defaultExecutableSpecificationsDir path))
       (artifact_id es @ ''.yaml'')"
    "assemble_and_emit env fs path opts im mode ts r rpath =
       (Inr \<lparr>report = r, reportPath = rpath, result_intermediates = im, result_mode = mode,
             executableSpecification = Some es, executableSpecificationPath = Some espath,
             instructionTuningResult = None\<rparr>, fs(espath \<mapsto> es_yaml env es))"
proof -
  from derived_assembles [OF d r] obtain es where
    "assembleExecutableSpecification (im_intent im) (im_atoms im) (im_contracts im)
       (im_invariants im) (im_dependencies im) (im_validations im) r = Inr es" by blast
  with that r(1) tuning show ?thesis
    by (simp add: assemble_and_emit_def emitExecutableSpecification_def Let_def tune_option_def)
qed

lemma assemble_and_emit_fail:
  "overall r \<noteq> Pass \<Longrightarrow>
     assemble_and_emit env fs path opts im mode ts r rpath =
       (Inr \<lparr>report = r, reportPath = rpath, result_intermediates = im, result_mode = mode,
             executableSpecification = None, executableSpecificationPath = None,
             instructionTuningResult = None\<rparr>, fs)"
  by (simp add: assemble_and_emit_def)

lemma assemble_and_emit_Some:
  assumes "assemble_and_emit env fs path opts im mode ts r rpath = (Inr res, fs')"
    and "executableSpecification res = Some es"
  shows "overall r = Pass \<and> report res = r \<and> result_intermediates res = im \<and>
    assembleExecutableSpecification (im_intent im) (im_atoms im) (im_contracts im)
      (im_invariants im) (im_dependencies im) (im_validations im) r = Inr es"
  using assms unfolding assemble_and_emit_def
  by (auto simp: Let_def split: if_splits sum.splits prod.splits)

section \<open>The graph of a compiled specification\<close>

lemma derived_id_prefix:
  assumes "CHR ''-'' \<notin> set p" "x = p @ CHR ''-'' # s" "CHR ''-'' \<notin> set q" "x = q @ CHR ''-'' # s'"
  shows "p = q"
  using takeWhile_hyphen [OF assms(1), of s] takeWhile_hyphen [OF assms(3), of s'] assms(2,4)
  by simp

lemma contract_ids:
  "c \<in> set (deriveContracts n as) \<Longrightarrow> starts_with ''CONTRACT-'' (artifact_id c)"
  by (auto simp: in_deriveContracts buildContract_def Let_def contractId_def)

lemma invariant_ids: "v \<in> set (deriveInvariants n as cs) \<Longrightarrow> starts_with ''INV-'' (artifact_id v)"
  by (erule in_deriveInvariants) (simp add: template_invariant_def)

lemma validation_ids:
  "v \<in> set (deriveValidations n as cs invs deps) \<Longrightarrow> starts_with ''VAL-'' (artifact_id v)"
  by (auto simp: in_deriveValidations validation_for_def)

lemma distinct_sort_key [simp]: "distinct (map f (sort_key g xs)) = distinct (map f xs)"
  by (metis mset_eq_imp_distinct_iff mset_map mset_sort)

lemma to_upper_category_inject:
  "c \<in> {Acceptance, Constraint, Nfr} \<Longrightarrow> c' \<in> {Acceptance, Constraint, Nfr} \<Longrightarrow>
     to_upper (category_str c) = to_upper (category_str c') \<Longrightarrow> c = c'"
proof -
  have "to_upper (category_str Acceptance) = ''ACCEPTANCE''" by code_simp
  moreover have "to_upper (category_str Constraint) = ''CONSTRAINT''" by code_simp
  moreover have "to_upper (category_str Nfr) = ''NFR''" by code_simp
  ultimately show "c \<in> {Acceptance, Constraint, Nfr} \<Longrightarrow> c' \<in> {Acceptance, Constraint, Nfr} \<Longrightarrow>
      to_upper (category_str c) = to_upper (category_str c') \<Longrightarrow> c = c'" by auto
qed

lemma distinct_contract_ids: "distinct (map artifact_id (deriveContracts n (extractAtoms n)))"
proof -
  let ?b = "by_category (extractAtoms n)"
  let ?i = "artifact_id (draft n)"
  have cat: "c \<in> {Acceptance, Constraint, Nfr}" if "(c, b) \<in> set ?b" for c b
    using that extractAtoms_category by (auto simp: in_by_category)
  have "inj_on (\<lambda>(c, b). artifact_id (buildContract ?i c b)) (set ?b)"
  proof (rule inj_onI, clarify)
    fix c b c' b'
    assume b: "(c, b) \<in> set ?b" "(c', b') \<in> set ?b"
      and "artifact_id (buildContract ?i c b) = artifact_id (buildContract ?i c' b')"
    then have "to_upper (category_str c) = to_upper (category_str c')"
      by (simp add: buildContract_def Let_def contractId_def)
    with b cat to_upper_category_inject have "c = c'" by blast
    with b show "c = c' \<and> b = b'" by (simp add: in_by_category)
  qed
  then have "inj_on (\<lambda>(c, b). artifact_id (buildContract ?i c b))
      (set (filter (\<lambda>(c, b). b \<noteq> []) ?b))" by (rule inj_on_subset) auto
  moreover have "distinct (filter (\<lambda>(c, b). b \<noteq> []) ?b)"
    using distinct_by_category [of "extractAtoms n"] by (simp add: distinct_map)
  ultimately have "distinct (map (\<lambda>(c, b). artifact_id (buildContract ?i c b))
      (filter (\<lambda>(c, b). b \<noteq> []) ?b))" by (simp only: distinct_map)
  then show ?thesis
    unfolding deriveContracts_def distinct_sort_key map_map by (simp add: comp_def split_def)
qed

lemma distinct_validation_ids: "distinct (map artifact_id (deriveValidations n as cs invs deps))"
proof -
  let ?f = "\<lambda>(i, iv). validation_for (artifact_id (draft n)) (i + 1) iv"
  have "map artifact_id (map ?f (enumerate 0 invs)) =
      map (\<lambda>i. ''VAL-'' @ is_subject (artifact_id (draft n)) @ ''-VAL-'' @
        pad_start 2 (CHR ''0'') (dec (i + 1))) [0..<length invs]"
    by (rule nth_equalityI) (simp_all add: validation_for_def nth_enumerate_eq)
  moreover have "distinct \<dots>" by (simp add: distinct_map inj_on_def)
  ultimately show ?thesis unfolding deriveValidations_def distinct_sort_key by (simp only:)
qed

lemma compiled_node_ids:
  "map node_id (es_nodes cs invs vals) =
     map artifact_id cs @ map artifact_id invs @ map artifact_id vals"
  by (simp add: es_nodes_def contract_node_def invariant_node_def validation_node_def)

lemma distinct_compiled_nodes:
  assumes "im = intermediates_of n"
  shows "distinct (map node_id (es_nodes (im_contracts im) (im_invariants im) (im_validations im)))"
proof -
  have "starts_with p x \<Longrightarrow> starts_with q x \<Longrightarrow> length p \<le> length q \<Longrightarrow> take (length p) q = p" for p q x
    by (auto simp: starts_with_def) (metis min.absorb1 take_take)
  from this [of "''INV-''" _ "''CONTRACT-''"] this [of "''VAL-''" _ "''CONTRACT-''"]
    this [of "''INV-''" _ "''VAL-''"]
  have "\<not> (starts_with ''INV-'' x \<and> starts_with ''CONTRACT-'' x)"
    "\<not> (starts_with ''VAL-'' x \<and> starts_with ''CONTRACT-'' x)"
    "\<not> (starts_with ''INV-'' x \<and> starts_with ''VAL-'' x)" for x by auto
  then show ?thesis
    unfolding compiled_node_ids assms intermediates_of_def Let_def
    using distinct_contract_ids distinct_deriveInvariants distinct_validation_ids
    by (auto dest!: contract_ids invariant_ids validation_ids; metis)
qed

lemma compiled_edges:
  assumes a: "assembleExecutableSpecification d (im_atoms im) (im_contracts im) (im_invariants im)
      (im_dependencies im) (im_validations im) r = Inr es"
    and im: "im = intermediates_of n" and e: "e \<in> set (edges es)"
  shows "edge_from e \<in> artifact_id ` set (im_validations im)"
    "edge_to e \<in> artifact_id ` set (im_invariants im)"
proof -
  have deps: "im_dependencies im = []"
    by (simp add: im intermediates_of_def Let_def deriveDependencies_def)
  have cov: "coversContractIds v = [] \<and>
      set (coversInvariantIds v) \<subseteq> artifact_id ` set (im_invariants im)"
    if "v \<in> set (im_validations im)" for v
    using that by (auto simp: im intermediates_of_def Let_def in_deriveValidations
        validation_for_def)
  from assemble_Inr(8) [OF a] e deps obtain v t where v: "v \<in> set (im_validations im)"
    "t \<in> set (coversInvariantIds v) \<union> set (coversContractIds v)"
    "e = validates_edge (artifact_id v) t"
    by (auto simp: in_validation_edges)
  with cov [OF v(1)] show "edge_from e \<in> artifact_id ` set (im_validations im)"
    "edge_to e \<in> artifact_id ` set (im_invariants im)"
    by (auto simp: validates_edge_def)
qed

lemma trancl_end: "(x, y) \<in> E\<^sup>+ \<Longrightarrow> \<exists>z. (z, y) \<in> E"
  by (metis tranclE)

lemma compiled_acyclic:
  assumes a: "assembleExecutableSpecification d (im_atoms im) (im_contracts im) (im_invariants im)
      (im_dependencies im) (im_validations im) r = Inr es"
    and im: "im = intermediates_of n"
  shows "(x, x) \<notin> (edge_rel (map node_id (nodes es)) (edges es))\<^sup>+"
proof
  let ?E = "edge_rel (map node_id (nodes es)) (edges es)"
  assume c: "(x, x) \<in> ?E\<^sup>+"
  have val: "starts_with ''VAL-'' (artifact_id v)" if "v \<in> set (im_validations im)" for v
    using that validation_ids by (simp add: im intermediates_of_def Let_def)
  have inv: "starts_with ''INV-'' (artifact_id v)" if "v \<in> set (im_invariants im)" for v
    using that invariant_ids by (simp add: im intermediates_of_def Let_def)
  have "edge_from e \<noteq> edge_to e'" if "e \<in> set (edges es)" "e' \<in> set (edges es)" for e e'
  proof -
    from compiled_edges(1) [OF a im that(1)] obtain v where
      "v \<in> set (im_validations im)" "edge_from e = artifact_id v" by blast
    with val have "starts_with ''VAL-'' (edge_from e)" by simp
    moreover from compiled_edges(2) [OF a im that(2)] obtain w where
      "w \<in> set (im_invariants im)" "edge_to e' = artifact_id w" by blast
    with inv have "starts_with ''INV-'' (edge_to e')" by simp
    ultimately show ?thesis by (auto elim!: starts_withE)
  qed
  note neq = this
  from c obtain y where "(x, y) \<in> ?E" by (blast dest: tranclD)
  then obtain e where e: "e \<in> set (edges es)" "edge_from e = x"
    by (auto simp: edge_rel_def outgoing_def split: if_splits)
  from c obtain z where "(z, x) \<in> ?E" by (blast dest: trancl_end)
  then obtain e' where e': "e' \<in> set (edges es)" "edge_to e' = x"
    by (auto simp: edge_rel_def outgoing_def split: if_splits)
  from neq [OF e(1) e'(1)] e(2) e'(2) show False by simp
qed

text \<open>A compiled specification passes every structural gate of instruction tuning.\<close>

lemma compiled_graph_gates:
  assumes a: "assembleExecutableSpecification d (im_atoms im) (im_contracts im) (im_invariants im)
      (im_dependencies im) (im_validations im) r = Inr es"
    and im: "im = intermediates_of n"
  shows "nodes es \<noteq> [] \<and> distinct (map node_id (nodes es)) \<and>
    (\<forall>e \<in> set (edges es). \<not> dangling_edge (map node_id (nodes es)) e) \<and>
    \<not> hasCycle (map node_id (nodes es)) (edges es)"
proof -
  have "executable_specification_ok es" by (rule assemble_Inr(3) [OF a])
  then have "nodes es \<noteq> []" "list_all es_edge_ok (edges es)"
    by (simp_all add: executable_specification_ok_def)
  moreover have "distinct (map node_id (nodes es))"
    using distinct_compiled_nodes [OF im] by (simp add: assemble_Inr(7) [OF a])
  moreover have "edge_from e \<in> node_id ` set (nodes es) \<and> edge_to e \<in> node_id ` set (nodes es)"
    if "e \<in> set (edges es)" for e
    using assemble_edges_closed [OF a that] .
  ultimately show ?thesis
    using compiled_acyclic [OF a im]
    by (simp add: dangling_edge_def hasCycle_iff list_all_iff es_edge_ok_def image_iff)
qed

section \<open>The two ways a compile of a normalized intent ends\<close>

definition passed_result ::
  "coherence_report \<Rightarrow> string \<Rightarrow> intermediates \<Rightarrow> factory_mode \<Rightarrow> executable_specification \<Rightarrow> string \<Rightarrow>
   compile_result" where
  "passed_result r rpath im mode es espath =
     \<lparr>report = r, reportPath = rpath, result_intermediates = im, result_mode = mode,
      executableSpecification = Some es, executableSpecificationPath = Some espath,
      instructionTuningResult = None\<rparr>"

lemma compile_pass_result:
  assumes raw: "fs (path_resolve (cwd env) file) = Some raw"
    and n: "normalize (parse_yaml env) raw (path_resolve (cwd env) file) = Inr n"
    and ts: "is_datetime env (or_else (opt_timestamp opts) (now env))"
      "list_all timestamp_char (or_else (opt_timestamp opts) (now env))"
    and tuning: "opt_tuning opts = None"
    and mode: "compile_mode opts n = Bootstrap \<Longrightarrow> starts_with ''IS-META-'' (artifact_id (draft n))"
  obtains r rpath es espath where
    "compile env fs file opts =
       (Inr (passed_result r rpath (intermediates_of n) (compile_mode opts n) es espath),
        fs(rpath \<mapsto> report_yaml env r, espath \<mapsto> es_yaml env es))"
    "overall r = Pass" "executable_specification_ok es"
    "artifact_id es = executableSpecificationId (artifact_id (draft n))"
proof -
  obtain r rpath where
    c: "compile env fs file opts =
       assemble_and_emit env (fs(rpath \<mapsto> report_yaml env r)) (path_resolve (cwd env) file) opts
         (intermediates_of n) (compile_mode opts n)
         (or_else (opt_timestamp opts) (now env)) r rpath"
    and o: "overall r = (if compile_mode opts n = Bootstrap \<and>
        \<not> starts_with ''IS-META-'' (artifact_id (draft n)) then Fail else Pass)"
    and r: "artifact_id_ok (artifact_id r)"
    using raw n ts by (rule compile_normalized)
  from o mode have p: "overall r = Pass" by simp
  obtain t where "id_subject_ok t" "derived_intermediates t (intermediates_of n)"
    "im_contracts (intermediates_of n) \<noteq> []" "artifact_id_ok (sourceFunctionId (draft n))"
    using n by (rule normalized_intermediates)
  then obtain es espath where es: "assembleExecutableSpecification (draft n)
      (im_atoms (intermediates_of n)) (im_contracts (intermediates_of n))
      (im_invariants (intermediates_of n)) (im_dependencies (intermediates_of n))
      (im_validations (intermediates_of n)) r = Inr es"
    and e: "compile env fs file opts =
      (Inr (passed_result r rpath (intermediates_of n) (compile_mode opts n) es espath),
       fs(rpath \<mapsto> report_yaml env r, espath \<mapsto> es_yaml env es))"
    unfolding c passed_result_def
    using assemble_and_emit_pass [of t "intermediates_of n" r opts] p r tuning
    by (metis im_intent_of)
  show ?thesis using e p assemble_Inr(3,4) [OF es] by (rule that)
qed

lemma compile_sound_result:
  assumes "compile env fs file opts = (Inr res, fs')" "executableSpecification res = Some es"
  obtains n raw where "fs (path_resolve (cwd env) file) = Some raw"
    "normalize (parse_yaml env) raw (path_resolve (cwd env) file) = Inr n"
    "result_intermediates res = intermediates_of n"
    "report res = report_candidate (coherence_input_of (intermediates_of n) (compile_mode opts n))
       (or_else (opt_timestamp opts) (now env))"
    "coherence_report_ok (is_datetime env) (report res)" "overall (report res) = Pass"
    "assembleExecutableSpecification (draft n) (im_atoms (intermediates_of n))
       (im_contracts (intermediates_of n)) (im_invariants (intermediates_of n))
       (im_dependencies (intermediates_of n)) (im_validations (intermediates_of n))
       (report res) = Inr es"
proof -
  let ?path = "path_resolve (cwd env) file"
  let ?ts = "or_else (opt_timestamp opts) (now env)"
  from assms(1) obtain raw n r rpath fs1 where raw: "fs ?path = Some raw"
    "normalize (parse_yaml env) raw ?path = Inr n"
    and p: "runCoherenceVerificationPass env fs (intermediates_of n) (compile_mode opts n) ?ts
      (or_else (opt_reports_dir opts) (defaultVerificationReportsDir ?path)) = (Inr (r, rpath), fs1)"
    and a: "assemble_and_emit env fs1 ?path opts (intermediates_of n) (compile_mode opts n) ?ts r
      rpath = (Inr res, fs')"
    unfolding compile_def Let_def compile_mode_def [symmetric]
    by (auto split: option.splits sum.splits prod.splits)
  from p have r: "r = report_candidate (coherence_input_of (intermediates_of n) (compile_mode opts n)) ?ts"
    "coherence_report_ok (is_datetime env) r"
    unfolding runCoherenceVerificationPass_def Let_def
    by (auto simp: runCoherenceVerification_Inr split: sum.splits prod.splits)
  from assemble_and_emit_Some [OF a assms(2)] r raw show ?thesis
    by (intro that [of raw n]) auto
qed

section \<open>The command line\<close>

lemma main_exit_parse_error: "parseArgs argv = Inl e \<Longrightarrow> main_exit env fs argv = (2, fs)"
  by (simp add: main_exit_def)

text \<open>Only two fields of the options can be set from the command line.\<close>

lemma parseArgs_options:
  "parseArgs argv = Inr (p, opts) \<Longrightarrow>
     opt_es_dir opts = None \<and> opt_timestamp opts = None \<and> opt_tuning opts = None"
  by (auto simp: parseArgs_def no_options_def split: sum.splits option.splits)

end
