(* ===== verification/Sample_Inputs.thy ===== *)
theory Sample_Inputs
  imports Compile
begin

text \<open>
  Concrete inputs on which the properties are instantiated: an intent specification whose
  fields all come from the front matter, a host with trivial libraries, and the governance
  artifacts of a tuned compile.
\<close>

definition sample_env :: "string \<Rightarrow> compiler_env" where
  "sample_env isid =
     \<lparr>env_host = trivial_host, parse_yaml = (\<lambda>y. Some (JObj (sample_frontmatter isid))),
      is_datetime = (\<lambda>s. True), schema_issues = (\<lambda>p. []), report_yaml = (\<lambda>r. ''report''),
      es_yaml = (\<lambda>e. ''es''), cwd = ''/r'', now = ''2026-01-01T00:00:00Z''\<rparr>"

definition sample_draft :: "string \<Rightarrow> intent_specification" where
  "sample_draft isid =
     \<lparr>artifact_id = isid, source_refs = [], explicitness = Explicit, rationale = ''why'',
      sourceCapabilityId = ''BC-META-A'', sourceFunctionId = ''FP-META-A'', title = ''T'',
      problem = ''P'', goal = ''G'', constraints = [''fail closed''],
      acceptanceCriteria = [''works''], successMetrics = [''fast''], outOfScope = []\<rparr>"

definition sample_normalized :: "string \<Rightarrow> normalized_intent" where
  "sample_normalized isid =
     \<lparr>draft = sample_draft isid, intent_sections = [], unrecognizedSections = [],
      sourceFile = ''/r/s/i/A.md''\<rparr>"

definition sample_markdown :: string where
  "sample_markdown = join [nl] [''---'', ''id: x'', ''---'']"

definition sample_files :: file_system where
  "sample_files = [''/r/s/i/A.md'' \<mapsto> sample_markdown]"

lemma sample_path: "path_resolve (cwd (sample_env isid)) ''s/i/A.md'' = ''/r/s/i/A.md''"
  by (simp add: sample_env_def) code_simp

lemma sample_normalize:
  "normalize (parse_yaml (sample_env ''IS-META-A'')) sample_markdown ''/r/s/i/A.md'' =
     Inr (sample_normalized ''IS-META-A'')"
  by code_simp

lemma sample_normalize_steady:
  "normalize (parse_yaml (sample_env ''IS-A'')) sample_markdown ''/r/s/i/A.md'' =
     Inr (sample_normalized ''IS-A'')"
  by code_simp

lemma sample_timestamp: "list_all timestamp_char (now (sample_env isid))"
  by (simp add: sample_env_def timestamp_char_def id_char_def is_upper_def is_digit_def)

lemma sample_compile_es:
  obtains r rpath es espath where
    "compile (sample_env ''IS-META-A'') sample_files ''s/i/A.md'' no_options =
       (Inr (passed_result r rpath (intermediates_of (sample_normalized ''IS-META-A''))
          (compile_mode no_options (sample_normalized ''IS-META-A'')) es espath),
        sample_files(rpath \<mapsto> ''report'', espath \<mapsto> ''es''))"
    "artifact_id es = ''ES-META-A''"
proof -
  obtain r rpath es espath where
    "compile (sample_env ''IS-META-A'') sample_files ''s/i/A.md'' no_options =
       (Inr (passed_result r rpath (intermediates_of (sample_normalized ''IS-META-A''))
          (compile_mode no_options (sample_normalized ''IS-META-A'')) es espath),
        sample_files(rpath \<mapsto> report_yaml (sample_env ''IS-META-A'') r,
          espath \<mapsto> es_yaml (sample_env ''IS-META-A'') es))"
    "artifact_id es = executableSpecificationId (artifact_id (draft (sample_normalized ''IS-META-A'')))"
    by (rule compile_pass_result [of sample_files "sample_env ''IS-META-A''" "''s/i/A.md''"
        sample_markdown "sample_normalized ''IS-META-A''" no_options])
       (use sample_path sample_normalize sample_timestamp in
         \<open>auto simp: sample_files_def no_options_def sample_normalized_def sample_draft_def
            sample_env_def\<close>)
  moreover have "executableSpecificationId (artifact_id (draft (sample_normalized ''IS-META-A''))) =
      ''ES-META-A''" by code_simp
  ultimately show ?thesis by (intro that) (simp_all add: sample_env_def)
qed

lemma sample_compile:
  obtains r rpath es espath where
    "compile (sample_env ''IS-META-A'') sample_files ''s/i/A.md'' no_options =
       (Inr (passed_result r rpath (intermediates_of (sample_normalized ''IS-META-A''))
          (compile_mode no_options (sample_normalized ''IS-META-A'')) es espath),
        sample_files(rpath \<mapsto> ''report'', espath \<mapsto> ''es''))"
proof -
  obtain r rpath es espath where
    "compile (sample_env ''IS-META-A'') sample_files ''s/i/A.md'' no_options =
       (Inr (passed_result r rpath (intermediates_of (sample_normalized ''IS-META-A''))
          (compile_mode no_options (sample_normalized ''IS-META-A'')) es espath),
        sample_files(rpath \<mapsto> ''report'', espath \<mapsto> ''es''))"
    "artifact_id es = ''ES-META-A''"
    by (rule sample_compile_es)
  from this(1) show ?thesis by (rule that)
qed

end
