(* ===== verification/Agent_Requests.thy ===== *)
theory Agent_Requests
  imports Intent_Markdown
begin

text \<open>
  The messages of the autonomous scheduler (\<open>packages/autonomous-scheduler/src/index.ts\<close>):
  agent requests, agent results and queue events, their validators and the JSON they are
  stored as. A validator walks over a value of unknown shape and pushes an issue for each
  defect; here it returns the parsed value with the list of the issues it pushed, in order. A
  missing property is \<open>undefined\<close>, which is \<open>None\<close>. \<open>Date.parse\<close> accepts formats of its host;
  it is the parameter \<open>parse_date\<close>, with \<open>None\<close> for \<open>NaN\<close>.
\<close>

section \<open>Enumerations\<close>

datatype agent_role = Architect | Builder | Tester | Critic | Verifier | Operator

fun role_str :: "agent_role \<Rightarrow> string" where
  "role_str Architect = ''architect''"
| "role_str Builder = ''builder''"
| "role_str Tester = ''tester''"
| "role_str Critic = ''critic''"
| "role_str Verifier = ''verifier''"
| "role_str Operator = ''operator''"

definition AGENT_ROLES :: "agent_role list" where
  "AGENT_ROLES = [Architect, Builder, Tester, Critic, Verifier, Operator]"

datatype autonomy_mode = Recommend_only | Enqueue_only | Branch_pr | Multi_agent_pr

fun autonomy_str :: "autonomy_mode \<Rightarrow> string" where
  "autonomy_str Recommend_only = ''recommend_only''"
| "autonomy_str Enqueue_only = ''enqueue_only''"
| "autonomy_str Branch_pr = ''branch_pr''"
| "autonomy_str Multi_agent_pr = ''multi_agent_pr''"

definition AUTONOMY_MODES :: "autonomy_mode list" where
  "AUTONOMY_MODES = [Recommend_only, Enqueue_only, Branch_pr, Multi_agent_pr]"

datatype branch_mode = Read_only | New_pr_branch

fun branch_mode_str :: "branch_mode \<Rightarrow> string" where
  "branch_mode_str Read_only = ''read_only''"
| "branch_mode_str New_pr_branch = ''new_pr_branch''"

definition BRANCH_MODES :: "branch_mode list" where
  "BRANCH_MODES = [Read_only, New_pr_branch]"

datatype forbidden_action =
  Merge_default_branch | Deploy_production | Force_push | Delete_remote_branch | Edit_secrets

fun forbidden_str :: "forbidden_action \<Rightarrow> string" where
  "forbidden_str Merge_default_branch = ''merge_default_branch''"
| "forbidden_str Deploy_production = ''deploy_production''"
| "forbidden_str Force_push = ''force_push''"
| "forbidden_str Delete_remote_branch = ''delete_remote_branch''"
| "forbidden_str Edit_secrets = ''edit_secrets''"

definition FORBIDDEN_ACTIONS :: "forbidden_action list" where
  "FORBIDDEN_ACTIONS =
     [Merge_default_branch, Deploy_production, Force_push, Delete_remote_branch, Edit_secrets]"

datatype evidence_kind =
  Git_diff | Test_output | Typecheck_output | Verification_output | Artifact_paths | Pr_url
  | Review_report | Verification_report

fun evidence_str :: "evidence_kind \<Rightarrow> string" where
  "evidence_str Git_diff = ''git_diff''"
| "evidence_str Test_output = ''test_output''"
| "evidence_str Typecheck_output = ''typecheck_output''"
| "evidence_str Verification_output = ''verification_output''"
| "evidence_str Artifact_paths = ''artifact_paths''"
| "evidence_str Pr_url = ''pr_url''"
| "evidence_str Review_report = ''review_report''"
| "evidence_str Verification_report = ''verification_report''"

definition EVIDENCE_KINDS :: "evidence_kind list" where
  "EVIDENCE_KINDS = [Git_diff, Test_output, Typecheck_output, Verification_output, Artifact_paths,
     Pr_url, Review_report, Verification_report]"

datatype queue_event_type =
  Request_enqueued | Request_claimed | Request_heartbeat | Request_completed | Request_failed
  | Request_dead_lettered

fun event_type_str :: "queue_event_type \<Rightarrow> string" where
  "event_type_str Request_enqueued = ''request.enqueued''"
| "event_type_str Request_claimed = ''request.claimed''"
| "event_type_str Request_heartbeat = ''request.heartbeat''"
| "event_type_str Request_completed = ''request.completed''"
| "event_type_str Request_failed = ''request.failed''"
| "event_type_str Request_dead_lettered = ''request.dead_lettered''"

definition QUEUE_EVENT_TYPES :: "queue_event_type list" where
  "QUEUE_EVENT_TYPES = [Request_enqueued, Request_claimed, Request_heartbeat, Request_completed,
     Request_failed, Request_dead_lettered]"

datatype agent_status = Run_completed | Run_failed | Run_refused

fun agent_status_str :: "agent_status \<Rightarrow> string" where
  "agent_status_str Run_completed = ''completed''"
| "agent_status_str Run_failed = ''failed''"
| "agent_status_str Run_refused = ''refused''"

datatype repo_provider = Github | Local_repo

fun provider_str :: "repo_provider \<Rightarrow> string" where
  "provider_str Github = ''github''"
| "provider_str Local_repo = ''local''"

section \<open>Messages\<close>

record spec_handle =
  sh_id :: string
  sh_nodeId :: string
  sh_sourceIntent :: "string option"
  sh_sourceRefs :: "string list"

record repo_target =
  rt_provider :: repo_provider
  rt_owner :: "string option"
  rt_name :: string
  rt_defaultBranch :: string
  rt_remoteUrl :: "string option"
  rt_localPath :: "string option"

record branch_policy =
  bp_mode :: branch_mode
  bp_base :: string
  bp_prefix :: string

record execution_policy =
  autonomyMode :: autonomy_mode
  allowedPaths :: "string list"
  forbiddenActions :: "forbidden_action list"
  requiresHumanApprovalFor :: "forbidden_action list"
  maxRuntimeMinutes :: "int option"

record context_artifact =
  cx_id :: string
  cx_kind :: string
  cx_path :: string

record request_context =
  ctx_summary :: string
  ctx_artifacts :: "context_artifact list"

record expected_artifact =
  ea_path :: string
  ea_kind :: string

record agent_request =
  req_id :: string
  req_createdAt :: string
  req_spec :: spec_handle
  req_role :: agent_role
  req_objective :: string
  prompt :: string
  req_repo :: repo_target
  req_branch :: branch_policy
  req_policy :: execution_policy
  req_context :: request_context
  acceptanceCriteria :: "string list"
  requiredCommands :: "string list"
  expectedArtifacts :: "expected_artifact list"
  req_evidenceRequired :: "evidence_kind list"

record command_evidence =
  ce_command :: string
  ce_exitCode :: int
  ce_outputRef :: string

record evidence_ref =
  ev_kind :: evidence_kind
  ev_path :: "string option"
  ev_url :: "string option"
  ev_summary :: string

record agent_result =
  ares_id :: string
  ares_requestId :: string
  agentRunId :: string
  ares_status :: agent_status
  completedAt :: string
  branchName :: "string option"
  prUrl :: "string option"
  ares_summary :: string
  changedFiles :: "string list"
  ares_commands :: "command_evidence list"
  ares_evidence :: "evidence_ref list"
  refusalReason :: "string option"

record queue_event =
  qe_id :: string
  qe_type :: queue_event_type
  qe_requestId :: string
  qe_timestamp :: string
  qe_actor :: string
  qe_details :: "(string \<times> json) list"

section \<open>Checkers\<close>

text \<open>\<open>!s\<close> for an optional string: \<open>undefined\<close> and the empty string are falsy.\<close>

definition absent :: "string option \<Rightarrow> bool" where
  "absent s \<longleftrightarrow> s = None \<or> s = Some []"

type_synonym 'a checked = "'a \<times> string list"

definition json_value :: "(string \<times> json) list \<Rightarrow> string \<Rightarrow> json option" where
  "json_value data key = map_of data key"

definition check_record :: "json option \<Rightarrow> string \<Rightarrow> (string \<times> json) list checked" where
  "check_record input label =
     (case input of Some (JObj kvs) \<Rightarrow> (kvs, []) | _ \<Rightarrow> ([], [label @ '' must be an object'']))"

definition check_array :: "json option \<Rightarrow> string \<Rightarrow> json list checked" where
  "check_array input label =
     (case input of Some (JArr js) \<Rightarrow> (js, []) | _ \<Rightarrow> ([], [label @ '' must be an array'']))"

definition nonEmptyString :: "json option \<Rightarrow> string \<Rightarrow> string checked" where
  "nonEmptyString input label =
     (case input of
        Some (JStr s) \<Rightarrow> if trim s = [] then ([], [label @ '' must be a non-empty string'']) else (s, [])
      | _ \<Rightarrow> ([], [label @ '' must be a non-empty string'']))"

definition check_optional :: "(json option \<Rightarrow> string \<Rightarrow> 'a checked) \<Rightarrow> json option \<Rightarrow> string \<Rightarrow> 'a option checked" where
  "check_optional f input label =
     (if input = None then (None, []) else (Some (fst (f input label)), snd (f input label)))"

definition optionalNonEmptyString :: "json option \<Rightarrow> string \<Rightarrow> string option checked" where
  "optionalNonEmptyString = check_optional nonEmptyString"

definition prefixedString :: "string \<Rightarrow> json option \<Rightarrow> string \<Rightarrow> string checked" where
  "prefixedString prefix input label =
     (let (parsed, is) = nonEmptyString input label
      in (parsed, is @ (if parsed \<noteq> [] \<and> \<not> starts_with prefix parsed
                        then [label @ '' must start with '' @ prefix] else [])))"

definition optionalPrefixedString :: "string \<Rightarrow> json option \<Rightarrow> string \<Rightarrow> string option checked" where
  "optionalPrefixedString prefix = check_optional (prefixedString prefix)"

definition safeBranchPrefix :: "json option \<Rightarrow> string \<Rightarrow> string checked" where
  "safeBranchPrefix input label =
     (let (parsed, is) = nonEmptyString input label
      in (parsed, is @ (if starts_with ''/'' parsed \<or> (parsed \<noteq> [] \<and> last parsed = CHR ''/'') \<or>
                           contains_str ''..'' parsed \<or> contains_str '' '' parsed
                        then [label @ '' must be a safe git branch prefix''] else [])))"

definition check_literal :: "json option \<Rightarrow> string \<Rightarrow> string \<Rightarrow> string checked" where
  "check_literal input expected label =
     (expected, if input = Some (JStr expected) then [] else [label @ '' must equal '' @ expected])"

definition oneOf :: "('e \<Rightarrow> string) \<Rightarrow> 'e list \<Rightarrow> json option \<Rightarrow> string \<Rightarrow> 'e checked" where
  "oneOf str allowed input label =
     (let (parsed, is) = nonEmptyString input label
      in case find (\<lambda>e. str e = parsed) allowed of
           Some e \<Rightarrow> (e, is)
         | None \<Rightarrow> (hd allowed, is @ [label @ '' must be one of: '' @ join '', '' (map str allowed)]))"

fun check_each :: "(json option \<Rightarrow> string \<Rightarrow> 'a checked) \<Rightarrow> string \<Rightarrow> nat \<Rightarrow> json list \<Rightarrow> 'a list checked" where
  "check_each f label i [] = ([], [])"
| "check_each f label i (j # js) =
     (let (a, is) = f (Some j) (label @ ''['' @ dec i @ '']'');
          (as, is') = check_each f label (Suc i) js
      in (a # as, is @ is'))"

definition check_list :: "(json option \<Rightarrow> string \<Rightarrow> 'a checked) \<Rightarrow> json option \<Rightarrow> string \<Rightarrow> 'a list checked" where
  "check_list f input label =
     (let (js, is) = check_array input label; (as, is') = check_each f label 0 js in (as, is @ is'))"

definition enumArray :: "('e \<Rightarrow> string) \<Rightarrow> 'e list \<Rightarrow> json option \<Rightarrow> string \<Rightarrow> 'e list checked" where
  "enumArray str allowed = check_list (oneOf str allowed)"

definition stringArray :: "json option \<Rightarrow> string \<Rightarrow> string list checked" where
  "stringArray = check_list nonEmptyString"

definition nonEmptyStringArray :: "json option \<Rightarrow> string \<Rightarrow> string list checked" where
  "nonEmptyStringArray input label =
     (let (entries, is) = stringArray input label
      in (entries, is @ (if entries = [] then [label @ '' must not be empty''] else [])))"

definition relativePath :: "json option \<Rightarrow> string \<Rightarrow> string checked" where
  "relativePath input label =
     (let (parsed, is) = nonEmptyString input label
      in (parsed, is @ (if starts_with ''/'' parsed \<or> contains_str ''..'' parsed
                        then [label @ '' must be a repo-relative path''] else [])))"

definition check_integer :: "json option \<Rightarrow> string \<Rightarrow> int checked" where
  "check_integer input label =
     (case input of
        Some (JNum q) \<Rightarrow> if of_int \<lfloor>q\<rfloor> = q then (\<lfloor>q\<rfloor>, []) else (0, [label @ '' must be an integer''])
      | _ \<Rightarrow> (0, [label @ '' must be an integer'']))"

definition optionalPositiveInteger :: "json option \<Rightarrow> string \<Rightarrow> int option checked" where
  "optionalPositiveInteger = check_optional (\<lambda>input label.
     let (parsed, is) = check_integer input label
     in (parsed, is @ (if parsed \<le> 0 then [label @ '' must be greater than zero''] else [])))"

definition isoString :: "(string \<Rightarrow> int option) \<Rightarrow> json option \<Rightarrow> string \<Rightarrow> string checked" where
  "isoString parse_date input label =
     (let (parsed, is) = nonEmptyString input label
      in (parsed, is @ (if parsed \<noteq> [] \<and> parse_date parsed = None
                        then [label @ '' must be an ISO-parseable timestamp''] else [])))"

section \<open>Parsers of the parts\<close>

definition parseExecutableSpecification :: "json option \<Rightarrow> string \<Rightarrow> spec_handle checked" where
  "parseExecutableSpecification input label =
     (let (data, i0) = check_record input label;
          (id, i1) = prefixedString ''ES-'' (json_value data ''id'') (label @ ''.id'');
          (nodeId, i2) = nonEmptyString (json_value data ''nodeId'') (label @ ''.nodeId'');
          (src, i3) = optionalPrefixedString ''IS-'' (json_value data ''sourceIntentSpecificationId'')
            (label @ ''.sourceIntentSpecificationId'');
          (refs, i4) = nonEmptyStringArray (json_value data ''sourceRefs'') (label @ ''.sourceRefs'')
      in (\<lparr>sh_id = id, sh_nodeId = nodeId, sh_sourceIntent = src, sh_sourceRefs = refs\<rparr>,
          i0 @ i1 @ i2 @ i3 @ i4 @
          (if refs = [] then [label @ ''.sourceRefs must not be empty''] else [])))"

definition parseRepo :: "json option \<Rightarrow> string \<Rightarrow> repo_target checked" where
  "parseRepo input label =
     (let (data, i0) = check_record input label;
          (provider, i1) = oneOf provider_str [Github, Local_repo] (json_value data ''provider'') (label @ ''.provider'');
          (owner, i2) = optionalNonEmptyString (json_value data ''owner'') (label @ ''.owner'');
          (name, i3) = nonEmptyString (json_value data ''name'') (label @ ''.name'');
          (branch, i4) = nonEmptyString (json_value data ''defaultBranch'') (label @ ''.defaultBranch'');
          (remote, i5) = optionalNonEmptyString (json_value data ''remoteUrl'') (label @ ''.remoteUrl'');
          (local, i6) = optionalNonEmptyString (json_value data ''localPath'') (label @ ''.localPath'')
      in (\<lparr>rt_provider = provider, rt_owner = owner, rt_name = name, rt_defaultBranch = branch,
           rt_remoteUrl = remote, rt_localPath = local\<rparr>,
          i0 @ i1 @ i2 @ i3 @ i4 @ i5 @ i6 @
          (if provider = Github \<and> absent owner
           then [label @ ''.owner is required for github repos''] else []) @
          (if provider = Local_repo \<and> absent local
           then [label @ ''.localPath is required for local repos''] else [])))"

definition parseBranch :: "json option \<Rightarrow> string \<Rightarrow> branch_policy checked" where
  "parseBranch input label =
     (let (data, i0) = check_record input label;
          (mode, i1) = oneOf branch_mode_str BRANCH_MODES (json_value data ''mode'') (label @ ''.mode'');
          (base, i2) = nonEmptyString (json_value data ''base'') (label @ ''.base'');
          (pre, i3) = safeBranchPrefix (json_value data ''prefix'') (label @ ''.prefix'')
      in (\<lparr>bp_mode = mode, bp_base = base, bp_prefix = pre\<rparr>, i0 @ i1 @ i2 @ i3))"

definition path_issues :: "string \<Rightarrow> string list" where
  "path_issues p =
     (if p \<in> {''.'', ''./'', ''*'', ''**'', ''**/*''}
      then [''policy.allowedPaths contains overly broad path: '' @ p] else []) @
     (if starts_with ''/'' p then [''policy.allowedPaths must be repo-relative: '' @ p] else []) @
     (if contains_str ''..'' p
      then [''policy.allowedPaths must not contain parent traversal: '' @ p] else [])"

definition validateAllowedPaths :: "string list \<Rightarrow> string list" where
  "validateAllowedPaths paths =
     (if paths = [] then [''policy.allowedPaths must not be empty''] else []) @
     concat (map path_issues paths)"

definition required_forbidden :: "forbidden_action list" where
  "required_forbidden = [Merge_default_branch, Deploy_production, Force_push, Edit_secrets]"

definition parsePolicy :: "json option \<Rightarrow> string \<Rightarrow> execution_policy checked" where
  "parsePolicy input label =
     (let (data, i0) = check_record input label;
          (mode, i1) = oneOf autonomy_str AUTONOMY_MODES (json_value data ''autonomyMode'') (label @ ''.autonomyMode'');
          (paths, i2) = nonEmptyStringArray (json_value data ''allowedPaths'') (label @ ''.allowedPaths'');
          (forbidden, i3) = enumArray forbidden_str FORBIDDEN_ACTIONS (json_value data ''forbiddenActions'')
            (label @ ''.forbiddenActions'');
          (human, i4) = enumArray forbidden_str FORBIDDEN_ACTIONS (json_value data ''requiresHumanApprovalFor'')
            (label @ ''.requiresHumanApprovalFor'');
          (runtime, i5) = optionalPositiveInteger (json_value data ''maxRuntimeMinutes'') (label @ ''.maxRuntimeMinutes'')
      in (\<lparr>autonomyMode = mode, allowedPaths = paths, forbiddenActions = forbidden,
           requiresHumanApprovalFor = human, maxRuntimeMinutes = runtime\<rparr>,
          i0 @ i1 @ i2 @ i3 @ i4 @ i5 @ validateAllowedPaths paths @
          concat (map (\<lambda>r. if r \<notin> set forbidden
            then [''policy.forbiddenActions must include '' @ forbidden_str r] else []) required_forbidden) @
          (if mode = Multi_agent_pr \<and> Merge_default_branch \<notin> set human
           then [''multi_agent_pr mode still requires human approval for merge_default_branch''] else [])))"

definition parse_context_artifact :: "json option \<Rightarrow> string \<Rightarrow> context_artifact checked" where
  "parse_context_artifact input label =
     (let (data, i0) = check_record input label;
          (id, i1) = nonEmptyString (json_value data ''id'') (label @ ''.id'');
          (kind, i2) = nonEmptyString (json_value data ''kind'') (label @ ''.kind'');
          (path, i3) = nonEmptyString (json_value data ''path'') (label @ ''.path'')
      in (\<lparr>cx_id = id, cx_kind = kind, cx_path = path\<rparr>, i0 @ i1 @ i2 @ i3))"

definition parseContext :: "json option \<Rightarrow> string \<Rightarrow> request_context checked" where
  "parseContext input label =
     (let (data, i0) = check_record input label;
          (summary, i1) = nonEmptyString (json_value data ''summary'') (label @ ''.summary'');
          (artifacts, i2) = check_list parse_context_artifact (json_value data ''artifacts'') (label @ ''.artifacts'')
      in (\<lparr>ctx_summary = summary, ctx_artifacts = artifacts\<rparr>, i0 @ i1 @ i2))"

definition parse_expected_artifact :: "json option \<Rightarrow> string \<Rightarrow> expected_artifact checked" where
  "parse_expected_artifact input label =
     (let (data, i0) = check_record input label;
          (path, i1) = relativePath (json_value data ''path'') (label @ ''.path'');
          (kind, i2) = nonEmptyString (json_value data ''kind'') (label @ ''.kind'')
      in (\<lparr>ea_path = path, ea_kind = kind\<rparr>, i0 @ i1 @ i2))"

definition parse_command :: "json option \<Rightarrow> string \<Rightarrow> command_evidence checked" where
  "parse_command input label =
     (let (data, i0) = check_record input label;
          (command, i1) = nonEmptyString (json_value data ''command'') (label @ ''.command'');
          (code, i2) = check_integer (json_value data ''exitCode'') (label @ ''.exitCode'');
          (ref, i3) = nonEmptyString (json_value data ''outputRef'') (label @ ''.outputRef'')
      in (\<lparr>ce_command = command, ce_exitCode = code, ce_outputRef = ref\<rparr>, i0 @ i1 @ i2 @ i3))"

definition parse_evidence :: "json option \<Rightarrow> string \<Rightarrow> evidence_ref checked" where
  "parse_evidence input label =
     (let (data, i0) = check_record input label;
          (kind, i1) = oneOf evidence_str EVIDENCE_KINDS (json_value data ''kind'') (label @ ''.kind'');
          (summary, i2) = nonEmptyString (json_value data ''summary'') (label @ ''.summary'');
          (path, i3) = optionalNonEmptyString (json_value data ''path'') (label @ ''.path'');
          (url, i4) = optionalNonEmptyString (json_value data ''url'') (label @ ''.url'')
      in (\<lparr>ev_kind = kind, ev_path = path, ev_url = url, ev_summary = summary\<rparr>,
          i0 @ i1 @ i2 @ i3 @ i4 @
          (if absent path \<and> absent url
           then [label @ '' must include path or url''] else [])))"

section \<open>Validators\<close>

definition AGENT_REQUEST_SCHEMA_VERSION :: string where
  "AGENT_REQUEST_SCHEMA_VERSION = ''factory.agent-request.v0''"

definition AGENT_RESULT_SCHEMA_VERSION :: string where
  "AGENT_RESULT_SCHEMA_VERSION = ''factory.agent-result.v0''"

definition QUEUE_EVENT_SCHEMA_VERSION :: string where
  "QUEUE_EVENT_SCHEMA_VERSION = ''factory.queue-event.v0''"

text \<open>\<open>throwIfIssues\<close>: the issues are the error.\<close>

definition throw_issues :: "'a checked \<Rightarrow> string list + 'a" where
  "throw_issues c = (if snd c = [] then Inr (fst c) else Inl (snd c))"

definition check_request :: "(string \<Rightarrow> int option) \<Rightarrow> json \<Rightarrow> agent_request checked" where
  "check_request parse_date input =
     (let (data, i0) = check_record (Some input) ''AgentRequest'';
          (version, i1) = check_literal (json_value data ''schemaVersion'') AGENT_REQUEST_SCHEMA_VERSION ''schemaVersion'';
          (id, i2) = prefixedString ''AR-'' (json_value data ''id'') ''id'';
          (created, i3) = isoString parse_date (json_value data ''createdAt'') ''createdAt'';
          (spec, i4) = parseExecutableSpecification (json_value data ''executableSpecification'') ''executableSpecification'';
          (role, i5) = oneOf role_str AGENT_ROLES (json_value data ''role'') ''role'';
          (obj, i6) = nonEmptyString (json_value data ''objective'') ''objective'';
          (text, i7) = nonEmptyString (json_value data ''prompt'') ''prompt'';
          (repo, i8) = parseRepo (json_value data ''repo'') ''repo'';
          (branch, i9) = parseBranch (json_value data ''branch'') ''branch'';
          (policy, i10) = parsePolicy (json_value data ''policy'') ''policy'';
          (ctx, i11) = parseContext (json_value data ''context'') ''context'';
          (accept, i12) = nonEmptyStringArray (json_value data ''acceptanceCriteria'') ''acceptanceCriteria'';
          (commands, i13) = nonEmptyStringArray (json_value data ''requiredCommands'') ''requiredCommands'';
          (expected, i14) = check_list parse_expected_artifact (json_value data ''expectedArtifacts'') ''expectedArtifacts'';
          (evidence, i15) = enumArray evidence_str EVIDENCE_KINDS (json_value data ''evidenceRequired'') ''evidenceRequired''
      in (\<lparr>req_id = id, req_createdAt = created, req_spec = spec, req_role = role, req_objective = obj,
           prompt = text, req_repo = repo, req_branch = branch, req_policy = policy, req_context = ctx,
           acceptanceCriteria = accept, requiredCommands = commands, expectedArtifacts = expected,
           req_evidenceRequired = evidence\<rparr>,
          i0 @ i1 @ i2 @ i3 @ i4 @ i5 @ i6 @ i7 @ i8 @ i9 @ i10 @ i11 @ i12 @ i13 @ i14 @ i15 @
          (if evidence = [] then [''evidenceRequired must contain at least one evidence kind''] else []) @
          (if role = Builder \<and> bp_mode branch \<noteq> New_pr_branch
           then [''builder requests must use branch.mode=new_pr_branch''] else [])))"

definition validateAgentRequest :: "(string \<Rightarrow> int option) \<Rightarrow> json \<Rightarrow> string list + agent_request" where
  "validateAgentRequest parse_date input = throw_issues (check_request parse_date input)"

definition check_result :: "(string \<Rightarrow> int option) \<Rightarrow> json \<Rightarrow> agent_result checked" where
  "check_result parse_date input =
     (let (data, i0) = check_record (Some input) ''AgentResult'';
          (version, i1) = check_literal (json_value data ''schemaVersion'') AGENT_RESULT_SCHEMA_VERSION ''schemaVersion'';
          (id, i2) = prefixedString ''ARES-'' (json_value data ''id'') ''id'';
          (req, i3) = prefixedString ''AR-'' (json_value data ''requestId'') ''requestId'';
          (run, i4) = prefixedString ''RUN-'' (json_value data ''agentRunId'') ''agentRunId'';
          (status, i5) = oneOf agent_status_str [Run_completed, Run_failed, Run_refused] (json_value data ''status'') ''status'';
          (done_at, i6) = isoString parse_date (json_value data ''completedAt'') ''completedAt'';
          (branch, i7) = optionalNonEmptyString (json_value data ''branchName'') ''branchName'';
          (url, i8) = optionalNonEmptyString (json_value data ''prUrl'') ''prUrl'';
          (summary, i9) = nonEmptyString (json_value data ''summary'') ''summary'';
          (files, i10) = stringArray (json_value data ''changedFiles'') ''changedFiles'';
          (commands, i11) = check_list parse_command (json_value data ''commands'') ''commands'';
          (evidence, i12) = check_list parse_evidence (json_value data ''evidence'') ''evidence'';
          (refusal, i13) = optionalNonEmptyString (json_value data ''refusalReason'') ''refusalReason''
      in (\<lparr>ares_id = id, ares_requestId = req, agentRunId = run, ares_status = status, completedAt = done_at,
           branchName = branch, prUrl = url, ares_summary = summary, changedFiles = files,
           ares_commands = commands, ares_evidence = evidence, refusalReason = refusal\<rparr>,
          i0 @ i1 @ i2 @ i3 @ i4 @ i5 @ i6 @ i7 @ i8 @ i9 @ i10 @ i11 @ i12 @ i13 @
          (if status = Run_completed then
             (if absent branch then [''completed AgentResult must include branchName''] else []) @
             (if absent url then [''completed AgentResult must include prUrl''] else []) @
             (if files = [] then [''completed AgentResult must include changedFiles''] else []) @
             (if list_ex (\<lambda>e. ev_kind e = Pr_url) evidence then []
              else [''completed AgentResult must include pr_url evidence''])
           else []) @
          (if status = Run_refused \<and> absent refusal
           then [''refused AgentResult must include refusalReason''] else [])))"

definition validateAgentResult :: "(string \<Rightarrow> int option) \<Rightarrow> json \<Rightarrow> string list + agent_result" where
  "validateAgentResult parse_date input = throw_issues (check_result parse_date input)"

definition check_event :: "(string \<Rightarrow> int option) \<Rightarrow> json \<Rightarrow> queue_event checked" where
  "check_event parse_date input =
     (let (data, i0) = check_record (Some input) ''QueueEvent'';
          (version, i1) = check_literal (json_value data ''schemaVersion'') QUEUE_EVENT_SCHEMA_VERSION ''schemaVersion'';
          (id, i2) = prefixedString ''QE-'' (json_value data ''id'') ''id'';
          (type, i3) = oneOf event_type_str QUEUE_EVENT_TYPES (json_value data ''type'') ''type'';
          (req, i4) = prefixedString ''AR-'' (json_value data ''requestId'') ''requestId'';
          (time, i5) = isoString parse_date (json_value data ''timestamp'') ''timestamp'';
          (actor, i6) = nonEmptyString (json_value data ''actor'') ''actor'';
          (details, i7) = check_record (json_value data ''details'') ''details''
      in (\<lparr>qe_id = id, qe_type = type, qe_requestId = req, qe_timestamp = time, qe_actor = actor,
           qe_details = details\<rparr>, i0 @ i1 @ i2 @ i3 @ i4 @ i5 @ i6 @ i7))"

definition validateQueueEvent :: "(string \<Rightarrow> int option) \<Rightarrow> json \<Rightarrow> string list + queue_event" where
  "validateQueueEvent parse_date input = throw_issues (check_event parse_date input)"

section \<open>The stored form\<close>

text \<open>
  What \<open>JSON.stringify\<close> writes of a value that a validator returned: the properties in the
  order in which the validator sets them, the optional ones only where they were set.
\<close>

definition opt_prop :: "string \<Rightarrow> ('a \<Rightarrow> json) \<Rightarrow> 'a option \<Rightarrow> (string \<times> json) list" where
  "opt_prop key f x = (case x of None \<Rightarrow> [] | Some a \<Rightarrow> [(key, f a)])"

abbreviation jstrs :: "string list \<Rightarrow> json" where
  "jstrs ss \<equiv> JArr (map JStr ss)"

definition spec_json :: "spec_handle \<Rightarrow> json" where
  "spec_json h = JObj
     ([(''id'', JStr (sh_id h)), (''nodeId'', JStr (sh_nodeId h)),
       (''sourceRefs'', jstrs (sh_sourceRefs h))] @
      opt_prop ''sourceIntentSpecificationId'' JStr (sh_sourceIntent h))"

definition repo_json :: "repo_target \<Rightarrow> json" where
  "repo_json r = JObj
     ([(''provider'', JStr (provider_str (rt_provider r))), (''name'', JStr (rt_name r)),
       (''defaultBranch'', JStr (rt_defaultBranch r))] @
      opt_prop ''owner'' JStr (rt_owner r) @ opt_prop ''remoteUrl'' JStr (rt_remoteUrl r) @
      opt_prop ''localPath'' JStr (rt_localPath r))"

definition branch_json :: "branch_policy \<Rightarrow> json" where
  "branch_json b = JObj
     [(''mode'', JStr (branch_mode_str (bp_mode b))), (''base'', JStr (bp_base b)),
      (''prefix'', JStr (bp_prefix b))]"

definition policy_json :: "execution_policy \<Rightarrow> json" where
  "policy_json p = JObj
     ([(''autonomyMode'', JStr (autonomy_str (autonomyMode p))),
       (''allowedPaths'', jstrs (allowedPaths p)),
       (''forbiddenActions'', jstrs (map forbidden_str (forbiddenActions p))),
       (''requiresHumanApprovalFor'', jstrs (map forbidden_str (requiresHumanApprovalFor p)))] @
      opt_prop ''maxRuntimeMinutes'' (\<lambda>n. JNum (of_int n)) (maxRuntimeMinutes p))"

definition context_artifact_json :: "context_artifact \<Rightarrow> json" where
  "context_artifact_json a = JObj
     [(''id'', JStr (cx_id a)), (''kind'', JStr (cx_kind a)), (''path'', JStr (cx_path a))]"

definition request_context_json :: "request_context \<Rightarrow> json" where
  "request_context_json c = JObj
     [(''summary'', JStr (ctx_summary c)),
      (''artifacts'', JArr (map context_artifact_json (ctx_artifacts c)))]"

definition expected_artifact_json :: "expected_artifact \<Rightarrow> json" where
  "expected_artifact_json a = JObj [(''path'', JStr (ea_path a)), (''kind'', JStr (ea_kind a))]"

definition agent_request_json :: "agent_request \<Rightarrow> json" where
  "agent_request_json r = JObj
     [(''schemaVersion'', JStr AGENT_REQUEST_SCHEMA_VERSION), (''id'', JStr (req_id r)),
      (''createdAt'', JStr (req_createdAt r)), (''executableSpecification'', spec_json (req_spec r)),
      (''role'', JStr (role_str (req_role r))), (''objective'', JStr (req_objective r)),
      (''prompt'', JStr (prompt r)), (''repo'', repo_json (req_repo r)),
      (''branch'', branch_json (req_branch r)), (''policy'', policy_json (req_policy r)),
      (''context'', request_context_json (req_context r)),
      (''acceptanceCriteria'', jstrs (acceptanceCriteria r)),
      (''requiredCommands'', jstrs (requiredCommands r)),
      (''expectedArtifacts'', JArr (map expected_artifact_json (expectedArtifacts r))),
      (''evidenceRequired'', jstrs (map evidence_str (req_evidenceRequired r)))]"

definition command_json :: "command_evidence \<Rightarrow> json" where
  "command_json c = JObj
     [(''command'', JStr (ce_command c)), (''exitCode'', JNum (of_int (ce_exitCode c))),
      (''outputRef'', JStr (ce_outputRef c))]"

definition evidence_ref_json :: "evidence_ref \<Rightarrow> json" where
  "evidence_ref_json e = JObj
     ([(''kind'', JStr (evidence_str (ev_kind e))), (''summary'', JStr (ev_summary e))] @
      opt_prop ''path'' JStr (ev_path e) @ opt_prop ''url'' JStr (ev_url e))"

definition agent_result_json :: "agent_result \<Rightarrow> json" where
  "agent_result_json r = JObj
     ([(''schemaVersion'', JStr AGENT_RESULT_SCHEMA_VERSION), (''id'', JStr (ares_id r)),
       (''requestId'', JStr (ares_requestId r)), (''agentRunId'', JStr (agentRunId r)),
       (''status'', JStr (agent_status_str (ares_status r))),
       (''completedAt'', JStr (completedAt r)), (''summary'', JStr (ares_summary r)),
       (''changedFiles'', jstrs (changedFiles r)),
       (''commands'', JArr (map command_json (ares_commands r))),
       (''evidence'', JArr (map evidence_ref_json (ares_evidence r)))] @
      opt_prop ''branchName'' JStr (branchName r) @ opt_prop ''prUrl'' JStr (prUrl r) @
      opt_prop ''refusalReason'' JStr (refusalReason r))"

definition queue_event_json :: "queue_event \<Rightarrow> json" where
  "queue_event_json e = JObj
     [(''schemaVersion'', JStr QUEUE_EVENT_SCHEMA_VERSION), (''id'', JStr (qe_id e)),
      (''type'', JStr (event_type_str (qe_type e))), (''requestId'', JStr (qe_requestId e)),
      (''timestamp'', JStr (qe_timestamp e)), (''actor'', JStr (qe_actor e)),
      (''details'', JObj (qe_details e))]"

section \<open>What the validators accept\<close>

text \<open>
  The declarative side of the validators: a predicate on the parsed values. The lemmas below
  show that a validator returns only values of which the predicate holds, and that it returns
  such a value unchanged from its stored form.
\<close>

definition text_ok :: "string \<Rightarrow> bool" where
  "text_ok s \<longleftrightarrow> trim s \<noteq> []"

definition opt_ok :: "('a \<Rightarrow> bool) \<Rightarrow> 'a option \<Rightarrow> bool" where
  "opt_ok P x = (case x of None \<Rightarrow> True | Some a \<Rightarrow> P a)"

definition prefixed_ok :: "string \<Rightarrow> string \<Rightarrow> bool" where
  "prefixed_ok pre s \<longleftrightarrow> text_ok s \<and> starts_with pre s"

definition time_ok :: "(string \<Rightarrow> int option) \<Rightarrow> string \<Rightarrow> bool" where
  "time_ok parse_date s \<longleftrightarrow> text_ok s \<and> parse_date s \<noteq> None"

definition texts_ok :: "string list \<Rightarrow> bool" where
  "texts_ok ss \<longleftrightarrow> ss \<noteq> [] \<and> list_all text_ok ss"

definition relative_ok :: "string \<Rightarrow> bool" where
  "relative_ok s \<longleftrightarrow> text_ok s \<and> \<not> starts_with ''/'' s \<and> \<not> contains_str ''..'' s"

definition spec_ok :: "spec_handle \<Rightarrow> bool" where
  "spec_ok h \<longleftrightarrow> prefixed_ok ''ES-'' (sh_id h) \<and> text_ok (sh_nodeId h) \<and>
     opt_ok (prefixed_ok ''IS-'') (sh_sourceIntent h) \<and> texts_ok (sh_sourceRefs h)"

definition repo_ok :: "repo_target \<Rightarrow> bool" where
  "repo_ok r \<longleftrightarrow> text_ok (rt_name r) \<and> text_ok (rt_defaultBranch r) \<and> opt_ok text_ok (rt_owner r) \<and>
     opt_ok text_ok (rt_remoteUrl r) \<and> opt_ok text_ok (rt_localPath r) \<and>
     (case rt_provider r of Github \<Rightarrow> rt_owner r \<noteq> None | Local_repo \<Rightarrow> rt_localPath r \<noteq> None)"

definition branch_prefix_ok :: "string \<Rightarrow> bool" where
  "branch_prefix_ok s \<longleftrightarrow> text_ok s \<and> \<not> starts_with ''/'' s \<and> last s \<noteq> CHR ''/'' \<and>
     \<not> contains_str ''..'' s \<and> \<not> contains_str '' '' s"

definition branch_ok :: "branch_policy \<Rightarrow> bool" where
  "branch_ok b \<longleftrightarrow> text_ok (bp_base b) \<and> branch_prefix_ok (bp_prefix b)"

definition allowed_path_ok :: "string \<Rightarrow> bool" where
  "allowed_path_ok p \<longleftrightarrow> relative_ok p \<and> p \<notin> {''.'', ''./'', ''*'', ''**'', ''**/*''}"

definition policy_ok :: "execution_policy \<Rightarrow> bool" where
  "policy_ok p \<longleftrightarrow> allowedPaths p \<noteq> [] \<and> list_all allowed_path_ok (allowedPaths p) \<and>
     set required_forbidden \<subseteq> set (forbiddenActions p) \<and>
     opt_ok (\<lambda>n. 0 < n) (maxRuntimeMinutes p) \<and>
     \<not> (autonomyMode p = Multi_agent_pr \<and> Merge_default_branch \<notin> set (requiresHumanApprovalFor p))"

definition context_artifact_ok :: "context_artifact \<Rightarrow> bool" where
  "context_artifact_ok a \<longleftrightarrow> text_ok (cx_id a) \<and> text_ok (cx_kind a) \<and> text_ok (cx_path a)"

definition context_ok :: "request_context \<Rightarrow> bool" where
  "context_ok c \<longleftrightarrow> text_ok (ctx_summary c) \<and> list_all context_artifact_ok (ctx_artifacts c)"

definition expected_ok :: "expected_artifact \<Rightarrow> bool" where
  "expected_ok a \<longleftrightarrow> relative_ok (ea_path a) \<and> text_ok (ea_kind a)"

definition agent_request_ok :: "(string \<Rightarrow> int option) \<Rightarrow> agent_request \<Rightarrow> bool" where
  "agent_request_ok parse_date r \<longleftrightarrow>
     prefixed_ok ''AR-'' (req_id r) \<and> time_ok parse_date (req_createdAt r) \<and> spec_ok (req_spec r) \<and>
     text_ok (req_objective r) \<and> text_ok (prompt r) \<and> repo_ok (req_repo r) \<and> branch_ok (req_branch r) \<and>
     policy_ok (req_policy r) \<and> context_ok (req_context r) \<and> texts_ok (acceptanceCriteria r) \<and>
     texts_ok (requiredCommands r) \<and> list_all expected_ok (expectedArtifacts r) \<and>
     req_evidenceRequired r \<noteq> [] \<and>
     \<not> (req_role r = Builder \<and> bp_mode (req_branch r) \<noteq> New_pr_branch)"

definition command_ok :: "command_evidence \<Rightarrow> bool" where
  "command_ok c \<longleftrightarrow> text_ok (ce_command c) \<and> text_ok (ce_outputRef c)"

definition evidence_ok :: "evidence_ref \<Rightarrow> bool" where
  "evidence_ok e \<longleftrightarrow> text_ok (ev_summary e) \<and> opt_ok text_ok (ev_path e) \<and> opt_ok text_ok (ev_url e) \<and>
     \<not> (ev_path e = None \<and> ev_url e = None)"

definition agent_result_ok :: "(string \<Rightarrow> int option) \<Rightarrow> agent_result \<Rightarrow> bool" where
  "agent_result_ok parse_date r \<longleftrightarrow>
     prefixed_ok ''ARES-'' (ares_id r) \<and> prefixed_ok ''AR-'' (ares_requestId r) \<and>
     prefixed_ok ''RUN-'' (agentRunId r) \<and> time_ok parse_date (completedAt r) \<and>
     opt_ok text_ok (branchName r) \<and> opt_ok text_ok (prUrl r) \<and> text_ok (ares_summary r) \<and>
     list_all text_ok (changedFiles r) \<and> list_all command_ok (ares_commands r) \<and>
     list_all evidence_ok (ares_evidence r) \<and> opt_ok text_ok (refusalReason r) \<and>
     (case ares_status r of
        Run_completed \<Rightarrow> branchName r \<noteq> None \<and> prUrl r \<noteq> None \<and> changedFiles r \<noteq> [] \<and>
          list_ex (\<lambda>e. ev_kind e = Pr_url) (ares_evidence r)
      | Run_failed \<Rightarrow> True
      | Run_refused \<Rightarrow> refusalReason r \<noteq> None)"

definition queue_event_ok :: "(string \<Rightarrow> int option) \<Rightarrow> queue_event \<Rightarrow> bool" where
  "queue_event_ok parse_date e \<longleftrightarrow>
     prefixed_ok ''QE-'' (qe_id e) \<and> prefixed_ok ''AR-'' (qe_requestId e) \<and>
     time_ok parse_date (qe_timestamp e) \<and> text_ok (qe_actor e)"

lemmas ok_defs = prefixed_ok_def time_ok_def texts_ok_def relative_ok_def branch_prefix_ok_def

named_theorems check_sound \<open>a value without issues has the shape its checker asks for\<close>
named_theorems check_stored \<open>a checker returns a value of the shape unchanged\<close>

lemma absent_opt_ok: "opt_ok text_ok x \<Longrightarrow> absent x \<longleftrightarrow> x = None"
  by (auto simp: absent_def opt_ok_def text_ok_def)

lemma nonEmptyString_sound [check_sound]:
  "snd (nonEmptyString x l) = [] \<Longrightarrow> text_ok (fst (nonEmptyString x l))"
  by (auto simp: nonEmptyString_def text_ok_def split: option.splits json.splits if_splits)

lemma nonEmptyString_stored [check_stored]:
  "text_ok s \<Longrightarrow> nonEmptyString (Some (JStr s)) l = (s, [])"
  by (simp add: nonEmptyString_def text_ok_def)

lemma check_optional_sound:
  assumes "\<And>x l. snd (f x l) = [] \<Longrightarrow> P (fst (f x l))" "snd (check_optional f x l) = []"
  shows "opt_ok P (fst (check_optional f x l))"
  using assms by (auto simp: check_optional_def opt_ok_def)

lemma optionalNonEmptyString_sound [check_sound]:
  "snd (optionalNonEmptyString x l) = [] \<Longrightarrow> opt_ok text_ok (fst (optionalNonEmptyString x l))"
  unfolding optionalNonEmptyString_def by (rule check_optional_sound, erule nonEmptyString_sound)

lemma prefixedString_sound [check_sound]:
  "snd (prefixedString pre x l) = [] \<Longrightarrow> prefixed_ok pre (fst (prefixedString pre x l))"
  using nonEmptyString_sound [of x l]
  by (auto simp: prefixedString_def prefixed_ok_def text_ok_def split_beta split: if_splits)

lemma optionalPrefixedString_sound [check_sound]:
  "snd (optionalPrefixedString pre x l) = [] \<Longrightarrow>
     opt_ok (prefixed_ok pre) (fst (optionalPrefixedString pre x l))"
  unfolding optionalPrefixedString_def by (rule check_optional_sound, erule prefixedString_sound)

lemma prefixedString_stored [check_stored]:
  "prefixed_ok pre s \<Longrightarrow> prefixedString pre (Some (JStr s)) l = (s, [])"
  by (simp add: prefixedString_def prefixed_ok_def nonEmptyString_stored)

lemma text_ok_nonempty: "text_ok s \<Longrightarrow> s \<noteq> []"
  by (auto simp: text_ok_def)

lemma safeBranchPrefix_sound [check_sound]:
  "snd (safeBranchPrefix x l) = [] \<Longrightarrow> branch_prefix_ok (fst (safeBranchPrefix x l))"
  using nonEmptyString_sound [of x l] text_ok_nonempty [of "fst (nonEmptyString x l)"]
  by (auto simp: safeBranchPrefix_def branch_prefix_ok_def split_beta split: if_splits)

lemma safeBranchPrefix_stored [check_stored]:
  "branch_prefix_ok s \<Longrightarrow> safeBranchPrefix (Some (JStr s)) l = (s, [])"
  by (auto simp: safeBranchPrefix_def branch_prefix_ok_def nonEmptyString_stored text_ok_nonempty)

lemma relativePath_sound [check_sound]:
  "snd (relativePath x l) = [] \<Longrightarrow> relative_ok (fst (relativePath x l))"
  using nonEmptyString_sound [of x l]
  by (auto simp: relativePath_def relative_ok_def split_beta split: if_splits)

lemma relativePath_stored [check_stored]:
  "relative_ok s \<Longrightarrow> relativePath (Some (JStr s)) l = (s, [])"
  by (auto simp: relativePath_def relative_ok_def nonEmptyString_stored)

lemma isoString_sound [check_sound]:
  "snd (isoString pd x l) = [] \<Longrightarrow> time_ok pd (fst (isoString pd x l))"
  using nonEmptyString_sound [of x l] text_ok_nonempty [of "fst (nonEmptyString x l)"]
  by (auto simp: isoString_def time_ok_def split_beta split: if_splits)

lemma isoString_stored [check_stored]:
  "time_ok pd s \<Longrightarrow> isoString pd (Some (JStr s)) l = (s, [])"
  by (auto simp: isoString_def time_ok_def nonEmptyString_stored)

lemma check_literal_stored [check_stored]: "check_literal (Some (JStr s)) s l = (s, [])"
  by (simp add: check_literal_def)

lemma check_integer_stored [check_stored]: "check_integer (Some (JNum (of_int n))) l = (n, [])"
  by (simp add: check_integer_def)

lemma optionalPositiveInteger_sound [check_sound]:
  "snd (optionalPositiveInteger x l) = [] \<Longrightarrow>
     opt_ok (\<lambda>n. 0 < n) (fst (optionalPositiveInteger x l))"
  unfolding optionalPositiveInteger_def
  by (rule check_optional_sound, rule ccontr) (auto simp: split_beta split: if_splits)

lemma oneOf_stored:
  assumes "e \<in> set allowed" "inj_on str (set allowed)" "text_ok (str e)"
  shows "oneOf str allowed (Some (JStr (str e))) l = (e, [])"
proof -
  have "find (\<lambda>a. str a = str e) allowed = Some e"
  proof (cases "find (\<lambda>a. str a = str e) allowed")
    case None
    with assms(1) show ?thesis by (auto simp: find_None_iff)
  next
    case (Some a)
    with find_Some_in [OF Some] assms show ?thesis by (auto dest: inj_onD)
  qed
  with assms(3) show ?thesis by (simp add: oneOf_def nonEmptyString_stored)
qed

lemma check_array_stored [check_stored]: "check_array (Some (JArr js)) l = (js, [])"
  by (simp add: check_array_def)

lemma check_record_stored [check_stored]: "check_record (Some (JObj kvs)) l = (kvs, [])"
  by (simp add: check_record_def)

lemma check_each_sound:
  assumes "\<And>x l. snd (f x l) = [] \<Longrightarrow> P (fst (f x l))"
  shows "snd (check_each f l i js) = [] \<Longrightarrow> list_all P (fst (check_each f l i js))"
  using assms by (induction js arbitrary: i) (auto simp: split_beta)

lemma check_list_sound:
  assumes "\<And>x l. snd (f x l) = [] \<Longrightarrow> P (fst (f x l))" "snd (check_list f x l) = []"
  shows "list_all P (fst (check_list f x l))"
  using assms(2) check_each_sound [of f P, OF assms(1)] by (simp add: check_list_def split_beta)

lemma check_each_stored:
  assumes "\<And>a l. P a \<Longrightarrow> f (Some (g a)) l = (a, [])"
  shows "list_all P as \<Longrightarrow> check_each f l i (map g as) = (as, [])"
  using assms by (induction as arbitrary: i) auto

lemma check_list_stored:
  assumes "\<And>a l. P a \<Longrightarrow> f (Some (g a)) l = (a, [])" "list_all P as"
  shows "check_list f (Some (JArr (map g as))) l = (as, [])"
  using check_each_stored [of P f g, OF assms] by (simp add: check_list_def check_array_stored)

lemma stringArray_sound [check_sound]:
  "snd (stringArray x l) = [] \<Longrightarrow> list_all text_ok (fst (stringArray x l))"
  unfolding stringArray_def by (rule check_list_sound, erule nonEmptyString_sound)

lemma stringArray_stored [check_stored]:
  "list_all text_ok ss \<Longrightarrow> stringArray (Some (jstrs ss)) l = (ss, [])"
  unfolding stringArray_def by (rule check_list_stored [OF nonEmptyString_stored])

lemma nonEmptyStringArray_sound [check_sound]:
  "snd (nonEmptyStringArray x l) = [] \<Longrightarrow> texts_ok (fst (nonEmptyStringArray x l))"
  using stringArray_sound [of x l]
  by (auto simp: nonEmptyStringArray_def texts_ok_def split_beta split: if_splits)

lemma nonEmptyStringArray_stored [check_stored]:
  "texts_ok ss \<Longrightarrow> nonEmptyStringArray (Some (jstrs ss)) l = (ss, [])"
  by (simp add: nonEmptyStringArray_def texts_ok_def stringArray_stored)

lemma enumArray_stored:
  assumes "\<And>e l. oneOf str allowed (Some (JStr (str e))) l = (e, [])"
  shows "enumArray str allowed (Some (jstrs (map str es))) l = (es, [])"
  using check_list_stored [of "\<lambda>_. True" "oneOf str allowed" "\<lambda>e. JStr (str e)" es l] assms
  by (simp add: enumArray_def list_all_iff comp_def)

lemma opt_prop_lookup [simp]:
  "map_of (opt_prop k f x) k' = (if k = k' then map_option f x else None)"
  by (auto simp: opt_prop_def split: option.splits)

lemma map_add_opt_prop [simp]:
  "(m ++ map_of (opt_prop k f x)) k' =
     (if k = k' then (case x of None \<Rightarrow> m k' | Some a \<Rightarrow> Some (f a)) else m k')"
  by (auto simp: map_add_def split: option.splits)

lemma opt_prop_map_add [simp]:
  "(map_of (opt_prop k f x) ++ m) k' =
     (case m k' of None \<Rightarrow> if k = k' then map_option f x else None | Some v \<Rightarrow> Some v)"
  by (auto simp: map_add_def split: option.splits)

lemma case_option_map [simp]: "(case x of None \<Rightarrow> None | Some a \<Rightarrow> Some (f a)) = map_option f x"
  by (cases x) simp_all

lemmas lookups = json_value_def

lemma optionalNonEmptyString_stored [check_stored]:
  "opt_ok text_ok x \<Longrightarrow> optionalNonEmptyString (map_option JStr x) l = (x, [])"
  by (cases x) (auto simp: optionalNonEmptyString_def check_optional_def opt_ok_def nonEmptyString_stored)

lemma optionalPrefixedString_stored [check_stored]:
  "opt_ok (prefixed_ok pre) x \<Longrightarrow> optionalPrefixedString pre (map_option JStr x) l = (x, [])"
  by (cases x) (auto simp: optionalPrefixedString_def check_optional_def opt_ok_def prefixedString_stored)

lemma optionalPositiveInteger_stored [check_stored]:
  "opt_ok (\<lambda>n. 0 < n) x \<Longrightarrow> optionalPositiveInteger (map_option (\<lambda>n. JNum (of_int n)) x) l = (x, [])"
  by (cases x) (auto simp: optionalPositiveInteger_def check_optional_def opt_ok_def check_integer_stored)

subsection \<open>The enumerations\<close>

lemma text_okI: "s \<noteq> [] \<Longrightarrow> \<not> is_ws (hd s) \<Longrightarrow> \<not> is_ws (last s) \<Longrightarrow> text_ok s"
  by (simp add: text_ok_def trim_trimmed)

lemma role_stored [check_stored]:
  "oneOf role_str AGENT_ROLES (Some (JStr (role_str e))) l = (e, [])"
proof (rule oneOf_stored)
  show "e \<in> set AGENT_ROLES" by (cases e) (simp_all add: AGENT_ROLES_def)
  show "inj_on role_str (set AGENT_ROLES)"
  proof (rule inj_onI)
    fix a b assume "role_str a = role_str b"
    then show "a = b" by (cases a; cases b) simp_all
  qed
  show "text_ok (role_str e)" by (cases e; rule text_okI) (simp_all add: is_ws_code)
qed

lemma autonomy_stored [check_stored]:
  "oneOf autonomy_str AUTONOMY_MODES (Some (JStr (autonomy_str e))) l = (e, [])"
proof (rule oneOf_stored)
  show "e \<in> set AUTONOMY_MODES" by (cases e) (simp_all add: AUTONOMY_MODES_def)
  show "inj_on autonomy_str (set AUTONOMY_MODES)"
  proof (rule inj_onI)
    fix a b assume "autonomy_str a = autonomy_str b"
    then show "a = b" by (cases a; cases b) simp_all
  qed
  show "text_ok (autonomy_str e)" by (cases e; rule text_okI) (simp_all add: is_ws_code)
qed

lemma branch_mode_stored [check_stored]:
  "oneOf branch_mode_str BRANCH_MODES (Some (JStr (branch_mode_str e))) l = (e, [])"
proof (rule oneOf_stored)
  show "e \<in> set BRANCH_MODES" by (cases e) (simp_all add: BRANCH_MODES_def)
  show "inj_on branch_mode_str (set BRANCH_MODES)"
  proof (rule inj_onI)
    fix a b assume "branch_mode_str a = branch_mode_str b"
    then show "a = b" by (cases a; cases b) simp_all
  qed
  show "text_ok (branch_mode_str e)" by (cases e; rule text_okI) (simp_all add: is_ws_code)
qed

lemma forbidden_stored [check_stored]:
  "oneOf forbidden_str FORBIDDEN_ACTIONS (Some (JStr (forbidden_str e))) l = (e, [])"
proof (rule oneOf_stored)
  show "e \<in> set FORBIDDEN_ACTIONS" by (cases e) (simp_all add: FORBIDDEN_ACTIONS_def)
  show "inj_on forbidden_str (set FORBIDDEN_ACTIONS)"
  proof (rule inj_onI)
    fix a b assume "forbidden_str a = forbidden_str b"
    then show "a = b" by (cases a; cases b) simp_all
  qed
  show "text_ok (forbidden_str e)" by (cases e; rule text_okI) (simp_all add: is_ws_code)
qed

lemma evidence_stored [check_stored]:
  "oneOf evidence_str EVIDENCE_KINDS (Some (JStr (evidence_str e))) l = (e, [])"
proof (rule oneOf_stored)
  show "e \<in> set EVIDENCE_KINDS" by (cases e) (simp_all add: EVIDENCE_KINDS_def)
  show "inj_on evidence_str (set EVIDENCE_KINDS)"
  proof (rule inj_onI)
    fix a b assume "evidence_str a = evidence_str b"
    then show "a = b" by (cases a; cases b) simp_all
  qed
  show "text_ok (evidence_str e)" by (cases e; rule text_okI) (simp_all add: is_ws_code)
qed

lemma event_type_stored [check_stored]:
  "oneOf event_type_str QUEUE_EVENT_TYPES (Some (JStr (event_type_str e))) l = (e, [])"
proof (rule oneOf_stored)
  show "e \<in> set QUEUE_EVENT_TYPES" by (cases e) (simp_all add: QUEUE_EVENT_TYPES_def)
  show "inj_on event_type_str (set QUEUE_EVENT_TYPES)"
  proof (rule inj_onI)
    fix a b assume "event_type_str a = event_type_str b"
    then show "a = b" by (cases a; cases b) simp_all
  qed
  show "text_ok (event_type_str e)" by (cases e; rule text_okI) (simp_all add: is_ws_code)
qed

lemma agent_status_stored [check_stored]:
  "oneOf agent_status_str [Run_completed, Run_failed, Run_refused] (Some (JStr (agent_status_str e))) l = (e, [])"
proof (rule oneOf_stored)
  show "e \<in> set [Run_completed, Run_failed, Run_refused]" by (cases e) (simp_all)
  show "inj_on agent_status_str (set [Run_completed, Run_failed, Run_refused])"
  proof (rule inj_onI)
    fix a b assume "agent_status_str a = agent_status_str b"
    then show "a = b" by (cases a; cases b) simp_all
  qed
  show "text_ok (agent_status_str e)" by (cases e; rule text_okI) (simp_all add: is_ws_code)
qed

lemma provider_stored [check_stored]:
  "oneOf provider_str [Github, Local_repo] (Some (JStr (provider_str e))) l = (e, [])"
proof (rule oneOf_stored)
  show "e \<in> set [Github, Local_repo]" by (cases e) (simp_all)
  show "inj_on provider_str (set [Github, Local_repo])"
  proof (rule inj_onI)
    fix a b assume "provider_str a = provider_str b"
    then show "a = b" by (cases a; cases b) simp_all
  qed
  show "text_ok (provider_str e)" by (cases e; rule text_okI) (simp_all add: is_ws_code)
qed

subsection \<open>The parts\<close>

lemma parseExecutableSpecification_sound [check_sound]:
  "snd (parseExecutableSpecification x l) = [] \<Longrightarrow> spec_ok (fst (parseExecutableSpecification x l))"
  by (simp add: parseExecutableSpecification_def spec_ok_def Let_def split_beta check_sound)

lemma spec_stored [check_stored]:
  "spec_ok h \<Longrightarrow> parseExecutableSpecification (Some (spec_json h)) l = (h, [])"
  by (simp add: parseExecutableSpecification_def spec_ok_def spec_json_def lookups check_stored)
     (simp add: texts_ok_def)

lemma parseRepo_sound [check_sound]:
  assumes "snd (parseRepo x l) = []"
  shows "repo_ok (fst (parseRepo x l))"
  using assms
  by (simp add: parseRepo_def repo_ok_def Let_def split_beta check_sound absent_def
      split: repo_provider.splits if_splits)

lemma repo_stored [check_stored]: "repo_ok r \<Longrightarrow> parseRepo (Some (repo_json r)) l = (r, [])"
  by (auto simp: parseRepo_def repo_ok_def repo_json_def lookups check_stored absent_opt_ok
      split: repo_provider.splits cong: option.case_cong)

lemma parseBranch_sound [check_sound]:
  "snd (parseBranch x l) = [] \<Longrightarrow> branch_ok (fst (parseBranch x l))"
  by (simp add: parseBranch_def branch_ok_def Let_def split_beta check_sound)

lemma branch_stored [check_stored]: "branch_ok b \<Longrightarrow> parseBranch (Some (branch_json b)) l = (b, [])"
  by (simp add: parseBranch_def branch_ok_def branch_json_def lookups check_stored)

lemma path_issues_Nil: "text_ok p \<Longrightarrow> path_issues p = [] \<longleftrightarrow> allowed_path_ok p"
  by (auto simp: path_issues_def allowed_path_ok_def relative_ok_def)

lemma validateAllowedPaths_Nil:
  "list_all text_ok ps \<Longrightarrow> validateAllowedPaths ps = [] \<longleftrightarrow> ps \<noteq> [] \<and> list_all allowed_path_ok ps"
  by (auto simp: validateAllowedPaths_def list_all_iff path_issues_Nil)

lemma allowed_paths_texts: "list_all allowed_path_ok ps \<Longrightarrow> list_all text_ok ps"
  by (auto simp: list_all_iff allowed_path_ok_def relative_ok_def)

lemma forbidden_issues_Nil:
  "concat (map (\<lambda>r. if r \<notin> set fs then [f r] else []) rs) = [] \<longleftrightarrow> set rs \<subseteq> set fs"
  by auto

lemma parsePolicy_sound [check_sound]:
  assumes "snd (parsePolicy x l) = []"
  shows "policy_ok (fst (parsePolicy x l))"
proof -
  define paths where "paths = nonEmptyStringArray (json_value (fst (check_record x l)) ''allowedPaths'') (l @ ''.allowedPaths'')"
  from assms have "snd paths = []" "validateAllowedPaths (fst paths) = []"
    by (simp_all add: parsePolicy_def Let_def split_beta paths_def)
  then have "fst paths \<noteq> [] \<and> list_all allowed_path_ok (fst paths)"
    unfolding paths_def by (metis nonEmptyStringArray_sound texts_ok_def validateAllowedPaths_Nil)
  with assms show ?thesis
    by (auto simp: parsePolicy_def policy_ok_def Let_def split_beta check_sound paths_def split: if_splits)
qed

lemma policy_stored [check_stored]: "policy_ok p \<Longrightarrow> parsePolicy (Some (policy_json p)) l = (p, [])"
  using allowed_paths_texts [of "allowedPaths p"]
  by (auto simp: parsePolicy_def policy_ok_def policy_json_def lookups check_stored texts_ok_def
      enumArray_stored [OF forbidden_stored] validateAllowedPaths_Nil simp del: map_map list.map_comp)

lemma parse_context_artifact_sound:
  "snd (parse_context_artifact x l) = [] \<Longrightarrow> context_artifact_ok (fst (parse_context_artifact x l))"
  by (simp add: parse_context_artifact_def context_artifact_ok_def Let_def split_beta check_sound)

lemma context_artifact_stored:
  "context_artifact_ok a \<Longrightarrow> parse_context_artifact (Some (context_artifact_json a)) l = (a, [])"
  by (simp add: parse_context_artifact_def context_artifact_ok_def context_artifact_json_def
      lookups check_stored)

lemma parseContext_sound [check_sound]:
  "snd (parseContext x l) = [] \<Longrightarrow> context_ok (fst (parseContext x l))"
  by (simp add: parseContext_def context_ok_def Let_def split_beta check_sound
      check_list_sound [where P = context_artifact_ok, OF parse_context_artifact_sound])

lemma context_stored [check_stored]:
  "context_ok c \<Longrightarrow> parseContext (Some (request_context_json c)) l = (c, [])"
  by (simp add: parseContext_def context_ok_def request_context_json_def lookups check_stored
      check_list_stored [where P = context_artifact_ok, OF context_artifact_stored])

lemma parse_expected_artifact_sound:
  "snd (parse_expected_artifact x l) = [] \<Longrightarrow> expected_ok (fst (parse_expected_artifact x l))"
  by (simp add: parse_expected_artifact_def expected_ok_def Let_def split_beta check_sound)

lemma expected_stored:
  "expected_ok a \<Longrightarrow> parse_expected_artifact (Some (expected_artifact_json a)) l = (a, [])"
  by (simp add: parse_expected_artifact_def expected_ok_def expected_artifact_json_def
      lookups check_stored)

lemma parse_command_sound: "snd (parse_command x l) = [] \<Longrightarrow> command_ok (fst (parse_command x l))"
  by (simp add: parse_command_def command_ok_def Let_def split_beta check_sound)

lemma command_stored: "command_ok c \<Longrightarrow> parse_command (Some (command_json c)) l = (c, [])"
  by (simp add: parse_command_def command_ok_def command_json_def lookups check_stored)

lemma parse_evidence_sound: "snd (parse_evidence x l) = [] \<Longrightarrow> evidence_ok (fst (parse_evidence x l))"
  by (auto simp: parse_evidence_def evidence_ok_def Let_def split_beta check_sound absent_def
      split: if_splits)

lemma evidence_ref_stored: "evidence_ok e \<Longrightarrow> parse_evidence (Some (evidence_ref_json e)) l = (e, [])"
  by (auto simp: parse_evidence_def evidence_ok_def evidence_ref_json_def lookups check_stored absent_opt_ok
      cong: option.case_cong)

lemmas list_checks =
  check_list_sound [where P = expected_ok, OF parse_expected_artifact_sound]
  check_list_sound [where P = command_ok, OF parse_command_sound]
  check_list_sound [where P = evidence_ok, OF parse_evidence_sound]

lemmas lists_stored =
  check_list_stored [where P = expected_ok, OF expected_stored]
  check_list_stored [where P = command_ok, OF command_stored]
  check_list_stored [where P = evidence_ok, OF evidence_ref_stored]
  enumArray_stored [OF evidence_stored]

subsection \<open>The messages\<close>

lemma throw_issues_Inr: "throw_issues c = Inr v \<longleftrightarrow> snd c = [] \<and> v = fst c"
  by (auto simp: throw_issues_def)

lemma validateAgentRequest_ok:
  assumes "validateAgentRequest pd j = Inr r"
  shows "agent_request_ok pd r"
proof -
  from assms have "snd (check_request pd j) = []" and r: "r = fst (check_request pd j)"
    by (auto simp: validateAgentRequest_def throw_issues_Inr)
  then show ?thesis
    by (simp add: check_request_def agent_request_ok_def Let_def split_beta check_sound list_checks
        split: if_splits)
qed

lemma validateAgentRequest_stored:
  assumes "agent_request_ok pd r"
  shows "validateAgentRequest pd (agent_request_json r) = Inr r"
proof -
  have "check_request pd (agent_request_json r) = (r, [])"
    using assms
    by (simp add: check_request_def agent_request_ok_def agent_request_json_def lookups
        check_stored lists_stored del: map_map list.map_comp)
  then show ?thesis by (simp add: validateAgentRequest_def throw_issues_def)
qed

lemma validateAgentResult_ok:
  assumes "validateAgentResult pd j = Inr r"
  shows "agent_result_ok pd r"
proof -
  from assms have "snd (check_result pd j) = []" and r: "r = fst (check_result pd j)"
    by (auto simp: validateAgentResult_def throw_issues_Inr)
  then show ?thesis
    by (simp add: check_result_def agent_result_ok_def Let_def split_beta check_sound list_checks
        absent_def split: if_splits agent_status.splits)
qed

lemma validateAgentResult_stored:
  assumes "agent_result_ok pd r"
  shows "validateAgentResult pd (agent_result_json r) = Inr r"
proof -
  have "check_result pd (agent_result_json r) = (r, [])"
    using assms
    by (cases "ares_status r")
       (simp_all add: check_result_def agent_result_ok_def agent_result_json_def lookups
         check_stored lists_stored absent_opt_ok cong: option.case_cong del: agent_status_str.simps)
  then show ?thesis by (simp add: validateAgentResult_def throw_issues_def)
qed

lemma validateQueueEvent_stored:
  assumes "queue_event_ok pd e"
  shows "validateQueueEvent pd (queue_event_json e) = Inr e"
  using assms
  by (simp add: validateQueueEvent_def check_event_def queue_event_ok_def queue_event_json_def
      lookups check_stored throw_issues_def)

end
