(* ===== verification/Agent_Queue.thy ===== *)
theory Agent_Queue
  imports Agent_Requests Node_Paths
begin

text \<open>
  The file queue of the autonomous scheduler (class \<open>JsonlAgentQueue\<close> of
  \<open>packages/autonomous-scheduler/src/index.ts\<close>). The queue is a directory: the lines of
  \<open>requests.jsonl\<close> and \<open>events.jsonl\<close>, and one file per request under \<open>claims\<close> and under
  \<open>results\<close>, named after the sanitized request id. Each operation takes the directory to the
  directory it leaves, also where it throws. \<open>now()\<close> may answer differently at each reading:
  the directory state counts the readings made so far, and reading \<open>n\<close> is \<open>clock n\<close>
  milliseconds.
\<close>

section \<open>State\<close>

record queue_claim =
  cl_requestId :: string
  cl_actor :: string
  claimedAt :: string
  heartbeatAt :: string
  leaseExpiresAt :: string

record queue_files =
  qs_requests :: "json list"
  qs_events :: "json list"
  qs_claims :: "(string \<times> queue_claim) list"
  qs_results :: "(string \<times> json) list"
  ticks :: nat

text \<open>
  The constructor's options, the clock, and the host's date conversions \<open>toISOString\<close> and
  \<open>Date.parse\<close>.
\<close>

record queue_env =
  queueDir :: string
  queue_actor :: string
  leaseMs :: int
  clock :: "nat \<Rightarrow> int"
  to_iso :: "int \<Rightarrow> string"
  parse_date :: "string \<Rightarrow> int option"

datatype scheduler_error = Validation_failed "string list" | Thrown string

type_synonym 'a queue_op = "queue_files \<Rightarrow> queue_files \<times> (scheduler_error + 'a)"

definition tick :: "queue_env \<Rightarrow> queue_files \<Rightarrow> queue_files \<times> int" where
  "tick env st = (st\<lparr>ticks := Suc (ticks st)\<rparr>, clock env (ticks st))"

definition sanitizeId :: "string \<Rightarrow> string" where
  "sanitizeId s =
     map (\<lambda>c. if is_upper c \<or> is_lower c \<or> is_digit c \<or> c = CHR ''_'' \<or> c = CHR ''-''
              then c else CHR ''-'') s"

definition id_file :: "string \<Rightarrow> string" where
  "id_file requestId = sanitizeId requestId @ ''.json''"

definition claimPath :: "queue_env \<Rightarrow> string \<Rightarrow> string" where
  "claimPath env requestId = path_join (path_join (queueDir env) ''claims'') (id_file requestId)"

definition int_str :: "int \<Rightarrow> string" where
  "int_str n = (if n < 0 then ''-'' @ dec (nat (- n)) else dec (nat n))"

section \<open>Reading the directory\<close>

text \<open>\<open>entries.map(validate)\<close>: the first entry that does not validate throws.\<close>

fun validate_all :: "(json \<Rightarrow> string list + 'a) \<Rightarrow> json list \<Rightarrow> scheduler_error + 'a list" where
  "validate_all f [] = Inr []"
| "validate_all f (j # js) =
     (case f j of
        Inl is \<Rightarrow> Inl (Validation_failed is)
      | Inr a \<Rightarrow> (case validate_all f js of Inl e \<Rightarrow> Inl e | Inr as \<Rightarrow> Inr (a # as)))"

definition listRequests :: "queue_env \<Rightarrow> queue_files \<Rightarrow> scheduler_error + agent_request list" where
  "listRequests env st = validate_all (validateAgentRequest (parse_date env)) (qs_requests st)"

definition listEvents :: "queue_env \<Rightarrow> queue_files \<Rightarrow> scheduler_error + queue_event list" where
  "listEvents env st = validate_all (validateQueueEvent (parse_date env)) (qs_events st)"

definition listResults :: "queue_env \<Rightarrow> queue_files \<Rightarrow> scheduler_error + agent_result list" where
  "listResults env st =
     validate_all (validateAgentResult (parse_date env)) (map snd (qs_results st))"

definition listClaims :: "queue_files \<Rightarrow> queue_claim list" where
  "listClaims st = map snd (qs_claims st)"

definition readClaim :: "string \<Rightarrow> queue_files \<Rightarrow> queue_claim option" where
  "readClaim requestId st = map_of (qs_claims st) (id_file requestId)"

definition write_claim :: "string \<Rightarrow> queue_claim \<Rightarrow> queue_files \<Rightarrow> queue_files" where
  "write_claim requestId claim st =
     st\<lparr>qs_claims := AList.update (id_file requestId) claim (qs_claims st)\<rparr>"

section \<open>Operations\<close>

definition queue_event_at ::
  "queue_env \<Rightarrow> queue_event_type \<Rightarrow> string \<Rightarrow> (string \<times> json) list \<Rightarrow> int \<Rightarrow> int \<Rightarrow> queue_event" where
  "queue_event_at env type requestId details t1 t2 =
     \<lparr>qe_id = ''QE-'' @ sanitizeId requestId @ ''-'' @ sanitizeId (event_type_str type) @ ''-'' @ int_str t1,
      qe_type = type, qe_requestId = requestId, qe_timestamp = to_iso env t2,
      qe_actor = queue_actor env, qe_details = details\<rparr>"

definition appendEvent ::
  "queue_env \<Rightarrow> queue_event_type \<Rightarrow> string \<Rightarrow> (string \<times> json) list \<Rightarrow> unit queue_op" where
  "appendEvent env type requestId details st =
     (let (st1, t1) = tick env st; (st2, t2) = tick env st1
      in case validateQueueEvent (parse_date env)
                (queue_event_json (queue_event_at env type requestId details t1 t2)) of
           Inl is \<Rightarrow> (st2, Inl (Validation_failed is))
         | Inr e \<Rightarrow> (st2\<lparr>qs_events := qs_events st2 @ [queue_event_json e]\<rparr>, Inr ()))"

text \<open>An event, then the value of the operation.\<close>

definition then_event ::
  "queue_env \<Rightarrow> queue_event_type \<Rightarrow> string \<Rightarrow> (string \<times> json) list \<Rightarrow> 'a \<Rightarrow> 'a queue_op" where
  "then_event env type requestId details v st =
     (case appendEvent env type requestId details st of
        (st', Inl e) \<Rightarrow> (st', Inl e) | (st', Inr _) \<Rightarrow> (st', Inr v))"

definition enqueue :: "queue_env \<Rightarrow> json \<Rightarrow> agent_request queue_op" where
  "enqueue env input st =
     (case validateAgentRequest (parse_date env) input of
        Inl is \<Rightarrow> (st, Inl (Validation_failed is))
      | Inr request \<Rightarrow>
          (case listRequests env st of
             Inl e \<Rightarrow> (st, Inl e)
           | Inr existing \<Rightarrow>
               if list_ex (\<lambda>entry. req_id entry = req_id request) existing
               then (st, Inl (Thrown (''AgentRequest already exists in queue: '' @ req_id request)))
               else then_event env Request_enqueued (req_id request)
                      [(''role'', JStr (role_str (req_role request))),
                       (''repo'', JStr (rt_name (req_repo request))),
                       (''executableSpecification'', JStr (sh_id (req_spec request)))] request
                      (st\<lparr>qs_requests := qs_requests st @ [agent_request_json request]\<rparr>)))"

definition createClaim :: "queue_env \<Rightarrow> string \<Rightarrow> queue_files \<Rightarrow> queue_files \<times> queue_claim" where
  "createClaim env requestId st =
     (let (st', now) = tick env st
      in (st', \<lparr>cl_requestId = requestId, cl_actor = queue_actor env, claimedAt = to_iso env now,
                heartbeatAt = to_iso env now, leaseExpiresAt = to_iso env (now + leaseMs env)\<rparr>))"

text \<open>\<open>Date.parse\<close> of an unreadable lease is \<open>NaN\<close>, which is not greater than any number.\<close>

definition claim_active_at :: "queue_env \<Rightarrow> queue_claim \<Rightarrow> int \<Rightarrow> bool" where
  "claim_active_at env claim now \<longleftrightarrow>
     (case parse_date env (leaseExpiresAt claim) of None \<Rightarrow> False | Some t \<Rightarrow> now < t)"

definition isClaimActive :: "queue_env \<Rightarrow> queue_claim \<Rightarrow> queue_files \<Rightarrow> queue_files \<times> bool" where
  "isClaimActive env claim st =
     (let (st', now) = tick env st in (st', claim_active_at env claim now))"

definition claimed_details :: "queue_env \<Rightarrow> string \<Rightarrow> bool \<Rightarrow> (string \<times> json) list" where
  "claimed_details env requestId reclaimed =
     [(''actor'', JStr (queue_actor env)), (''claimPath'', JStr (claimPath env requestId)),
      (''reclaimed'', JBool reclaimed)]"

text \<open>
  The loop of \<open>claimNext\<close>. Creating the claim file with the flag \<open>wx\<close> fails where the file
  exists; then the claim in it is read, and written over where its lease is over.
\<close>

fun claim_loop :: "queue_env \<Rightarrow> string list \<Rightarrow> agent_request list \<Rightarrow> agent_request option queue_op" where
  "claim_loop env completed [] st = (st, Inr None)"
| "claim_loop env completed (request # requests) st =
     (if req_id request \<in> set completed then claim_loop env completed requests st
      else
        let (st1, claim) = createClaim env (req_id request) st
        in case readClaim (req_id request) st1 of
             None \<Rightarrow>
               then_event env Request_claimed (req_id request)
                 (claimed_details env (req_id request) False) (Some request)
                 (write_claim (req_id request) claim st1)
           | Some existing \<Rightarrow>
               (let (st2, active) = isClaimActive env existing st1
                in if active then claim_loop env completed requests st2
                   else then_event env Request_claimed (req_id request)
                          (claimed_details env (req_id request) True) (Some request)
                          (write_claim (req_id request) claim st2)))"

definition claimNext :: "queue_env \<Rightarrow> agent_request option queue_op" where
  "claimNext env st =
     (case listRequests env st of
        Inl e \<Rightarrow> (st, Inl e)
      | Inr requests \<Rightarrow>
          (case listResults env st of
             Inl e \<Rightarrow> (st, Inl e)
           | Inr results \<Rightarrow> claim_loop env (map ares_requestId results) requests st))"

definition heartbeat :: "queue_env \<Rightarrow> string \<Rightarrow> queue_claim queue_op" where
  "heartbeat env requestId st =
     (case readClaim requestId st of
        None \<Rightarrow> (st, Inl (Thrown (''Cannot heartbeat unclaimed request: '' @ requestId)))
      | Some existing \<Rightarrow>
          (let (st1, now) = tick env st;
               updated = existing\<lparr>cl_actor := queue_actor env, heartbeatAt := to_iso env now,
                           leaseExpiresAt := to_iso env (now + leaseMs env)\<rparr>
           in then_event env Request_heartbeat requestId
                [(''actor'', JStr (queue_actor env)), (''leaseExpiresAt'', JStr (leaseExpiresAt updated))]
                updated (write_claim requestId updated st1)))"

definition complete :: "queue_env \<Rightarrow> json \<Rightarrow> agent_result queue_op" where
  "complete env input st =
     (case validateAgentResult (parse_date env) input of
        Inl is \<Rightarrow> (st, Inl (Validation_failed is))
      | Inr result \<Rightarrow>
          (case map_of (qs_results st) (id_file (ares_requestId result)) of
             Some _ \<Rightarrow> (st, Inl (Thrown (''AgentResult already exists for request: '' @ ares_requestId result)))
           | None \<Rightarrow>
               then_event env
                 (if ares_status result = Run_completed then Request_completed else Request_failed)
                 (ares_requestId result)
                 [(''status'', JStr (agent_status_str (ares_status result))),
                  (''resultId'', JStr (ares_id result)),
                  (''prUrl'', case prUrl result of None \<Rightarrow> JNull | Some u \<Rightarrow> JStr u)] result
                 (st\<lparr>qs_results := qs_results st @
                       [(id_file (ares_requestId result), agent_result_json result)]\<rparr>)))"

record queue_status =
  qt_queueDir :: string
  qt_total :: nat
  qt_pending :: nat
  qt_claimed :: nat
  qt_completed :: nat
  qt_failed :: nat
  qt_refused :: nat

fun active_claims :: "queue_env \<Rightarrow> queue_claim list \<Rightarrow> queue_files \<Rightarrow> queue_files \<times> queue_claim list" where
  "active_claims env [] st = (st, [])"
| "active_claims env (c # cs) st =
     (let (st1, active) = isClaimActive env c st; (st2, rest) = active_claims env cs st1
      in (st2, if active then c # rest else rest))"

definition status_of_queue :: "queue_env \<Rightarrow> queue_status queue_op" where
  "status_of_queue env st =
     (case listRequests env st of
        Inl e \<Rightarrow> (st, Inl e)
      | Inr requests \<Rightarrow>
          (case listResults env st of
             Inl e \<Rightarrow> (st, Inl e)
           | Inr results \<Rightarrow>
               (let done_ids = map ares_requestId results;
                    count = (\<lambda>s. length (filter (\<lambda>r. ares_status r = s) results));
                    (st', actives) = active_claims env (listClaims st) st;
                    active_ids = map cl_requestId actives
                in (st', Inr \<lparr>qt_queueDir = queueDir env, qt_total = length requests,
                      qt_pending = length (filter (\<lambda>r. req_id r \<notin> set active_ids \<and> req_id r \<notin> set done_ids) requests),
                      qt_claimed = length (filter (\<lambda>r. req_id r \<in> set active_ids \<and> req_id r \<notin> set done_ids) requests),
                      qt_completed = count Run_completed, qt_failed = count Run_failed,
                      qt_refused = count Run_refused\<rparr>))))"

section \<open>Calls\<close>

datatype queue_call = Enqueue json | Claim_next | Heartbeat string | Complete json

datatype queue_reply =
  Reply_request agent_request | Reply_claimed agent_request | Reply_nothing | Reply_claim queue_claim
  | Reply_result agent_result | Reply_error scheduler_error

definition reply_of :: "('a \<Rightarrow> queue_reply) \<Rightarrow> queue_files \<times> (scheduler_error + 'a) \<Rightarrow> queue_files \<times> queue_reply" where
  "reply_of f r = (fst r, case snd r of Inl e \<Rightarrow> Reply_error e | Inr a \<Rightarrow> f a)"

fun queue_exec :: "queue_env \<Rightarrow> queue_call \<Rightarrow> queue_files \<Rightarrow> queue_files \<times> queue_reply" where
  "queue_exec env (Enqueue j) st = reply_of Reply_request (enqueue env j st)"
| "queue_exec env Claim_next st =
     reply_of (\<lambda>r. case r of None \<Rightarrow> Reply_nothing | Some a \<Rightarrow> Reply_claimed a) (claimNext env st)"
| "queue_exec env (Heartbeat requestId) st = reply_of Reply_claim (heartbeat env requestId st)"
| "queue_exec env (Complete j) st = reply_of Reply_result (complete env j st)"

definition empty_queue :: queue_files where
  "empty_queue = \<lparr>qs_requests = [], qs_events = [], qs_claims = [], qs_results = [], ticks = 0\<rparr>"

definition queue_run :: "queue_env \<Rightarrow> queue_call list \<Rightarrow> queue_files \<Rightarrow> queue_files" where
  "queue_run env calls st = foldl (\<lambda>s c. fst (queue_exec env c s)) st calls"

section \<open>What the queue promises\<close>

text \<open>
  The abstract queue: the ids of the requests in the order in which they came, the time to
  which each request is leased, and the status with which it was finished. A call reads the
  clock some number of times; \<open>T\<close> is the set of the times it reads.
\<close>

record spec_queue =
  sq_ids :: "string list"
  sq_lease :: "string \<Rightarrow> int option"
  sq_done :: "string \<Rightarrow> agent_status option"

definition spec_leased :: "spec_queue \<Rightarrow> string \<Rightarrow> int \<Rightarrow> bool" where
  "spec_leased q i t \<longleftrightarrow> (case sq_lease q i of None \<Rightarrow> False | Some until \<Rightarrow> t < until)"

definition spec_claimable :: "int set \<Rightarrow> spec_queue \<Rightarrow> string \<Rightarrow> bool" where
  "spec_claimable T q i \<longleftrightarrow>
     sq_done q i = None \<and> (sq_lease q i = None \<or> (\<exists>t \<in> T. \<not> spec_leased q i t))"

definition spec_busy :: "int set \<Rightarrow> spec_queue \<Rightarrow> string \<Rightarrow> bool" where
  "spec_busy T q i \<longleftrightarrow> sq_done q i \<noteq> None \<or> (\<exists>t \<in> T. spec_leased q i t)"

inductive spec_step :: "queue_env \<Rightarrow> int set \<Rightarrow> spec_queue \<Rightarrow> queue_call \<Rightarrow> queue_reply \<Rightarrow> spec_queue \<Rightarrow> bool"
  for env T q where
  enqueue_invalid: "validateAgentRequest (parse_date env) j = Inl is \<Longrightarrow>
    spec_step env T q (Enqueue j) (Reply_error (Validation_failed is)) q"
| enqueue_again: "validateAgentRequest (parse_date env) j = Inr r \<Longrightarrow> req_id r \<in> set (sq_ids q) \<Longrightarrow>
    spec_step env T q (Enqueue j)
      (Reply_error (Thrown (''AgentRequest already exists in queue: '' @ req_id r))) q"
| enqueue_new: "validateAgentRequest (parse_date env) j = Inr r \<Longrightarrow> req_id r \<notin> set (sq_ids q) \<Longrightarrow>
    spec_step env T q (Enqueue j) (Reply_request r) (q\<lparr>sq_ids := sq_ids q @ [req_id r]\<rparr>)"
| claim_first: "sq_ids q = before @ req_id r # after \<Longrightarrow> \<forall>i \<in> set before. spec_busy T q i \<Longrightarrow>
    spec_claimable T q (req_id r) \<Longrightarrow> t \<in> T \<Longrightarrow>
    spec_step env T q Claim_next (Reply_claimed r) (q\<lparr>sq_lease := (sq_lease q)(req_id r \<mapsto> t + leaseMs env)\<rparr>)"
| claim_nothing: "\<forall>i \<in> set (sq_ids q). spec_busy T q i \<Longrightarrow> spec_step env T q Claim_next Reply_nothing q"
| heartbeat_unclaimed: "sq_lease q i = None \<Longrightarrow>
    spec_step env T q (Heartbeat i) (Reply_error (Thrown (''Cannot heartbeat unclaimed request: '' @ i))) q"
| heartbeat_renews: "sq_lease q i \<noteq> None \<Longrightarrow> t \<in> T \<Longrightarrow>
    parse_date env (leaseExpiresAt c) = Some (t + leaseMs env) \<Longrightarrow>
    spec_step env T q (Heartbeat i) (Reply_claim c) (q\<lparr>sq_lease := (sq_lease q)(i \<mapsto> t + leaseMs env)\<rparr>)"
| complete_invalid: "validateAgentResult (parse_date env) j = Inl is \<Longrightarrow>
    spec_step env T q (Complete j) (Reply_error (Validation_failed is)) q"
| complete_again: "validateAgentResult (parse_date env) j = Inr r \<Longrightarrow> sq_done q (ares_requestId r) \<noteq> None \<Longrightarrow>
    spec_step env T q (Complete j)
      (Reply_error (Thrown (''AgentResult already exists for request: '' @ ares_requestId r))) q"
| complete_new: "validateAgentResult (parse_date env) j = Inr r \<Longrightarrow> sq_done q (ares_requestId r) = None \<Longrightarrow>
    spec_step env T q (Complete j) (Reply_result r)
      (q\<lparr>sq_done := (sq_done q)(ares_requestId r \<mapsto> ares_status r)\<rparr>)"

text \<open>
  What the directory stands for. An id that sanitizing changes can share its files with
  another one; the ids of the calls are taken plain.
\<close>

definition plain_id :: "string \<Rightarrow> bool" where
  "plain_id i \<longleftrightarrow> sanitizeId i = i"

definition call_plain :: "queue_env \<Rightarrow> queue_call \<Rightarrow> bool" where
  "call_plain env call \<longleftrightarrow>
     (case call of
        Enqueue j \<Rightarrow> (case validateAgentRequest (parse_date env) j of Inl _ \<Rightarrow> True | Inr r \<Rightarrow> plain_id (req_id r))
      | Claim_next \<Rightarrow> True
      | Heartbeat i \<Rightarrow> plain_id i \<and> prefixed_ok ''AR-'' i
      | Complete j \<Rightarrow> (case validateAgentResult (parse_date env) j of Inl _ \<Rightarrow> True | Inr r \<Rightarrow> plain_id (ares_requestId r)))"

definition request_ids :: "queue_env \<Rightarrow> queue_files \<Rightarrow> string list" where
  "request_ids env st =
     (case listRequests env st of Inl _ \<Rightarrow> [] | Inr rs \<Rightarrow> map req_id rs)"

definition lease_of :: "queue_env \<Rightarrow> queue_files \<Rightarrow> string \<Rightarrow> int option" where
  "lease_of env st i =
     (case readClaim i st of None \<Rightarrow> None | Some c \<Rightarrow> parse_date env (leaseExpiresAt c))"

definition result_of :: "queue_env \<Rightarrow> queue_files \<Rightarrow> string \<Rightarrow> agent_result option" where
  "result_of env st i =
     (case map_of (qs_results st) (id_file i) of
        None \<Rightarrow> None
      | Some j \<Rightarrow> (case validateAgentResult (parse_date env) j of Inl _ \<Rightarrow> None | Inr r \<Rightarrow> Some r))"

definition queue_abs :: "queue_env \<Rightarrow> queue_files \<Rightarrow> spec_queue" where
  "queue_abs env st =
     \<lparr>sq_ids = request_ids env st,
      sq_lease = (\<lambda>i. if plain_id i then lease_of env st i else None),
      sq_done = (\<lambda>i. if plain_id i then map_option ares_status (result_of env st i) else None)\<rparr>"

text \<open>
  The host: what \<open>toISOString\<close> writes of a time that the queue writes is a time stamp that
  \<open>Date.parse\<close> reads as that time. The worker's name is not blank.
\<close>

definition env_ok :: "queue_env \<Rightarrow> bool" where
  "env_ok env \<longleftrightarrow> text_ok (queue_actor env) \<and>
     (\<forall>n. \<forall>t \<in> {clock env n, clock env n + leaseMs env}.
        text_ok (to_iso env t) \<and> parse_date env (to_iso env t) = Some t)"

definition stored_requests :: "queue_env \<Rightarrow> json list \<Rightarrow> agent_request list \<Rightarrow> bool" where
  "stored_requests env js rs \<longleftrightarrow>
     js = map agent_request_json rs \<and> list_all (agent_request_ok (parse_date env)) rs \<and>
     distinct (map req_id rs) \<and> list_all (\<lambda>r. plain_id (req_id r)) rs"

definition stored_results :: "queue_env \<Rightarrow> (string \<times> json) list \<Rightarrow> agent_result list \<Rightarrow> bool" where
  "stored_results env kvs rs \<longleftrightarrow>
     kvs = map (\<lambda>r. (id_file (ares_requestId r), agent_result_json r)) rs \<and>
     list_all (agent_result_ok (parse_date env)) rs \<and>
     distinct (map ares_requestId rs) \<and> list_all (\<lambda>r. plain_id (ares_requestId r)) rs"

definition queue_inv :: "queue_env \<Rightarrow> queue_files \<Rightarrow> bool" where
  "queue_inv env st \<longleftrightarrow>
     (\<exists>rs. stored_requests env (qs_requests st) rs) \<and>
     (\<exists>rs. stored_results env (qs_results st) rs) \<and>
     (\<exists>es. qs_events st = map queue_event_json es \<and> list_all (queue_event_ok (parse_date env)) es) \<and>
     (\<forall>c \<in> snd ` set (qs_claims st). parse_date env (leaseExpiresAt c) \<noteq> None)"

section \<open>Lemmas\<close>

lemma validate_all_stored:
  assumes "\<And>a. P a \<Longrightarrow> f (g a) = Inr a"
  shows "list_all P as \<Longrightarrow> validate_all f (map g as) = Inr as"
  using assms by (induction as) auto

lemma listRequests_stored:
  "stored_requests env (qs_requests st) rs \<Longrightarrow> listRequests env st = Inr rs"
  by (simp add: listRequests_def stored_requests_def
      validate_all_stored [where P = "agent_request_ok (parse_date env)", OF validateAgentRequest_stored])

lemma listResults_stored:
  assumes "stored_results env (qs_results st) rs"
  shows "listResults env st = Inr rs"
proof -
  have "map snd (qs_results st) = map agent_result_json rs"
    using assms by (simp add: stored_results_def comp_def)
  with assms show ?thesis
    by (simp add: listResults_def stored_results_def del: map_map list.map_comp
        add: validate_all_stored [where P = "agent_result_ok (parse_date env)", OF validateAgentResult_stored])
qed

lemma id_file_plain: "plain_id a \<Longrightarrow> plain_id b \<Longrightarrow> id_file a = id_file b \<longleftrightarrow> a = b"
  by (simp add: id_file_def plain_id_def)

lemma map_of_file_rs:
  "list_all (\<lambda>r. plain_id (ares_requestId r)) rs \<Longrightarrow> plain_id i \<Longrightarrow>
     map_of (map (\<lambda>r. (id_file (ares_requestId r), agent_result_json r)) rs) (id_file i) =
     map_option agent_result_json (find (\<lambda>r. ares_requestId r = i) rs)"
  by (induction rs) (auto simp: id_file_plain)

lemma find_None_notin: "find (\<lambda>r. f r = i) rs = None \<longleftrightarrow> i \<notin> f ` set rs"
  by (auto simp: find_None_iff)

lemma result_of_stored:
  assumes "stored_results env (qs_results st) rs" "plain_id i"
  shows "result_of env st i = find (\<lambda>r. ares_requestId r = i) rs"
proof (cases "find (\<lambda>r. ares_requestId r = i) rs")
  case None
  with assms show ?thesis by (simp add: result_of_def stored_results_def map_of_file_rs)
next
  case (Some r)
  with find_Some_in [OF Some] assms have "agent_result_ok (parse_date env) r"
    by (auto simp: stored_results_def list_all_iff)
  with assms Some show ?thesis
    by (simp add: result_of_def stored_results_def map_of_file_rs validateAgentResult_stored)
qed

lemma queue_event_at_ok:
  assumes "env_ok env" "prefixed_ok ''AR-'' i"
  shows "queue_event_ok (parse_date env) (queue_event_at env type i details t (clock env n))"
proof -
  let ?e = "queue_event_at env type i details t (clock env n)"
  have "dropWhile is_ws (qe_id ?e) = qe_id ?e" by (simp add: queue_event_at_def is_ws_code)
  then have "text_ok (qe_id ?e)"
    by (simp add: text_ok_def trim_def queue_event_at_def dropWhile_eq_Nil_conv is_ws_code)
  moreover have "starts_with ''QE-'' (qe_id ?e)" by (simp add: queue_event_at_def)
  ultimately show ?thesis
    using assms by (auto simp: queue_event_ok_def prefixed_ok_def time_ok_def env_ok_def queue_event_at_def)
qed

definition with_event :: "json \<Rightarrow> queue_files \<Rightarrow> queue_files" where
  "with_event e st = st\<lparr>ticks := Suc (Suc (ticks st)), qs_events := qs_events st @ [e]\<rparr>"

lemma with_event_simps [simp]:
  "qs_requests (with_event e st) = qs_requests st" "qs_claims (with_event e st) = qs_claims st"
  "qs_results (with_event e st) = qs_results st" "ticks (with_event e st) = Suc (Suc (ticks st))"
  "qs_events (with_event e st) = qs_events st @ [e]"
  by (simp_all add: with_event_def)

lemma then_event_ok:
  assumes "env_ok env" "prefixed_ok ''AR-'' i"
  shows "\<exists>e. queue_event_ok (parse_date env) e \<and>
    then_event env type i details v st = (with_event (queue_event_json e) st, Inr v)"
proof -
  let ?e = "queue_event_at env type i details (clock env (ticks st)) (clock env (Suc (ticks st)))"
  have "queue_event_ok (parse_date env) ?e" using assms by (rule queue_event_at_ok)
  moreover from validateQueueEvent_stored [OF this]
  have "then_event env type i details v st = (with_event (queue_event_json ?e) st, Inr v)"
    by (simp add: then_event_def appendEvent_def tick_def with_event_def)
  ultimately show ?thesis by blast
qed

lemma queue_inv_with_event:
  assumes "queue_event_ok (parse_date env) e" "queue_inv env st"
  shows "queue_inv env (with_event (queue_event_json e) st)"
proof -
  from assms(2) obtain es where "qs_events st = map queue_event_json es"
      "list_all (queue_event_ok (parse_date env)) es"
    by (auto simp: queue_inv_def)
  with assms(1) have "qs_events st @ [queue_event_json e] = map queue_event_json (es @ [e])"
      "list_all (queue_event_ok (parse_date env)) (es @ [e])"
    by simp_all
  with assms(2) show ?thesis unfolding queue_inv_def with_event_simps by blast
qed

lemma queue_abs_cong:
  "qs_requests st = qs_requests st' \<Longrightarrow> qs_claims st = qs_claims st' \<Longrightarrow> qs_results st = qs_results st' \<Longrightarrow>
     queue_abs env st = queue_abs env st'"
  by (simp add: queue_abs_def request_ids_def listRequests_def lease_of_def readClaim_def result_of_def
      fun_eq_iff)

lemma queue_abs_with_event [simp]: "queue_abs env (with_event e st) = queue_abs env st"
  by (rule queue_abs_cong) simp_all

lemma queue_abs_ticks [simp]: "queue_abs env (ticks_update f st) = queue_abs env st"
  by (rule queue_abs_cong) simp_all

lemma queue_inv_ticks [simp]: "queue_inv env (ticks_update f st) = queue_inv env st"
  by (simp add: queue_inv_def)

lemma abs_ids: "stored_requests env (qs_requests st) rs \<Longrightarrow> sq_ids (queue_abs env st) = map req_id rs"
  by (simp add: queue_abs_def request_ids_def listRequests_stored)

lemma abs_done:
  "stored_results env (qs_results st) rs \<Longrightarrow> plain_id i \<Longrightarrow>
     sq_done (queue_abs env st) i = map_option ares_status (find (\<lambda>r. ares_requestId r = i) rs)"
  by (simp add: queue_abs_def result_of_stored)

lemma snd_update_subset: "snd ` set (AList.update k v kvs) \<subseteq> insert v (snd ` set kvs)"
  by (induction kvs) auto

lemma write_claim_simps [simp]:
  "qs_requests (write_claim i c st) = qs_requests st" "qs_results (write_claim i c st) = qs_results st"
  "qs_events (write_claim i c st) = qs_events st" "ticks (write_claim i c st) = ticks st"
  by (simp_all add: write_claim_def)

lemma queue_inv_write_claim:
  assumes "queue_inv env st" "parse_date env (leaseExpiresAt c) = Some t"
  shows "queue_inv env (write_claim i c st)"
proof -
  have "\<forall>c' \<in> snd ` set (qs_claims (write_claim i c st)). parse_date env (leaseExpiresAt c') \<noteq> None"
  proof
    fix c' assume "c' \<in> snd ` set (qs_claims (write_claim i c st))"
    then have "c' = c \<or> c' \<in> snd ` set (qs_claims st)"
      using snd_update_subset [of "id_file i" c "qs_claims st"] by (auto simp: write_claim_def)
    with assms show "parse_date env (leaseExpiresAt c') \<noteq> None"
      unfolding queue_inv_def by (metis option.distinct(1))
  qed
  with assms(1) show ?thesis unfolding queue_inv_def write_claim_simps by blast
qed

lemma queue_abs_write_claim:
  assumes "plain_id i" "parse_date env (leaseExpiresAt c) = Some t"
  shows "queue_abs env (write_claim i c st) =
    (queue_abs env st)\<lparr>sq_lease := (sq_lease (queue_abs env st))(i \<mapsto> t)\<rparr>"
  using assms
  by (auto simp: queue_abs_def request_ids_def listRequests_def lease_of_def readClaim_def result_of_def
      write_claim_def fun_eq_iff update_conv id_file_plain)

lemma spec_busy_mono: "spec_busy T q i \<Longrightarrow> T \<subseteq> T' \<Longrightarrow> spec_busy T' q i"
  by (auto simp: spec_busy_def)

section \<open>The operations keep the promise\<close>

text \<open>The times of the readings of the clock that a call makes.\<close>

definition readings :: "queue_env \<Rightarrow> queue_files \<Rightarrow> queue_files \<Rightarrow> int set" where
  "readings env st st' = clock env ` {ticks st..<ticks st'}"

lemma readings_mono:
  "ticks st \<le> ticks st1 \<Longrightarrow> ticks st1' \<le> ticks st' \<Longrightarrow> readings env st1 st1' \<subseteq> readings env st st'"
  by (auto simp: readings_def)

lemma readings_in: "ticks st \<le> n \<Longrightarrow> n < ticks st' \<Longrightarrow> clock env n \<in> readings env st st'"
  by (simp add: readings_def)

lemma env_lease: "env_ok env \<Longrightarrow> parse_date env (to_iso env (clock env n + leaseMs env)) = Some (clock env n + leaseMs env)"
  by (simp add: env_ok_def)

lemma claim_active_lease:
  "plain_id i \<Longrightarrow> readClaim i st = Some c \<Longrightarrow> claim_active_at env c t \<longleftrightarrow> spec_leased (queue_abs env st) i t"
  by (simp add: spec_leased_def queue_abs_def lease_of_def claim_active_at_def)

text \<open>What one round of the loop that claims request \<open>r\<close> leaves.\<close>

lemma claim_written:
  assumes "env_ok env" "queue_inv env st" "prefixed_ok ''AR-'' i" "plain_id i"
    and c: "leaseExpiresAt c = to_iso env (clock env n + leaseMs env)"
    and run: "then_event env type i details v (write_claim i c (st\<lparr>ticks := m\<rparr>)) = (st', out)"
  shows "out = Inr v \<and> queue_inv env st' \<and> ticks st' = Suc (Suc m) \<and>
    queue_abs env st' = (queue_abs env st)\<lparr>sq_lease := (sq_lease (queue_abs env st))(i \<mapsto> clock env n + leaseMs env)\<rparr>"
proof -
  let ?w = "write_claim i c (st\<lparr>ticks := m\<rparr>)"
  have lease: "parse_date env (leaseExpiresAt c) = Some (clock env n + leaseMs env)"
    unfolding c by (rule env_lease [OF assms(1)])
  from then_event_ok [OF assms(1,3), of type details v ?w] run
  obtain e where e: "queue_event_ok (parse_date env) e" and st': "st' = with_event (queue_event_json e) ?w"
    and out: "out = Inr v" by auto
  have "queue_inv env ?w" using queue_inv_write_claim [of env "st\<lparr>ticks := m\<rparr>", OF _ lease] assms(2) by simp
  with e have "queue_inv env st'" unfolding st' by (rule queue_inv_with_event)
  moreover have "queue_abs env st' = (queue_abs env st)\<lparr>sq_lease := (sq_lease (queue_abs env st))(i \<mapsto> clock env n + leaseMs env)\<rparr>"
    unfolding st' using queue_abs_write_claim [OF assms(4) lease, of "st\<lparr>ticks := m\<rparr>"] by simp
  ultimately show ?thesis by (simp add: st' out)
qed

definition claim_outcome :: "queue_env \<Rightarrow> queue_files \<Rightarrow> agent_request list \<Rightarrow> queue_files \<Rightarrow>
    scheduler_error + agent_request option \<Rightarrow> bool" where
  "claim_outcome env st rs st' out \<longleftrightarrow>
     queue_inv env st' \<and> ticks st \<le> ticks st' \<and>
     (case out of
        Inl _ \<Rightarrow> False
      | Inr None \<Rightarrow> queue_abs env st' = queue_abs env st \<and>
          (\<forall>r \<in> set rs. spec_busy (readings env st st') (queue_abs env st) (req_id r))
      | Inr (Some r) \<Rightarrow> \<exists>before after t. rs = before @ r # after \<and> t \<in> readings env st st' \<and>
          (\<forall>a \<in> set before. spec_busy (readings env st st') (queue_abs env st) (req_id a)) \<and>
          spec_claimable (readings env st st') (queue_abs env st) (req_id r) \<and>
          queue_abs env st' = (queue_abs env st)\<lparr>sq_lease := (sq_lease (queue_abs env st))(req_id r \<mapsto> t + leaseMs env)\<rparr>)"

lemma claim_outcomeI:
  assumes "queue_inv env st'" "ticks st \<le> ticks st'" "rs = before @ r # after" "t \<in> readings env st st'"
    and "\<forall>a \<in> set before. spec_busy (readings env st st') (queue_abs env st) (req_id a)"
    and "spec_claimable (readings env st st') (queue_abs env st) (req_id r)"
    and "queue_abs env st' = (queue_abs env st)\<lparr>sq_lease := (sq_lease (queue_abs env st))(req_id r \<mapsto> t + leaseMs env)\<rparr>"
  shows "claim_outcome env st rs st' (Inr (Some r))"
  unfolding claim_outcome_def sum.case option.case
  using assms by (intro conjI exI [of _ before] exI [of _ after] exI [of _ t]) assumption+

lemma claim_outcome_skip:
  assumes "claim_outcome env (st\<lparr>ticks := m\<rparr>) rs st' out" "ticks st \<le> m"
    and "spec_busy (readings env st (st\<lparr>ticks := m\<rparr>)) (queue_abs env st) (req_id a)"
  shows "claim_outcome env st (a # rs) st' out"
proof -
  have le: "m \<le> ticks st'" and inv: "queue_inv env st'" using assms(1) by (auto simp: claim_outcome_def)
  have sub: "readings env (st\<lparr>ticks := m\<rparr>) st' \<subseteq> readings env st st'"
    using assms(2) by (intro readings_mono) simp_all
  have "spec_busy (readings env st st') (queue_abs env st) (req_id a)"
    using assms(3) by (rule spec_busy_mono) (intro readings_mono, simp_all add: le)
  note a = this
  show ?thesis
  proof (cases out)
    case (Inr res)
    show ?thesis
    proof (cases res)
      case None
      with Inr assms(1) a sub le assms(2) show ?thesis
        by (auto simp: claim_outcome_def intro: spec_busy_mono)
    next
      case (Some r)
      with Inr assms(1) obtain before after t where
        *: "rs = before @ r # after" "t \<in> readings env (st\<lparr>ticks := m\<rparr>) st'"
          "\<forall>b \<in> set before. spec_busy (readings env (st\<lparr>ticks := m\<rparr>) st') (queue_abs env st) (req_id b)"
          "spec_claimable (readings env (st\<lparr>ticks := m\<rparr>) st') (queue_abs env st) (req_id r)"
          "queue_abs env st' = (queue_abs env st)\<lparr>sq_lease := (sq_lease (queue_abs env st))(req_id r \<mapsto> t + leaseMs env)\<rparr>"
        by (auto simp: claim_outcome_def)
      have "a # rs = (a # before) @ r # after" using *(1) by simp
      moreover have "\<forall>b \<in> set (a # before). spec_busy (readings env st st') (queue_abs env st) (req_id b)"
        using *(3) a sub by (auto intro: spec_busy_mono)
      moreover have "spec_claimable (readings env st st') (queue_abs env st) (req_id r)"
        using *(4) sub by (auto simp: spec_claimable_def)
      moreover have "t \<in> readings env st st'" "ticks st \<le> ticks st'" using *(2) sub le assms(2) by auto
      ultimately show ?thesis
        unfolding Inr Some using *(5) inv by (intro claim_outcomeI [where t = t])
    qed
  qed (use assms(1) in \<open>simp add: claim_outcome_def\<close>)
qed

lemma claim_loop_outcome:
  assumes "env_ok env"
  shows "queue_inv env st \<Longrightarrow>
    list_all (\<lambda>r. prefixed_ok ''AR-'' (req_id r) \<and> plain_id (req_id r) \<and>
      (req_id r \<in> set completed \<longleftrightarrow> sq_done (queue_abs env st) (req_id r) \<noteq> None)) rs \<Longrightarrow>
    claim_loop env completed rs st = (st', out) \<Longrightarrow> claim_outcome env st rs st' out"
proof (induction rs arbitrary: st)
  case Nil
  then show ?case by (auto simp: claim_outcome_def)
next
  case (Cons r rs)
  let ?i = "req_id r"
  let ?t = "clock env (ticks st)"
  let ?c = "\<lparr>cl_requestId = ?i, cl_actor = queue_actor env, claimedAt = to_iso env ?t,
    heartbeatAt = to_iso env ?t, leaseExpiresAt = to_iso env (?t + leaseMs env)\<rparr>"
  have i: "prefixed_ok ''AR-'' ?i" "plain_id ?i"
    and fin: "?i \<in> set completed \<longleftrightarrow> sq_done (queue_abs env st) ?i \<noteq> None" using Cons.prems by auto
  have rest: "claim_outcome env (st\<lparr>ticks := m\<rparr>) rs st' out"
    if "claim_loop env completed rs (st\<lparr>ticks := m\<rparr>) = (st', out)" for m
    using Cons.IH [of "st\<lparr>ticks := m\<rparr>"] Cons.prems that by simp
  have skip: "st = st\<lparr>ticks := ticks st\<rparr>" by simp
  show ?case
  proof (cases "?i \<in> set completed")
    case True
    with Cons.prems(3) have "claim_loop env completed rs (st\<lparr>ticks := ticks st\<rparr>) = (st', out)" by simp
    then show ?thesis
      by (rule claim_outcome_skip [OF rest]) (use fin True in \<open>simp_all add: spec_busy_def\<close>)
  next
    case False
    with fin have todo: "sq_done (queue_abs env st) ?i = None" by simp
    show ?thesis
    proof (cases "readClaim ?i st")
      case None
      with Cons.prems(3) False have
        run: "then_event env Request_claimed ?i (claimed_details env ?i False) (Some r)
           (write_claim ?i ?c (st\<lparr>ticks := Suc (ticks st)\<rparr>)) = (st', out)"
        by (simp add: createClaim_def tick_def readClaim_def)
      have "sq_lease (queue_abs env st) ?i = None"
        using None by (simp add: queue_abs_def lease_of_def)
      with todo have "spec_claimable (readings env st st') (queue_abs env st) ?i"
        by (simp add: spec_claimable_def)
      moreover note w = claim_written [OF assms Cons.prems(1) i _ run, of "ticks st"]
      then have "?t \<in> readings env st st'" by (auto intro!: readings_in)
      ultimately show ?thesis
        using w by (auto intro: claim_outcomeI [where before = "[]" and t = ?t])
    next
      case (Some c)
      let ?t2 = "clock env (Suc (ticks st))"
      note act = claim_active_lease [OF i(2) Some, of env ?t2]
      show ?thesis
      proof (cases "claim_active_at env c ?t2")
        case True
        with Cons.prems(3) False Some
        have "claim_loop env completed rs (st\<lparr>ticks := Suc (Suc (ticks st))\<rparr>) = (st', out)"
          by (simp add: createClaim_def tick_def readClaim_def isClaimActive_def)
        then show ?thesis
          by (rule claim_outcome_skip [OF rest])
             (use act True in \<open>auto simp: spec_busy_def intro!: bexI [of _ ?t2] readings_in\<close>)
      next
        case inactive: False
        with Cons.prems(3) False Some have
          run: "then_event env Request_claimed ?i (claimed_details env ?i True) (Some r)
             (write_claim ?i ?c (st\<lparr>ticks := Suc (Suc (ticks st))\<rparr>)) = (st', out)"
          by (simp add: createClaim_def tick_def readClaim_def isClaimActive_def)
        note w = claim_written [OF assms Cons.prems(1) i _ run, of "ticks st"]
        then have "?t2 \<in> readings env st st'" "?t \<in> readings env st st'" by (auto intro!: readings_in)
        moreover from this have "spec_claimable (readings env st st') (queue_abs env st) ?i"
          using todo act inactive by (auto simp: spec_claimable_def)
        ultimately show ?thesis
          using w by (auto intro: claim_outcomeI [where before = "[]" and t = ?t])
      qed
    qed
  qed
qed

definition refines_call :: "queue_env \<Rightarrow> queue_call \<Rightarrow> queue_files \<Rightarrow> bool" where
  "refines_call env call st \<longleftrightarrow>
     (let (st', reply) = queue_exec env call st
      in queue_inv env st' \<and> ticks st \<le> ticks st' \<and>
         spec_step env (readings env st st') (queue_abs env st) call reply (queue_abs env st'))"

lemma refines_callD:
  assumes "refines_call env call st" "queue_exec env call st = (st', reply)"
  shows "queue_inv env st'" "ticks st \<le> ticks st'"
    "spec_step env (readings env st st') (queue_abs env st) call reply (queue_abs env st')"
  using assms by (simp_all add: refines_call_def)

lemma queue_abs_add_request:
  assumes "stored_requests env (qs_requests st) rs"
    and "stored_requests env (qs_requests st @ [agent_request_json r]) (rs @ [r])"
  shows "queue_abs env (st\<lparr>qs_requests := qs_requests st @ [agent_request_json r]\<rparr>) =
    (queue_abs env st)\<lparr>sq_ids := sq_ids (queue_abs env st) @ [req_id r]\<rparr>"
  using assms
  by (simp add: queue_abs_def request_ids_def listRequests_stored lease_of_def readClaim_def
      result_of_def fun_eq_iff)

lemma enqueue_refines:
  assumes "env_ok env" "queue_inv env st" "call_plain env (Enqueue j)"
  shows "refines_call env (Enqueue j) st"
proof (cases "validateAgentRequest (parse_date env) j")
  case (Inl iss)
  with assms(2) show ?thesis
    by (simp add: refines_call_def reply_of_def enqueue_def spec_step.enqueue_invalid)
next
  case (Inr r)
  from assms(2) obtain rs where rs: "stored_requests env (qs_requests st) rs" by (auto simp: queue_inv_def)
  note ids = abs_ids [OF rs] and ok = validateAgentRequest_ok [OF Inr]
  have exec: "enqueue env j st = (if req_id r \<in> set (sq_ids (queue_abs env st))
      then (st, Inl (Thrown (''AgentRequest already exists in queue: '' @ req_id r)))
      else then_event env Request_enqueued (req_id r)
             [(''role'', JStr (role_str (req_role r))), (''repo'', JStr (rt_name (req_repo r))),
              (''executableSpecification'', JStr (sh_id (req_spec r)))] r
             (st\<lparr>qs_requests := qs_requests st @ [agent_request_json r]\<rparr>))"
  proof -
    have "list_ex (\<lambda>entry. req_id entry = req_id r) rs \<longleftrightarrow> req_id r \<in> set (sq_ids (queue_abs env st))"
      unfolding ids by (induction rs) auto
    then show ?thesis unfolding enqueue_def Inr listRequests_stored [OF rs] sum.case by simp
  qed
  show ?thesis
  proof (cases "req_id r \<in> set (sq_ids (queue_abs env st))")
    case True
    note spec_step.enqueue_again [OF Inr this, of "readings env st st"]
    with True exec assms(2) show ?thesis by (simp add: refines_call_def reply_of_def)
  next
    case False
    let ?st1 = "st\<lparr>qs_requests := qs_requests st @ [agent_request_json r]\<rparr>"
    have "prefixed_ok ''AR-'' (req_id r)" using ok by (simp add: agent_request_ok_def)
    from then_event_ok [OF assms(1) this] obtain e where
      e: "queue_event_ok (parse_date env) e" "enqueue env j st = (with_event (queue_event_json e) ?st1, Inr r)"
      using exec False by metis
    have rs1: "stored_requests env (qs_requests st @ [agent_request_json r]) (rs @ [r])"
      using rs False ok assms(3) Inr by (auto simp: stored_requests_def ids call_plain_def)
    then have "queue_inv env ?st1" using assms(2) by (auto simp: queue_inv_def)
    with e(1) have "queue_inv env (with_event (queue_event_json e) ?st1)" by (rule queue_inv_with_event)
    moreover note queue_abs_add_request [OF rs rs1]
    ultimately show ?thesis
      using e(2) Inr False by (simp add: refines_call_def reply_of_def spec_step.enqueue_new)
  qed
qed

lemma claim_refines:
  assumes "env_ok env" "queue_inv env st"
  shows "refines_call env Claim_next st"
proof -
  from assms(2) obtain rs where rs: "stored_requests env (qs_requests st) rs" by (auto simp: queue_inv_def)
  from assms(2) obtain rss where rss: "stored_results env (qs_results st) rss" by (auto simp: queue_inv_def)
  obtain st' out where run: "claim_loop env (map ares_requestId rss) rs st = (st', out)" by fastforce
  then have exec: "claimNext env st = (st', out)"
    by (simp add: claimNext_def listRequests_stored [OF rs] listResults_stored [OF rss])
  have "req_id r \<in> set (map ares_requestId rss) \<longleftrightarrow> sq_done (queue_abs env st) (req_id r) \<noteq> None"
    if "plain_id (req_id r)" for r
    using find_None_notin [of ares_requestId "req_id r" rss] by (auto simp: abs_done [OF rss that])
  with rs have "list_all (\<lambda>r. prefixed_ok ''AR-'' (req_id r) \<and> plain_id (req_id r) \<and>
      (req_id r \<in> set (map ares_requestId rss) \<longleftrightarrow> sq_done (queue_abs env st) (req_id r) \<noteq> None)) rs"
    unfolding stored_requests_def list_all_iff agent_request_ok_def by blast
  from claim_loop_outcome [OF assms this run] have o: "claim_outcome env st rs st' out" .
  then obtain res where res: "out = Inr res" by (cases out) (auto simp: claim_outcome_def)
  show ?thesis
  proof (cases res)
    case None
    with o res have "spec_step env (readings env st st') (queue_abs env st) Claim_next Reply_nothing (queue_abs env st')"
      by (simp add: claim_outcome_def) (rule spec_step.claim_nothing, simp add: abs_ids [OF rs])
    with o res None exec show ?thesis by (simp add: refines_call_def reply_of_def claim_outcome_def)
  next
    case (Some r)
    with o res obtain before after t where *: "rs = before @ r # after" "t \<in> readings env st st'"
      "\<forall>a \<in> set before. spec_busy (readings env st st') (queue_abs env st) (req_id a)"
      "spec_claimable (readings env st st') (queue_abs env st) (req_id r)"
      "queue_abs env st' = (queue_abs env st)\<lparr>sq_lease := (sq_lease (queue_abs env st))(req_id r \<mapsto> t + leaseMs env)\<rparr>"
      by (auto simp: claim_outcome_def)
    have "spec_step env (readings env st st') (queue_abs env st) Claim_next (Reply_claimed r) (queue_abs env st')"
      unfolding *(5)
      by (rule spec_step.claim_first [where before = "map req_id before" and after = "map req_id after"])
         (use * in \<open>simp_all add: abs_ids [OF rs]\<close>)
    with o res Some exec show ?thesis by (simp add: refines_call_def reply_of_def claim_outcome_def)
  qed
qed

lemma heartbeat_refines:
  assumes "env_ok env" "queue_inv env st" "call_plain env (Heartbeat i)"
  shows "refines_call env (Heartbeat i) st"
proof (cases "readClaim i st")
  case None
  then have "sq_lease (queue_abs env st) i = None" by (simp add: queue_abs_def lease_of_def)
  note spec_step.heartbeat_unclaimed [OF this, of env "readings env st st"]
  with None assms(2) show ?thesis
    by (simp add: refines_call_def reply_of_def heartbeat_def)
next
  case (Some c)
  have i: "plain_id i" "prefixed_ok ''AR-'' i" using assms(3) by (simp_all add: call_plain_def)
  let ?t = "clock env (ticks st)"
  let ?u = "c\<lparr>cl_actor := queue_actor env, heartbeatAt := to_iso env ?t, leaseExpiresAt := to_iso env (?t + leaseMs env)\<rparr>"
  from Some have "c \<in> snd ` set (qs_claims st)"
    by (force simp: readClaim_def dest: map_of_SomeD)
  with assms(2) have "parse_date env (leaseExpiresAt c) \<noteq> None" unfolding queue_inv_def by blast
  then have leased: "sq_lease (queue_abs env st) i \<noteq> None"
    using Some i by (simp add: queue_abs_def lease_of_def)
  obtain st' out where run: "heartbeat env i st = (st', out)" by fastforce
  then have "then_event env Request_heartbeat i
      [(''actor'', JStr (queue_actor env)), (''leaseExpiresAt'', JStr (leaseExpiresAt ?u))] ?u
      (write_claim i ?u (st\<lparr>ticks := Suc (ticks st)\<rparr>)) = (st', out)"
    using Some by (simp add: heartbeat_def tick_def Let_def)
  from claim_written [OF assms(1,2) i(2,1) _ this, of "ticks st"] have w: "out = Inr ?u" "queue_inv env st'"
    "ticks st' = Suc (Suc (Suc (ticks st)))"
    "queue_abs env st' = (queue_abs env st)\<lparr>sq_lease := (sq_lease (queue_abs env st))(i \<mapsto> ?t + leaseMs env)\<rparr>"
    by simp_all
  have "spec_step env (readings env st st') (queue_abs env st) (Heartbeat i) (Reply_claim ?u) (queue_abs env st')"
    unfolding w(4)
    by (rule spec_step.heartbeat_renews [OF leased]) (simp_all add: readings_in w(3) env_lease [OF assms(1)])
  with w run show ?thesis by (simp add: refines_call_def reply_of_def)
qed

lemma queue_abs_add_result:
  assumes "stored_results env (qs_results st) rss"
    and "stored_results env (qs_results st @ [(id_file (ares_requestId r), agent_result_json r)]) (rss @ [r])"
  shows "queue_abs env (st\<lparr>qs_results := qs_results st @ [(id_file (ares_requestId r), agent_result_json r)]\<rparr>) =
    (queue_abs env st)\<lparr>sq_done := (sq_done (queue_abs env st))(ares_requestId r \<mapsto> ares_status r)\<rparr>"
proof -
  let ?st1 = "st\<lparr>qs_results := qs_results st @ [(id_file (ares_requestId r), agent_result_json r)]\<rparr>"
  have fresh: "ares_requestId r \<notin> ares_requestId ` set rss" and plain: "plain_id (ares_requestId r)"
    using assms(2) by (auto simp: stored_results_def)
  have "find (\<lambda>a. ares_requestId a = i) (rss @ [r]) =
      (if i = ares_requestId r then Some r else find (\<lambda>a. ares_requestId a = i) rss)" for i
    using fresh by (induction rss) auto
  then have "plain_id i \<Longrightarrow> result_of env ?st1 i = (if i = ares_requestId r then Some r else result_of env st i)" for i
    using result_of_stored [OF assms(1)] result_of_stored [of env ?st1, OF _, of "rss @ [r]" i] assms(2) by simp
  with plain show ?thesis
    by (auto simp: queue_abs_def request_ids_def listRequests_def lease_of_def readClaim_def fun_eq_iff)
qed

lemma complete_refines:
  assumes "env_ok env" "queue_inv env st" "call_plain env (Complete j)"
  shows "refines_call env (Complete j) st"
proof (cases "validateAgentResult (parse_date env) j")
  case (Inl iss)
  with assms(2) show ?thesis
    by (simp add: refines_call_def reply_of_def complete_def spec_step.complete_invalid)
next
  case (Inr r)
  let ?i = "ares_requestId r"
  from assms(2) obtain rss where rss: "stored_results env (qs_results st) rss" by (auto simp: queue_inv_def)
  note ok = validateAgentResult_ok [OF Inr]
  have plain: "plain_id ?i" using assms(3) Inr by (simp add: call_plain_def)
  have stored: "map_of (qs_results st) (id_file ?i) = map_option agent_result_json (find (\<lambda>a. ares_requestId a = ?i) rss)"
    using rss plain by (simp add: stored_results_def map_of_file_rs)
  show ?thesis
  proof (cases "find (\<lambda>a. ares_requestId a = ?i) rss")
    case (Some a)
    with stored Inr have "complete env j st = (st, Inl (Thrown (''AgentResult already exists for request: '' @ ?i)))"
      by (simp add: complete_def)
    moreover have "sq_done (queue_abs env st) ?i \<noteq> None" using Some by (simp add: abs_done [OF rss plain])
    note spec_step.complete_again [OF Inr this, of "readings env st st"]
    ultimately show ?thesis
      using assms(2) by (simp add: refines_call_def reply_of_def)
  next
    case None
    let ?st1 = "st\<lparr>qs_results := qs_results st @ [(id_file ?i, agent_result_json r)]\<rparr>"
    have "prefixed_ok ''AR-'' ?i" using ok by (simp add: agent_result_ok_def)
    note event = then_event_ok [OF assms(1) this]
    have "map_of (qs_results st) (id_file ?i) = None" using None stored by simp
    then obtain ty dt where "complete env j st = then_event env ty ?i dt r ?st1"
      unfolding complete_def Inr sum.case by simp
    with event [of ty dt r ?st1] obtain e where
      e: "queue_event_ok (parse_date env) e" "complete env j st = (with_event (queue_event_json e) ?st1, Inr r)"
      by auto
    have rs1: "stored_results env (qs_results st @ [(id_file ?i, agent_result_json r)]) (rss @ [r])"
      using rss ok plain None by (auto simp: stored_results_def find_None_iff)
    then have "queue_inv env ?st1" using assms(2) by (auto simp: queue_inv_def)
    with e(1) have "queue_inv env (with_event (queue_event_json e) ?st1)" by (rule queue_inv_with_event)
    moreover have "sq_done (queue_abs env st) ?i = None" using None by (simp add: abs_done [OF rss plain])
    moreover note queue_abs_add_result [OF rss rs1]
    ultimately show ?thesis
      using e(2) Inr by (simp add: refines_call_def reply_of_def spec_step.complete_new)
  qed
qed

lemma exec_refines:
  assumes "env_ok env" "queue_inv env st" "call_plain env call"
  shows "refines_call env call st"
  using assms by (cases call) (simp_all add: enqueue_refines claim_refines heartbeat_refines complete_refines)

section \<open>Runs\<close>

lemma spec_step_claims:
  assumes "spec_step env T q Claim_next reply q'"
  obtains r before after t where "reply = Reply_claimed r" "sq_ids q = before @ req_id r # after"
      "\<forall>i \<in> set before. spec_busy T q i" "spec_claimable T q (req_id r)" "t \<in> T"
      "q' = q\<lparr>sq_lease := (sq_lease q)(req_id r \<mapsto> t + leaseMs env)\<rparr>"
  | "reply = Reply_nothing" "\<forall>i \<in> set (sq_ids q). spec_busy T q i" "q' = q"
  using assms by (cases rule: spec_step.cases) auto

lemma queue_run_Nil [simp]: "queue_run env [] st = st"
  by (simp add: queue_run_def)

lemma queue_run_Cons [simp]: "queue_run env (c # cs) st = queue_run env cs (fst (queue_exec env c st))"
  by (simp add: queue_run_def)

interpretation queue: refined_system "queue_exec env" "\<lambda>c. env_ok env \<and> call_plain env c" "queue_inv env"
  "queue_abs env" "\<lambda>st st'. spec_step env (readings env st st')" for env
proof (unfold_locales, goal_cases)
  case (1 c st)
  then show ?case using exec_refines [of env st c] by (simp add: refines_call_def split_beta Let_def)
next
  case (2 c st st' reply)
  then show ?case using refines_callD(3) [OF exec_refines] by blast
qed

lemma exec_keeps_inv:
  "env_ok env \<Longrightarrow> queue_inv env st \<Longrightarrow> call_plain env call \<Longrightarrow> queue_inv env (fst (queue_exec env call st))"
  by (rule queue.inv_exec) simp

lemma run_keeps_inv:
  assumes "env_ok env" "list_all (call_plain env) calls" "queue_inv env st"
  shows "queue_inv env (queue_run env calls st)"
  unfolding queue_run_def by (rule queue.inv_calls) (use assms in \<open>simp_all add: list_all_iff\<close>)

lemma empty_queue_inv: "queue_inv env empty_queue"
  by (auto simp: queue_inv_def empty_queue_def stored_requests_def stored_results_def)

lemma reachable_inv:
  "env_ok env \<Longrightarrow> list_all (call_plain env) calls \<Longrightarrow> queue_inv env (queue_run env calls empty_queue)"
  by (rule run_keeps_inv) (simp_all add: empty_queue_inv)

text \<open>No call, plain or not, changes a stored result.\<close>

lemma then_event_files:
  "qs_results (fst (then_event env type i details v st)) = qs_results st"
  by (simp add: then_event_def appendEvent_def tick_def split: sum.splits)

lemma claim_loop_results: "qs_results (fst (claim_loop env completed rs st)) = qs_results st"
  by (induction env completed rs st rule: claim_loop.induct)
     (auto simp: createClaim_def isClaimActive_def tick_def then_event_files split: option.splits)

lemma exec_keeps_file:
  "map_of (qs_results st) f = Some j \<Longrightarrow> map_of (qs_results (fst (queue_exec env call st))) f = Some j"
  by (cases call)
     (auto simp: reply_of_def enqueue_def claimNext_def heartbeat_def complete_def then_event_files
       claim_loop_results tick_def Let_def map_add_def split: sum.splits option.splits)

lemma exec_keeps_result:
  "result_of env st i = Some r \<Longrightarrow> result_of env (fst (queue_exec env call st)) i = Some r"
  by (cases "map_of (qs_results st) (id_file i)") (simp_all add: result_of_def exec_keeps_file)

lemma run_keeps_result:
  "result_of env st i = Some r \<Longrightarrow> result_of env (queue_run env calls st) i = Some r"
  by (induction calls arbitrary: st) (auto intro: exec_keeps_result)

text \<open>With a clock that does not go back, leases only grow.\<close>

definition lease_from :: "queue_env \<Rightarrow> int \<Rightarrow> queue_files \<Rightarrow> string \<Rightarrow> bool" where
  "lease_from env l st i \<longleftrightarrow> (\<exists>b. sq_lease (queue_abs env st) i = Some b \<and> l \<le> b)"

lemma exec_keeps_lease:
  assumes "env_ok env" "queue_inv env st" "call_plain env call" "mono (clock env)"
    and "lease_from env l st i" "l \<le> clock env (ticks st) + leaseMs env"
  shows "lease_from env l (fst (queue_exec env call st)) i \<and>
    l \<le> clock env (ticks (fst (queue_exec env call st))) + leaseMs env"
proof -
  obtain st' reply where x: "queue_exec env call st = (st', reply)" by fastforce
  with exec_refines [OF assms(1-3)]
  have s: "spec_step env (readings env st st') (queue_abs env st) call reply (queue_abs env st')"
    and le: "ticks st \<le> ticks st'" by (simp_all add: refines_call_def)
  have "l \<le> t + leaseMs env" if "t \<in> readings env st st'" for t
  proof -
    from that obtain n where "t = clock env n" "ticks st \<le> n" by (auto simp: readings_def)
    with monoD [OF assms(4), of "ticks st" n] assms(6) show ?thesis by simp
  qed
  with s assms(5) have "lease_from env l st' i"
    by (cases rule: spec_step.cases) (auto simp: lease_from_def)
  moreover have "l \<le> clock env (ticks st') + leaseMs env"
    using monoD [OF assms(4) le] assms(6) by simp
  ultimately show ?thesis by (simp add: x)
qed

lemma run_keeps_lease:
  assumes "env_ok env" "mono (clock env)"
  shows "queue_inv env st \<Longrightarrow> list_all (call_plain env) calls \<Longrightarrow> lease_from env l st i \<Longrightarrow>
    l \<le> clock env (ticks st) + leaseMs env \<Longrightarrow> lease_from env l (queue_run env calls st) i"
proof (induction calls arbitrary: st)
  case Nil
  then show ?case by simp
next
  case (Cons c cs)
  then show ?case
    using exec_keeps_lease [OF assms(1) Cons.prems(1) _ assms(2) Cons.prems(3,4), of c]
      exec_keeps_inv [OF assms(1) Cons.prems(1), of c] by simp
qed

section \<open>A sample queue\<close>

text \<open>
  A host whose clock counts the readings, with the decimal numeral as the time stamp; a
  request and a result for it.
\<close>

definition queue_sample_env :: queue_env where
  "queue_sample_env = \<lparr>queueDir = ''queue'', queue_actor = ''worker'', leaseMs = 2, clock = int,
     to_iso = int_str, parse_date = (\<lambda>s. Some (int (undec s)))\<rparr>"

definition sample_request :: agent_request where
  "sample_request = \<lparr>req_id = ''AR-1'', req_createdAt = ''0'',
     req_spec = \<lparr>sh_id = ''ES-1'', sh_nodeId = ''n'', sh_sourceIntent = None, sh_sourceRefs = [''IS-1'']\<rparr>,
     req_role = Builder, req_objective = ''o'', prompt = ''p'',
     req_repo = \<lparr>rt_provider = Local_repo, rt_owner = None, rt_name = ''r'', rt_defaultBranch = ''main'',
       rt_remoteUrl = None, rt_localPath = Some ''d''\<rparr>,
     req_branch = \<lparr>bp_mode = New_pr_branch, bp_base = ''main'', bp_prefix = ''agent''\<rparr>,
     req_policy = \<lparr>autonomyMode = Branch_pr, allowedPaths = [''src/**''],
       forbiddenActions = required_forbidden, requiresHumanApprovalFor = [], maxRuntimeMinutes = Some 5\<rparr>,
     req_context = \<lparr>ctx_summary = ''s'', ctx_artifacts = []\<rparr>, acceptanceCriteria = [''a''],
     requiredCommands = [''npm test''], expectedArtifacts = [\<lparr>ea_path = ''src/a.ts'', ea_kind = ''code''\<rparr>],
     req_evidenceRequired = [Git_diff]\<rparr>"

definition sample_result :: agent_result where
  "sample_result = \<lparr>ares_id = ''ARES-1'', ares_requestId = ''AR-1'', agentRunId = ''RUN-1'',
     ares_status = Run_failed, completedAt = ''0'', branchName = None, prUrl = None, ares_summary = ''s'',
     changedFiles = [], ares_commands = [], ares_evidence = [], refusalReason = None\<rparr>"

lemma sample_request_ok: "agent_request_ok (\<lambda>s. Some (int (undec s))) sample_request"
  by code_simp

lemma sample_result_ok: "agent_result_ok (\<lambda>s. Some (int (undec s))) sample_result"
  by code_simp

lemma queue_sample_env_ok: "env_ok queue_sample_env"
proof -
  have "text_ok (dec n)" for n
  proof (rule text_okI)
    show "\<not> is_ws (hd (dec n))" "\<not> is_ws (last (dec n))"
      using dec_digits [of "hd (dec n)" n] dec_digits [of "last (dec n)" n]
      by (auto simp: is_digit_def is_ws_def)
  qed simp
  moreover have "int_str (int n) = dec n" "int_str (int n + 2) = dec (n + 2)" for n
    by (simp_all add: int_str_def nat_add_distrib)
  moreover have "text_ok ''worker''" by code_simp
  ultimately show ?thesis by (simp add: env_ok_def queue_sample_env_def undec_dec)
qed

lemma sample_mono: "mono (clock queue_sample_env)"
  by (simp add: queue_sample_env_def mono_def)

abbreviation "enqueue_sample \<equiv> Enqueue (agent_request_json sample_request)"
abbreviation "complete_sample \<equiv> Complete (agent_result_json sample_result)"

lemma sample_calls_plain: "list_all (call_plain queue_sample_env) [enqueue_sample, Claim_next, complete_sample]"
  using validateAgentRequest_stored [OF sample_request_ok] validateAgentResult_stored [OF sample_result_ok]
  by (simp add: call_plain_def queue_sample_env_def plain_id_def sanitizeId_def sample_request_def
      sample_result_def is_upper_def is_lower_def is_digit_def)

abbreviation "second_request \<equiv> sample_request\<lparr>req_id := ''AR-2''\<rparr>"
abbreviation "sample_enqueued \<equiv> queue_run queue_sample_env [enqueue_sample] empty_queue"
abbreviation "sample_finished \<equiv> queue_run queue_sample_env [enqueue_sample, Claim_next, complete_sample] empty_queue"
abbreviation "sample_refilled \<equiv>
  queue_run queue_sample_env [Enqueue (agent_request_json second_request)] sample_finished"

lemma sample_claim: "snd (queue_exec queue_sample_env Claim_next sample_enqueued) = Reply_claimed sample_request"
  by code_simp

lemma sample_claim_again:
  "snd (queue_exec queue_sample_env Claim_next (fst (queue_exec queue_sample_env Claim_next sample_enqueued))) =
     Reply_claimed sample_request"
  by code_simp

lemma sample_finish: "result_of queue_sample_env sample_finished ''AR-1'' = Some sample_result"
  by code_simp

lemma sample_claim_second:
  "snd (queue_exec queue_sample_env Claim_next sample_refilled) = Reply_claimed second_request"
  by code_simp

lemma second_plain: "list_all (call_plain queue_sample_env) [Enqueue (agent_request_json second_request)]"
  by code_simp

section \<open>The properties\<close>



text \<open>
  C11. The JSONL queue implements the abstract queue: after any calls (with plain request ids)
  on a queue that began empty, whatever call comes next, its reply and what it does to the
  directory are a step of the abstract queue, with the clock at the times at which the call
  reads it. In particular \<open>claimNext\<close> hands out the first request that has no result and no
  running lease, and an error leaves the abstract queue as it was.
\<close>

theorem queue_refines_spec:
  assumes "env_ok env" "list_all (call_plain env) calls" "call_plain env call"
    and "st = queue_run env calls empty_queue" "queue_exec env call st = (st', reply)"
  shows "spec_step env (readings env st st') (queue_abs env st) call reply (queue_abs env st')"
  by (rule queue.spec_after_calls [of env calls empty_queue])
     (use assms in \<open>simp_all add: list_all_iff empty_queue_inv queue_run_def\<close>)

theorem queue_refines_spec_witness:
  "spec_step queue_sample_env
     (readings queue_sample_env sample_enqueued (fst (queue_exec queue_sample_env Claim_next sample_enqueued)))
     (queue_abs queue_sample_env sample_enqueued) Claim_next (Reply_claimed sample_request)
     (queue_abs queue_sample_env (fst (queue_exec queue_sample_env Claim_next sample_enqueued)))"
proof (rule queue_refines_spec [OF queue_sample_env_ok])
  show "list_all (call_plain queue_sample_env) [enqueue_sample]" "call_plain queue_sample_env Claim_next"
    using sample_calls_plain by simp_all
  show "queue_exec queue_sample_env Claim_next sample_enqueued =
    (fst (queue_exec queue_sample_env Claim_next sample_enqueued), Reply_claimed sample_request)"
    using sample_claim by (metis prod.collapse)
qed simp

text \<open>
  C13. A result is stored once: after any further calls it is the result of the request
  still, and no call hands the request out again.
\<close>

theorem results_are_final:
  assumes "env_ok env" "list_all (call_plain env) before" "list_all (call_plain env) after"
    and "plain_id i" "result_of env (queue_run env before empty_queue) i = Some r"
    and "st = queue_run env after (queue_run env before empty_queue)"
    and "queue_exec env Claim_next st = (st', Reply_claimed request)"
  shows "result_of env st i = Some r \<and> req_id request \<noteq> i"
proof -
  have kept: "result_of env st i = Some r" unfolding assms(6) by (rule run_keeps_result) (rule assms(5))
  have inv: "queue_inv env st"
    unfolding assms(6) by (rule run_keeps_inv [OF assms(1,3) reachable_inv [OF assms(1,2)]])
  have "spec_step env (readings env st st') (queue_abs env st) Claim_next (Reply_claimed request) (queue_abs env st')"
    by (rule refines_callD [OF claim_refines [OF assms(1) inv] assms(7)])
  then have "sq_done (queue_abs env st) (req_id request) = None"
    by (cases rule: spec_step_claims) (auto simp: spec_claimable_def)
  with kept assms(4) show ?thesis by (auto simp: queue_abs_def)
qed

theorem results_are_final_witness:
  "result_of queue_sample_env sample_refilled ''AR-1'' = Some sample_result \<and> req_id second_request \<noteq> ''AR-1''"
proof (rule results_are_final [OF queue_sample_env_ok sample_calls_plain second_plain _ sample_finish refl])
  show "plain_id ''AR-1''" by code_simp
  show "queue_exec queue_sample_env Claim_next sample_refilled =
    (fst (queue_exec queue_sample_env Claim_next sample_refilled), Reply_claimed second_request)"
    using sample_claim_second by (metis prod.collapse)
qed

text \<open>
  C12. Leases exclude each other: with a clock that does not go back, when a request that was
  claimed is handed out again, whatever calls came between, then the call that does so has
  read the clock at a time at which the first claim's lease was over.
\<close>

theorem lease_excludes:
  assumes "env_ok env" "mono (clock env)" "list_all (call_plain env) before" "list_all (call_plain env) between"
    and "queue_exec env Claim_next (queue_run env before empty_queue) = (st1, Reply_claimed r)"
    and "st2 = queue_run env between st1" "queue_exec env Claim_next st2 = (st3, Reply_claimed r')"
    and "req_id r' = req_id r"
  shows "\<exists>t \<in> readings env st2 st3.
    clock env (ticks (queue_run env before empty_queue)) + leaseMs env \<le> t"
proof -
  let ?st = "queue_run env before empty_queue" and ?l = "clock env (ticks (queue_run env before empty_queue)) + leaseMs env"
  have inv: "queue_inv env ?st" by (rule reachable_inv [OF assms(1,3)])
  have ref: "refines_call env Claim_next ?st" by (rule claim_refines [OF assms(1) inv])
  then have "spec_step env (readings env ?st st1) (queue_abs env ?st) Claim_next (Reply_claimed r) (queue_abs env st1)"
    and inv1: "queue_inv env st1" and le: "ticks ?st \<le> ticks st1"
    by (rule refines_callD [OF _ assms(5)])+
  then obtain t where t: "t \<in> readings env ?st st1"
      "sq_lease (queue_abs env st1) (req_id r) = Some (t + leaseMs env)"
    by (cases rule: spec_step_claims) auto
  then obtain n where "t = clock env n" "ticks ?st \<le> n" by (auto simp: readings_def)
  with t have "lease_from env ?l st1 (req_id r)" using monoD [OF assms(2), of "ticks ?st" n] by (auto simp: lease_from_def)
  moreover have "?l \<le> clock env (ticks st1) + leaseMs env" using monoD [OF assms(2) le] by simp
  ultimately have "lease_from env ?l st2 (req_id r)"
    unfolding assms(6) by (rule run_keeps_lease [OF assms(1,2) inv1 assms(4)])
  then obtain b where b: "sq_lease (queue_abs env st2) (req_id r) = Some b" "?l \<le> b"
    by (auto simp: lease_from_def)
  have inv2: "queue_inv env st2" unfolding assms(6) by (rule run_keeps_inv [OF assms(1,4) inv1])
  have "spec_step env (readings env st2 st3) (queue_abs env st2) Claim_next (Reply_claimed r') (queue_abs env st3)"
    by (rule refines_callD [OF claim_refines [OF assms(1) inv2] assms(7)])
  then have "spec_claimable (readings env st2 st3) (queue_abs env st2) (req_id r)"
    by (cases rule: spec_step_claims) (auto simp: assms(8))
  with b(1) obtain t where "t \<in> readings env st2 st3" "b \<le> t"
    by (auto simp: spec_claimable_def spec_leased_def)
  with b(2) show ?thesis by (intro bexI [of _ t]) simp_all
qed

theorem lease_excludes_witness:
  "\<exists>t \<in> readings queue_sample_env (fst (queue_exec queue_sample_env Claim_next sample_enqueued))
       (fst (queue_exec queue_sample_env Claim_next (fst (queue_exec queue_sample_env Claim_next sample_enqueued)))).
     clock queue_sample_env (ticks sample_enqueued) + leaseMs queue_sample_env \<le> t"
proof (rule lease_excludes [OF queue_sample_env_ok sample_mono])
  show "list_all (call_plain queue_sample_env) [enqueue_sample]" "list_all (call_plain queue_sample_env) []"
    using sample_calls_plain by simp_all
  show "queue_exec queue_sample_env Claim_next sample_enqueued =
    (fst (queue_exec queue_sample_env Claim_next sample_enqueued), Reply_claimed sample_request)"
    using sample_claim by (metis prod.collapse)
  show "queue_exec queue_sample_env Claim_next (fst (queue_exec queue_sample_env Claim_next sample_enqueued)) =
    (fst (queue_exec queue_sample_env Claim_next (fst (queue_exec queue_sample_env Claim_next sample_enqueued))),
     Reply_claimed sample_request)"
    using sample_claim_again by (metis prod.collapse)
qed simp_all

text \<open>
  C14. The queue does not starve: when some request has no result, and it is unclaimed or its
  lease is over at every later reading of the clock, then \<open>claimNext\<close> hands out a request that
  has no result.
\<close>

theorem claim_makes_progress:
  assumes "env_ok env" "list_all (call_plain env) calls" "st = queue_run env calls empty_queue"
    and "i \<in> set (request_ids env st)" "plain_id i" "result_of env st i = None"
    and "\<forall>n \<ge> ticks st. \<not> spec_leased (queue_abs env st) i (clock env n)"
  shows "\<exists>st' r. queue_exec env Claim_next st = (st', Reply_claimed r) \<and> result_of env st (req_id r) = None"
proof -
  obtain st' reply where x: "queue_exec env Claim_next st = (st', reply)" by fastforce
  have inv: "queue_inv env st" unfolding assms(3) by (rule reachable_inv [OF assms(1,2)])
  have "spec_step env (readings env st st') (queue_abs env st) Claim_next reply (queue_abs env st')"
    by (rule refines_callD [OF claim_refines [OF assms(1) inv] x])
  then show ?thesis
  proof (cases rule: spec_step_claims)
    case (1 r before after t)
    from inv obtain rs where rs: "stored_requests env (qs_requests st) rs" by (auto simp: queue_inv_def)
    have "req_id r \<in> set (sq_ids (queue_abs env st))" using 1(2) by simp
    with rs have "plain_id (req_id r)" unfolding abs_ids [OF rs] by (auto simp: stored_requests_def list_all_iff)
    with 1 x show ?thesis by (auto simp: spec_claimable_def queue_abs_def)
  next
    case 2
    have "i \<in> set (sq_ids (queue_abs env st))" using assms(4) by (simp add: queue_abs_def)
    with 2(2) have "spec_busy (readings env st st') (queue_abs env st) i" by blast
    with assms(5-7) show ?thesis by (auto simp: spec_busy_def readings_def queue_abs_def)
  qed
qed

theorem claim_makes_progress_witness:
  "\<exists>st' r. queue_exec queue_sample_env Claim_next sample_enqueued = (st', Reply_claimed r) \<and>
     result_of queue_sample_env sample_enqueued (req_id r) = None"
proof (rule claim_makes_progress [OF queue_sample_env_ok _ refl, where i = "''AR-1''"])
  show "list_all (call_plain queue_sample_env) [enqueue_sample]" using sample_calls_plain by simp
  show "''AR-1'' \<in> set (request_ids queue_sample_env sample_enqueued)" "plain_id ''AR-1''"
    "result_of queue_sample_env sample_enqueued ''AR-1'' = None" by code_simp+
  have "sq_lease (queue_abs queue_sample_env sample_enqueued) ''AR-1'' = None" by code_simp
  then show "\<forall>n \<ge> ticks sample_enqueued.
      \<not> spec_leased (queue_abs queue_sample_env sample_enqueued) ''AR-1'' (clock queue_sample_env n)"
    by (simp add: spec_leased_def)
qed

end
