(* ===== verification/Agent_Runner.thy ===== *)
theory Agent_Runner
  imports Agent_Queue
begin

text \<open>
  The commands the autonomous scheduler runs for an agent request
  (\<open>packages/autonomous-scheduler/src/index.ts\<close>): the plan of a Codex run, its execution, the
  commit of what the worker changed, the required commands and the pull request. A command
  runs through an executor, a parameter: it takes the command and the world, and either
  rejects or resolves with the result. Each step keeps a trace of the commands it ran.
\<close>

section \<open>Commands\<close>

datatype run_phase = Preflight | Codex | Commit | Verification | Pull_request

record runner_command =
  rc_command :: string
  rc_args :: "string list"
  rc_cwd :: string
  rc_timeoutMs :: "int option"

record command_result =
  cr_command :: string
  cr_args :: "string list"
  cr_cwd :: string
  cr_exitCode :: int
  cr_stdout :: string
  cr_stderr :: string
  cr_startedAt :: string
  cr_completedAt :: string
  cr_timedOut :: bool
  cr_signal :: "string option"
  cr_phase :: "run_phase option"

type_synonym 'w command_executor = "runner_command \<Rightarrow> 'w \<Rightarrow> 'w \<times> (string + command_result)"

text \<open>What a step did: the commands it ran, each with its result, in order.\<close>

type_synonym trace = "(runner_command \<times> command_result) list"

definition redactCommandArgs :: "string \<Rightarrow> string list \<Rightarrow> string list" where
  "redactCommandArgs command args =
     (if command \<noteq> ''codex'' then args
      else if args \<noteq> [] \<and> hd args = ''exec'' \<and> length args > 1
        then butlast args @ [''<prompt omitted>'']
      else args)"

definition stringify :: "string \<Rightarrow> string list \<Rightarrow> string" where
  "stringify command args = join '' '' (command # redactCommandArgs command args)"

definition stringifyCommand :: "runner_command \<Rightarrow> string" where
  "stringifyCommand c = stringify (rc_command c) (rc_args c)"

definition stringifyResult :: "command_result \<Rightarrow> string" where
  "stringifyResult r = stringify (cr_command r) (cr_args r)"

definition buildRequiredCommand :: "string \<Rightarrow> string \<Rightarrow> string \<Rightarrow> runner_command" where
  "buildRequiredCommand shell repoRoot command =
     \<lparr>rc_command = shell, rc_args = [''-lc'', command], rc_cwd = repoRoot, rc_timeoutMs = None\<rparr>"

definition formatCommandOutput :: "command_result \<Rightarrow> string" where
  "formatCommandOutput r = join [nl]
     [''$ '' @ stringifyResult r, [], ''exitCode: '' @ int_str (cr_exitCode r), ''cwd: '' @ cr_cwd r,
      ''startedAt: '' @ cr_startedAt r, ''completedAt: '' @ cr_completedAt r, [], ''stdout:'', cr_stdout r,
      [], ''stderr:'', cr_stderr r, []]"

section \<open>Worker output\<close>

text \<open>A regular expression that is tried at each position of a text, from the left.\<close>

fun first_match :: "(string \<Rightarrow> 'a option) \<Rightarrow> string \<Rightarrow> 'a option" where
  "first_match f [] = f []"
| "first_match f (c # s) = (case f (c # s) of Some a \<Rightarrow> Some a | None \<Rightarrow> first_match f s)"

definition skip_ws :: "string \<Rightarrow> string" where
  "skip_ws s = dropWhile is_ws s"

text \<open>\<open>(^|\n)\s*\<close> and then \<open>f\<close>.\<close>

definition at_line :: "(string \<Rightarrow> 'a option) \<Rightarrow> string \<Rightarrow> 'a option" where
  "at_line f text =
     (case f (skip_ws text) of
        Some a \<Rightarrow> Some a
      | None \<Rightarrow> first_match (\<lambda>s. if starts_with [nl] s then f (skip_ws (tl s)) else None) text)"

definition after_prefix :: "string \<Rightarrow> (string \<Rightarrow> 'a option) \<Rightarrow> string \<Rightarrow> 'a option" where
  "after_prefix p f s = (if starts_with p s then f (drop (length p) s) else None)"

definition is_word :: "char \<Rightarrow> bool" where
  "is_word c \<longleftrightarrow> is_upper c \<or> is_lower c \<or> is_digit c \<or> c = CHR ''_''"

definition quote :: char where "quote = CHR 0x22"

definition quoted :: "string \<Rightarrow> string" where
  "quoted s = [quote] @ s @ [quote]"

definition refused_line :: "string \<Rightarrow> unit option" where
  "refused_line = after_prefix ''status:'' (\<lambda>s. after_prefix ''refused''
     (\<lambda>t. if t \<noteq> [] \<and> is_word (hd t) then None else Some ()) (skip_ws s))"

definition refused_field :: "string \<Rightarrow> unit option" where
  "refused_field = after_prefix (quoted ''status'') (\<lambda>s. after_prefix '':''
     (\<lambda>t. after_prefix (quoted ''refused'') (\<lambda>_. Some ()) (skip_ws t)) (skip_ws s))"

definition reason_field :: "string \<Rightarrow> string option" where
  "reason_field = after_prefix (quoted ''refusalReason'') (\<lambda>s. after_prefix '':''
     (\<lambda>t. after_prefix [quote]
        (\<lambda>u. let v = takeWhile (\<lambda>c. c \<noteq> quote) u
             in if v \<noteq> [] \<and> length v < length u then Some v else None) (skip_ws t)) (skip_ws s))"

text \<open>
  The lines of \<open>(?:[ \t]+.+(?:\n|$))+\<close>: each starts with a blank, has a second character and
  ends at a line feed or at the end of the text.
\<close>

definition folded_line :: "string \<Rightarrow> bool" where
  "folded_line l \<longleftrightarrow> 2 \<le> length l \<and> (hd l = CHR '' '' \<or> hd l = CHR 0x09) \<and> cr \<notin> set l"

definition folded_block :: "string \<Rightarrow> string option" where
  "folded_block s =
     (let ls = takeWhile folded_line (split_on nl s)
      in if ls = [] then None else Some (join [nl] ls))"

text \<open>
  \<open>\s*>\s*\n\<close> and then the block: the second \<open>\s*\<close> is greedy, so the block starts after the
  last line feed of the white space from which it matches.
\<close>

fun last_block :: "string \<Rightarrow> string option" where
  "last_block [] = None"
| "last_block (c # s) =
     (if is_ws c then
        (case last_block s of
           Some b \<Rightarrow> Some b
         | None \<Rightarrow> if c = nl then folded_block s else None)
      else None)"

definition folded_reason :: "string \<Rightarrow> string option" where
  "folded_reason = after_prefix ''refusalReason:'' (\<lambda>s. after_prefix ''>'' last_block (skip_ws s))"

definition inline_reason :: "string \<Rightarrow> string option" where
  "inline_reason = after_prefix ''refusalReason:'' (\<lambda>s. let t = skip_ws s
     in if t = [] then None else Some (takeWhile (\<lambda>c. c \<noteq> nl \<and> c \<noteq> cr) t))"

definition default_refusal :: string where
  "default_refusal = ''Codex refused the AgentRequest.''"

definition normalize_folded :: "string \<Rightarrow> string" where
  "normalize_folded b = trim (join '' '' (filter (\<lambda>l. l \<noteq> []) (map trim (split_on nl b))))"

definition extractCodexRefusalReason :: "command_result \<Rightarrow> string option" where
  "extractCodexRefusalReason r =
     (let text = cr_stdout r @ [nl] @ cr_stderr r
      in if at_line refused_line text = None \<and> first_match refused_field text = None then None
         else case first_match reason_field text of
           Some v \<Rightarrow> Some (trim v)
         | None \<Rightarrow>
             (let folded = (case at_line folded_reason text of None \<Rightarrow> [] | Some b \<Rightarrow> normalize_folded b);
                  inline = (case at_line inline_reason text of None \<Rightarrow> [] | Some l \<Rightarrow> trim l)
              in Some (if folded \<noteq> [] then folded else if inline \<noteq> [] then inline else default_refusal)))"

section \<open>Changed paths\<close>

text \<open>\<open>line.replace(/^.{1,2}\s+/, '')\<close>\<close>

definition drop_status :: "string \<Rightarrow> string" where
  "drop_status line =
     (if length line \<ge> 3 \<and> cr \<notin> set (take 2 line) \<and> is_ws (line ! 2) then skip_ws (drop 2 line)
      else if length line \<ge> 2 \<and> hd line \<noteq> cr \<and> is_ws (line ! 1) then skip_ws (drop 1 line)
      else line)"

definition pathspec :: "string \<Rightarrow> string" where
  "pathspec line =
     trim (if length line \<ge> 3 \<and> line ! 2 = CHR '' '' then drop 3 line else drop_status line)"

text \<open>The text before the first occurrence of a separator, and the text after it.\<close>

fun cut_at :: "string \<Rightarrow> string \<Rightarrow> string \<times> string option" where
  "cut_at sep [] = ([], None)"
| "cut_at sep (c # s) =
     (if starts_with sep (c # s) then ([], Some (drop (length sep) (c # s)))
      else (let (a, b) = cut_at sep s in (c # a, b)))"

definition line_paths :: "string \<Rightarrow> string list" where
  "line_paths line =
     (if trim line = [] \<or> starts_with ''dry-run:'' line then []
      else
        let p = pathspec line
        in if p = [] then []
           else case cut_at '' -> '' p of
             (a, Some b) \<Rightarrow> filter (\<lambda>s. s \<noteq> []) [trim a, trim (fst (cut_at '' -> '' b))]
           | (a, None) \<Rightarrow> [p])"

definition parseGitStatusChangedPaths :: "string \<Rightarrow> string list" where
  "parseGitStatusChangedPaths out = sort (oset_of (concat (map line_paths (split_on nl out))))"

definition ends_with :: "string \<Rightarrow> string \<Rightarrow> bool" where
  "ends_with p s \<longleftrightarrow> starts_with (rev p) (rev s)"

definition pattern_allows :: "string \<Rightarrow> string \<Rightarrow> bool" where
  "pattern_allows path pattern =
     (if ends_with ''/**'' pattern then starts_with (take (length pattern - 3) pattern) path
      else if ends_with ''/*'' pattern then
        (let prefix = take (length pattern - 1) pattern
         in starts_with prefix path \<and> CHR ''/'' \<notin> set (drop (length prefix) path))
      else path = pattern)"

definition isAllowedWorkerPath :: "string \<Rightarrow> string list \<Rightarrow> bool" where
  "isAllowedWorkerPath path allowed = list_ex (pattern_allows path) allowed"

section \<open>The plan of a Codex run\<close>

record runner_plan =
  rp_requestId :: string
  rp_branchName :: string
  preflightCommands :: "runner_command list"
  codexCommand :: runner_command
  rp_prompt :: string

definition buildBranchName :: "agent_request \<Rightarrow> string option \<Rightarrow> string" where
  "buildBranchName request suffix =
     (let baseName = bp_prefix (req_branch request) @ ''/'' @ to_lower (sanitizeId (req_id request))
      in case suffix of
           None \<Rightarrow> baseName
         | Some s \<Rightarrow> if s = [] then baseName else baseName @ ''-'' @ to_lower (sanitizeId s))"

fun numbered_lines :: "nat \<Rightarrow> string list \<Rightarrow> string list" where
  "numbered_lines n [] = []"
| "numbered_lines n (s # ss) = (dec n @ ''. '' @ s) # numbered_lines (Suc n) ss"

definition bullet :: "string \<Rightarrow> string" where
  "bullet s = ''- '' @ s"

definition buildCodexWorkerPrompt :: "agent_request \<Rightarrow> string" where
  "buildCodexWorkerPrompt r = join [nl]
     ([''You are a Function Factory Codex worker.'', [], ''Request: '' @ req_id r,
       ''Role: '' @ role_str (req_role r), ''Objective: '' @ req_objective r,
       ''ExecutableSpecification: '' @ sh_id (req_spec r) @ '' / '' @ sh_nodeId (req_spec r),
       ''Repository: '' @ provider_str (rt_provider (req_repo r)) @ '':'' @
         (case rt_owner (req_repo r) of None \<Rightarrow> [] | Some w \<Rightarrow> if w = [] then [] else w @ ''/'') @
         rt_name (req_repo r), [],
       ''Execution policy:'', ''- Autonomy mode: '' @ autonomy_str (autonomyMode (req_policy r)),
       ''- Branch mode: '' @ branch_mode_str (bp_mode (req_branch r)),
       ''- Base branch: '' @ bp_base (req_branch r),
       ''- Allowed paths: '' @ join '', '' (allowedPaths (req_policy r)),
       ''- Forbidden actions: '' @ join '', '' (map forbidden_str (forbiddenActions (req_policy r))),
       ''- Human approval required for: '' @
         join '', '' (map forbidden_str (requiresHumanApprovalFor (req_policy r))), [],
       ''Context artifacts:''] @
      map (\<lambda>a. ''- '' @ cx_id a @ '' ('' @ cx_kind a @ ''): '' @ cx_path a) (ctx_artifacts (req_context r)) @
      [[], ''Worker prompt:'', prompt r, [], ''Acceptance criteria:''] @
      numbered_lines 1 (acceptanceCriteria r) @ [[], ''Required commands:''] @
      map bullet (requiredCommands r) @ [[], ''Expected artifacts:''] @
      map (\<lambda>a. ''- '' @ ea_path a @ '' ('' @ ea_kind a @ '')'') (expectedArtifacts r) @
      [[], ''Required evidence:''] @ map (bullet \<circ> evidence_str) (req_evidenceRequired r) @
      [[], ''Return an AgentResult-compatible summary with changed files, command evidence, PR URL, and refusalReason if refused.'',
       ''Do not merge, deploy, force-push, delete remote branches, edit secrets, or write outside allowed paths.''])"

definition DEFAULT_CODEX_TIMEOUT_MS :: int where
  "DEFAULT_CODEX_TIMEOUT_MS = 30 * 60 * 1000"

definition git :: "string \<Rightarrow> string list \<Rightarrow> runner_command" where
  "git repoRoot args = \<lparr>rc_command = ''git'', rc_args = args, rc_cwd = repoRoot, rc_timeoutMs = None\<rparr>"

text \<open>For a request that its validator returned; the binary is the default.\<close>

definition planCodexRunner ::
  "agent_request \<Rightarrow> string \<Rightarrow> string option \<Rightarrow> int option \<Rightarrow> scheduler_error + runner_plan" where
  "planCodexRunner request repoRoot suffix timeout =
     (if bp_mode (req_branch request) \<noteq> New_pr_branch
      then Inl (Thrown (''Codex runner requires branch.mode=new_pr_branch for '' @ req_id request))
      else if autonomyMode (req_policy request) \<noteq> Branch_pr \<and> autonomyMode (req_policy request) \<noteq> Multi_agent_pr
      then Inl (Thrown (''Codex runner cannot execute autonomyMode='' @ autonomy_str (autonomyMode (req_policy request))))
      else
        let branchName = buildBranchName request suffix;
            text = buildCodexWorkerPrompt request;
            base = bp_base (req_branch request)
        in Inr \<lparr>rp_requestId = req_id request, rp_branchName = branchName,
             preflightCommands =
               [git repoRoot [''fetch'', ''origin'', base],
                git repoRoot [''switch'', ''-c'', branchName, ''origin/'' @ base],
                git repoRoot [''status'', ''--short'']],
             codexCommand =
               \<lparr>rc_command = ''codex'',
                rc_args = [''exec'', ''--sandbox'', ''workspace-write'', ''--cd'', repoRoot, text],
                rc_cwd = repoRoot,
                rc_timeoutMs = Some (case timeout of None \<Rightarrow> DEFAULT_CODEX_TIMEOUT_MS | Some t \<Rightarrow> t)\<rparr>,
             rp_prompt = text\<rparr>)"

section \<open>Execution\<close>

record execution =
  ex_requestId :: string
  ex_branchName :: string
  ex_status :: agent_status
  ex_commands :: "command_result list"
  ex_failedCommand :: "string option"
  ex_refusalReason :: "string option"

text \<open>
  A step that runs commands: it takes the world and the trace, and throws where an executor
  rejects.
\<close>

type_synonym ('w, 'a) cmd_step = "'w \<times> trace \<Rightarrow> ('w \<times> trace) \<times> (string + 'a)"

definition run_command :: "'w command_executor \<Rightarrow> runner_command \<Rightarrow> ('w, command_result) cmd_step" where
  "run_command executor c s =
     (case executor c (fst s) of
        (w, Inl e) \<Rightarrow> ((w, snd s), Inl e)
      | (w, Inr r) \<Rightarrow> ((w, snd s @ [(c, r)]), Inr r))"

definition then_step :: "('w, 'a) cmd_step \<Rightarrow> ('a \<Rightarrow> ('w, 'b) cmd_step) \<Rightarrow> ('w, 'b) cmd_step" where
  "then_step m f s = (case m s of (s', Inl e) \<Rightarrow> (s', Inl e) | (s', Inr a) \<Rightarrow> f a s')"

definition return_step :: "'a \<Rightarrow> ('w, 'a) cmd_step" where
  "return_step a s = (s, Inr a)"

definition failed_execution :: "runner_plan \<Rightarrow> command_result list \<Rightarrow> string \<Rightarrow> execution" where
  "failed_execution plan commands failed =
     \<lparr>ex_requestId = rp_requestId plan, ex_branchName = rp_branchName plan, ex_status = Run_failed,
      ex_commands = commands, ex_failedCommand = Some failed, ex_refusalReason = None\<rparr>"

text \<open>
  The loop over the preflight commands and the Codex command. The flag marks the Codex
  command, whose output may refuse the request; an empty reason does not count.
\<close>

fun execute_commands ::
  "'w command_executor \<Rightarrow> runner_plan \<Rightarrow> (runner_command \<times> bool) list \<Rightarrow> command_result list \<Rightarrow> ('w, execution) cmd_step" where
  "execute_commands executor plan [] commands =
     return_step \<lparr>ex_requestId = rp_requestId plan, ex_branchName = rp_branchName plan,
       ex_status = Run_completed, ex_commands = commands, ex_failedCommand = None, ex_refusalReason = None\<rparr>"
| "execute_commands executor plan ((c, codex) # cs) commands =
     then_step (run_command executor c) (\<lambda>result.
       if cr_exitCode result \<noteq> 0
       then return_step (failed_execution plan (commands @ [result])
              (if cr_timedOut result then stringifyCommand c @ '' timed out'' else stringifyCommand c))
       else case (if codex then extractCodexRefusalReason result else None) of
         Some (x # xs) \<Rightarrow>
           return_step ((failed_execution plan (commands @ [result]) ''codex refused request'')
             \<lparr>ex_status := Run_refused, ex_refusalReason := Some (x # xs)\<rparr>)
       | _ \<Rightarrow> execute_commands executor plan cs (commands @ [result]))"

definition executeCodexRunnerPlan :: "'w command_executor \<Rightarrow> runner_plan \<Rightarrow> ('w, execution) cmd_step" where
  "executeCodexRunnerPlan executor plan =
     execute_commands executor plan (map (\<lambda>c. (c, False)) (preflightCommands plan) @ [(codexCommand plan, True)]) []"

text \<open>An executor that runs nothing.\<close>

definition dry_run_executor :: "(nat \<Rightarrow> string) \<Rightarrow> string \<Rightarrow> string option \<Rightarrow> nat command_executor" where
  "dry_run_executor stamp url fail_includes c n =
     (let text = stringifyCommand c;
          fails = (case fail_includes of None \<Rightarrow> False | Some p \<Rightarrow> p \<noteq> [] \<and> contains_str p text)
      in (n + 2, Inr \<lparr>cr_command = rc_command c, cr_args = rc_args c, cr_cwd = rc_cwd c,
           cr_exitCode = (if fails then 1 else 0),
           cr_stdout = (if rc_command c = ''gh'' then url @ [nl] else ''dry-run: '' @ text @ [nl]),
           cr_stderr = (if fails then ''dry-run failure for '' @ text else []),
           cr_startedAt = stamp n, cr_completedAt = stamp (n + 1), cr_timedOut = False,
           cr_signal = None, cr_phase = None\<rparr>))"

section \<open>The commit of the worker's changes\<close>

record commit_execution =
  cm_committed :: bool
  cm_commands :: "command_result list"
  changedPaths :: "string list"
  cm_diff :: "string option"
  cm_failedCommand :: "string option"

definition commit_failed :: "command_result list \<Rightarrow> string list \<Rightarrow> string \<Rightarrow> commit_execution" where
  "commit_failed commands paths failed =
     \<lparr>cm_committed = False, cm_commands = commands, changedPaths = paths, cm_diff = None,
      cm_failedCommand = Some failed\<rparr>"

definition changed_paths :: "string list \<Rightarrow> string \<Rightarrow> string list" where
  "changed_paths fallback out =
     (let paths = parseGitStatusChangedPaths out
      in if paths = [] \<and> starts_with ''dry-run:'' out then fallback else paths)"

definition blocked_paths :: "agent_request \<Rightarrow> string list \<Rightarrow> string list" where
  "blocked_paths request paths =
     filter (\<lambda>p. \<not> isAllowedWorkerPath p (allowedPaths (req_policy request))) paths"

definition executeWorkerCommit ::
  "'w command_executor \<Rightarrow> string \<Rightarrow> string list \<Rightarrow> agent_request \<Rightarrow> ('w, commit_execution) cmd_step" where
  "executeWorkerCommit executor repoRoot fallback request =
     (let statusCommand = git repoRoot [''status'', ''--porcelain'']
      in then_step (run_command executor statusCommand) (\<lambda>status.
           if cr_exitCode status \<noteq> 0
           then return_step (commit_failed [status] [] (stringifyCommand statusCommand))
           else
             let paths = changed_paths fallback (cr_stdout status);
                 blocked = blocked_paths request paths
             in if paths = [] then return_step (commit_failed [status] paths ''worker produced no git changes'')
                else if blocked \<noteq> []
                then return_step (commit_failed [status] paths
                       (''worker changed paths outside policy: '' @ join '', '' blocked))
                else
                  let addCommand = git repoRoot ([''add'', ''--''] @ paths);
                      commitCommand = git repoRoot [''commit'', ''-m'', ''[Factory] '' @ req_id request];
                      diffCommand = git repoRoot [''show'', ''--format='', ''--patch'', ''HEAD'', ''--'']
                  in then_step (run_command executor addCommand) (\<lambda>add.
                       if cr_exitCode add \<noteq> 0
                       then return_step (commit_failed [status, add] paths (stringifyCommand addCommand))
                       else then_step (run_command executor commitCommand) (\<lambda>commit.
                         if cr_exitCode commit \<noteq> 0
                         then return_step (commit_failed [status, add, commit] paths (stringifyCommand commitCommand))
                         else then_step (run_command executor diffCommand) (\<lambda>diff.
                           if cr_exitCode diff \<noteq> 0
                           then return_step (commit_failed [status, add, commit, diff] paths (stringifyCommand diffCommand))
                           else return_step
                             \<lparr>cm_committed = True, cm_commands = [status, add, commit, diff], changedPaths = paths,
                              cm_diff = Some (cr_stdout diff), cm_failedCommand = None\<rparr>)))))"

section \<open>The required commands\<close>

fun execute_required ::
  "'w command_executor \<Rightarrow> string \<Rightarrow> string \<Rightarrow> string list \<Rightarrow> command_result list \<Rightarrow> ('w, command_result list) cmd_step" where
  "execute_required executor shell repoRoot [] commands = return_step commands"
| "execute_required executor shell repoRoot (c # cs) commands =
     then_step (run_command executor (buildRequiredCommand shell repoRoot c)) (\<lambda>result.
       let commands' = commands @ [result\<lparr>cr_phase := Some Verification\<rparr>]
       in if cr_exitCode result \<noteq> 0 then return_step commands'
          else execute_required executor shell repoRoot cs commands')"

definition executeRequiredCommands ::
  "'w command_executor \<Rightarrow> string \<Rightarrow> string \<Rightarrow> agent_request \<Rightarrow> ('w, command_result list) cmd_step" where
  "executeRequiredCommands executor shell repoRoot request =
     execute_required executor shell repoRoot (requiredCommands request) []"

section \<open>The pull request\<close>

record pr_plan =
  pp_requestId :: string
  pp_branchName :: string
  pp_title :: string
  pp_body :: string
  pushCommand :: runner_command
  prCommand :: runner_command

definition buildPullRequestBody :: "agent_request \<Rightarrow> execution \<Rightarrow> string" where
  "buildPullRequestBody r ex = join [nl]
     ([''Factory request: '' @ req_id r,
       ''ExecutableSpecification: '' @ sh_id (req_spec r) @ '' / '' @ sh_nodeId (req_spec r),
       ''Role: '' @ role_str (req_role r), ''Branch: '' @ ex_branchName ex, [], ''Acceptance criteria:''] @
      numbered_lines 1 (acceptanceCriteria r) @ [[], ''Required evidence:''] @
      map (bullet \<circ> evidence_str) (req_evidenceRequired r))"

definition planPullRequest :: "agent_request \<Rightarrow> execution \<Rightarrow> string \<Rightarrow> scheduler_error + pr_plan" where
  "planPullRequest request ex repoRoot =
     (if ex_requestId ex \<noteq> req_id request
      then Inl (Thrown (''Pull request plan request mismatch: '' @ req_id request @ '', '' @ ex_requestId ex))
      else if ex_status ex \<noteq> Run_completed
      then Inl (Thrown (''Pull request plan requires completed execution for '' @ req_id request))
      else
        let title = ''[Factory] '' @ req_objective request;
            body = buildPullRequestBody request ex;
            repo = (case rt_owner (req_repo request) of
                      None \<Rightarrow> rt_name (req_repo request)
                    | Some w \<Rightarrow> if w = [] then rt_name (req_repo request) else w @ ''/'' @ rt_name (req_repo request))
        in Inr \<lparr>pp_requestId = req_id request, pp_branchName = ex_branchName ex, pp_title = title,
             pp_body = body, pushCommand = git repoRoot [''push'', ''-u'', ''origin'', ex_branchName ex],
             prCommand = \<lparr>rc_command = ''gh'',
               rc_args = [''pr'', ''create'', ''--repo'', repo, ''--base'', bp_base (req_branch request),
                 ''--head'', ex_branchName ex, ''--title'', title, ''--body'', body],
               rc_cwd = repoRoot, rc_timeoutMs = None\<rparr>\<rparr>)"

record pr_execution =
  px_requestId :: string
  px_branchName :: string
  px_prUrl :: string
  px_commands :: "command_result list"

text \<open>\<open>PullRequestExecutionError\<close> carries the commands that ran.\<close>

datatype pr_outcome = Pr_opened pr_execution | Pr_error string "command_result list"

definition first_url :: "string \<Rightarrow> string option" where
  "first_url out = find (starts_with ''https://'') (split_on nl (trim out))"

definition executePullRequestPlan :: "'w command_executor \<Rightarrow> pr_plan \<Rightarrow> ('w, pr_outcome) cmd_step" where
  "executePullRequestPlan executor plan =
     then_step (run_command executor (pushCommand plan)) (\<lambda>push.
       if cr_exitCode push \<noteq> 0
       then return_step (Pr_error (''Pull request branch push failed for '' @ pp_requestId plan @ '': '' @
              (if cr_stderr push \<noteq> [] then cr_stderr push else cr_stdout push)) [push])
       else then_step (run_command executor (prCommand plan)) (\<lambda>pr.
         if cr_exitCode pr \<noteq> 0
         then return_step (Pr_error (''Pull request creation failed for '' @ pp_requestId plan @ '': '' @
                (if cr_stderr pr \<noteq> [] then cr_stderr pr else cr_stdout pr)) [push, pr])
         else case first_url (cr_stdout pr) of
           None \<Rightarrow> return_step (Pr_error (''Pull request creation did not return a URL for '' @ pp_requestId plan) [push, pr])
         | Some url \<Rightarrow> return_step (Pr_opened
             \<lparr>px_requestId = pp_requestId plan, px_branchName = pp_branchName plan, px_prUrl = url,
              px_commands = [push, pr]\<rparr>)))"

end
