(* ===== verification/Agent_Scheduler.thy ===== *)
theory Agent_Scheduler
  imports Agent_Runner
begin

text \<open>
  One run of the autonomous scheduler and its daemon
  (\<open>packages/autonomous-scheduler/src/index.ts\<close>): the result of an execution, the bundle of
  files that records it, the run of a claimed request and the loop over the queue. The state
  of a run is the world of the executors, the trace of the commands that ran, the queue
  directory and the bundle files.
\<close>

section \<open>State\<close>

datatype file_content = Json_file json | Text_file string

record 'w run_state =
  rs_world :: 'w
  rs_trace :: trace
  rs_queue :: queue_files
  rs_files :: "(string \<times> file_content) list"

record run_options =
  repoRoot :: string
  bundleDir :: string
  resultId :: string
  opt_agentRunId :: string
  opt_completedAt :: string
  branchNameSuffix :: "string option"
  opt_changedFiles :: "string list option"
  opt_diff :: "string option"
  codexTimeoutMs :: "int option"

type_synonym ('w, 'a) run_step = "'w run_state \<Rightarrow> 'w run_state \<times> (scheduler_error + 'a)"

definition run_bind :: "('w, 'a) run_step \<Rightarrow> ('a \<Rightarrow> ('w, 'b) run_step) \<Rightarrow> ('w, 'b) run_step" where
  "run_bind m f st = (case m st of (st', Inl e) \<Rightarrow> (st', Inl e) | (st', Inr a) \<Rightarrow> f a st')"

definition run_return :: "'a \<Rightarrow> ('w, 'a) run_step" where
  "run_return a st = (st, Inr a)"

definition run_lift :: "scheduler_error + 'a \<Rightarrow> ('w, 'a) run_step" where
  "run_lift r st = (st, r)"

text \<open>An operation of the queue, and a step that runs commands; a rejection is thrown.\<close>

definition on_queue :: "'a queue_op \<Rightarrow> ('w, 'a) run_step" where
  "on_queue m st = (let (q, r) = m (rs_queue st) in (st\<lparr>rs_queue := q\<rparr>, r))"

definition with_commands :: "('w, 'a) cmd_step \<Rightarrow> ('w, 'a) run_step" where
  "with_commands m st =
     (let (s, r) = m (rs_world st, rs_trace st)
      in (st\<lparr>rs_world := fst s, rs_trace := snd s\<rparr>, case r of Inl e \<Rightarrow> Inl (Thrown e) | Inr a \<Rightarrow> Inr a))"

definition write_file :: "string \<Rightarrow> file_content \<Rightarrow> (string \<times> file_content) list \<Rightarrow> (string \<times> file_content) list" where
  "write_file path content files = AList.update path content files"

section \<open>The result of an execution\<close>

definition defaultExecutionSummary :: "agent_request \<Rightarrow> execution \<Rightarrow> string" where
  "defaultExecutionSummary request ex =
     (case ex_status ex of
        Run_completed \<Rightarrow> ''Completed '' @ req_id request @ '' on branch '' @ ex_branchName ex @ ''.''
      | Run_refused \<Rightarrow> ''Refused '' @ req_id request @ '': '' @
          (case ex_refusalReason ex of None \<Rightarrow> default_refusal | Some r \<Rightarrow> r)
      | Run_failed \<Rightarrow> ''Failed '' @ req_id request @ '' at '' @
          (case ex_failedCommand ex of None \<Rightarrow> ''unknown command'' | Some c \<Rightarrow> c) @ ''.'')"

definition command_file :: "nat \<Rightarrow> command_result \<Rightarrow> string" where
  "command_file n c = ''command-'' @ dec n @ ''-'' @ sanitizeId (cr_command c) @ ''.txt''"

fun commands_evidence :: "string \<Rightarrow> nat \<Rightarrow> command_result list \<Rightarrow> command_evidence list" where
  "commands_evidence base n [] = []"
| "commands_evidence base n (c # cs) =
     \<lparr>ce_command = stringifyResult c, ce_exitCode = cr_exitCode c,
      ce_outputRef = path_join base (command_file n c)\<rparr> # commands_evidence base (Suc n) cs"

definition file_evidence :: "evidence_kind \<Rightarrow> string \<Rightarrow> string \<Rightarrow> string \<Rightarrow> evidence_ref" where
  "file_evidence kind base name summary =
     \<lparr>ev_kind = kind, ev_path = Some (path_join base name), ev_url = None, ev_summary = summary\<rparr>"

definition mentions :: "string \<Rightarrow> command_result \<Rightarrow> bool" where
  "mentions word c \<longleftrightarrow> contains_str word (stringifyResult c)"

definition in_verification :: "command_result \<Rightarrow> bool" where
  "in_verification c \<longleftrightarrow> cr_phase c = Some Verification"

definition execution_evidence :: "string \<Rightarrow> execution \<Rightarrow> string option \<Rightarrow> string option \<Rightarrow> evidence_ref list" where
  "execution_evidence base ex diff url =
     [file_evidence Artifact_paths base ''manifest.json'' ''Runner artifact manifest.''] @
     (if list_ex (mentions ''test'') (ex_commands ex)
      then [file_evidence Test_output base ''test-output.txt'' ''Test command output captured by runner.''] else []) @
     (if list_ex (mentions ''typecheck'') (ex_commands ex)
      then [file_evidence Typecheck_output base ''typecheck-output.txt'' ''Typecheck command output captured by runner.''] else []) @
     (if list_ex in_verification (ex_commands ex)
      then [file_evidence Verification_output base ''verification-output.txt''
              ''Parent scheduler verification output captured after commit and before PR publication.''] else []) @
     (if diff \<noteq> None
      then [file_evidence Git_diff base ''diff.patch'' ''Git diff captured after worker execution.''] else []) @
     (case url of
        Some u \<Rightarrow> if ex_status ex = Run_completed \<and> u \<noteq> []
          then [\<lparr>ev_kind = Pr_url, ev_path = None, ev_url = Some u, ev_summary = ''Pull request opened for worker output.''\<rparr>]
          else []
      | None \<Rightarrow> [])"

definition truthy_string :: "string option \<Rightarrow> string option" where
  "truthy_string s = (if absent s then None else s)"

definition result_of_execution ::
  "agent_request \<Rightarrow> execution \<Rightarrow> run_options \<Rightarrow> string option \<Rightarrow> string option \<Rightarrow> agent_result" where
  "result_of_execution request ex opts diff url =
     \<lparr>ares_id = resultId opts, ares_requestId = req_id request, agentRunId = opt_agentRunId opts,
      ares_status = ex_status ex, completedAt = opt_completedAt opts,
      branchName = (if ex_status ex = Run_completed then Some (ex_branchName ex) else None),
      prUrl = truthy_string url, ares_summary = defaultExecutionSummary request ex,
      changedFiles = (case opt_changedFiles opts of None \<Rightarrow> [] | Some fs \<Rightarrow> fs),
      ares_commands = commands_evidence (bundleDir opts) 1 (ex_commands ex),
      ares_evidence = execution_evidence (bundleDir opts) ex diff url,
      refusalReason = (if ex_status ex = Run_refused
        then Some (case ex_refusalReason ex of None \<Rightarrow> default_refusal | Some r \<Rightarrow> r) else None)\<rparr>"

definition buildAgentResultFromExecution ::
  "queue_env \<Rightarrow> agent_request \<Rightarrow> execution \<Rightarrow> run_options \<Rightarrow> string option \<Rightarrow> string option \<Rightarrow>
     scheduler_error + agent_result" where
  "buildAgentResultFromExecution env request ex opts diff url =
     (case validateAgentResult (parse_date env) (agent_result_json (result_of_execution request ex opts diff url)) of
        Inl iss \<Rightarrow> Inl (Validation_failed iss) | Inr r \<Rightarrow> Inr r)"

section \<open>The bundle\<close>

fun phase_str :: "run_phase \<Rightarrow> string" where
  "phase_str Preflight = ''preflight''"
| "phase_str Codex = ''codex''"
| "phase_str Commit = ''commit''"
| "phase_str Verification = ''verification''"
| "phase_str Pull_request = ''pull_request''"

definition command_result_json :: "command_result \<Rightarrow> json" where
  "command_result_json c = JObj
     ([(''command'', JStr (cr_command c)), (''args'', jstrs (cr_args c)), (''cwd'', JStr (cr_cwd c)),
       (''exitCode'', JNum (of_int (cr_exitCode c))), (''stdout'', JStr (cr_stdout c)),
       (''stderr'', JStr (cr_stderr c)), (''startedAt'', JStr (cr_startedAt c)),
       (''completedAt'', JStr (cr_completedAt c))] @
      (if cr_timedOut c then [(''timedOut'', JBool True)] else []) @
      opt_prop ''signal'' JStr (cr_signal c) @ opt_prop ''phase'' (\<lambda>p. JStr (phase_str p)) (cr_phase c))"

definition execution_json :: "execution \<Rightarrow> json" where
  "execution_json ex = JObj
     ([(''requestId'', JStr (ex_requestId ex)), (''branchName'', JStr (ex_branchName ex)),
       (''status'', JStr (agent_status_str (ex_status ex))),
       (''commands'', JArr (map command_result_json (ex_commands ex)))] @
      opt_prop ''failedCommand'' JStr (ex_failedCommand ex) @
      opt_prop ''refusalReason'' JStr (ex_refusalReason ex))"

record bundle_manifest =
  bm_requestId :: string
  bm_resultId :: string
  bm_bundleDir :: string
  bm_request :: string
  bm_execution :: string
  bm_result :: string
  bm_manifest :: string
  bm_commands :: "string list"
  bm_diff :: "string option"
  bm_testOutput :: "string option"
  bm_typecheckOutput :: "string option"
  bm_verification :: "string option"

definition manifest_json :: "bundle_manifest \<Rightarrow> json" where
  "manifest_json m = JObj
     [(''schemaVersion'', JStr ''factory.agent-result-bundle.v0''), (''requestId'', JStr (bm_requestId m)),
      (''resultId'', JStr (bm_resultId m)), (''bundleDir'', JStr (bm_bundleDir m)),
      (''files'', JObj
         ([(''request'', JStr (bm_request m)), (''execution'', JStr (bm_execution m)),
           (''result'', JStr (bm_result m)), (''manifest'', JStr (bm_manifest m)),
           (''commands'', jstrs (bm_commands m))] @
          opt_prop ''diff'' JStr (bm_diff m) @ opt_prop ''testOutput'' JStr (bm_testOutput m) @
          opt_prop ''typecheckOutput'' JStr (bm_typecheckOutput m) @
          opt_prop ''verification'' JStr (bm_verification m)))]"

fun write_command_files ::
  "string \<Rightarrow> nat \<Rightarrow> command_result list \<Rightarrow> (string \<times> file_content) list \<Rightarrow> (string \<times> file_content) list \<times> string list" where
  "write_command_files dir n [] files = (files, [])"
| "write_command_files dir n (c # cs) files =
     (let path = path_join dir (command_file n c);
          (files', paths) = write_command_files dir (Suc n) cs
            (write_file path (Text_file (formatCommandOutput c)) files)
      in (files', path # paths))"

definition joined_output :: "command_result list \<Rightarrow> string" where
  "joined_output cs = join ([nl] @ ''---'' @ [nl]) (map formatCommandOutput cs)"

text \<open>An output file for the commands of a kind, where there are any.\<close>

definition write_output ::
  "string \<Rightarrow> (command_result \<Rightarrow> bool) \<Rightarrow> command_result list \<Rightarrow> (string \<times> file_content) list \<Rightarrow>
     (string \<times> file_content) list \<times> string option" where
  "write_output path P cs files =
     (let selected = filter P cs
      in if selected = [] then (files, None)
         else (write_file path (Text_file (joined_output selected)) files, Some path))"

definition writeAgentResultBundle ::
  "agent_request \<Rightarrow> execution \<Rightarrow> agent_result \<Rightarrow> string \<Rightarrow> string option \<Rightarrow> ('w, bundle_manifest) run_step" where
  "writeAgentResultBundle request ex result dir diff st =
     (if req_id request \<noteq> ex_requestId ex \<or> req_id request \<noteq> ares_requestId result
      then (st, Inl (Thrown (''Bundle request mismatch: '' @ req_id request @ '', '' @ ex_requestId ex @
              '', '' @ ares_requestId result)))
      else
        let f1 = write_file (path_join dir ''request.json'') (Json_file (agent_request_json request)) (rs_files st);
            f2 = write_file (path_join dir ''execution.json'') (Json_file (execution_json ex)) f1;
            f3 = write_file (path_join dir ''result.json'') (Json_file (agent_result_json result)) f2;
            (f4, paths) = write_command_files dir 1 (ex_commands ex) f3;
            (f5, diff_path) = (case diff of
               None \<Rightarrow> (f4, None)
             | Some d \<Rightarrow> (write_file (path_join dir ''diff.patch'') (Text_file d) f4, Some (path_join dir ''diff.patch'')));
            (f6, test_path) = write_output (path_join dir ''test-output.txt'') (mentions ''test'') (ex_commands ex) f5;
            (f7, type_path) = write_output (path_join dir ''typecheck-output.txt'') (mentions ''typecheck'') (ex_commands ex) f6;
            (f8, ver_path) = write_output (path_join dir ''verification-output.txt'') in_verification (ex_commands ex) f7;
            manifest = \<lparr>bm_requestId = req_id request, bm_resultId = ares_id result, bm_bundleDir = dir,
              bm_request = path_join dir ''request.json'', bm_execution = path_join dir ''execution.json'',
              bm_result = path_join dir ''result.json'', bm_manifest = path_join dir ''manifest.json'',
              bm_commands = paths, bm_diff = diff_path, bm_testOutput = test_path,
              bm_typecheckOutput = type_path, bm_verification = ver_path\<rparr>
        in (st\<lparr>rs_files := write_file (path_join dir ''manifest.json'') (Json_file (manifest_json manifest)) f8\<rparr>,
            Inr manifest))"

section \<open>The run of a claimed request\<close>

record run_outcome =
  oc_request :: agent_request
  oc_execution :: execution
  oc_pullRequest :: "pr_execution option"
  oc_result :: agent_result
  oc_bundle :: bundle_manifest

text \<open>The end of a run: the result, the bundle, and the queue told.\<close>

definition finish_claimed ::
  "queue_env \<Rightarrow> run_options \<Rightarrow> agent_request \<Rightarrow> execution \<Rightarrow> pr_execution option \<Rightarrow> string option \<Rightarrow>
     ('w, run_outcome) run_step" where
  "finish_claimed env opts request ex pr diff =
     run_bind (run_lift (buildAgentResultFromExecution env request ex opts diff (map_option px_prUrl pr))) (\<lambda>result.
     run_bind (writeAgentResultBundle request ex result (bundleDir opts) diff) (\<lambda>bundle.
     run_bind (on_queue (complete env (agent_result_json result))) (\<lambda>_.
     run_return \<lparr>oc_request = request, oc_execution = ex, oc_pullRequest = pr, oc_result = result,
       oc_bundle = bundle\<rparr>)))"

definition commit_execution_of :: "execution \<Rightarrow> commit_execution \<Rightarrow> execution" where
  "commit_execution_of ex commit =
     \<lparr>ex_requestId = ex_requestId ex, ex_branchName = ex_branchName ex,
      ex_status = (if cm_committed commit then Run_completed else Run_failed),
      ex_commands = ex_commands ex @ cm_commands commit,
      ex_failedCommand = (if cm_committed commit then None
        else Some (case cm_failedCommand commit of None \<Rightarrow> ''worker commit'' | Some c \<Rightarrow> c)),
      ex_refusalReason = None\<rparr>"

definition verified_execution_of :: "execution \<Rightarrow> command_result list \<Rightarrow> execution" where
  "verified_execution_of ex verification =
     (let failed = find (\<lambda>c. cr_exitCode c \<noteq> 0) verification
      in \<lparr>ex_requestId = ex_requestId ex, ex_branchName = ex_branchName ex,
          ex_status = (if failed = None then Run_completed else Run_failed),
          ex_commands = ex_commands ex @ verification,
          ex_failedCommand = map_option (\<lambda>c. ''parent verification: '' @ stringifyResult c) failed,
          ex_refusalReason = None\<rparr>)"

definition unpublished_execution_of :: "execution \<Rightarrow> command_result list \<Rightarrow> execution" where
  "unpublished_execution_of ex commands =
     \<lparr>ex_requestId = ex_requestId ex, ex_branchName = ex_branchName ex, ex_status = Run_failed,
      ex_commands = ex_commands ex @ commands, ex_failedCommand = Some ''pull request creation'',
      ex_refusalReason = None\<rparr>"

text \<open>Publishing a verified execution.\<close>

definition publish ::
  "queue_env \<Rightarrow> 'w command_executor \<Rightarrow> run_options \<Rightarrow> agent_request \<Rightarrow> execution \<Rightarrow> string option \<Rightarrow> ('w, run_outcome) run_step" where
  "publish env pr_executor opts request ex diff =
     run_bind (run_lift (planPullRequest request ex (repoRoot opts))) (\<lambda>plan.
     run_bind (with_commands (executePullRequestPlan pr_executor plan)) (\<lambda>outcome.
       case outcome of
         Pr_opened pr \<Rightarrow> finish_claimed env opts request ex (Some pr) diff
       | Pr_error _ commands \<Rightarrow> finish_claimed env opts request (unpublished_execution_of ex commands) None diff))"

definition verify_and_publish ::
  "queue_env \<Rightarrow> 'w command_executor \<Rightarrow> string \<Rightarrow> run_options \<Rightarrow> agent_request \<Rightarrow> execution \<Rightarrow> string option \<Rightarrow> ('w, run_outcome) run_step" where
  "verify_and_publish env pr_executor shell opts request ex diff =
     run_bind (with_commands (executeRequiredCommands pr_executor shell (repoRoot opts) request)) (\<lambda>verification.
       let verified = verified_execution_of ex verification
       in if ex_status verified \<noteq> Run_completed then finish_claimed env opts request verified None diff
          else publish env pr_executor opts request verified diff)"

definition commit_and_publish ::
  "queue_env \<Rightarrow> 'w command_executor \<Rightarrow> string \<Rightarrow> run_options \<Rightarrow> agent_request \<Rightarrow> execution \<Rightarrow> ('w, run_outcome) run_step" where
  "commit_and_publish env pr_executor shell opts request ex =
     (let fallback = (case opt_changedFiles opts of
            None \<Rightarrow> map ea_path (expectedArtifacts request) | Some fs \<Rightarrow> fs)
      in run_bind (with_commands (executeWorkerCommit pr_executor (repoRoot opts) fallback request)) (\<lambda>commit.
           let diff = (case opt_diff opts of None \<Rightarrow> cm_diff commit | Some d \<Rightarrow> Some d);
               committed = commit_execution_of ex commit
           in if ex_status committed \<noteq> Run_completed then finish_claimed env opts request committed None diff
              else verify_and_publish env pr_executor shell opts request committed diff))"

text \<open>For a request that its validator returned.\<close>

definition runClaimedAgentRequest ::
  "queue_env \<Rightarrow> 'w command_executor \<Rightarrow> 'w command_executor \<Rightarrow> string \<Rightarrow> run_options \<Rightarrow> agent_request \<Rightarrow> ('w, run_outcome) run_step" where
  "runClaimedAgentRequest env codex_executor pr_executor shell opts claimed =
     run_bind (on_queue (heartbeat env (req_id claimed))) (\<lambda>_.
     run_bind (run_lift (planCodexRunner claimed (repoRoot opts) (branchNameSuffix opts) (codexTimeoutMs opts))) (\<lambda>plan.
     run_bind (with_commands (executeCodexRunnerPlan codex_executor plan)) (\<lambda>ex.
       if ex_status ex = Run_completed
       then commit_and_publish env pr_executor shell opts claimed ex
       else finish_claimed env opts claimed ex None (opt_diff opts))))"

definition runSingleAgentRequest ::
  "queue_env \<Rightarrow> 'w command_executor \<Rightarrow> 'w command_executor \<Rightarrow> string \<Rightarrow> run_options \<Rightarrow> json \<Rightarrow> ('w, run_outcome) run_step" where
  "runSingleAgentRequest env codex_executor pr_executor shell opts input =
     run_bind (on_queue (enqueue env input)) (\<lambda>request.
     run_bind (on_queue (claimNext env)) (\<lambda>claimed.
       case claimed of
         Some c \<Rightarrow>
           if req_id c \<noteq> req_id request
           then run_lift (Inl (Thrown (''Unable to claim enqueued AgentRequest: '' @ req_id request)))
           else runClaimedAgentRequest env codex_executor pr_executor shell opts c
       | None \<Rightarrow> run_lift (Inl (Thrown (''Unable to claim enqueued AgentRequest: '' @ req_id request)))))"

section \<open>The daemon\<close>

text \<open>
  The daemon's options. \<open>stop i\<close> answers \<open>shouldStop\<close> when \<open>i\<close> iterations are done, and
  \<open>stamp k\<close> is the ISO string of reading \<open>k\<close> of its clock, which it reads twice for each run.
  No bound on the iterations is \<open>None\<close>.
\<close>

record daemon_options =
  dm_repoRoot :: string
  bundleRoot :: string
  maxIterations :: "nat option"
  stop :: "nat \<Rightarrow> bool"
  stamp :: "nat \<Rightarrow> string"
  dm_suffix :: "string option"
  dm_codexTimeoutMs :: "int option"
  dm_shell :: string

datatype stop_reason = Max_iterations | Stop_requested

record daemon_outcome =
  iterations :: nat
  completedRuns :: nat
  stopReason :: stop_reason

definition compact_stamp :: "string \<Rightarrow> string" where
  "compact_stamp s = filter (\<lambda>c. is_digit c \<or> c = CHR ''T'' \<or> c = CHR ''Z'') s"

definition daemon_run_options :: "daemon_options \<Rightarrow> nat \<Rightarrow> agent_request \<Rightarrow> run_options" where
  "daemon_run_options d k request =
     (let short = compact_stamp (stamp d k)
      in \<lparr>repoRoot = dm_repoRoot d, bundleDir = path_join (bundleRoot d) (sanitizeId (req_id request)),
          resultId = ''ARES-'' @ drop 3 (req_id request) @ ''-'' @ short,
          opt_agentRunId = ''RUN-'' @ drop 3 (req_id request) @ ''-'' @ short,
          opt_completedAt = stamp d (Suc k),
          branchNameSuffix = (case dm_suffix d of None \<Rightarrow> Some short | Some s \<Rightarrow> Some s),
          opt_changedFiles = Some (map ea_path (expectedArtifacts request)), opt_diff = None,
          codexTimeoutMs = dm_codexTimeoutMs d\<rparr>)"

partial_function (option) daemon_loop ::
  "queue_env \<Rightarrow> 'w command_executor \<Rightarrow> 'w command_executor \<Rightarrow> daemon_options \<Rightarrow> nat \<Rightarrow> nat \<Rightarrow> 'w run_state \<Rightarrow>
     ('w run_state \<times> (scheduler_error + daemon_outcome)) option" where
  "daemon_loop env codex_executor pr_executor d n runs st =
     (if (case maxIterations d of None \<Rightarrow> False | Some m \<Rightarrow> m \<le> n)
      then Some (st, Inr \<lparr>iterations = n, completedRuns = runs, stopReason = Max_iterations\<rparr>)
      else if stop d n
      then Some (st, Inr \<lparr>iterations = n, completedRuns = runs, stopReason = Stop_requested\<rparr>)
      else case on_queue (claimNext env) st of
        (st1, Inl e) \<Rightarrow> Some (st1, Inl e)
      | (st1, Inr None) \<Rightarrow> daemon_loop env codex_executor pr_executor d (Suc n) runs st1
      | (st1, Inr (Some request)) \<Rightarrow>
          (case runClaimedAgentRequest env codex_executor pr_executor (dm_shell d)
                  (daemon_run_options d (2 * runs) request) request st1 of
             (st2, Inl e) \<Rightarrow> Some (st2, Inl e)
           | (st2, Inr _) \<Rightarrow> daemon_loop env codex_executor pr_executor d (Suc n) (Suc runs) st2))"

definition runQueueDaemon ::
  "queue_env \<Rightarrow> 'w command_executor \<Rightarrow> 'w command_executor \<Rightarrow> daemon_options \<Rightarrow> 'w run_state \<Rightarrow>
     ('w run_state \<times> (scheduler_error + daemon_outcome)) option" where
  "runQueueDaemon env codex_executor pr_executor d st = daemon_loop env codex_executor pr_executor d 0 0 st"

section \<open>What a step runs\<close>








text \<open>The push of a branch, and what comes before it.\<close>

definition push_branch :: "string \<Rightarrow> string \<Rightarrow> runner_command" where
  "push_branch dir b = git dir [''push'', ''-u'', ''origin'', b]"

definition no_push :: "string \<Rightarrow> trace \<Rightarrow> bool" where
  "no_push dir tr \<longleftrightarrow> (\<forall>e \<in> set tr. \<forall>b. fst e \<noteq> push_branch dir b)"

definition succeeded :: "runner_command \<Rightarrow> trace \<Rightarrow> bool" where
  "succeeded c tr \<longleftrightarrow> (\<exists>r. (c, r) \<in> set tr \<and> cr_exitCode r = 0)"


definition verified :: "string \<Rightarrow> string \<Rightarrow> agent_request \<Rightarrow> trace \<Rightarrow> bool" where
  "verified shell dir request tr \<longleftrightarrow>
     (\<forall>c \<in> set (requiredCommands request). succeeded (buildRequiredCommand shell dir c) tr)"

lemma no_push_simps [simp]:
  "no_push dir []" "no_push dir (a # tr) \<longleftrightarrow> (\<forall>b. fst a \<noteq> push_branch dir b) \<and> no_push dir tr"
  "no_push dir (tr @ tr') \<longleftrightarrow> no_push dir tr \<and> no_push dir tr'"
  by (auto simp: no_push_def)

lemma git_inject [simp]: "git dir a = git dir b \<longleftrightarrow> a = b"
  by (simp add: git_def)

lemma succeeded_Nil [simp]: "\<not> succeeded c []"
  by (simp add: succeeded_def)

lemma succeeded_append [simp]: "succeeded c (a @ b) \<longleftrightarrow> succeeded c a \<or> succeeded c b"
  by (auto simp: succeeded_def)

lemma succeeded_Cons [simp]: "succeeded c (a # b) \<longleftrightarrow> (fst a = c \<and> cr_exitCode (snd a) = 0) \<or> succeeded c b"
  by (cases a) (auto simp: succeeded_def)

lemma not_push [simp]:
  "hd args \<noteq> ''push'' \<Longrightarrow> git dir' args \<noteq> push_branch dir b"
  "buildRequiredCommand shell dir' c \<noteq> push_branch dir b"
  by (auto simp: push_branch_def git_def buildRequiredCommand_def)








text \<open>A step that runs no command.\<close>

definition silent :: "('w, 'a) run_step \<Rightarrow> bool" where
  "silent m \<longleftrightarrow> (\<forall>st. rs_trace (fst (m st)) = rs_trace st)"

lemma silent_bind [intro]: "silent m \<Longrightarrow> (\<And>a. silent (f a)) \<Longrightarrow> silent (run_bind m f)"
  by (auto simp: silent_def run_bind_def split: prod.splits sum.splits) (metis fst_conv)+

lemma silent_lift [intro, simp]: "silent (run_lift r)" "silent (run_return a)" "silent (on_queue q)"
  by (simp_all add: silent_def run_lift_def run_return_def on_queue_def split_beta)

lemma silent_bundle [intro, simp]: "silent (writeAgentResultBundle request ex result dir diff)"
  by (simp add: silent_def writeAgentResultBundle_def Let_def split_beta)

lemma silent_finish [intro, simp]: "silent (finish_claimed env opts request ex pr diff)"
  unfolding finish_claimed_def by (intro silent_bind silent_lift silent_bundle)













section \<open>What a run leaves\<close>




lemma text_ok_trimmed: "trim s \<noteq> [] \<Longrightarrow> text_ok (trim s)"
  by (simp add: text_ok_def)

text \<open>A path that ends in a file name keeps it.\<close>

definition file_name :: "string \<Rightarrow> bool" where
  "file_name b \<longleftrightarrow> b \<noteq> [] \<and> b \<noteq> ''.'' \<and> b \<noteq> ''..'' \<and> CHR ''/'' \<notin> set b"

lemma normalize_segments_last:
  "file_name b \<Longrightarrow> normalize_segments k acc (ss @ [b]) = normalize_segments k acc ss @ [b]"
  by (induction k acc ss rule: normalize_segments.induct)
     (auto simp: file_name_def split: list.splits)

lemma split_on_append_last: "CHR ''/'' \<notin> set b \<Longrightarrow> split_on (CHR ''/'') (a @ CHR ''/'' # b) = split_on (CHR ''/'') a @ [b]"
  by (induction a) (auto simp: split_on_plain split: list.splits)

lemma join_snoc: "join sep (xs @ [b]) = (if xs = [] then b else join sep xs @ sep @ b)"
  by (induction sep xs rule: join.induct) auto

text \<open>The directory part of \<open>join(dir, name)\<close>.\<close>

definition join_dir :: "string \<Rightarrow> string" where
  "join_dir dir =
     (if dir = [] then []
      else
        let ss = normalize_segments (\<not> starts_with ''/'' dir) [] (split_on (CHR ''/'') dir)
        in (if starts_with ''/'' dir then ''/'' else []) @ (if ss = [] then [] else join ''/'' ss @ ''/''))"

lemma path_join_file:
  assumes "file_name b"
  shows "path_join dir b = join_dir dir @ b"
proof -
  have b: "b \<noteq> []" "CHR ''/'' \<notin> set b" using assms by (auto simp: file_name_def)
  then have l: "last b \<noteq> CHR ''/''" using last_in_set by metis
  have nob: "\<not> starts_with ''/'' b" using b by (cases b) auto
  show ?thesis
  proof (cases "dir = []")
    case True
    with assms b l nob show ?thesis
      by (simp add: path_join_def path_normalize_def join_dir_def split_on_plain
          normalize_segments_last [of b _ _ "[]", simplified])
  next
    case False
    then have "starts_with ''/'' (dir @ CHR ''/'' # b) = starts_with ''/'' dir" by (cases dir) auto
    with False assms b l show ?thesis
      by (simp add: path_join_def path_normalize_def join_dir_def Let_def split_on_append_last
          normalize_segments_last join_snoc)
  qed
qed


lemma path_join_inject [simp]: "file_name a \<Longrightarrow> file_name b \<Longrightarrow> path_join dir a = path_join dir b \<longleftrightarrow> a = b"
  by (simp add: path_join_file)

text \<open>Executors that always resolve, with a result that names its command.\<close>

definition names_command :: "command_result \<Rightarrow> bool" where
  "names_command r \<longleftrightarrow> text_ok (cr_command r)"










lemma names_command_phase [simp]: "names_command (r\<lparr>cr_phase := p\<rparr>) = names_command r"
  by (simp add: names_command_def)




subsection \<open>The result is valid\<close>














subsection \<open>The run ends with a stored result\<close>


















subsection \<open>A run keeps the requests\<close>











section \<open>The daemon drains the queue\<close>











lemma daemon_loop_returns:
  assumes "maxIterations d = Some m"
  shows "n \<le> m \<Longrightarrow> runs \<le> n \<Longrightarrow> \<exists>st' out. daemon_loop env codex_executor pr_executor d n runs st = Some (st', out) \<and>
    (\<forall>oc. out = Inr oc \<longrightarrow> completedRuns oc \<le> iterations oc \<and> iterations oc \<le> m)"
proof (induction "m - n" arbitrary: n runs st)
  case 0
  then show ?case by (subst daemon_loop.simps) (simp add: assms)
next
  case (Suc k)
  have n: "\<not> m \<le> n" "k = m - Suc n" "Suc n \<le> m" using Suc.hyps(2) by auto
  note next_iteration = Suc.hyps(1) [OF n(2,3)]
  obtain st1 claimed where c: "on_queue (claimNext env) st = (st1, claimed)" by fastforce
  show ?case
  proof (cases claimed)
    case (Inl e)
    with c n Suc.prems show ?thesis by (subst daemon_loop.simps) (simp add: assms)
  next
    case (Inr res)
    show ?thesis
    proof (cases res)
      case None
      with Inr c n Suc.prems next_iteration [of runs st1] show ?thesis
        by (subst daemon_loop.simps) (simp add: assms)
    next
      case (Some r)
      obtain st2 out where "runClaimedAgentRequest env codex_executor pr_executor (dm_shell d)
          (daemon_run_options d (2 * runs) r) r st1 = (st2, out)" by fastforce
      with Inr Some c n Suc.prems next_iteration [of "Suc runs" st2] show ?thesis
        by (subst daemon_loop.simps) (simp add: assms split: sum.splits)
    qed
  qed
qed

section \<open>A sample run\<close>

definition sample_options :: run_options where
  "sample_options = \<lparr>repoRoot = ''repo'', bundleDir = ''bundle'', resultId = ''ARES-1'',
     opt_agentRunId = ''RUN-1'', opt_completedAt = ''0'', branchNameSuffix = None,
     opt_changedFiles = Some [''src/a.ts''], opt_diff = None, codexTimeoutMs = None\<rparr>"

definition ok_result :: "runner_command \<Rightarrow> command_result" where
  "ok_result c = \<lparr>cr_command = rc_command c, cr_args = rc_args c, cr_cwd = rc_cwd c, cr_exitCode = 0,
     cr_stdout = (if rc_command c = ''gh'' then ''https://pr'' else '' M src/a.ts''), cr_stderr = [],
     cr_startedAt = [], cr_completedAt = [], cr_timedOut = False, cr_signal = None, cr_phase = None\<rparr>"

definition ok_executor :: "unit command_executor" where
  "ok_executor c w = (w, Inr (ok_result (if trim (rc_command c) = [] then c\<lparr>rc_command := ''sh''\<rparr> else c)))"

definition sample_start :: "unit run_state" where
  "sample_start = \<lparr>rs_world = (), rs_trace = [],
     rs_queue = fst (queue_exec queue_sample_env Claim_next sample_enqueued), rs_files = []\<rparr>"

abbreviation "sample_run \<equiv>
  runClaimedAgentRequest queue_sample_env ok_executor ok_executor ''sh'' sample_options sample_request sample_start"
















definition sample_daemon :: daemon_options where
  "sample_daemon = \<lparr>dm_repoRoot = ''repo'', bundleRoot = ''bundles'', maxIterations = Some 2,
     stop = (\<lambda>_. False), stamp = (\<lambda>_. ''0''), dm_suffix = None, dm_codexTimeoutMs = None, dm_shell = ''sh''\<rparr>"

definition sample_waiting :: "unit run_state" where
  "sample_waiting = \<lparr>rs_world = (), rs_trace = [], rs_queue = sample_enqueued, rs_files = []\<rparr>"




section \<open>The properties\<close>







text \<open>
  A daemon with a bound on its iterations returns, whatever the executors, the stop signal
  and the queue do; it counts at most that many iterations, and no more runs than iterations.
\<close>

theorem bounded_daemon_returns:
  assumes "maxIterations d = Some m"
  shows "\<exists>st' out. runQueueDaemon env codex_executor pr_executor d st = Some (st', out) \<and>
    (\<forall>oc. out = Inr oc \<longrightarrow> completedRuns oc \<le> iterations oc \<and> iterations oc \<le> m)"
  unfolding runQueueDaemon_def by (rule daemon_loop_returns [OF assms]) simp_all

theorem bounded_daemon_returns_witness:
  "\<exists>st' out. runQueueDaemon queue_sample_env ok_executor ok_executor sample_daemon sample_waiting = Some (st', out) \<and>
    (case out of Inl _ \<Rightarrow> True | Inr oc \<Rightarrow> completedRuns oc \<le> iterations oc \<and> iterations oc \<le> 2)"
proof -
  have "maxIterations sample_daemon = Some 2" by (simp add: sample_daemon_def)
  from bounded_daemon_returns [OF this, of queue_sample_env ok_executor ok_executor sample_waiting]
  obtain st' out where "runQueueDaemon queue_sample_env ok_executor ok_executor sample_daemon sample_waiting = Some (st', out)"
    "\<forall>oc. out = Inr oc \<longrightarrow> completedRuns oc \<le> iterations oc \<and> iterations oc \<le> 2" by blast
  then show ?thesis by (cases out) auto
qed

end
