(* ===== verification/Resilience.thy ===== *)
theory Resilience
  imports Agent_Runner
begin

text \<open>
  The circuit breaker and the retry loop of the kernel client
  (\<open>packages/gdk-ts/src/resilience.ts\<close>). Calls through the breaker overlap: a call is admitted
  at one time and ends at another, and other calls may begin and end in between. So the breaker
  is a step relation over its fields and the calls in flight, each with the flag \<open>wasHalfOpen\<close>
  that it was admitted with.
\<close>

section \<open>The circuit breaker\<close>

datatype circuit_state = Closed | Open | Half_open

record circuit_breaker =
  cb_state :: circuit_state
  failureCount :: nat
  successCount :: nat
  lastFailureTime :: "int option"
  nextAttemptTime :: "int option"

record breaker_config =
  failureThreshold :: nat
  recoveryTimeoutMs :: int
  successThreshold :: nat

definition default_config :: breaker_config where
  "default_config = \<lparr>failureThreshold = 5, recoveryTimeoutMs = 30000, successThreshold = 1\<rparr>"

definition initial_breaker :: circuit_breaker where
  "initial_breaker = \<lparr>cb_state = Closed, failureCount = 0, successCount = 0, lastFailureTime = None,
     nextAttemptTime = None\<rparr>"

text \<open>\<open>nextAttemptTime\<close> is tested as a number: \<open>null\<close> and 0 are falsy.\<close>

definition checkRecoveryTimeout :: "int \<Rightarrow> circuit_breaker \<Rightarrow> circuit_breaker" where
  "checkRecoveryTimeout now b =
     (case nextAttemptTime b of
        Some t \<Rightarrow>
          if cb_state b = Open \<and> t \<noteq> 0 \<and> t \<le> now
          then b\<lparr>cb_state := Half_open, successCount := 0\<rparr> else b
      | None \<Rightarrow> b)"

definition openCircuit :: "breaker_config \<Rightarrow> int \<Rightarrow> circuit_breaker \<Rightarrow> circuit_breaker" where
  "openCircuit cfg now b = b\<lparr>cb_state := Open, nextAttemptTime := Some (now + recoveryTimeoutMs cfg)\<rparr>"

definition closeCircuit :: "circuit_breaker \<Rightarrow> circuit_breaker" where
  "closeCircuit b = b\<lparr>cb_state := Closed, failureCount := 0, successCount := 0, nextAttemptTime := None\<rparr>"

definition onSuccess :: "breaker_config \<Rightarrow> bool \<Rightarrow> circuit_breaker \<Rightarrow> circuit_breaker" where
  "onSuccess cfg wasHalfOpen b =
     (if wasHalfOpen then
        (let b' = b\<lparr>successCount := successCount b + 1\<rparr>
         in if successThreshold cfg \<le> successCount b' then closeCircuit b' else b')
      else b\<lparr>failureCount := 0\<rparr>)"

definition onFailure :: "breaker_config \<Rightarrow> int \<Rightarrow> bool \<Rightarrow> circuit_breaker \<Rightarrow> circuit_breaker" where
  "onFailure cfg now wasHalfOpen b =
     (let b' = b\<lparr>failureCount := failureCount b + 1, lastFailureTime := Some now\<rparr>
      in if wasHalfOpen \<or> failureThreshold cfg \<le> failureCount b' then openCircuit cfg now b' else b')"

definition reset_breaker :: "circuit_breaker \<Rightarrow> circuit_breaker" where
  "reset_breaker b = b\<lparr>cb_state := Closed, failureCount := 0, successCount := 0, lastFailureTime := None,
     nextAttemptTime := None\<rparr>"

text \<open>
  The beginning of \<open>execute\<close>: a refusal, or the flag of an admitted call.
\<close>

definition admit :: "int \<Rightarrow> circuit_breaker \<Rightarrow> circuit_breaker \<times> bool option" where
  "admit now b =
     (let b' = checkRecoveryTimeout now b
      in (b', if cb_state b' = Open then None else Some (cb_state b' = Half_open)))"

text \<open>Its end, where the call has answered.\<close>

definition settle :: "breaker_config \<Rightarrow> int \<Rightarrow> bool \<Rightarrow> bool \<Rightarrow> circuit_breaker \<Rightarrow> circuit_breaker" where
  "settle cfg now wasHalfOpen ok b = (if ok then onSuccess cfg wasHalfOpen b else onFailure cfg now wasHalfOpen b)"

text \<open>Whether the end of a call runs \<open>openCircuit\<close>.\<close>

definition opens :: "breaker_config \<Rightarrow> bool \<Rightarrow> bool \<Rightarrow> circuit_breaker \<Rightarrow> bool" where
  "opens cfg wasHalfOpen ok b \<longleftrightarrow> \<not> ok \<and> (wasHalfOpen \<or> failureThreshold cfg \<le> failureCount b + 1)"

section \<open>Overlapping calls\<close>

text \<open>\<open>opened_at\<close> records when the circuit was last opened; the code does not keep it.\<close>

record breaker_system =
  breaker :: circuit_breaker
  in_flight :: "bool list"
  bs_now :: int
  opened_at :: "int option"

datatype breaker_event = Admitted bool | Refused | Settled bool bool | Waited | Was_reset

inductive breaker_step :: "breaker_config \<Rightarrow> breaker_system \<Rightarrow> breaker_event \<Rightarrow> breaker_system \<Rightarrow> bool"
  for cfg where
  begin_call: "admit (bs_now s) (breaker s) = (b, Some h) \<Longrightarrow>
    breaker_step cfg s (Admitted h) (s\<lparr>breaker := b, in_flight := h # in_flight s\<rparr>)"
| refuse_call: "admit (bs_now s) (breaker s) = (b, None) \<Longrightarrow> breaker_step cfg s Refused (s\<lparr>breaker := b\<rparr>)"
| end_call: "in_flight s = xs @ h # ys \<Longrightarrow>
    breaker_step cfg s (Settled h ok)
      (s\<lparr>breaker := settle cfg (bs_now s) h ok (breaker s), in_flight := xs @ ys,
         opened_at := (if opens cfg h ok (breaker s) then Some (bs_now s) else opened_at s)\<rparr>)"
| wait_time: "bs_now s \<le> t \<Longrightarrow> breaker_step cfg s Waited (s\<lparr>bs_now := t\<rparr>)"
| reset_call: "breaker_step cfg s Was_reset (s\<lparr>breaker := reset_breaker (breaker s)\<rparr>)"

definition breaker_move :: "breaker_config \<Rightarrow> breaker_system \<Rightarrow> breaker_system \<Rightarrow> bool" where
  "breaker_move cfg s s' \<longleftrightarrow> (\<exists>e. breaker_step cfg s e s')"

definition started :: "breaker_system \<Rightarrow> bool" where
  "started s \<longleftrightarrow> breaker s = initial_breaker \<and> in_flight s = [] \<and> 0 < bs_now s"

definition config_ok :: "breaker_config \<Rightarrow> bool" where
  "config_ok cfg \<longleftrightarrow> 0 < failureThreshold cfg \<and> 0 \<le> recoveryTimeoutMs cfg"

text \<open>What the fields tell in each state.\<close>

definition breaker_inv :: "breaker_config \<Rightarrow> breaker_system \<Rightarrow> bool" where
  "breaker_inv cfg s \<longleftrightarrow> 0 < bs_now s \<and>
     (case cb_state (breaker s) of
        Closed \<Rightarrow> failureCount (breaker s) < failureThreshold cfg \<and> nextAttemptTime (breaker s) = None
      | Open \<Rightarrow> \<exists>t. opened_at s = Some t \<and> 0 < t \<and> t \<le> bs_now s \<and>
          nextAttemptTime (breaker s) = Some (t + recoveryTimeoutMs cfg)
      | Half_open \<Rightarrow> \<exists>t. opened_at s = Some t \<and> 0 < t \<and> t + recoveryTimeoutMs cfg \<le> bs_now s)"

lemma recovery_cases:
  obtains "checkRecoveryTimeout t b = b" "cb_state b = Open \<Longrightarrow> nextAttemptTime b = None \<or> nextAttemptTime b = Some 0 \<or>
      (\<exists>n. nextAttemptTime b = Some n \<and> t < n)"
  | n where "cb_state b = Open" "nextAttemptTime b = Some n" "n \<noteq> 0" "n \<le> t"
      "checkRecoveryTimeout t b = b\<lparr>cb_state := Half_open, successCount := 0\<rparr>"
proof (cases "nextAttemptTime b")
  case None
  then show thesis by (intro that(1)) (simp_all add: checkRecoveryTimeout_def)
next
  case (Some n)
  show thesis
  proof (cases "cb_state b = Open \<and> n \<noteq> 0 \<and> n \<le> t")
    case True
    with Some show thesis by (intro that(2) [of n]) (simp_all add: checkRecoveryTimeout_def)
  next
    case False
    with Some show thesis by (intro that(1)) (auto simp: checkRecoveryTimeout_def)
  qed
qed

lemma recovery_keeps_inv:
  assumes "breaker_inv cfg s" "config_ok cfg"
  shows "breaker_inv cfg (s\<lparr>breaker := checkRecoveryTimeout (bs_now s) (breaker s)\<rparr>)"
  by (rule recovery_cases [of "bs_now s" "breaker s"])
     (use assms in \<open>auto simp: breaker_inv_def config_ok_def split: circuit_state.splits\<close>)

lemma settle_keeps_inv:
  assumes "breaker_inv cfg s" "config_ok cfg"
  shows "breaker_inv cfg (s\<lparr>breaker := settle cfg (bs_now s) h ok (breaker s),
    opened_at := (if opens cfg h ok (breaker s) then Some (bs_now s) else opened_at s)\<rparr>)"
  using assms
  by (auto simp: breaker_inv_def config_ok_def settle_def onSuccess_def onFailure_def opens_def
      openCircuit_def closeCircuit_def Let_def split: circuit_state.splits)

lemma breaker_step_inv:
  assumes "config_ok cfg" "breaker_inv cfg s" "breaker_step cfg s e s'"
  shows "breaker_inv cfg s'"
  using assms(3)
proof cases
  case (begin_call b h)
  then have "b = checkRecoveryTimeout (bs_now s) (breaker s)" by (simp add: admit_def Let_def)
  with recovery_keeps_inv [OF assms(2,1)] begin_call show ?thesis
    by (simp add: breaker_inv_def cong: circuit_state.case_cong)
next
  case (refuse_call b)
  then have "b = checkRecoveryTimeout (bs_now s) (breaker s)" by (simp add: admit_def Let_def)
  with recovery_keeps_inv [OF assms(2,1)] refuse_call show ?thesis
    by (simp add: breaker_inv_def cong: circuit_state.case_cong)
next
  case (end_call xs h ys ok)
  with settle_keeps_inv [OF assms(2,1), of h ok] show ?thesis
    by (simp add: breaker_inv_def cong: circuit_state.case_cong)
next
  case (wait_time t)
  with assms(2) show ?thesis by (auto simp: breaker_inv_def split: circuit_state.splits)
next
  case reset_call
  with assms show ?thesis by (simp add: breaker_inv_def reset_breaker_def config_ok_def)
qed

definition breaker_promise :: "breaker_config \<Rightarrow> breaker_system \<Rightarrow> bool" where
  "breaker_promise cfg s \<longleftrightarrow> (config_ok cfg \<longrightarrow> breaker_inv cfg s)"

interpretation breaker_system: invariant_system started "breaker_move cfg" "breaker_promise cfg" for cfg
proof unfold_locales
  fix s assume "started s"
  then show "breaker_promise cfg s"
    by (auto simp: breaker_promise_def started_def breaker_inv_def initial_breaker_def config_ok_def)
next
  fix s t assume "breaker_move cfg s t" "breaker_promise cfg s"
  then show "breaker_promise cfg t"
    by (auto simp: breaker_promise_def breaker_move_def intro: breaker_step_inv)
qed

text \<open>
  Two things that calls in flight do: while the circuit is half open every call is admitted as a
  probe, and the success of a probe can close a circuit that has opened again in the meantime.
\<close>

lemma half_open_admits_all: "cb_state b = Half_open \<Longrightarrow> admit t b = (b, Some True)"
  by (simp add: admit_def checkRecoveryTimeout_def split: option.splits)

lemma late_probe_closes:
  "cb_state b = Open \<Longrightarrow> successThreshold cfg \<le> successCount b + 1 \<Longrightarrow> cb_state (settle cfg t True True b) = Closed"
  by (simp add: settle_def onSuccess_def closeCircuit_def)

section \<open>Retries\<close>

text \<open>What a call throws: an \<open>Error\<close> with its message, or something else.\<close>

datatype js_error = Js_error string | Other_thrown

record retry_config =
  maxRetries_of :: nat
  baseDelayMs :: int
  retryableStatuses :: "nat list"

definition default_retry :: retry_config where
  "default_retry = \<lparr>maxRetries_of = 3, baseDelayMs = 200, retryableStatuses = [502, 503, 504]\<rparr>"

text \<open>\<open>/\((\d{3})\)/\<close>\<close>

definition status_in_parens :: "string \<Rightarrow> nat option" where
  "status_in_parens s =
     (if length s \<ge> 5 \<and> hd s = CHR ''('' \<and> list_all is_digit (take 3 (tl s)) \<and> s ! 4 = CHR '')''
      then Some (undec (take 3 (tl s))) else None)"

definition shouldRetry :: "retry_config \<Rightarrow> js_error \<Rightarrow> bool" where
  "shouldRetry cfg e =
     (case e of
        Other_thrown \<Rightarrow> True
      | Js_error msg \<Rightarrow>
          (case first_match status_in_parens msg of
             Some code \<Rightarrow> code \<in> set (retryableStatuses cfg)
           | None \<Rightarrow> list_ex (\<lambda>w. contains_str w msg)
               [''ECONNREFUSED'', ''ETIMEDOUT'', ''ENOTFOUND'', ''network'', ''timeout'']))"

definition calculateDelay :: "retry_config \<Rightarrow> nat \<Rightarrow> int" where
  "calculateDelay cfg attempt = baseDelayMs cfg * 2 ^ attempt"

record retry_exhausted =
  rx_attempts :: nat
  rx_lastError :: js_error
  rx_totalDelayMs :: int

text \<open>
  The loop from attempt \<open>attempt\<close>, with \<open>left\<close> attempts after it; \<open>delays\<close> are the arguments of
  \<open>onRetry\<close> so far, in order.
\<close>

fun retry_loop ::
  "retry_config \<Rightarrow> ('w \<Rightarrow> 'w \<times> (js_error + 'a)) \<Rightarrow> nat \<Rightarrow> nat \<Rightarrow> int \<Rightarrow> (nat \<times> int) list \<Rightarrow> 'w \<Rightarrow>
     'w \<times> (nat \<times> int) list \<times> (retry_exhausted + 'a)" where
  "retry_loop cfg fn attempt 0 waited delays w =
     (case fn w of
        (w', Inr a) \<Rightarrow> (w', delays, Inr a)
      | (w', Inl e) \<Rightarrow> (w', delays,
          Inl \<lparr>rx_attempts = maxRetries_of cfg + 1, rx_lastError = e, rx_totalDelayMs = waited\<rparr>))"
| "retry_loop cfg fn attempt (Suc left) waited delays w =
     (case fn w of
        (w', Inr a) \<Rightarrow> (w', delays, Inr a)
      | (w', Inl e) \<Rightarrow>
          if shouldRetry cfg e
          then retry_loop cfg fn (Suc attempt) left (waited + calculateDelay cfg attempt)
                 (delays @ [(attempt + 1, calculateDelay cfg attempt)]) w'
          else (w', delays,
            Inl \<lparr>rx_attempts = maxRetries_of cfg + 1, rx_lastError = e, rx_totalDelayMs = waited\<rparr>))"

definition retry_execute ::
  "retry_config \<Rightarrow> ('w \<Rightarrow> 'w \<times> (js_error + 'a)) \<Rightarrow> 'w \<Rightarrow> 'w \<times> (nat \<times> int) list \<times> (retry_exhausted + 'a)" where
  "retry_execute cfg fn w = retry_loop cfg fn 0 (maxRetries_of cfg) 0 [] w"

text \<open>A function whose call number \<open>k\<close> answers \<open>f k\<close>; the world counts the calls.\<close>

definition answering :: "(nat \<Rightarrow> js_error + 'a) \<Rightarrow> nat \<Rightarrow> nat \<times> (js_error + 'a)" where
  "answering f k = (Suc k, f k)"

definition retried :: "retry_config \<Rightarrow> js_error + 'a \<Rightarrow> bool" where
  "retried cfg r = (case r of Inl e \<Rightarrow> shouldRetry cfg e | Inr _ \<Rightarrow> False)"

lemma sum_of_delays: "sum_list (map (calculateDelay cfg) [0..<n]) = baseDelayMs cfg * (2 ^ n - 1)"
  by (induction n) (simp_all add: calculateDelay_def algebra_simps)

lemma retry_loop_exact:
  assumes "\<forall>i < n. retried cfg (f i)" "n \<le> m" "\<not> (n < m \<and> retried cfg (f n))"
  shows "k \<le> n \<Longrightarrow> retry_loop cfg (answering f) k (m - k) waited delays k =
    (Suc n, delays @ map (\<lambda>i. (i + 1, calculateDelay cfg i)) [k..<n],
     case f n of Inr a \<Rightarrow> Inr a
     | Inl e \<Rightarrow> Inl \<lparr>rx_attempts = maxRetries_of cfg + 1, rx_lastError = e,
         rx_totalDelayMs = waited + sum_list (map (calculateDelay cfg) [k..<n])\<rparr>)"
proof (induction "n - k" arbitrary: k waited delays)
  case 0
  then have k: "k = n" by simp
  show ?case
  proof (cases "m - n")
    case 0
    with k show ?thesis by (simp add: answering_def split: sum.splits)
  next
    case (Suc left)
    with assms(3) have "\<not> retried cfg (f n)" by simp
    with k Suc show ?thesis by (auto simp: answering_def retried_def split: sum.splits)
  qed
next
  case (Suc d)
  then have k: "k < n" "d = n - Suc k" "Suc k \<le> n" by auto
  have "retried cfg (f k)" using assms(1) k(1) by simp
  then obtain e where e: "f k = Inl e" "shouldRetry cfg e"
    by (cases "f k") (simp_all add: retried_def)
  have left: "m - k = Suc (m - Suc k)" using k(1) assms(2) by simp
  have "[k..<n] = k # [Suc k..<n]" using k(1) by (simp add: upt_conv_Cons)
  with e left Suc.hyps(1) [OF k(2,3)] show ?case by (simp add: answering_def add.assoc split: sum.splits)
qed

section \<open>The properties\<close>


text \<open>
  C20. Retrying is exact and its waiting is bounded. When \<open>n\<close> is the first attempt within the
  limit that succeeds, that fails for good or that is the last, the function is called exactly
  \<open>n + 1\<close> times, the delays are the base delay times 1, 2, 4 and so on for the first \<open>n\<close> attempts,
  and the answer of attempt \<open>n\<close> decides the result. An error reports all of the time waited,
  which is at most the base delay times \<open>2 ^ maxRetries - 1\<close>.
\<close>

theorem retry_exact:
  assumes "\<forall>i < n. retried cfg (f i)" "n \<le> maxRetries_of cfg" "\<not> (n < maxRetries_of cfg \<and> retried cfg (f n))"
    and "0 \<le> baseDelayMs cfg"
  shows "retry_execute cfg (answering f) 0 =
      (Suc n, map (\<lambda>i. (i + 1, baseDelayMs cfg * 2 ^ i)) [0..<n],
       case f n of Inr a \<Rightarrow> Inr a
       | Inl e \<Rightarrow> Inl \<lparr>rx_attempts = maxRetries_of cfg + 1, rx_lastError = e,
           rx_totalDelayMs = baseDelayMs cfg * (2 ^ n - 1)\<rparr>) \<and>
    baseDelayMs cfg * (2 ^ n - 1) \<le> baseDelayMs cfg * (2 ^ maxRetries_of cfg - 1)"
proof
  show "retry_execute cfg (answering f) 0 =
      (Suc n, map (\<lambda>i. (i + 1, baseDelayMs cfg * 2 ^ i)) [0..<n],
       case f n of Inr a \<Rightarrow> Inr a
       | Inl e \<Rightarrow> Inl \<lparr>rx_attempts = maxRetries_of cfg + 1, rx_lastError = e,
           rx_totalDelayMs = baseDelayMs cfg * (2 ^ n - 1)\<rparr>)"
    using retry_loop_exact [OF assms(1-3), of 0 0 "[]"]
    unfolding retry_execute_def sum_of_delays add_0_left unfolding calculateDelay_def by simp
  have "(2 :: int) ^ n \<le> 2 ^ maxRetries_of cfg" using assms(2) by (simp add: power_increasing)
  then have "(2 :: int) ^ n - 1 \<le> 2 ^ maxRetries_of cfg - 1" by (rule diff_right_mono)
  then show "baseDelayMs cfg * (2 ^ n - 1) \<le> baseDelayMs cfg * (2 ^ maxRetries_of cfg - 1)"
    using assms(4) by (rule mult_left_mono)
qed

text \<open>The default configuration gives up on the third 503 when the fourth answer is no 503.\<close>

definition sample_answers :: "nat \<Rightarrow> js_error + string" where
  "sample_answers k = (if k < 2 then Inl (Js_error ''failed (503)'') else Inl (Js_error ''failed (404)''))"

theorem retry_exact_witness:
  "retry_execute default_retry (answering sample_answers) 0 =
      (3, [(1, 200), (2, 400)], Inl \<lparr>rx_attempts = 4, rx_lastError = Js_error ''failed (404)'', rx_totalDelayMs = 600\<rparr>) \<and>
    baseDelayMs default_retry * (2 ^ 2 - 1) \<le> baseDelayMs default_retry * (2 ^ maxRetries_of default_retry - 1)"
proof -
  have "retried default_retry (sample_answers 0)" "retried default_retry (sample_answers 1)"
    "\<not> retried default_retry (sample_answers 2)" by code_simp+
  then have "\<forall>i < 2. retried default_retry (sample_answers i)" "\<not> retried default_retry (sample_answers 2)"
    by (auto simp: less_2_cases_iff)
  note answers = this
  have cfg: "maxRetries_of default_retry = 3" "baseDelayMs default_retry = 200" by (simp_all add: default_retry_def)
  have "sample_answers 2 = Inl (Js_error ''failed (404)'')" "[0..<2] = [0, 1 :: nat]"
    by (simp_all add: sample_answers_def upt_rec)
  with retry_exact [OF answers(1)] answers(2) show ?thesis by (simp add: cfg)
qed




end
