(* ===== verification/Js_Numbers.thy ===== *)
theory Js_Numbers
  imports Complex_Main "HOL-Library.Log_Nat"
begin

text \<open>
  JavaScript numbers, as far as the scoring code uses them: a finite binary64 value is a
  rational number, and each arithmetic operation is the exact operation followed by
  \<open>rnd\<close>, which rounds to the nearest binary64 value, ties to even (subnormal values
  included). The code only computes with values far below the overflow threshold, and the
  sign of a zero is not observable in it. \<open>fixed4 x\<close> is \<open>Number(x.toFixed(4))\<close>.

  The facts the components use are that rounding is monotone and keeps what is already a
  binary64 value; the bounds of every score follow from these two.
\<close>

section \<open>Definitions\<close>

definition two_pow :: "int \<Rightarrow> rat" where
  "two_pow e = (if 0 \<le> e then 2 ^ nat e else 1 / 2 ^ nat (- e))"

text \<open>The exponent of the leading bit of a positive value.\<close>

definition floor_log2 :: "rat \<Rightarrow> int" where
  "floor_log2 x = (if 1 \<le> x then bitlen \<lfloor>x\<rfloor> - 1 else - bitlen (\<lceil>1 / x\<rceil> - 1))"

text \<open>The exponent of the last of 53 bits, and not below that of the subnormal values.\<close>

definition ulp_exp :: "rat \<Rightarrow> int" where
  "ulp_exp x = max (floor_log2 x - 52) (- 1074)"

definition round_even :: "rat \<Rightarrow> int" where
  "round_even x =
     (let f = \<lfloor>x\<rfloor>; r = x - of_int f
      in if r < 1 / 2 then f else if r > 1 / 2 then f + 1 else if even f then f else f + 1)"

definition rnd_pos :: "rat \<Rightarrow> rat" where
  "rnd_pos x = of_int (round_even (x / two_pow (ulp_exp x))) * two_pow (ulp_exp x)"

definition rnd :: "rat \<Rightarrow> rat" where
  "rnd x = (if x = 0 then 0 else if 0 < x then rnd_pos x else - rnd_pos (- x))"

definition is_double :: "rat \<Rightarrow> bool" where
  "is_double x \<longleftrightarrow> rnd x = x"

text \<open>\<open>toFixed(4)\<close> takes the nearest multiple of 1/10000, the larger one of two.\<close>

definition fixed4 :: "rat \<Rightarrow> rat" where
  "fixed4 x =
     rnd (if x < 0 then - (of_int \<lfloor>- x * 10000 + 1 / 2\<rfloor> / 10000)
          else of_int \<lfloor>x * 10000 + 1 / 2\<rfloor> / 10000)"

text \<open>The value of a decimal literal: \<open>0.12\<close> is \<open>lit 12 100\<close>.\<close>

definition lit :: "int \<Rightarrow> int \<Rightarrow> rat" where
  "lit m d = rnd (of_int m / of_int d)"

section \<open>Powers of two\<close>

lemma two_pow_pos [simp]: "0 < two_pow e"
  by (simp add: two_pow_def)

lemma two_pow_neq_0 [simp]: "two_pow e \<noteq> 0"
  using two_pow_pos [of e] by (metis less_irrefl)

lemma two_pow_nonneg [simp]: "0 \<le> two_pow e"
  using two_pow_pos [of e] by (rule less_imp_le)

lemma two_pow_add_nat: "two_pow (e + int n) = 2 ^ n * two_pow e"
proof (cases "0 \<le> e")
  case True
  then show ?thesis by (simp add: two_pow_def nat_add_distrib power_add)
next
  case False
  then obtain k where k: "e = - int k" "0 < k"
    by (metis int_cases2 not_le zero_less_imp_eq_int neg_less_0_iff_less
        minus_equation_iff of_nat_0_less_iff not_less)
  show ?thesis
  proof (cases "k \<le> n")
    case True
    then show ?thesis
      using k by (simp add: two_pow_def power_diff nat_diff_distrib' of_nat_diff)
  next
    case False
    then have "(2::rat) ^ k = 2 ^ (k - n) * 2 ^ n"
      by (simp flip: power_add)
    then show ?thesis using k False
      by (simp add: two_pow_def nat_diff_distrib field_simps)
  qed
qed

lemma two_pow_mono: "e \<le> f \<Longrightarrow> two_pow e \<le> two_pow f"
proof -
  assume "e \<le> f"
  then obtain n where "f = e + int n" by (metis zle_iff_zadd)
  moreover have "two_pow e * 1 \<le> two_pow e * 2 ^ n"
    by (rule mult_left_mono) simp_all
  ultimately show ?thesis by (simp add: two_pow_add_nat mult.commute)
qed

lemma two_pow_less_iff: "two_pow e < two_pow f \<Longrightarrow> e < f"
  by (metis linorder_not_le two_pow_mono)

lemma two_pow_multiple: "e \<le> f \<Longrightarrow> \<exists>m. two_pow f = of_int m * two_pow e"
proof -
  assume "e \<le> f"
  then obtain n where "f = e + int n" by (metis zle_iff_zadd)
  then have "two_pow f = of_int (2 ^ n) * two_pow e" by (simp add: two_pow_add_nat)
  then show ?thesis by blast
qed

section \<open>The leading bit\<close>

lemma floor_log2_bounds:
  assumes "0 < x"
  shows "two_pow (floor_log2 x) \<le> x" and "x < two_pow (floor_log2 x + 1)"
proof -
  have "two_pow (floor_log2 x) \<le> x \<and> x < two_pow (floor_log2 x + 1)"
  proof (cases "1 \<le> x")
    case True
    then have f: "0 < \<lfloor>x\<rfloor>" unfolding zero_less_floor .
    let ?b = "bitlen \<lfloor>x\<rfloor>"
    have b: "0 < ?b" using f bitlen_nonneg [of "\<lfloor>x\<rfloor>"] bitlen_eq_zero_iff [of "\<lfloor>x\<rfloor>"] by linarith
    have lo: "2 ^ nat (?b - 1) \<le> \<lfloor>x\<rfloor>" and hi: "\<lfloor>x\<rfloor> < 2 ^ nat ?b"
      using bitlen_bounds [OF f] by auto
    from lo have "(2::rat) ^ nat (?b - 1) \<le> x"
      by (metis le_floor_iff of_int_numeral of_int_power)
    moreover from hi have "x < (2::rat) ^ nat ?b"
      by (metis floor_less_iff of_int_numeral of_int_power)
    ultimately show ?thesis using True b by (simp add: floor_log2_def two_pow_def)
  next
    case False
    let ?c = "\<lceil>1 / x\<rceil> - 1" let ?b = "bitlen ?c"
    from False assms have "1 < 1 / x" by (simp add: field_simps)
    then have c: "0 < ?c" by simp
    have b: "0 < ?b" using c bitlen_nonneg [of ?c] bitlen_eq_zero_iff [of ?c] by linarith
    have lo: "2 ^ nat (?b - 1) \<le> ?c" and hi: "?c < 2 ^ nat ?b"
      using bitlen_bounds [OF c] by auto
    from hi have "\<lceil>1 / x\<rceil> \<le> 2 ^ nat ?b" by simp
    then have "1 / x \<le> (2::rat) ^ nat ?b"
      by (metis ceiling_le_iff of_int_numeral of_int_power)
    moreover from lo have "2 ^ nat (?b - 1) < \<lceil>1 / x\<rceil>" by simp
    then have "(2::rat) ^ nat (?b - 1) < 1 / x"
      by (metis less_ceiling_iff of_int_numeral of_int_power)
    ultimately show ?thesis using False assms b
      by (auto simp: floor_log2_def two_pow_def field_simps nat_diff_distrib)
  qed
  then show "two_pow (floor_log2 x) \<le> x" "x < two_pow (floor_log2 x + 1)" by auto
qed

lemma floor_log2_ge: "0 < x \<Longrightarrow> two_pow e \<le> x \<Longrightarrow> e \<le> floor_log2 x"
  using floor_log2_bounds(2) [of x] two_pow_less_iff [of e "floor_log2 x + 1"] by fastforce

lemma floor_log2_less: "0 < x \<Longrightarrow> x < two_pow e \<Longrightarrow> floor_log2 x < e"
  using floor_log2_bounds(1) [of x] two_pow_less_iff [of "floor_log2 x" e] by fastforce

lemma ulp_exp_mono: "0 < x \<Longrightarrow> x \<le> y \<Longrightarrow> ulp_exp x \<le> ulp_exp y"
proof -
  assume "0 < x" "x \<le> y"
  then have "floor_log2 x \<le> floor_log2 y"
    using floor_log2_bounds(1) [of x] by (intro floor_log2_ge) auto
  then show ?thesis by (auto simp: ulp_exp_def)
qed

section \<open>Rounding\<close>

lemma round_even_of_int [simp]: "round_even (of_int m) = m"
  by (simp add: round_even_def)

lemma round_even_mono: "x \<le> y \<Longrightarrow> round_even x \<le> round_even y"
proof -
  assume xy: "x \<le> y"
  then have f: "\<lfloor>x\<rfloor> \<le> \<lfloor>y\<rfloor>" by (rule floor_mono)
  show ?thesis
  proof (cases "\<lfloor>x\<rfloor> = \<lfloor>y\<rfloor>")
    case True
    then show ?thesis using xy by (auto simp: round_even_def Let_def)
  next
    case False
    with f have "\<lfloor>x\<rfloor> + 1 \<le> \<lfloor>y\<rfloor>" by simp
    moreover have "round_even x \<le> \<lfloor>x\<rfloor> + 1" "\<lfloor>y\<rfloor> \<le> round_even y"
      by (simp_all add: round_even_def Let_def)
    ultimately show ?thesis by simp
  qed
qed

lemma rnd_pos_le: "x \<le> of_int m * two_pow (ulp_exp x) \<Longrightarrow> rnd_pos x \<le> of_int m * two_pow (ulp_exp x)"
proof -
  assume "x \<le> of_int m * two_pow (ulp_exp x)"
  then have "x / two_pow (ulp_exp x) \<le> of_int m" by (simp add: pos_divide_le_eq)
  from round_even_mono [OF this] have "round_even (x / two_pow (ulp_exp x)) \<le> m" by simp
  then show ?thesis by (simp add: rnd_pos_def)
qed

lemma rnd_pos_ge: "of_int m * two_pow (ulp_exp x) \<le> x \<Longrightarrow> of_int m * two_pow (ulp_exp x) \<le> rnd_pos x"
proof -
  assume "of_int m * two_pow (ulp_exp x) \<le> x"
  then have "of_int m \<le> x / two_pow (ulp_exp x)" by (simp add: pos_le_divide_eq)
  from round_even_mono [OF this] have "m \<le> round_even (x / two_pow (ulp_exp x))" by simp
  then show ?thesis by (simp add: rnd_pos_def)
qed

lemma rnd_pos_nonneg: "0 < x \<Longrightarrow> 0 \<le> rnd_pos x"
  using rnd_pos_ge [of 0 x] by simp

text \<open>A multiple of the unit in the last place is kept.\<close>

lemma rnd_pos_multiple: "x = of_int m * two_pow e \<Longrightarrow> ulp_exp x \<le> e \<Longrightarrow> rnd_pos x = x"
proof -
  assume x: "x = of_int m * two_pow e" and "ulp_exp x \<le> e"
  then obtain k where "two_pow e = of_int k * two_pow (ulp_exp x)"
    using two_pow_multiple by blast
  with x have "x = of_int (m * k) * two_pow (ulp_exp x)" by simp
  then have "x / two_pow (ulp_exp x) = of_int (m * k)"
    by (metis nonzero_mult_div_cancel_right two_pow_neq_0)
  then have "rnd_pos x = of_int (m * k) * two_pow (ulp_exp x)"
    by (simp only: rnd_pos_def round_even_of_int)
  with \<open>x = of_int (m * k) * two_pow (ulp_exp x)\<close> show ?thesis by (metis (no_types))
qed

lemma rnd_pos_mono:
  assumes "0 < x" "x \<le> y"
  shows "rnd_pos x \<le> rnd_pos y"
proof (cases "ulp_exp x = ulp_exp y")
  case True
  have "x / two_pow (ulp_exp y) \<le> y / two_pow (ulp_exp y)"
    using assms(2) by (simp add: divide_right_mono)
  then show ?thesis
    using True by (simp add: rnd_pos_def round_even_mono)
next
  case False
  with ulp_exp_mono [OF assms] have less: "ulp_exp x < ulp_exp y" by simp
  then have uy: "ulp_exp y = floor_log2 y - 52" by (auto simp: ulp_exp_def)
  let ?z = "two_pow (floor_log2 y)"
  have y: "?z \<le> y" using assms by (intro floor_log2_bounds) simp
  have "x < ?z"
  proof (rule ccontr)
    assume "\<not> x < ?z"
    then have "floor_log2 y \<le> floor_log2 x" using assms(1) by (intro floor_log2_ge) simp_all
    with less show False by (auto simp: ulp_exp_def)
  qed
  obtain m where "?z = of_int m * two_pow (ulp_exp x)"
    using two_pow_multiple [of "ulp_exp x" "floor_log2 y"] less uy by auto
  with \<open>x < ?z\<close> have "rnd_pos x \<le> ?z" using rnd_pos_le [of x m] by simp
  obtain k where "?z = of_int k * two_pow (ulp_exp y)"
    using two_pow_multiple [of "ulp_exp y" "floor_log2 y"] uy by auto
  with y have "?z \<le> rnd_pos y" using rnd_pos_ge [of k y] by simp
  with \<open>rnd_pos x \<le> ?z\<close> show ?thesis by simp
qed

lemma rnd_minus: "rnd (- x) = - rnd x"
  by (simp add: rnd_def)

lemma rnd_0 [simp]: "rnd 0 = 0"
  by (simp add: rnd_def)

lemma rnd_nonneg: "0 \<le> x \<Longrightarrow> 0 \<le> rnd x"
  by (simp add: rnd_def rnd_pos_nonneg)

theorem rnd_mono: "x \<le> y \<Longrightarrow> rnd x \<le> rnd y"
proof -
  assume xy: "x \<le> y"
  consider "0 < x" | "x \<le> 0" "0 \<le> y" | "y < 0" using xy by linarith
  then show ?thesis
  proof cases
    case 1
    then show ?thesis using xy rnd_pos_mono [of x y] by (simp add: rnd_def)
  next
    case 2
    then have "rnd x \<le> 0" using rnd_nonneg [of "- x"] by (simp add: rnd_minus)
    moreover have "0 \<le> rnd y" using 2 by (intro rnd_nonneg)
    ultimately show ?thesis by simp
  next
    case 3
    then show ?thesis using xy rnd_pos_mono [of "- y" "- x"] by (simp add: rnd_def)
  qed
qed

lemma rnd_pos_idem: "0 < x \<Longrightarrow> 0 < rnd_pos x \<Longrightarrow> rnd_pos (rnd_pos x) = rnd_pos x"
proof -
  assume x: "0 < x" and y: "0 < rnd_pos x"
  let ?u = "ulp_exp x" and ?k = "floor_log2 x + 1"
  have le: "?u \<le> ?k \<or> (?u = - 1074 \<and> ?k < - 1074)" by (auto simp: ulp_exp_def)
  show ?thesis
  proof (cases "ulp_exp (rnd_pos x) \<le> ?u")
    case True
    show ?thesis by (rule rnd_pos_multiple [OF _ True]) (simp add: rnd_pos_def)
  next
    case False
    have "?u \<le> ?k"
    proof (rule ccontr)
      assume "\<not> ?u \<le> ?k"
      with le have "?u = - 1074" "two_pow ?k \<le> two_pow ?u" by (auto intro: two_pow_mono)
      with floor_log2_bounds(2) [OF x] have "rnd_pos x \<le> two_pow (- 1074)"
        using rnd_pos_le [of x 1] by simp
      then have "rnd_pos x < two_pow (- 1073)"
        using two_pow_add_nat [of "- 1074" 1] two_pow_pos [of "- 1074"] by (simp del: two_pow_pos)
      with y have "floor_log2 (rnd_pos x) < - 1073" by (intro floor_log2_less)
      with False \<open>?u = - 1074\<close> show False by (simp add: ulp_exp_def)
    qed
    then obtain m where m: "two_pow ?k = of_int m * two_pow ?u" using two_pow_multiple by blast
    with floor_log2_bounds(2) [OF x] have "rnd_pos x \<le> two_pow ?k"
      using rnd_pos_le [of x m] by simp
    moreover have "\<not> rnd_pos x < two_pow ?k"
    proof
      assume "rnd_pos x < two_pow ?k"
      with y have "floor_log2 (rnd_pos x) < ?k" by (intro floor_log2_less)
      with False show False by (simp add: ulp_exp_def)
    qed
    ultimately have eq: "rnd_pos x = two_pow ?k" by simp
    with y have "floor_log2 (rnd_pos x) < ?k + 1"
      using two_pow_add_nat [of ?k 1] two_pow_pos [of ?k] by (intro floor_log2_less) simp_all
    then have "ulp_exp (rnd_pos x) \<le> ?k"
      using \<open>?u \<le> ?k\<close> by (auto simp: ulp_exp_def)
    then show ?thesis by (intro rnd_pos_multiple [of _ 1 ?k]) (simp_all add: eq)
  qed
qed

theorem rnd_idem [simp]: "rnd (rnd x) = rnd x"
proof (cases "rnd x = 0")
  case False
  then show ?thesis
    using rnd_pos_idem [of x] rnd_pos_idem [of "- x"] rnd_pos_nonneg [of x] rnd_pos_nonneg [of "- x"]
    by (auto simp: rnd_def split: if_splits)
qed simp

lemma is_double_rnd [simp]: "is_double (rnd x)"
  by (simp add: is_double_def)

lemma is_double_lit [simp]: "is_double (lit m d)"
  by (simp add: lit_def)

lemma is_double_0 [simp]: "is_double 0"
  by (simp add: is_double_def)

lemma is_double_minus [simp]: "is_double (- x) \<longleftrightarrow> is_double x"
  by (simp add: is_double_def rnd_minus)

lemma rnd_le_double: "x \<le> d \<Longrightarrow> is_double d \<Longrightarrow> rnd x \<le> d"
  using rnd_mono [of x d] by (simp add: is_double_def)

lemma rnd_ge_double: "d \<le> x \<Longrightarrow> is_double d \<Longrightarrow> d \<le> rnd x"
  using rnd_mono [of d x] by (simp add: is_double_def)

section \<open>Four decimals\<close>

lemma fixed4_mono: "x \<le> y \<Longrightarrow> fixed4 x \<le> fixed4 y"
proof -
  let ?p = "\<lambda>z::rat. (of_int \<lfloor>z * 10000 + 1 / 2\<rfloor> / 10000 :: rat)"
  have p: "?p a \<le> ?p b" if "a \<le> b" for a b
    using that by (simp add: divide_right_mono floor_mono)
  have nn: "0 \<le> ?p a" if "0 \<le> a" for a using that by simp
  assume xy: "x \<le> y"
  consider "0 \<le> x" | "x < 0" "0 \<le> y" | "y < 0" using xy by linarith
  then show ?thesis
  proof cases
    case 1
    then show ?thesis using xy p [OF xy] by (simp add: fixed4_def rnd_mono)
  next
    case 2
    then have "- ?p (- x) \<le> ?p y" using nn [of "- x"] nn [of y] by linarith
    with 2 show ?thesis unfolding fixed4_def by (simp add: rnd_mono)
  next
    case 3
    then show ?thesis using xy p [of "- y" "- x"] unfolding fixed4_def by (simp add: rnd_mono)
  qed
qed

text \<open>What has at most four decimals is kept.\<close>

lemma fixed4_decimal: "fixed4 (of_int m / 10000) = rnd (of_int m / 10000)"
proof (cases "m < 0")
  case True
  have "\<lfloor>of_int (- m) + 1 / 2 :: rat\<rfloor> = - m"
    by (simp add: floor_unique)
  then show ?thesis using True by (simp add: fixed4_def divide_less_0_iff)
next
  case False
  moreover have "\<lfloor>of_int m + 1 / 2 :: rat\<rfloor> = m" by (rule floor_unique) simp_all
  ultimately show ?thesis by (simp add: fixed4_def divide_less_0_iff)
qed

end
