(* ===== verification/Execution_Schemas.thy ===== *)
theory Execution_Schemas
  imports Governance_Schemas Js_Numbers
begin

text \<open>
  The schemas of \<open>packages/schemas/src\<close> for what happens after admission: candidate
  selection (\<open>candidate-selection.ts\<close>), execution starts and results
  (\<open>runtime-admission.ts\<close>), traces (\<open>execution-trace.ts\<close>), effectors
  (\<open>controlled-effectors.ts\<close>, \<open>effector-realization.ts\<close>) and observations
  (\<open>observation.ts\<close>). A number is a rational that \<open>Js_Numbers.is_double\<close> accepts.
\<close>

definition unit_interval :: "rat \<Rightarrow> bool" where
  "unit_interval x \<longleftrightarrow> 0 \<le> x \<and> x \<le> 1"

section \<open>Candidate selection\<close>

datatype selection_decision = Sel_selected | Sel_rejected

datatype score_name = TopologyComplexity | PolicyRisk | ToolExposure | ConvergenceStrictness
  | RuntimeReadiness

record score_dimension =
  score_name :: score_name
  score :: rat
  score_rationale :: string

record scorecard =
  dimensions :: "score_dimension list"
  totalScore :: rat

record candidate_selection = lineage +
  acs_sourceArchitectureCandidateId :: string
  acs_sourceExecutableSpecificationId :: string
  acs_decision :: selection_decision
  threshold :: rat
  scorecard :: scorecard

definition scorecard_ok :: "scorecard \<Rightarrow> bool" where
  "scorecard_ok s \<longleftrightarrow>
     list_all (\<lambda>d. unit_interval (score d) \<and> score_rationale d \<noteq> []) (dimensions s) \<and>
     length (dimensions s) = 5 \<and> unit_interval (totalScore s)"

definition candidate_selection_ok :: "candidate_selection \<Rightarrow> bool" where
  "candidate_selection_ok s \<longleftrightarrow>
     lineage_ok s \<and> starts_with ''ACS-'' (artifact_id s) \<and>
     artifact_id_ok (acs_sourceArchitectureCandidateId s) \<and>
     artifact_id_ok (acs_sourceExecutableSpecificationId s) \<and>
     unit_interval (threshold s) \<and> scorecard_ok (scorecard s)"

section \<open>Executions\<close>

text \<open>What every artifact of one execution carries: the four ids that authorize it.\<close>

record execution_artifact = lineage +
  x_sourceExecutableSpecificationId :: string
  x_sourceArchitectureCandidateId :: string
  x_sourceSelectionId :: string
  x_sourceAdmissionId :: string

definition execution_artifact_ok :: "string \<Rightarrow> 'a execution_artifact_scheme \<Rightarrow> bool" where
  "execution_artifact_ok prefix a \<longleftrightarrow>
     lineage_ok a \<and> starts_with prefix (artifact_id a) \<and>
     artifact_id_ok (x_sourceExecutableSpecificationId a) \<and>
     artifact_id_ok (x_sourceArchitectureCandidateId a) \<and>
     artifact_id_ok (x_sourceSelectionId a) \<and> artifact_id_ok (x_sourceAdmissionId a)"

datatype start_status = Started

record execution_start = execution_artifact +
  start_runId :: string
  start_status :: start_status

definition execution_start_ok :: "execution_start \<Rightarrow> bool" where
  "execution_start_ok s \<longleftrightarrow> execution_artifact_ok ''EXS-'' s \<and> start_runId s \<noteq> []"

datatype result_status = Succeeded | Failed | Aborted

record execution_result = execution_artifact +
  result_runId :: string
  result_status :: result_status
  result_summary :: string

definition execution_result_ok :: "execution_result \<Rightarrow> bool" where
  "execution_result_ok r \<longleftrightarrow>
     execution_artifact_ok ''EXR-'' r \<and> result_runId r \<noteq> [] \<and> result_summary r \<noteq> []"

section \<open>Effectors\<close>

datatype effector_mode = Simulate_effect | Safe_execute

datatype effector_type = Tool_call | File_write | No_op

datatype environment_trust = Trusted | Untrusted

record effector_artifact = execution_artifact +
  eff_sourceExecutionStartId :: string
  eff_type :: effector_type
  eff_mode :: effector_mode
  eff_toolPolicyMode :: tool_mode
  allowed :: bool
  targetNodeId :: string
  eff_inputSummary :: string
  eff_outputSummary :: string

definition effector_artifact_ok :: "effector_artifact \<Rightarrow> bool" where
  "effector_artifact_ok e \<longleftrightarrow>
     execution_artifact_ok ''EFF-'' e \<and> artifact_id_ok (eff_sourceExecutionStartId e) \<and>
     targetNodeId e \<noteq> [] \<and> eff_inputSummary e \<noteq> [] \<and> eff_outputSummary e \<noteq> []"

record node_record =
  rec_nodeId :: string
  rec_effectorArtifactId :: string
  rec_effectorType :: effector_type
  rec_effectorMode :: effector_mode
  realized :: "bool option"
  realizationArtifactId :: "string option"
  rec_outputEvidenceRef :: "string option"
  rec_inputSummary :: string
  rec_outputSummary :: string

definition node_record_ok :: "node_record \<Rightarrow> bool" where
  "node_record_ok r \<longleftrightarrow>
     rec_nodeId r \<noteq> [] \<and> artifact_id_ok (rec_effectorArtifactId r) \<and>
     pred_option artifact_id_ok (realizationArtifactId r) \<and>
     rec_inputSummary r \<noteq> [] \<and> rec_outputSummary r \<noteq> []"

text \<open>The enumerations of a realization have one value each.\<close>

record effector_realization = execution_artifact +
  effr_sourceEffectorId :: string
  effr_sourceExecutionStartId :: string
  realizationMode :: effector_mode
  environmentTrust :: environment_trust
  outputEvidenceRef :: string
  effr_summary :: string

definition effector_realization_ok :: "effector_realization \<Rightarrow> bool" where
  "effector_realization_ok r \<longleftrightarrow>
     execution_artifact_ok ''EFFR-'' r \<and> artifact_id_ok (effr_sourceEffectorId r) \<and>
     artifact_id_ok (effr_sourceExecutionStartId r) \<and> realizationMode r = Safe_execute \<and>
     environmentTrust r = Trusted \<and> outputEvidenceRef r \<noteq> [] \<and> effr_summary r \<noteq> []"

section \<open>Traces and observations\<close>

datatype completion_mode = Deterministic_single_path

record execution_trace = execution_artifact +
  ext_sourceExecutionStartId :: string
  ext_runId :: string
  nodeCount :: nat
  traversedNodeIds :: "string list"
  nodeExecutionRecords :: "node_record list option"
  completionMode :: completion_mode
  ext_summary :: string

definition execution_trace_ok :: "execution_trace \<Rightarrow> bool" where
  "execution_trace_ok t \<longleftrightarrow>
     execution_artifact_ok ''EXT-'' t \<and> artifact_id_ok (ext_sourceExecutionStartId t) \<and>
     ext_runId t \<noteq> [] \<and> list_all (\<lambda>n. n \<noteq> []) (traversedNodeIds t) \<and>
     traversedNodeIds t \<noteq> [] \<and> pred_option (list_all node_record_ok) (nodeExecutionRecords t) \<and>
     ext_summary t \<noteq> []"

datatype observation_outcome = Matched_expectation | Deviated | Inconclusive

record observation = lineage +
  obs_sourceExecutionResultId :: string
  obs_sourceEffectorRealizationId :: string
  obs_sourceExecutionTraceId :: string
  expectedSummary :: string
  realizedSummary :: string
  outcome :: observation_outcome
  deltaSummary :: string

definition observation_ok :: "observation \<Rightarrow> bool" where
  "observation_ok x \<longleftrightarrow>
     lineage_ok x \<and> starts_with ''OBS-'' (artifact_id x) \<and>
     artifact_id_ok (obs_sourceExecutionResultId x) \<and>
     artifact_id_ok (obs_sourceEffectorRealizationId x) \<and>
     artifact_id_ok (obs_sourceExecutionTraceId x) \<and> expectedSummary x \<noteq> [] \<and>
     realizedSummary x \<noteq> [] \<and> deltaSummary x \<noteq> []"

section \<open>The strings of the enumerations\<close>

fun candidate_status_str :: "candidate_status \<Rightarrow> string" where
  "candidate_status_str Proposed = ''proposed''"
| "candidate_status_str Selected = ''selected''"
| "candidate_status_str Rejected = ''rejected''"
| "candidate_status_str Archived = ''archived''"

fun shape_str :: "topology_shape \<Rightarrow> string" where
  "shape_str Single_node = ''single_node''"
| "shape_str Linear_chain = ''linear_chain''"
| "shape_str Fan_out = ''fan_out''"
| "shape_str Other_shape = ''other''"

fun binding_str :: "binding_mode \<Rightarrow> string" where
  "binding_str Fixed = ''fixed''"
| "binding_str Policy_selected = ''policy_selected''"
| "binding_str Unbound = ''unbound''"

fun tool_mode_str :: "tool_mode \<Rightarrow> string" where
  "tool_mode_str Allowlist = ''allowlist''"
| "tool_mode_str Restricted = ''restricted''"
| "tool_mode_str No_tools = ''none''"

fun convergence_str :: "convergence_mode \<Rightarrow> string" where
  "convergence_str Single_pass = ''single_pass''"
| "convergence_str Gated_iteration = ''gated_iteration''"
| "convergence_str Manual_review = ''manual_review''"

fun outcome_str :: "observation_outcome \<Rightarrow> string" where
  "outcome_str Matched_expectation = ''matched_expectation''"
| "outcome_str Deviated = ''deviated''"
| "outcome_str Inconclusive = ''inconclusive''"

end
