(* ===== verification/Governance_Ids.thy ===== *)
theory Governance_Ids
  imports Governance_Schemas
begin

text \<open>
  The \<open>ids.ts\<close> modules of the governance packages. Nearly every artifact downstream of the
  compiler takes the id of the artifact it is derived from with the type prefix exchanged;
  each of these functions is an instance of the interface of \<open>Artifact_Ids\<close>, whose laws
  say that the result is an artifact id of the new type, that it is a META id whenever the
  source is one, and that different sources keep different names.
\<close>

named_theorems id_defs \<open>definitions of the functions that derive one id from another\<close>

section \<open>Exchanging the type prefix\<close>

text \<open>\<open>packages/architecture-candidates/src/ids.ts\<close>\<close>

definition architectureCandidateIdFromIntentSpecificationId :: "string \<Rightarrow> string" where
  [id_defs]: "architectureCandidateIdFromIntentSpecificationId = replace_prefix ''IS-'' ''AC-''"

text \<open>\<open>packages/candidate-selection/src/ids.ts\<close>\<close>

definition selectionArtifactIdFromCandidateId :: "string \<Rightarrow> string" where
  [id_defs]: "selectionArtifactIdFromCandidateId = replace_prefix ''AC-'' ''ACS-''"

text \<open>\<open>packages/execution-lifecycle/src/ids.ts\<close>\<close>

definition executionStartIdFromExecutableSpecificationId :: "string \<Rightarrow> string" where
  [id_defs]: "executionStartIdFromExecutableSpecificationId = replace_prefix ''ES-'' ''EXS-''"

definition executionTraceIdFromExecutableSpecificationId :: "string \<Rightarrow> string" where
  [id_defs]: "executionTraceIdFromExecutableSpecificationId = replace_prefix ''ES-'' ''EXT-''"

definition executionResultIdFromExecutableSpecificationId :: "string \<Rightarrow> string" where
  [id_defs]: "executionResultIdFromExecutableSpecificationId = replace_prefix ''ES-'' ''EXR-''"

text \<open>\<open>packages/effector-realization/src/ids.ts\<close>\<close>

definition effectorRealizationIdFromEffectorId :: "string \<Rightarrow> string" where
  [id_defs]: "effectorRealizationIdFromEffectorId = replace_prefix ''EFF-'' ''EFFR-''"

text \<open>\<open>packages/observability-feedback/src/ids.ts\<close>\<close>

definition observationIdFromExecutionResultId :: "string \<Rightarrow> string" where
  [id_defs]: "observationIdFromExecutionResultId = replace_prefix ''EXR-'' ''OBS-''"

text \<open>\<open>packages/capability-delta/src/ids.ts\<close>\<close>

definition capabilityDeltaId :: "string \<Rightarrow> string" where
  [id_defs]: "capabilityDeltaId = replace_prefix ''BC-'' ''DEL-''"

text \<open>\<open>packages/intent-authoring/src/ids.ts\<close>\<close>

definition intentSpecificationIdFromFunctionProposalId :: "string \<Rightarrow> string" where
  [id_defs]: "intentSpecificationIdFromFunctionProposalId = replace_prefix ''FP-'' ''IS-''"

text \<open>\<open>packages/meta-governance/src/ids.ts\<close>\<close>

definition policyStressReportIdFromPolicyId :: "string \<Rightarrow> string" where
  [id_defs]: "policyStressReportIdFromPolicyId = replace_prefix ''GOV-'' ''PSR-''"

definition governanceProposalIdFromPolicyId :: "string \<Rightarrow> string" where
  [id_defs]: "governanceProposalIdFromPolicyId = replace_prefix ''GOV-'' ''GOVP-''"

definition governanceDecisionIdFromProposalId :: "string \<Rightarrow> string" where
  [id_defs]: "governanceDecisionIdFromProposalId = replace_prefix ''GOVP-'' ''GOVD-''"

definition policySuccessorNoteIdFromPolicyId :: "string \<Rightarrow> string" where
  [id_defs]: "policySuccessorNoteIdFromPolicyId = replace_prefix ''GOV-'' ''GOVS-''"

text \<open>\<open>packages/policy-activation/src/ids.ts\<close>\<close>

definition policyActivationIdFromSuccessorId :: "string \<Rightarrow> string" where
  [id_defs]: "policyActivationIdFromSuccessorId = replace_prefix ''GOV-'' ''GOVA-''"

definition rollbackPlanIdFromSuccessorId :: "string \<Rightarrow> string" where
  [id_defs]: "rollbackPlanIdFromSuccessorId = replace_prefix ''GOV-'' ''GOVR-''"

text \<open>\<open>packages/adaptive-recalibration/src/ids.ts\<close>\<close>

definition recalibratedPressureIdFromPressureId :: "string \<Rightarrow> string" where
  [id_defs]: "recalibratedPressureIdFromPressureId = replace_prefix ''PRS-'' ''RPRS-''"

definition deltaDriftInputIdFromPressureId :: "string \<Rightarrow> string" where
  [id_defs]: "deltaDriftInputIdFromPressureId = replace_prefix ''PRS-'' ''DDI-''"

text \<open>\<open>packages/selection-bias/src/ids.ts\<close>\<close>

definition candidateReliabilityIdFromCandidateId :: "string \<Rightarrow> string" where
  [id_defs]: "candidateReliabilityIdFromCandidateId = replace_prefix ''AC-'' ''CRL-''"

definition selectionBiasInputIdFromCandidateId :: "string \<Rightarrow> string" where
  [id_defs]: "selectionBiasInputIdFromCandidateId = replace_prefix ''AC-'' ''SBI-''"

section \<open>Adding to an id\<close>

text \<open>\<open>packages/runtime-admission/src/ids.ts\<close>\<close>

definition runtimeAdmissionIdFromExecutableSpecificationId ::
  "string \<Rightarrow> admission_decision \<Rightarrow> string" where
  "runtimeAdmissionIdFromExecutableSpecificationId es d =
     replace_prefix ''ES-'' ''RAD-'' es @ ''-'' @ to_upper (decision_str d)"

text \<open>\<open>packages/recursion-governance/src/ids.ts\<close>\<close>

definition governanceDecisionArtifactId :: "string \<Rightarrow> admission_decision \<Rightarrow> string" where
  "governanceDecisionArtifactId p d =
     ''RGD-'' @ replace_prefix ''FP-'' [] p @ ''-'' @ to_upper (decision_str d)"

text \<open>\<open>packages/controlled-effectors/src/ids.ts\<close> and \<open>packages/signal-hygiene/src/ids.ts\<close>\<close>

definition effectorIdFromNodeId :: "string \<Rightarrow> string" where
  "effectorIdFromNodeId n = ''EFF-'' @ n"

definition signalBatchIdFromRunId :: "string \<Rightarrow> string" where
  "signalBatchIdFromRunId r = ''SNB-'' @ r"

text \<open>\<open>packages/observability-feedback/src/ids.ts\<close>: feedback re-enters as a META signal.\<close>

definition feedbackSignalIdFromObservationId :: "string \<Rightarrow> string" where
  "feedbackSignalIdFromObservationId = replace_prefix ''OBS-'' ''SIG-META-BOOTSTRAP-FEEDBACK-''"

section \<open>The laws hold\<close>

interpretation ac_id: artifact_rename architectureCandidateIdFromIntentSpecificationId "''IS-''" "''AC-''" "''IS''" "''AC''"
  by unfold_locales (simp_all add: id_defs replace_prefix_def artifact_type_prefixes_def)

interpretation acs_id: artifact_rename selectionArtifactIdFromCandidateId "''AC-''" "''ACS-''" "''AC''" "''ACS''"
  by unfold_locales (simp_all add: id_defs replace_prefix_def artifact_type_prefixes_def)

interpretation exs_id: artifact_rename executionStartIdFromExecutableSpecificationId "''ES-''" "''EXS-''" "''ES''" "''EXS''"
  by unfold_locales (simp_all add: id_defs replace_prefix_def artifact_type_prefixes_def)

interpretation ext_id: artifact_rename executionTraceIdFromExecutableSpecificationId "''ES-''" "''EXT-''" "''ES''" "''EXT''"
  by unfold_locales (simp_all add: id_defs replace_prefix_def artifact_type_prefixes_def)

interpretation exr_id: artifact_rename executionResultIdFromExecutableSpecificationId "''ES-''" "''EXR-''" "''ES''" "''EXR''"
  by unfold_locales (simp_all add: id_defs replace_prefix_def artifact_type_prefixes_def)

interpretation effr_id: artifact_rename effectorRealizationIdFromEffectorId "''EFF-''" "''EFFR-''" "''EFF''" "''EFFR''"
  by unfold_locales (simp_all add: id_defs replace_prefix_def artifact_type_prefixes_def)

interpretation obs_id: artifact_rename observationIdFromExecutionResultId "''EXR-''" "''OBS-''" "''EXR''" "''OBS''"
  by unfold_locales (simp_all add: id_defs replace_prefix_def artifact_type_prefixes_def)

interpretation del_id: artifact_rename capabilityDeltaId "''BC-''" "''DEL-''" "''BC''" "''DEL''"
  by unfold_locales (simp_all add: id_defs replace_prefix_def artifact_type_prefixes_def)

interpretation is_id: artifact_rename intentSpecificationIdFromFunctionProposalId "''FP-''" "''IS-''" "''FP''" "''IS''"
  by unfold_locales (simp_all add: id_defs replace_prefix_def artifact_type_prefixes_def)

interpretation psr_id: artifact_rename policyStressReportIdFromPolicyId "''GOV-''" "''PSR-''" "''GOV''" "''PSR''"
  by unfold_locales (simp_all add: id_defs replace_prefix_def artifact_type_prefixes_def)

interpretation govp_id: artifact_rename governanceProposalIdFromPolicyId "''GOV-''" "''GOVP-''" "''GOV''" "''GOVP''"
  by unfold_locales (simp_all add: id_defs replace_prefix_def artifact_type_prefixes_def)

interpretation govd_id: artifact_rename governanceDecisionIdFromProposalId "''GOVP-''" "''GOVD-''" "''GOVP''" "''GOVD''"
  by unfold_locales (simp_all add: id_defs replace_prefix_def artifact_type_prefixes_def)

interpretation govs_id: artifact_rename policySuccessorNoteIdFromPolicyId "''GOV-''" "''GOVS-''" "''GOV''" "''GOVS''"
  by unfold_locales (simp_all add: id_defs replace_prefix_def artifact_type_prefixes_def)

interpretation gova_id: artifact_rename policyActivationIdFromSuccessorId "''GOV-''" "''GOVA-''" "''GOV''" "''GOVA''"
  by unfold_locales (simp_all add: id_defs replace_prefix_def artifact_type_prefixes_def)

interpretation govr_id: artifact_rename rollbackPlanIdFromSuccessorId "''GOV-''" "''GOVR-''" "''GOV''" "''GOVR''"
  by unfold_locales (simp_all add: id_defs replace_prefix_def artifact_type_prefixes_def)

interpretation rprs_id: artifact_rename recalibratedPressureIdFromPressureId "''PRS-''" "''RPRS-''" "''PRS''" "''RPRS''"
  by unfold_locales (simp_all add: id_defs replace_prefix_def artifact_type_prefixes_def)

interpretation ddi_id: artifact_rename deltaDriftInputIdFromPressureId "''PRS-''" "''DDI-''" "''PRS''" "''DDI''"
  by unfold_locales (simp_all add: id_defs replace_prefix_def artifact_type_prefixes_def)

interpretation crl_id: artifact_rename candidateReliabilityIdFromCandidateId "''AC-''" "''CRL-''" "''AC''" "''CRL''"
  by unfold_locales (simp_all add: id_defs replace_prefix_def artifact_type_prefixes_def)

interpretation sbi_id: artifact_rename selectionBiasInputIdFromCandidateId "''AC-''" "''SBI-''" "''AC''" "''SBI''"
  by unfold_locales (simp_all add: id_defs replace_prefix_def artifact_type_prefixes_def)

interpretation feedback_id: prefix_rename feedbackSignalIdFromObservationId "''OBS-''"
    "''SIG-META-BOOTSTRAP-FEEDBACK-''"
  by unfold_locales (simp_all add: feedbackSignalIdFromObservationId_def replace_prefix_def)

section \<open>The other ids are artifact ids, too\<close>

lemma artifact_id_with_prefix:
  assumes "artifact_id_ok (p @ ''-'' @ t)" "p \<in> set artifact_type_prefixes"
  shows "id_subject_ok t"
proof -
  from assms(1) obtain q u where q: "p @ CHR ''-'' # t = q @ CHR ''-'' # u"
    "q \<in> set artifact_type_prefixes" "id_subject_ok u"
    unfolding artifact_id_ok_iff by auto
  have "takeWhile (\<lambda>c. c \<noteq> CHR ''-'') (p @ CHR ''-'' # t) = p"
    "takeWhile (\<lambda>c. c \<noteq> CHR ''-'') (q @ CHR ''-'' # u) = q"
    using takeWhile_hyphen type_prefix_no_hyphen assms(2) q(2) by blast+
  with q(1) have "p = q" by simp
  with q show ?thesis by simp
qed

lemma artifact_id_prefixed:
  "p \<in> set artifact_type_prefixes \<Longrightarrow> artifact_id_ok s \<Longrightarrow> artifact_id_ok (p @ ''-'' @ s)"
  using artifact_id_okI [of p s] artifact_id_subject [of s] by simp

lemma decision_tag: "to_upper (decision_str Allow) = ''ALLOW''" "to_upper (decision_str Deny) = ''DENY''"
  by code_simp+

lemma decision_id_chars: "list_all id_char (''-'' @ to_upper (decision_str d))"
  by (cases d) (simp_all add: decision_tag id_char_def is_upper_def del: decision_str.simps)

lemma artifact_id_append:
  "artifact_id_ok s \<Longrightarrow> list_all id_char t \<Longrightarrow> artifact_id_ok (s @ t)"
  unfolding artifact_id_ok_iff by (metis append.assoc append_Cons id_subject_ok_append)

lemma runtimeAdmissionId_ok:
  assumes "artifact_id_ok es" "starts_with ''ES-'' es"
  shows "artifact_id_ok (runtimeAdmissionIdFromExecutableSpecificationId es d)"
proof -
  from assms(2) obtain t where es: "es = ''ES-'' @ t" by (rule starts_withE)
  with assms(1) have "id_subject_ok t"
    using artifact_id_with_prefix [of "''ES''" t] by (simp add: artifact_type_prefixes_def)
  then have "artifact_id_ok (''RAD-'' @ t)"
    using artifact_id_okI [of "''RAD''" t] by (simp add: artifact_type_prefixes_def)
  from artifact_id_append [OF this decision_id_chars [of d]] show ?thesis
    unfolding runtimeAdmissionIdFromExecutableSpecificationId_def es replace_prefix_append .
qed

lemma runtimeAdmissionId_starts:
  "starts_with ''ES-'' es \<Longrightarrow>
     starts_with ''RAD-'' (runtimeAdmissionIdFromExecutableSpecificationId es d)"
  by (auto simp: runtimeAdmissionIdFromExecutableSpecificationId_def replace_prefix_def)

text \<open>The verdict is part of the name: an allow and a deny never share an id.\<close>

lemma runtimeAdmissionId_decision:
  "runtimeAdmissionIdFromExecutableSpecificationId es d =
     runtimeAdmissionIdFromExecutableSpecificationId es' d' \<Longrightarrow> d = d'"
proof -
  assume eq: "runtimeAdmissionIdFromExecutableSpecificationId es d =
     runtimeAdmissionIdFromExecutableSpecificationId es' d'"
  have "last (runtimeAdmissionIdFromExecutableSpecificationId e x) =
      (case x of Allow \<Rightarrow> CHR ''W'' | Deny \<Rightarrow> CHR ''Y'')" for e x
    by (cases x) (simp_all add: runtimeAdmissionIdFromExecutableSpecificationId_def decision_tag
        del: decision_str.simps)
  from this [of es d] this [of es' d'] eq show ?thesis by (cases d; cases d') simp_all
qed

lemma effectorId_ok: "artifact_id_ok n \<Longrightarrow> artifact_id_ok (effectorIdFromNodeId n)"
  using artifact_id_prefixed [of "''EFF''" n]
  by (simp add: effectorIdFromNodeId_def artifact_type_prefixes_def)

lemma feedbackSignalId_ok:
  assumes "artifact_id_ok ob" "starts_with ''OBS-'' ob"
  shows "artifact_id_ok (feedbackSignalIdFromObservationId ob) \<and>
    meta_prefixed (feedbackSignalIdFromObservationId ob)"
proof -
  from assms(2) obtain t where ob: "ob = ''OBS-'' @ t" by (rule starts_withE)
  have id: "feedbackSignalIdFromObservationId ob = ''SIG-META-BOOTSTRAP-FEEDBACK-'' @ t"
    unfolding ob by (rule feedback_id.rename_src)
  from assms(1) ob have "list_all id_char t" using artifact_id_chars [of ob] by simp
  then have "id_subject_ok (''META-BOOTSTRAP-FEEDBACK-'' @ t)"
    by (simp add: id_head_def id_char_def is_upper_def)
  then have "artifact_id_ok (''SIG-'' @ ''META-BOOTSTRAP-FEEDBACK-'' @ t)"
    using artifact_id_okI [of "''SIG''"] by (simp add: artifact_type_prefixes_def)
  moreover have "''SIG'' \<in> set meta_type_prefixes" by (simp add: meta_type_prefixes_def)
  then have "meta_prefixed (''SIG'' @ ''-META-'' @ ''BOOTSTRAP-FEEDBACK-'' @ t)"
    unfolding meta_prefixed_iff by blast
  ultimately show ?thesis by (simp add: id)
qed

end
