(* ===== verification/Execution_Governance.thy ===== *)
theory Execution_Governance
  imports Execution_Schemas Governance_Ids
begin

text \<open>
  From a compiled specification to an observation of its execution: the packages
  \<open>architecture-candidates\<close>, \<open>candidate-selection\<close>, \<open>runtime-admission\<close>,
  \<open>execution-lifecycle\<close>, \<open>controlled-effectors\<close>, \<open>effector-realization\<close> and
  \<open>observability-feedback\<close>. Each emitter copies its inputs into an artifact, after the guards
  that may deny it; a thrown denial is an \<open>Inl\<close>. The properties say which guards must have
  been passed for an artifact to exist, and that what is emitted conforms to its schema.
\<close>

section \<open>Architecture candidates\<close>

definition emitArchitectureCandidate :: "string \<Rightarrow> string \<Rightarrow> string list \<Rightarrow> architecture_candidate" where
  "emitArchitectureCandidate isid es refs =
     \<lparr>artifact_id = architectureCandidateIdFromIntentSpecificationId isid,
      source_refs = refs,
      explicitness = Inferred,
      rationale = ''Derived deterministically from compiled Intent Specification and emitted ExecutableSpecification in the paired-emission bootstrap path.'',
      ac_sourceIntentSpecificationId = isid,
      ac_sourceExecutableSpecificationId = es,
      candidateStatus = Proposed,
      topology = (Single_node, ''Bootstrap single-candidate execution arrangement for one compiled execution path.''),
      modelBinding = (Unbound, ''Runtime model binding is not selected in bootstrap architecture-candidate emission.''),
      candidate_toolPolicy = (Restricted, ''Tool usage remains governed by bootstrap policy and not runtime-selected here.''),
      convergencePolicy = (Manual_review, ''Candidate remains reviewable and not runtime-executed in the current stage.'')\<rparr>"

definition yaml_refs :: "string list \<Rightarrow> string list" where
  "yaml_refs refs = map (\<lambda>r. ''  - '' @ r) refs"

definition renderArchitectureCandidateYaml :: "architecture_candidate \<Rightarrow> string" where
  "renderArchitectureCandidateYaml c = join [nl]
     ([''id: '' @ artifact_id c, ''source_refs:''] @ yaml_refs (source_refs c) @
      [''explicitness: '' @ explicitness_str (explicitness c),
       ''rationale: '' @ rationale c,
       ''sourceIntentSpecificationId: '' @ ac_sourceIntentSpecificationId c,
       ''sourceExecutableSpecificationId: '' @ ac_sourceExecutableSpecificationId c,
       ''candidateStatus: '' @ candidate_status_str (candidateStatus c),
       ''topology:'',
       ''  shape: '' @ shape_str (fst (topology c)),
       ''  summary: '' @ snd (topology c),
       ''modelBinding:'',
       ''  bindingMode: '' @ binding_str (fst (modelBinding c)),
       ''  summary: '' @ snd (modelBinding c),
       ''toolPolicy:'',
       ''  mode: '' @ tool_mode_str (fst (candidate_toolPolicy c)),
       ''  summary: '' @ snd (candidate_toolPolicy c),
       ''convergencePolicy:'',
       ''  mode: '' @ convergence_str (fst (convergencePolicy c)),
       ''  summary: '' @ snd (convergencePolicy c)])"

section \<open>Candidate selection\<close>

datatype selection_error = Unsupported_candidate

definition score_dimensions :: "score_dimension list" where
  "score_dimensions =
     [\<lparr>score_name = TopologyComplexity, score = lit 9 10,
       score_rationale = ''Single-node bootstrap topology is low complexity and highly legible.''\<rparr>,
      \<lparr>score_name = PolicyRisk, score = lit 85 100,
       score_rationale = ''Restricted tool policy and manual review posture reduce policy risk.''\<rparr>,
      \<lparr>score_name = ToolExposure, score = lit 8 10,
       score_rationale = ''Tool policy is restricted and not runtime-expanded in this stage.''\<rparr>,
      \<lparr>score_name = ConvergenceStrictness, score = lit 9 10,
       score_rationale = ''Manual review convergence policy is strict and bootstrap-safe.''\<rparr>,
      \<lparr>score_name = RuntimeReadiness, score = lit 7 10,
       score_rationale = ''The candidate is structurally ready for selection but not yet for runtime execution.''\<rparr>]"

definition scoreCandidate :: "string \<Rightarrow> selection_error + scorecard" where
  "scoreCandidate candidateId =
     (if candidateId \<noteq> ''AC-META-ARCHITECTURE-CANDIDATE-EXECUTION'' then Inl Unsupported_candidate
      else Inr \<lparr>dimensions = score_dimensions,
        totalScore = rnd (foldl (\<lambda>sum d. rnd (sum + score d)) 0 score_dimensions /
          of_nat (length score_dimensions))\<rparr>)"

definition selectCandidate ::
  "string \<Rightarrow> string \<Rightarrow> string list \<Rightarrow> rat option \<Rightarrow> selection_error + candidate_selection" where
  "selectCandidate candidateId es refs thr =
     (let t = (case thr of None \<Rightarrow> lit 8 10 | Some x \<Rightarrow> x) in
      and_then (scoreCandidate candidateId) (\<lambda>card.
        Inr \<lparr>artifact_id = selectionArtifactIdFromCandidateId candidateId,
             source_refs = refs, explicitness = Inferred,
             rationale = ''Derived deterministically from ArchitectureCandidate scorecard and bootstrap threshold policy.'',
             acs_sourceArchitectureCandidateId = candidateId,
             acs_sourceExecutableSpecificationId = es,
             acs_decision = (if t \<le> totalScore card then Sel_selected else Sel_rejected),
             threshold = t, scorecard = card\<rparr>))"

definition assertExecutionEligibility :: "string \<Rightarrow> selection_decision \<Rightarrow> string + unit" where
  "assertExecutionEligibility es d =
     require (d = Sel_selected)
       (''Execution eligibility denied for '' @ es @ '': linked ArchitectureCandidate is not selected'')"

section \<open>Runtime admission\<close>

definition admission_artifact ::
  "string \<Rightarrow> string \<Rightarrow> string \<Rightarrow> string list \<Rightarrow> admission_decision \<Rightarrow> string \<Rightarrow> string \<Rightarrow>
   runtime_admission" where
  "admission_artifact es ac sel refs d why because =
     \<lparr>artifact_id = runtimeAdmissionIdFromExecutableSpecificationId es d,
      source_refs = refs, explicitness = Inferred, rationale = why,
      rad_sourceExecutableSpecificationId = es, rad_sourceArchitectureCandidateId = ac,
      rad_sourceSelectionId = sel, decision = d, reason = because\<rparr>"

definition evaluateRuntimeAdmission ::
  "string \<Rightarrow> string \<Rightarrow> string \<Rightarrow> selection_decision \<Rightarrow> bool \<Rightarrow> string list \<Rightarrow> runtime_admission" where
  "evaluateRuntimeAdmission es ac sel selectionDecision bootstrapMode refs =
     (if \<not> bootstrapMode then admission_artifact es ac sel refs Deny
        ''Runtime admission denied because bootstrap runtime mode is not active.''
        ''bootstrap mode inactive''
      else if selectionDecision \<noteq> Sel_selected then admission_artifact es ac sel refs Deny
        ''Runtime admission denied because linked ArchitectureCandidate selection is not selected.''
        ''linked ArchitectureCandidate not selected''
      else admission_artifact es ac sel refs Allow
        ''Runtime admission allowed because bootstrap mode is active and linked ArchitectureCandidate is selected.''
        ''selected candidate admitted in bootstrap mode'')"

definition renderRuntimeAdmissionYaml :: "runtime_admission \<Rightarrow> string" where
  "renderRuntimeAdmissionYaml a = join [nl]
     ([''id: '' @ artifact_id a, ''source_refs:''] @ yaml_refs (source_refs a) @
      [''explicitness: '' @ explicitness_str (explicitness a),
       ''rationale: '' @ rationale a,
       ''sourceExecutableSpecificationId: '' @ rad_sourceExecutableSpecificationId a,
       ''sourceArchitectureCandidateId: '' @ rad_sourceArchitectureCandidateId a,
       ''sourceSelectionId: '' @ rad_sourceSelectionId a,
       ''decision: '' @ decision_str (decision a),
       ''reason: '' @ reason a])"

section \<open>Execution lifecycle\<close>

datatype denial = EXS_requires_RAD_allow | EXT_requires_EXS | EXR_requires_EXS
  | Tool_policy_is_none | Restricted_blocks_tool_call
  | Only_safe_execute | Environment_not_trusted | Only_file_write

definition assertExecutionStartAllowed :: "admission_decision \<Rightarrow> denial + unit" where
  "assertExecutionStartAllowed d = require (d = Allow) EXS_requires_RAD_allow"

definition assertTraceAllowed :: "bool \<Rightarrow> denial + unit" where
  "assertTraceAllowed hasExecutionStart = require hasExecutionStart EXT_requires_EXS"

definition assertResultAllowed :: "bool \<Rightarrow> denial + unit" where
  "assertResultAllowed hasExecutionStart = require hasExecutionStart EXR_requires_EXS"

text \<open>The ids that every emitter of an execution takes from its input.\<close>

record execution_input =
  xi_executableSpecificationId :: string
  xi_architectureCandidateId :: string
  xi_selectionId :: string
  xi_admissionId :: string
  xi_sourceRefs :: "string list"

definition emitExecutionStart ::
  "execution_input \<Rightarrow> admission_decision \<Rightarrow> string \<Rightarrow> denial + execution_start" where
  "emitExecutionStart x radDecision runId =
     and_then (assertExecutionStartAllowed radDecision) (\<lambda>_.
       Inr \<lparr>artifact_id =
              executionStartIdFromExecutableSpecificationId (xi_executableSpecificationId x),
            source_refs = xi_sourceRefs x, explicitness = Inferred,
            rationale = ''Execution start emitted deterministically from allowed runtime admission.'',
            x_sourceExecutableSpecificationId = xi_executableSpecificationId x,
            x_sourceArchitectureCandidateId = xi_architectureCandidateId x,
            x_sourceSelectionId = xi_selectionId x, x_sourceAdmissionId = xi_admissionId x,
            start_runId = runId, start_status = Started\<rparr>)"

definition emitExecutionTrace ::
  "execution_input \<Rightarrow> string \<Rightarrow> string \<Rightarrow> bool \<Rightarrow> string list \<Rightarrow> denial + execution_trace" where
  "emitExecutionTrace x exs runId hasExecutionStart visitedNodes =
     and_then (assertTraceAllowed hasExecutionStart) (\<lambda>_.
       Inr \<lparr>artifact_id =
              executionTraceIdFromExecutableSpecificationId (xi_executableSpecificationId x),
            source_refs = xi_sourceRefs x, explicitness = Inferred,
            rationale = ''Execution trace emitted deterministically for the bootstrap single-path run.'',
            x_sourceExecutableSpecificationId = xi_executableSpecificationId x,
            x_sourceArchitectureCandidateId = xi_architectureCandidateId x,
            x_sourceSelectionId = xi_selectionId x, x_sourceAdmissionId = xi_admissionId x,
            ext_sourceExecutionStartId = exs, ext_runId = runId,
            nodeCount = length visitedNodes, traversedNodeIds = visitedNodes,
            nodeExecutionRecords = None, completionMode = Deterministic_single_path,
            ext_summary = ''Deterministic single-path trace for the admitted bootstrap execution.''\<rparr>)"

definition emitExecutionResult ::
  "execution_input \<Rightarrow> string \<Rightarrow> bool \<Rightarrow> denial + execution_result" where
  "emitExecutionResult x runId hasExecutionStart =
     and_then (assertResultAllowed hasExecutionStart) (\<lambda>_.
       Inr \<lparr>artifact_id =
              executionResultIdFromExecutableSpecificationId (xi_executableSpecificationId x),
            source_refs = xi_sourceRefs x, explicitness = Inferred,
            rationale = ''Execution result emitted deterministically for the bootstrap single-path run.'',
            x_sourceExecutableSpecificationId = xi_executableSpecificationId x,
            x_sourceArchitectureCandidateId = xi_architectureCandidateId x,
            x_sourceSelectionId = xi_selectionId x, x_sourceAdmissionId = xi_admissionId x,
            result_runId = runId, result_status = Succeeded,
            result_summary = ''Deterministic bootstrap execution completed successfully for the admitted path.''\<rparr>)"

section \<open>Controlled effectors\<close>

definition assertToolPolicyAllows :: "tool_mode \<Rightarrow> effector_type \<Rightarrow> denial + unit" where
  "assertToolPolicyAllows m t =
     and_then (require (\<not> (m = No_tools \<and> t \<noteq> No_op)) Tool_policy_is_none) (\<lambda>_.
       require (\<not> (m = Restricted \<and> t = Tool_call)) Restricted_blocks_tool_call)"

definition emitEffectorArtifact ::
  "execution_input \<Rightarrow> string \<Rightarrow> string \<Rightarrow> tool_mode \<Rightarrow> effector_type \<Rightarrow> effector_mode option \<Rightarrow>
   denial + effector_artifact" where
  "emitEffectorArtifact x exs node m t mode =
     and_then (assertToolPolicyAllows m t) (\<lambda>_.
       Inr \<lparr>artifact_id = effectorIdFromNodeId node,
            source_refs = xi_sourceRefs x, explicitness = Inferred,
            rationale = ''Controlled effector emitted deterministically under bootstrap tool policy.'',
            x_sourceExecutableSpecificationId = xi_executableSpecificationId x,
            x_sourceArchitectureCandidateId = xi_architectureCandidateId x,
            x_sourceSelectionId = xi_selectionId x, x_sourceAdmissionId = xi_admissionId x,
            eff_sourceExecutionStartId = exs, eff_type = t,
            eff_mode = (case mode of None \<Rightarrow> Simulate_effect | Some k \<Rightarrow> k),
            eff_toolPolicyMode = m, allowed = True, targetNodeId = node,
            eff_inputSummary = ''Deterministic bootstrap input summary.'',
            eff_outputSummary = ''Deterministic simulated output summary.''\<rparr>)"

definition buildExecutionNodeRecord :: "effector_artifact \<Rightarrow> node_record" where
  "buildExecutionNodeRecord e =
     \<lparr>rec_nodeId = targetNodeId e, rec_effectorArtifactId = artifact_id e,
      rec_effectorType = eff_type e, rec_effectorMode = eff_mode e, realized = None,
      realizationArtifactId = None, rec_outputEvidenceRef = None,
      rec_inputSummary = eff_inputSummary e, rec_outputSummary = eff_outputSummary e\<rparr>"

section \<open>Effector realization\<close>

definition assertSafeExecuteMode :: "effector_mode \<Rightarrow> denial + unit" where
  "assertSafeExecuteMode m = require (m = Safe_execute) Only_safe_execute"

definition assertTrustedEnvironment :: "environment_trust \<Rightarrow> denial + unit" where
  "assertTrustedEnvironment t = require (t = Trusted) Environment_not_trusted"

definition assertRealizableEffectorType :: "effector_type \<Rightarrow> denial + unit" where
  "assertRealizableEffectorType t = require (t = File_write) Only_file_write"

definition emitEffectorRealization ::
  "string \<Rightarrow> execution_input \<Rightarrow> string \<Rightarrow> effector_mode \<Rightarrow> environment_trust \<Rightarrow> effector_type \<Rightarrow>
   string \<Rightarrow> denial + effector_realization" where
  "emitEffectorRealization effectorId x exs mode trust t evidence =
     and_then (assertSafeExecuteMode mode) (\<lambda>_.
     and_then (assertTrustedEnvironment trust) (\<lambda>_.
     and_then (assertRealizableEffectorType t) (\<lambda>_.
       Inr \<lparr>artifact_id = effectorRealizationIdFromEffectorId effectorId,
            source_refs = xi_sourceRefs x, explicitness = Inferred,
            rationale = ''Effector realization emitted deterministically under bootstrap safe_execute policy.'',
            x_sourceExecutableSpecificationId = xi_executableSpecificationId x,
            x_sourceArchitectureCandidateId = xi_architectureCandidateId x,
            x_sourceSelectionId = xi_selectionId x, x_sourceAdmissionId = xi_admissionId x,
            effr_sourceEffectorId = effectorId, effr_sourceExecutionStartId = exs,
            realizationMode = Safe_execute, environmentTrust = Trusted,
            outputEvidenceRef = evidence,
            effr_summary = ''Sandboxed file_write realization completed under trusted bootstrap policy.''\<rparr>)))"

definition enrichNodeRecordWithRealization ::
  "effector_artifact \<Rightarrow> effector_realization \<Rightarrow> node_record" where
  "enrichNodeRecordWithRealization e r =
     \<lparr>rec_nodeId = targetNodeId e, rec_effectorArtifactId = artifact_id e,
      rec_effectorType = eff_type e, rec_effectorMode = eff_mode e, realized = Some True,
      realizationArtifactId = Some (artifact_id r),
      rec_outputEvidenceRef = Some (outputEvidenceRef r),
      rec_inputSummary = eff_inputSummary e, rec_outputSummary = eff_outputSummary e\<rparr>"

section \<open>Observation and feedback\<close>

definition emitObservation ::
  "string \<Rightarrow> string \<Rightarrow> string \<Rightarrow> string \<Rightarrow> string \<Rightarrow> string list \<Rightarrow> observation" where
  "emitObservation exr effr ext expected actual refs =
     (let result = (if expected = actual then Matched_expectation else Deviated) in
      \<lparr>artifact_id = observationIdFromExecutionResultId exr,
       source_refs = refs, explicitness = Inferred,
       rationale = ''Observation emitted deterministically from execution result and realization evidence.'',
       obs_sourceExecutionResultId = exr, obs_sourceEffectorRealizationId = effr,
       obs_sourceExecutionTraceId = ext, expectedSummary = expected, realizedSummary = actual,
       outcome = result,
       deltaSummary = (if result = Matched_expectation
         then ''Realized outcome matched expectation in the bootstrap path.''
         else ''Realized outcome deviated from expectation in the bootstrap path.'')\<rparr>)"

definition renderObservationYaml :: "observation \<Rightarrow> string" where
  "renderObservationYaml x = join [nl]
     ([''id: '' @ artifact_id x, ''source_refs:''] @ yaml_refs (source_refs x) @
      [''explicitness: '' @ explicitness_str (explicitness x),
       ''rationale: '' @ rationale x,
       ''sourceExecutionResultId: '' @ obs_sourceExecutionResultId x,
       ''sourceEffectorRealizationId: '' @ obs_sourceEffectorRealizationId x,
       ''sourceExecutionTraceId: '' @ obs_sourceExecutionTraceId x,
       ''expectedSummary: '' @ expectedSummary x,
       ''realizedSummary: '' @ realizedSummary x,
       ''outcome: '' @ outcome_str (outcome x),
       ''deltaSummary: '' @ deltaSummary x])"

definition emitFeedbackSignal :: "string \<Rightarrow> string list \<Rightarrow> observation_outcome \<Rightarrow> string \<Rightarrow> string" where
  "emitFeedbackSignal observationId refs result delta = join [nl]
     ([''id: '' @ replace_prefix ''OBS-'' ''SIG-META-BOOTSTRAP-FEEDBACK-'' observationId,
       ''source_refs:''] @ yaml_refs refs @
      [''explicitness: inferred'',
       ''rationale: Derived deterministically from an observation artifact for bootstrap feedback reinjection.'',
       ''type: meta_feedback'',
       ''source: Persistence Verification Observability & Feedback'',
       ''title: Feedback signal derived from '' @ observationId,
       ''description: >'',
       ''  '' @ delta,
       ''timestamp: 2026-04-21T00:00:00Z'',
       ''confidence: 0.95'',
       ''frequency: 0.5'',
       ''severity: 0.4'',
       ''tags:'',
       ''  - bootstrap-feedback'',
       ''  - '' @ outcome_str result])"

section \<open>What each emitter guarantees\<close>

definition execution_input_ok :: "execution_input \<Rightarrow> bool" where
  "execution_input_ok x \<longleftrightarrow>
     artifact_id_ok (xi_executableSpecificationId x) \<and>
     starts_with ''ES-'' (xi_executableSpecificationId x) \<and>
     artifact_id_ok (xi_architectureCandidateId x) \<and> artifact_id_ok (xi_selectionId x) \<and>
     artifact_id_ok (xi_admissionId x) \<and> list_all artifact_id_ok (xi_sourceRefs x)"

lemma emitArchitectureCandidate_ok:
  assumes "artifact_id_ok isid" "starts_with ''IS-'' isid" "artifact_id_ok es"
    "list_all artifact_id_ok refs"
  shows "architecture_candidate_ok (emitArchitectureCandidate isid es refs)"
  using assms ac_id.rename_artifact_id [of isid] ac_id.rename_starts [of isid]
  unfolding architecture_candidate_ok_def lineage_ok_def emitArchitectureCandidate_def by simp

text \<open>The total score is 0.83 up to binary rounding, and reaches the default threshold.\<close>

lemma scoreCandidate_cases:
  "scoreCandidate ac = Inr sc \<Longrightarrow>
     ac = ''AC-META-ARCHITECTURE-CANDIDATE-EXECUTION'' \<and> dimensions sc = score_dimensions \<and>
     totalScore sc = rnd (foldl (\<lambda>sum d. rnd (sum + score d)) 0 score_dimensions /
          of_nat (length score_dimensions))"
  by (auto simp: scoreCandidate_def split: if_splits)

lemma total_score_default:
  "lit 8 10 \<le> rnd (foldl (\<lambda>sum d. rnd (sum + score d)) 0 score_dimensions /
     of_nat (length score_dimensions))"
  by code_simp

lemma score_dimensions_ok:
  "scorecard_ok \<lparr>dimensions = score_dimensions,
     totalScore = rnd (foldl (\<lambda>sum d. rnd (sum + score d)) 0 score_dimensions /
       of_nat (length score_dimensions))\<rparr>"
  by code_simp

lemma scoreCandidate_ok:
  assumes "scoreCandidate ac = Inr sc"
  shows "scorecard_ok sc"
  using assms
  by (auto simp only: scoreCandidate_def score_dimensions_ok sum.inject sum.distinct split: if_splits)

lemma selectCandidate_cases:
  assumes "selectCandidate ac es refs thr = Inr s"
  shows "\<exists>sc. scoreCandidate ac = Inr sc \<and> scorecard s = sc \<and>
    threshold s = (case thr of None \<Rightarrow> lit 8 10 | Some x \<Rightarrow> x) \<and>
    acs_decision s = (if threshold s \<le> totalScore sc then Sel_selected else Sel_rejected) \<and>
    artifact_id s = selectionArtifactIdFromCandidateId ac \<and> source_refs s = refs \<and>
    rationale s \<noteq> [] \<and> acs_sourceArchitectureCandidateId s = ac \<and>
    acs_sourceExecutableSpecificationId s = es"
  using assms by (auto simp: selectCandidate_def Let_def and_then_Inr)

lemma evaluateRuntimeAdmission_decision:
  "decision (evaluateRuntimeAdmission es ac sel d boot refs) =
     (if boot \<and> d = Sel_selected then Allow else Deny)"
  by (simp add: evaluateRuntimeAdmission_def admission_artifact_def)

lemma evaluateRuntimeAdmission_id:
  "artifact_id (evaluateRuntimeAdmission es ac sel d boot refs) =
     runtimeAdmissionIdFromExecutableSpecificationId es
       (decision (evaluateRuntimeAdmission es ac sel d boot refs))"
  by (simp add: evaluateRuntimeAdmission_def admission_artifact_def)

lemma evaluateRuntimeAdmission_ok:
  assumes "artifact_id_ok es" "starts_with ''ES-'' es" "artifact_id_ok ac" "artifact_id_ok sel"
    "list_all artifact_id_ok refs"
  shows "runtime_admission_ok (evaluateRuntimeAdmission es ac sel d boot refs)"
  using assms runtimeAdmissionId_ok [of es] runtimeAdmissionId_starts [of es]
  by (simp add: runtime_admission_ok_def lineage_ok_def evaluateRuntimeAdmission_def
      admission_artifact_def)

lemma emitExecutionStart_Inr:
  "is_ok (emitExecutionStart x d run) \<longleftrightarrow> d = Allow"
  by (simp add: emitExecutionStart_def assertExecutionStartAllowed_def is_ok_iff and_then_Inr)

lemma emitExecutionStart_Inl:
  "d \<noteq> Allow \<Longrightarrow> emitExecutionStart x d run = Inl EXS_requires_RAD_allow"
  by (simp add: emitExecutionStart_def assertExecutionStartAllowed_def require_def)

lemma emitExecutionStart_ok:
  assumes "execution_input_ok x" "run \<noteq> []" "emitExecutionStart x d run = Inr s"
  shows "execution_start_ok s \<and> artifact_id_ok (artifact_id s)"
  using assms exs_id.rename_artifact_id [of "xi_executableSpecificationId x"]
    exs_id.rename_starts [of "xi_executableSpecificationId x"]
  by (auto simp: emitExecutionStart_def and_then_Inr execution_start_ok_def execution_input_ok_def
      execution_artifact_ok_def lineage_ok_def)

lemma emitExecutionTrace_ok:
  assumes "execution_input_ok x" "run \<noteq> []" "artifact_id_ok exs"
    "emitExecutionTrace x exs run b ns = Inr t"
  shows "(execution_trace_ok t \<longleftrightarrow> ns \<noteq> [] \<and> [] \<notin> set ns) \<and> artifact_id_ok (artifact_id t) \<and>
    nodeCount t = length (traversedNodeIds t)"
  using assms ext_id.rename_artifact_id [of "xi_executableSpecificationId x"]
    ext_id.rename_starts [of "xi_executableSpecificationId x"]
  by (auto simp: emitExecutionTrace_def and_then_Inr execution_trace_ok_def execution_input_ok_def
      execution_artifact_ok_def lineage_ok_def list_all_iff)

lemma emitExecutionResult_ok:
  assumes "execution_input_ok x" "run \<noteq> []" "emitExecutionResult x run b = Inr r"
  shows "execution_result_ok r \<and> artifact_id_ok (artifact_id r)"
  using assms exr_id.rename_artifact_id [of "xi_executableSpecificationId x"]
    exr_id.rename_starts [of "xi_executableSpecificationId x"]
  by (auto simp: emitExecutionResult_def and_then_Inr execution_result_ok_def
      execution_input_ok_def execution_artifact_ok_def lineage_ok_def)

lemma assertToolPolicyAllows_iff:
  "is_ok (assertToolPolicyAllows m t) \<longleftrightarrow> t = No_op \<or> m = Allowlist \<or> (m = Restricted \<and> t = File_write)"
  by (cases m; cases t) (simp_all add: assertToolPolicyAllows_def require_def)

lemma emitEffectorArtifact_Inr:
  "emitEffectorArtifact x exs n m t k = Inr e \<Longrightarrow>
     is_ok (assertToolPolicyAllows m t) \<and> eff_type e = t \<and> eff_toolPolicyMode e = m \<and>
     targetNodeId e = n \<and> artifact_id e = effectorIdFromNodeId n \<and>
     eff_mode e = (case k of None \<Rightarrow> Simulate_effect | Some k \<Rightarrow> k) \<and>
     eff_sourceExecutionStartId e = exs"
  by (auto simp: emitEffectorArtifact_def and_then_Inr is_ok_iff)

lemma emitEffectorArtifact_is_ok:
  "is_ok (emitEffectorArtifact x exs n m t k) \<longleftrightarrow> is_ok (assertToolPolicyAllows m t)"
  by (simp add: emitEffectorArtifact_def and_then_Inr is_ok_iff)

lemma emitEffectorArtifact_ok:
  assumes "execution_input_ok x" "artifact_id_ok exs" "artifact_id_ok n"
    "emitEffectorArtifact x exs n m t k = Inr e"
  shows "effector_artifact_ok e \<and> node_record_ok (buildExecutionNodeRecord e)"
proof -
  from assms(3) have "n \<noteq> []" by (rule artifact_id_nonempty)
  moreover have "starts_with ''EFF-'' (effectorIdFromNodeId n)"
    by (simp add: effectorIdFromNodeId_def)
  ultimately show ?thesis
    using assms effectorId_ok [of n]
    by (auto simp: emitEffectorArtifact_def and_then_Inr effector_artifact_ok_def
        execution_input_ok_def execution_artifact_ok_def lineage_ok_def node_record_ok_def
        buildExecutionNodeRecord_def)
qed

lemma emitEffectorRealization_is_ok:
  "is_ok (emitEffectorRealization ef x exs k trust t ev) \<longleftrightarrow>
     k = Safe_execute \<and> trust = Trusted \<and> t = File_write"
  by (auto simp: emitEffectorRealization_def assertSafeExecuteMode_def assertTrustedEnvironment_def
      assertRealizableEffectorType_def and_then_Inr is_ok_iff)

lemma emitEffectorRealization_ok:
  assumes "execution_input_ok x" "artifact_id_ok exs" "artifact_id_ok ef" "starts_with ''EFF-'' ef"
    "ev \<noteq> []" "emitEffectorRealization ef x exs k trust t ev = Inr r"
  shows "effector_realization_ok r \<and> artifact_id_ok (artifact_id r)"
  using assms effr_id.rename_artifact_id [of ef] effr_id.rename_starts [of ef]
  by (auto simp: emitEffectorRealization_def and_then_Inr effector_realization_ok_def
      execution_input_ok_def execution_artifact_ok_def lineage_ok_def)

lemma emitObservation_ok:
  assumes "artifact_id_ok exr" "starts_with ''EXR-'' exr" "artifact_id_ok effr" "artifact_id_ok ext"
    "expected \<noteq> []" "actual \<noteq> []" "list_all artifact_id_ok refs"
  shows "observation_ok (emitObservation exr effr ext expected actual refs)"
  using assms obs_id.rename_artifact_id [of exr] obs_id.rename_starts [of exr]
  by (simp add: emitObservation_def observation_ok_def lineage_ok_def Let_def)

section \<open>Properties\<close>

text \<open>
  C30. Execution needs a selected candidate in bootstrap mode: when admission is evaluated on
  the outcome of candidate selection, the start of an execution can be emitted exactly in
  bootstrap mode and when the score of the candidate reaches the threshold, and it is denied
  with its error otherwise. The one candidate the scoring knows reaches the default threshold,
  and the admission decision is part of the id of the admission.
\<close>

theorem execution_requires_selection:
  assumes s: "selectCandidate ac es refs thr = Inr s"
    and a: "a = evaluateRuntimeAdmission es ac (artifact_id s) (acs_decision s) boot refs'"
  shows "(is_ok (emitExecutionStart x (decision a) run) \<longleftrightarrow>
      boot \<and> threshold s \<le> totalScore (scorecard s)) \<and>
    (\<not> is_ok (emitExecutionStart x (decision a) run) \<longrightarrow>
      emitExecutionStart x (decision a) run = Inl EXS_requires_RAD_allow) \<and>
    (thr = None \<longrightarrow> acs_decision s = Sel_selected) \<and>
    artifact_id a = runtimeAdmissionIdFromExecutableSpecificationId es
      (if is_ok (emitExecutionStart x (decision a) run) then Allow else Deny)"
proof -
  obtain sc where sc: "scoreCandidate ac = Inr sc" "scorecard s = sc"
    "threshold s = (case thr of None \<Rightarrow> lit 8 10 | Some x \<Rightarrow> x)"
    "acs_decision s = (if threshold s \<le> totalScore sc then Sel_selected else Sel_rejected)"
    using selectCandidate_cases [OF s] by blast
  have d: "decision a = (if boot \<and> threshold s \<le> totalScore sc then Allow else Deny)"
    by (simp add: a evaluateRuntimeAdmission_decision sc(4))
  have "thr = None \<longrightarrow> acs_decision s = Sel_selected"
    using sc scoreCandidate_cases [OF sc(1)] total_score_default by simp
  moreover have "artifact_id a = runtimeAdmissionIdFromExecutableSpecificationId es (decision a)"
    unfolding a by (rule evaluateRuntimeAdmission_id)
  ultimately show ?thesis
    using d by (auto simp: emitExecutionStart_Inr emitExecutionStart_Inl sc(2))
qed

lemma execution_requires_selection_witness:
  "\<exists>s. selectCandidate ''AC-META-ARCHITECTURE-CANDIDATE-EXECUTION'' ''ES-META-A'' [] None = Inr s \<and>
    is_ok (emitExecutionStart \<lparr>xi_executableSpecificationId = ''ES-META-A'',
        xi_architectureCandidateId = ''AC-META-A'', xi_selectionId = ''ACS-META-A'',
        xi_admissionId = ''RAD-META-A-ALLOW'', xi_sourceRefs = []\<rparr>
      (decision (evaluateRuntimeAdmission ''ES-META-A'' ''AC-META-ARCHITECTURE-CANDIDATE-EXECUTION''
        (artifact_id s) (acs_decision s) True [])) ''RUN-1'')"
proof -
  have "is_ok (selectCandidate ''AC-META-ARCHITECTURE-CANDIDATE-EXECUTION'' ''ES-META-A'' [] None)"
    by (simp add: selectCandidate_def scoreCandidate_def Let_def)
  then obtain s where
    s: "selectCandidate ''AC-META-ARCHITECTURE-CANDIDATE-EXECUTION'' ''ES-META-A'' [] None = Inr s"
    unfolding is_ok_iff by blast
  have "threshold s \<le> totalScore (scorecard s)"
    using execution_requires_selection [OF s refl] selectCandidate_cases [OF s]
    by (auto split: if_splits)
  then show ?thesis using s execution_requires_selection [OF s refl] by blast
qed

text \<open>
  What a run leaves behind is valid: from an input whose ids are artifact ids, the start,
  the result, the effector and its node record, the realization, the observation and the
  feedback signal all conform to their schemas, with ids of the right type derived from the
  id of the specification; a trace conforms exactly when it names at least one node and no
  node id is empty, which its emitter does not check.
\<close>

theorem run_artifacts_valid:
  assumes x: "execution_input_ok x" and run: "run \<noteq> []" and n: "artifact_id_ok n"
    and ev: "ev \<noteq> []" "expected \<noteq> []" "actual \<noteq> []"
    and emitted: "emitExecutionStart x d run = Inr exs"
      "emitExecutionTrace x (artifact_id exs) run True ns = Inr ext"
      "emitExecutionResult x run True = Inr exr"
      "emitEffectorArtifact x (artifact_id exs) n m t k = Inr eff"
      "emitEffectorRealization (artifact_id eff) x (artifact_id exs) (eff_mode eff) trust t ev = Inr effr"
    and ob: "ob = emitObservation (artifact_id exr) (artifact_id effr) (artifact_id ext)
      expected actual (xi_sourceRefs x)"
  shows "execution_start_ok exs \<and> execution_result_ok exr \<and> effector_artifact_ok eff \<and>
    node_record_ok (enrichNodeRecordWithRealization eff effr) \<and> effector_realization_ok effr \<and>
    observation_ok ob \<and> meta_prefixed (feedbackSignalIdFromObservationId (artifact_id ob)) \<and>
    (execution_trace_ok ext \<longleftrightarrow> ns \<noteq> [] \<and> [] \<notin> set ns)"
proof -
  have exs: "execution_start_ok exs \<and> artifact_id_ok (artifact_id exs)"
    using x run emitted(1) by (rule emitExecutionStart_ok)
  have ext: "(execution_trace_ok ext \<longleftrightarrow> ns \<noteq> [] \<and> [] \<notin> set ns) \<and> artifact_id_ok (artifact_id ext)"
    using emitExecutionTrace_ok [OF x run _ emitted(2)] exs by blast
  have exr: "execution_result_ok exr \<and> artifact_id_ok (artifact_id exr)"
    using x run emitted(3) by (rule emitExecutionResult_ok)
  have eff: "effector_artifact_ok eff \<and> node_record_ok (buildExecutionNodeRecord eff)"
    using emitEffectorArtifact_ok [OF x _ n emitted(4)] exs by blast
  then have eff_id: "artifact_id_ok (artifact_id eff)" "starts_with ''EFF-'' (artifact_id eff)"
    by (auto simp: effector_artifact_ok_def execution_artifact_ok_def lineage_ok_def)
  have effr: "effector_realization_ok effr \<and> artifact_id_ok (artifact_id effr)"
    using emitEffectorRealization_ok [OF x _ eff_id ev(1) emitted(5)] exs by blast
  have "starts_with ''EXR-'' (artifact_id exr)"
    using exr by (simp add: execution_result_ok_def execution_artifact_ok_def)
  then have ob_ok: "observation_ok ob"
    unfolding ob using exr effr ext ev x
    by (intro emitObservation_ok) (auto simp: execution_input_ok_def)
  then have "meta_prefixed (feedbackSignalIdFromObservationId (artifact_id ob))"
    using feedbackSignalId_ok by (auto simp: observation_ok_def lineage_ok_def)
  moreover have "node_record_ok (enrichNodeRecordWithRealization eff effr)"
    using eff effr by (simp add: node_record_ok_def buildExecutionNodeRecord_def
        enrichNodeRecordWithRealization_def)
  ultimately show ?thesis using exs ext exr eff effr ob_ok by blast
qed

definition sample_execution :: execution_input where
  "sample_execution = \<lparr>xi_executableSpecificationId = ''ES-META-A'',
     xi_architectureCandidateId = ''AC-META-A'', xi_selectionId = ''ACS-META-A'',
     xi_admissionId = ''RAD-META-A-ALLOW'', xi_sourceRefs = [''ES-META-A'']\<rparr>"

lemma run_artifacts_valid_witness:
  "\<exists>exs ext. emitExecutionStart sample_execution Allow ''R'' = Inr exs \<and>
    emitExecutionTrace sample_execution (artifact_id exs) ''R'' True [] = Inr ext \<and>
    execution_start_ok exs \<and> \<not> execution_trace_ok ext"
proof -
  have x: "execution_input_ok sample_execution" by code_simp
  have n: "artifact_id_ok ''CONTRACT-A''" by code_simp
  have "is_ok (emitExecutionStart sample_execution Allow ''R'')"
    by (simp add: emitExecutionStart_Inr)
  then obtain exs where exs: "emitExecutionStart sample_execution Allow ''R'' = Inr exs"
    unfolding is_ok_iff by blast
  have "is_ok (emitExecutionTrace sample_execution (artifact_id exs) ''R'' True [])"
    "is_ok (emitExecutionResult sample_execution ''R'' True)"
    "is_ok (emitEffectorArtifact sample_execution (artifact_id exs) ''CONTRACT-A'' Restricted File_write
      (Some Safe_execute))"
    by (simp_all add: emitExecutionTrace_def emitExecutionResult_def assertTraceAllowed_def
        assertResultAllowed_def is_ok_iff and_then_Inr emitEffectorArtifact_def
        assertToolPolicyAllows_def)
  then obtain ext exr eff where ext: "emitExecutionTrace sample_execution (artifact_id exs) ''R'' True [] = Inr ext"
    and exr: "emitExecutionResult sample_execution ''R'' True = Inr exr"
    and eff: "emitEffectorArtifact sample_execution (artifact_id exs) ''CONTRACT-A'' Restricted File_write
      (Some Safe_execute) = Inr eff"
    unfolding is_ok_iff by blast
  have "is_ok (emitEffectorRealization (artifact_id eff) sample_execution (artifact_id exs)
      (eff_mode eff) Trusted File_write ''e'')"
    using emitEffectorArtifact_Inr [OF eff] by (simp add: emitEffectorRealization_is_ok)
  then obtain effr where effr: "emitEffectorRealization (artifact_id eff) sample_execution
      (artifact_id exs) (eff_mode eff) Trusted File_write ''e'' = Inr effr"
    unfolding is_ok_iff by blast
  show ?thesis
    using run_artifacts_valid [where run = "''R''" and ev = "''e''" and expected = "''x''"
        and actual = "''y''", OF x _ n _ _ _ exs ext exr eff effr refl] exs ext by auto
qed

text \<open>
  C31. The effector policy is exact. An effector is emitted exactly when the policy allows its
  type: anything under an allowlist, nothing but a no-op without tools, and no tool call under
  the restricted policy. An emitted effector can then be realized only as a file write that
  was emitted to be safely executed in a trusted environment, never under the policy that
  allows no tools, and the record of a realized node says so.
\<close>

theorem effector_policy_exact:
  "(is_ok (emitEffectorArtifact x exs n m t k) \<longleftrightarrow>
      m = Allowlist \<or> t = No_op \<or> (m = Restricted \<and> t = File_write)) \<and>
   (\<forall>eff. emitEffectorArtifact x exs n m t k = Inr eff \<longrightarrow>
      (\<forall>trust ev effr. emitEffectorRealization (artifact_id eff) x exs (eff_mode eff) trust
          (eff_type eff) ev = Inr effr \<longrightarrow>
        t = File_write \<and> k = Some Safe_execute \<and> trust = Trusted \<and> m \<noteq> No_tools \<and>
        artifact_id effr = ''EFFR-'' @ n \<and>
        realized (enrichNodeRecordWithRealization eff effr) = Some True \<and>
        rec_outputEvidenceRef (enrichNodeRecordWithRealization eff effr) = Some ev))"
proof -
  have "t = File_write \<and> k = Some Safe_execute \<and> trust = Trusted \<and> m \<noteq> No_tools \<and>
      artifact_id effr = ''EFFR-'' @ n \<and>
      realized (enrichNodeRecordWithRealization eff effr) = Some True \<and>
      rec_outputEvidenceRef (enrichNodeRecordWithRealization eff effr) = Some ev"
    if eff: "emitEffectorArtifact x exs n m t k = Inr eff"
      and effr: "emitEffectorRealization (artifact_id eff) x exs (eff_mode eff) trust
          (eff_type eff) ev = Inr effr" for eff trust ev effr
  proof -
    have facts: "eff_mode eff = Safe_execute" "trust = Trusted" "eff_type eff = File_write"
      using effr emitEffectorRealization_is_ok [of "artifact_id eff" x exs "eff_mode eff" trust
          "eff_type eff" ev] by (auto simp: is_ok_iff)
    have copied: "artifact_id effr = effectorRealizationIdFromEffectorId (artifact_id eff)"
      "outputEvidenceRef effr = ev"
      using effr by (auto simp: emitEffectorRealization_def and_then_Inr)
    have "artifact_id effr = ''EFFR-'' @ n"
      using copied(1) emitEffectorArtifact_Inr [OF eff] effr_id.rename_src [of n]
      by (simp add: effectorIdFromNodeId_def)
    with facts copied show ?thesis
      using emitEffectorArtifact_Inr [OF eff]
      by (auto simp: assertToolPolicyAllows_iff enrichNodeRecordWithRealization_def
          split: option.splits)
  qed
  then show ?thesis
    by (auto simp: emitEffectorArtifact_is_ok assertToolPolicyAllows_iff)
qed

lemma effector_policy_exact_witness:
  "\<not> is_ok (emitEffectorArtifact sample_execution ''EXS-META-A'' ''CONTRACT-A'' Restricted Tool_call None) \<and>
   (\<exists>eff. emitEffectorArtifact sample_execution ''EXS-META-A'' ''CONTRACT-A'' Restricted File_write None =
      Inr eff \<and> \<not> is_ok (emitEffectorRealization (artifact_id eff) sample_execution ''EXS-META-A''
        (eff_mode eff) Trusted (eff_type eff) ''e''))"
proof -
  have "is_ok (emitEffectorArtifact sample_execution ''EXS-META-A'' ''CONTRACT-A'' Restricted File_write None)"
    using effector_policy_exact [of sample_execution "''EXS-META-A''" "''CONTRACT-A''" Restricted
        File_write None] by blast
  then obtain eff where eff: "emitEffectorArtifact sample_execution ''EXS-META-A'' ''CONTRACT-A''
      Restricted File_write None = Inr eff" unfolding is_ok_iff by blast
  then have "\<not> is_ok (emitEffectorRealization (artifact_id eff) sample_execution ''EXS-META-A''
        (eff_mode eff) Trusted (eff_type eff) ''e'')"
    using effector_policy_exact [of sample_execution "''EXS-META-A''" "''CONTRACT-A''" Restricted
        File_write None] unfolding is_ok_iff by blast
  with eff show ?thesis
    using effector_policy_exact [of sample_execution "''EXS-META-A''" "''CONTRACT-A''" Restricted
        Tool_call None] by blast
qed

end
