(* ===== verification/Function_Authoring.thy ===== *)
theory Function_Authoring
  imports Governance_Ids Js_Numbers Intent_Markdown
begin

text \<open>
  From a capability to an Intent Specification: the packages \<open>capability-delta\<close> (which gaps a
  capability has, which functions are proposed to close them), \<open>recursion-governance\<close> (which
  proposals the factory may author for itself, and the quality gate of what it writes) and
  \<open>intent-authoring\<close> (the Markdown of an Intent Specification). The schemas are those of
  \<open>packages/schemas/src/capability-delta.ts\<close> and \<open>core.ts\<close>. The file I/O of the two
  command-line runners is left out; the repository inventory is read by no function.
\<close>

section \<open>Schemas\<close>

datatype delta_status = Missing | Degraded_capability | Underutilized | Sufficient

datatype dimension = Dim_execution | Dim_control | Dim_evidence | Dim_integration

text \<open>\<open>FunctionType\<close> has the same values as \<open>DeltaDimension\<close>.\<close>

type_synonym function_type = dimension

record delta_finding =
  finding_dimension :: dimension
  finding_status :: delta_status
  finding_statement :: string
  evidenceRefs :: "string list"
  finding_severity :: rat
  finding_confidence :: rat

record capability_delta = lineage +
  delta_capabilityId :: string
  overallStatus :: delta_status
  findings :: "delta_finding list"
  recommendedFunctionTypes :: "function_type list"

definition in_unit :: "rat \<Rightarrow> bool" where
  "in_unit x \<longleftrightarrow> 0 \<le> x \<and> x \<le> 1"

definition delta_finding_ok :: "delta_finding \<Rightarrow> bool" where
  "delta_finding_ok f \<longleftrightarrow>
     finding_statement f \<noteq> [] \<and> list_all artifact_id_ok (evidenceRefs f) \<and> evidenceRefs f \<noteq> [] \<and>
     in_unit (finding_severity f) \<and> in_unit (finding_confidence f)"

definition capability_delta_ok :: "capability_delta \<Rightarrow> bool" where
  "capability_delta_ok d \<longleftrightarrow>
     lineage_ok d \<and> starts_with ''DEL-'' (artifact_id d) \<and> artifact_id_ok (delta_capabilityId d) \<and>
     list_all delta_finding_ok (findings d) \<and> findings d \<noteq> [] \<and> recommendedFunctionTypes d \<noteq> []"

record function_proposal = lineage +
  fp_capabilityId :: string
  fp_name :: string
  fp_purpose :: string
  functionType :: function_type
  expectedInputs :: "string list"
  expectedOutputs :: "string list"
  governingConstraints :: "string list"
  candidateInvariants :: "string list"
  successSignals :: "string list"
  fp_confidence :: rat

text \<open>\<open>/^[a-z][a-z0-9_]*$/\<close>\<close>

fun snake_case :: "string \<Rightarrow> bool" where
  "snake_case [] = False"
| "snake_case (c # cs) =
     (is_lower c \<and> list_all (\<lambda>x. is_lower x \<or> is_digit x \<or> x = CHR ''_'') cs)"

definition function_proposal_ok :: "function_proposal \<Rightarrow> bool" where
  "function_proposal_ok p \<longleftrightarrow>
     lineage_ok p \<and> starts_with ''FP-'' (artifact_id p) \<and> artifact_id_ok (fp_capabilityId p) \<and>
     snake_case (fp_name p) \<and> fp_purpose p \<noteq> [] \<and> in_unit (fp_confidence p)"

section \<open>Capability deltas\<close>

definition supported_capabilities :: "string list" where
  "supported_capabilities =
     [''BC-META-COMPUTE-CAPABILITY-DELTA'',
      ''BC-META-SEMANTICALLY-REVIEW-Intent SpecificationS'',
      ''BC-META-EMIT-ARCHITECTURE-CANDIDATES'']"

datatype authoring_error = Unsupported_capability string | Unsupported_proposal
  | Missing_section string | Missing_frontmatter
  | Quality_missing_section string | Quality_forbidden_token string | Quality_too_short

text \<open>A finding template, with the evidence that \<open>evaluateDelta\<close> adds to each.\<close>

definition template :: "dimension \<Rightarrow> delta_status \<Rightarrow> string \<Rightarrow> rat \<Rightarrow> rat \<Rightarrow> delta_finding" where
  "template d s st sev c =
     \<lparr>finding_dimension = d, finding_status = s, finding_statement = st,
      evidenceRefs = [''SIG-META-REPO-ARCH-AUDIT''], finding_severity = rnd sev,
      finding_confidence = rnd c\<rparr>"

definition finding_templates :: "string \<Rightarrow> delta_finding list" where
  "finding_templates c =
     (if c = ''BC-META-COMPUTE-CAPABILITY-DELTA'' then
        [template Dim_execution Missing ''No capability-delta execution engine exists'' 1 (95 / 100),
         template Dim_control Missing ''No deterministic delta classification rules exist'' 1 (95 / 100),
         template Dim_evidence Missing ''No DEL-* artifacts are emitted'' 1 (95 / 100),
         template Dim_integration Underutilized ''Schemas exist but are not integrated into a Function Proposal decomposition pipeline'' (7 / 10) (9 / 10)]
      else if c = ''BC-META-SEMANTICALLY-REVIEW-Intent SpecificationS'' then
        [template Dim_execution Missing ''No semantic review execution engine exists'' 1 (95 / 100),
         template Dim_control Missing ''No fail-closed semantic review rule set exists'' 1 (95 / 100),
         template Dim_evidence Missing ''No SemanticReviewReport or equivalent artifacts are emitted'' 1 (95 / 100),
         template Dim_integration Underutilized ''Coherence Verification exists but semantic review is not integrated into the compile path'' (75 / 100) (9 / 10)]
      else if c = ''BC-META-EMIT-ARCHITECTURE-CANDIDATES'' then
        [template Dim_execution Missing ''No ArchitectureCandidate emission engine exists'' 1 (95 / 100),
         template Dim_control Missing ''No candidate selection and emission rule set exists'' 1 (95 / 100),
         template Dim_evidence Missing ''No ArchitectureCandidate artifacts or candidate evidence records are emitted'' 1 (95 / 100),
         template Dim_integration Underutilized ''ExecutableSpecification emission exists but candidate emission is not integrated into Intent-to-Executable compilation'' (75 / 100) (9 / 10)]
      else [])"

definition delta_rationale :: "string \<Rightarrow> string" where
  "delta_rationale c =
     (if c = ''BC-META-COMPUTE-CAPABILITY-DELTA''
      then ''Derived from repo architecture audit and current inventory''
      else if c = ''BC-META-SEMANTICALLY-REVIEW-Intent SpecificationS''
      then ''Derived from repo architecture audit and semantic-review inventory''
      else if c = ''BC-META-EMIT-ARCHITECTURE-CANDIDATES''
      then ''Derived from repo architecture audit and architecture-candidate inventory''
      else [])"

text \<open>\<open>evaluateDelta\<close> reads the id and the source refs of the capability only.\<close>

definition evaluateDelta :: "string \<Rightarrow> string list \<Rightarrow> authoring_error + capability_delta" where
  "evaluateDelta c refs =
     (if c \<notin> set supported_capabilities then Inl (Unsupported_capability c)
      else Inr \<lparr>artifact_id = capabilityDeltaId c, source_refs = refs, explicitness = Inferred,
             rationale = delta_rationale c, delta_capabilityId = c, overallStatus = Missing,
             findings = finding_templates c,
             recommendedFunctionTypes = [Dim_execution, Dim_control, Dim_evidence]\<rparr>)"

section \<open>Function proposals\<close>

definition proposal ::
  "string \<Rightarrow> string list \<Rightarrow> string \<Rightarrow> string \<Rightarrow> string \<Rightarrow> string \<Rightarrow> function_type \<Rightarrow> string list \<Rightarrow>
   string list \<Rightarrow> string list \<Rightarrow> string list \<Rightarrow> string list \<Rightarrow> rat \<Rightarrow> function_proposal" where
  "proposal c refs i why nm pu t ins outs gov invs sig conf =
     \<lparr>artifact_id = i, source_refs = refs, explicitness = Inferred, rationale = why,
      fp_capabilityId = c, fp_name = nm, fp_purpose = pu, functionType = t,
      expectedInputs = ins, expectedOutputs = outs, governingConstraints = gov,
      candidateInvariants = invs, successSignals = sig, fp_confidence = rnd conf\<rparr>"

definition proposal_templates :: "string \<Rightarrow> string list \<Rightarrow> function_proposal list" where
  "proposal_templates c refs =
     (if c = ''BC-META-COMPUTE-CAPABILITY-DELTA'' then
        [proposal c refs ''FP-META-CAPABILITY-DELTA-ENGINE''
           ''Execution gap identified in capability delta'' ''capability_delta_engine''
           ''Compute capability delta deterministically'' Dim_execution
           [''BusinessCapability'', ''RepoInventory''] [''CapabilityDelta'']
           [''Deterministic only'', ''No LLM inference''] [''lineage preserved'', ''explicit rationale preserved'']
           [''DEL artifact emitted''] (95 / 100),
         proposal c refs ''FP-META-CAPABILITY-DELTA-RULES''
           ''Control gap identified in capability delta'' ''capability_delta_rules''
           ''Classify capabilities into missing/degraded/underutilized/sufficient'' Dim_control
           [''BusinessCapability'', ''RepoInventory''] [''CapabilityDeltaFinding[]'']
           [''Rule-based only''] [''deterministic classification'']
           [''Stable findings across repeated runs''] (95 / 100),
         proposal c refs ''FP-META-CAPABILITY-DELTA-EVIDENCE''
           ''Evidence gap identified in capability delta'' ''capability_delta_evidence''
           ''Emit DEL artifacts with explicit evidence references'' Dim_evidence
           [''CapabilityDelta''] [''DEL artifact'']
           [''evidenceRefs must be populated''] [''DEL artifacts always cite evidence'']
           [''DEL artifact persisted under specs/deltas''] (9 / 10)]
      else if c = ''BC-META-SEMANTICALLY-REVIEW-Intent SpecificationS'' then
        [proposal c refs ''FP-META-SEMANTIC-REVIEW-EXECUTION''
           ''Execution gap identified in semantic review capability delta'' ''semantic_review_execution''
           ''Execute a semantic review pass between Coherence Verification and ExecutableSpecification emission'' Dim_execution
           [''IntentSpecification'', ''CoherenceVerificationReport'', ''reference doctrine set''] [''semantic review verdict'']
           [''fail-closed'', ''bootstrap human-governed''] [''semantic review is required before ExecutableSpecification emission'']
           [''semantic review verdict persisted''] (94 / 100),
         proposal c refs ''FP-META-SEMANTIC-REVIEW-RULES''
           ''Control gap identified in semantic review capability delta'' ''semantic_review_rules''
           ''Define fail-closed semantic review rules and statuses'' Dim_control
           [''IntentSpecification'', ''CoherenceVerificationReport'', ''doctrine sources''] [''semantic review findings'', ''semantic review status'']
           [''must not weaken Coherence Verification''] [''structurally valid but conceptually wrong Intent Specifications are blocked'']
           [''consistent semantic review classification across repeated runs''] (94 / 100),
         proposal c refs ''FP-META-SEMANTIC-REVIEW-EVIDENCE''
           ''Evidence gap identified in semantic review capability delta'' ''semantic_review_evidence''
           ''Emit review artifacts proving semantic review occurred and what it concluded'' Dim_evidence
           [''semantic review findings''] [''semantic review artifact'']
           [''source references must be preserved''] [''semantic review artifacts always cite doctrine and Intent Specification inputs'']
           [''persisted evidence artifact for each semantic review run''] (9 / 10)]
      else if c = ''BC-META-EMIT-ARCHITECTURE-CANDIDATES'' then
        [proposal c refs ''FP-META-ARCHITECTURE-CANDIDATE-EXECUTION''
           ''Execution gap identified in architecture-candidate capability delta'' ''architecture_candidate_execution''
           ''Emit ArchitectureCandidate artifacts alongside ExecutableSpecifications'' Dim_execution
           [''IntentSpecification'', ''ExecutableSpecification'', ''candidate selection inputs''] [''ArchitectureCandidate artifact'']
           [''Candidate artifact must remain separate from ExecutableSpecification'', ''Candidate artifact must preserve lineage''] [''Every emitted candidate has explicit topology and binding intent'']
           [''Candidate artifact persisted alongside ExecutableSpecification''] (94 / 100),
         proposal c refs ''FP-META-ARCHITECTURE-CANDIDATE-RULES''
           ''Control gap identified in architecture-candidate capability delta'' ''architecture_candidate_rules''
           ''Define candidate emission rules, selection criteria, and required fields'' Dim_control
           [''IntentSpecification'', ''ExecutableSpecification'', ''doctrine sources''] [''candidate emission rules'', ''candidate validity checks'']
           [''Must not weaken compiler determinism''] [''Candidate artifacts always specify execution arrangement explicitly'']
           [''Stable candidate classification across repeated runs''] (94 / 100),
         proposal c refs ''FP-META-ARCHITECTURE-CANDIDATE-EVIDENCE''
           ''Evidence gap identified in architecture-candidate capability delta'' ''architecture_candidate_evidence''
           ''Emit reviewable artifacts proving candidate emission occurred and what was selected'' Dim_evidence
           [''candidate emission results''] [''candidate evidence artifact'']
           [''source references must be preserved''] [''candidate evidence always cites doctrine and Intent Specification inputs'']
           [''persisted evidence artifact for each candidate emission run''] (9 / 10)]
      else [])"

definition emitFunctionProposals :: "capability_delta \<Rightarrow> authoring_error + function_proposal list" where
  "emitFunctionProposals d =
     (if delta_capabilityId d \<notin> set supported_capabilities
      then Inl (Unsupported_capability (delta_capabilityId d))
      else Inr (proposal_templates (delta_capabilityId d) (source_refs d)))"

section \<open>Rendering an Intent Specification\<close>

record rendered_prd =
  rendered_id :: string
  filename :: string
  markdown :: string

text \<open>The lines between the fences, and the document they open.\<close>

definition prd_front :: "string \<Rightarrow> string list \<Rightarrow> string \<Rightarrow> string \<Rightarrow> string \<Rightarrow> string \<Rightarrow> string list" where
  "prd_front isid refs fp cap fn ti =
     [''id: '' @ isid, ''source_refs:''] @ map (\<lambda>r. ''  - '' @ r) refs @
     [''explicitness: inferred'', ''rationale: >'',
      ''  Derived deterministically from '' @ fp @ '' and its upstream lineage.'',
      ''sourceCapabilityId: '' @ cap, ''sourceFunctionId: '' @ fn, ''title: '' @ ti]"

definition prd_document :: "string list \<Rightarrow> string \<Rightarrow> string list \<Rightarrow> string" where
  "prd_document front ti body =
     join [nl] (''---'' # front @ ''---'' # [[], ''# '' @ ti, []] @ body)"

definition delta_engine_body :: "string list" where
  "delta_engine_body =
     [''## Problem'',
      ''The repo can now compute capability delta and emit FunctionProposal demand during Function Proposal decomposition, but there is no dedicated execution engine artifact that computes capability delta as a first-class bootstrap Function from bounded repo evidence.'',
      '''',
      ''## Goal'',
      ''Implement a deterministic capability-delta execution engine that consumes a BusinessCapability and RepoInventory, computes a CapabilityDelta for supported bootstrap capabilities, and produces reviewable downstream proposal demand without modifying compiler behavior.'',
      '''',
      ''## Constraints'',
      ''Must remain separate from Intent-to-Executable compiler logic.'',
      '''',
      ''Must preserve lineage and explicit rationale in emitted artifacts.'',
      '''',
      ''Must be deterministic and rule-based.'',
      '''',
      ''Must not use LLM-based inference in the first implementation.'',
      '''',
      ''## Acceptance Criteria'',
      ''1. The engine accepts the supported bootstrap capability and a bounded RepoInventory input.'',
      ''2. The engine computes a deterministic CapabilityDelta with explicit findings and overallStatus.'',
      ''3. The engine emits downstream typed FunctionProposal demand from the computed delta.'',
      ''4. The implementation fails explicitly for unsupported capabilities in the initial narrow version.'',
      ''5. The implementation preserves lineage and explicitness in emitted artifacts.'',
      '''',
      ''## Success Metrics'',
      ''Deterministic delta classification across repeated runs for supported bootstrap capabilities.'',
      '''',
      ''Stable and typed FunctionProposal emission from computed delta findings.'',
      '''',
      ''Zero compiler behavior changes required to adopt the produced Intent Specification.'',
      '''',
      ''## Out of Scope'',
      ''Generalized support for all capability families.'',
      '''',
      ''LLM-based repo interpretation or proposal generation.'',
      '''',
      ''Runtime execution, Fidelity Verification, Persistence Verification, and assurance propagation.'']"

definition semantic_review_body :: "string list" where
  "semantic_review_body =
     [''## Problem'',
      ''Coherence Verification verifies structural completeness, but the current repo has no semantic review execution step capable of blocking structurally valid yet conceptually invalid Intent Specifications before ExecutableSpecification emission.'',
      '''',
      ''## Goal'',
      ''Implement a deterministic semantic review execution engine that consumes a IntentSpecification, CoherenceVerificationReport, and doctrine inputs, produces a semantic review verdict, and preserves fail-closed behavior before ExecutableSpecification emission without modifying compiler behavior in this step.'',
      '''',
      ''## Constraints'',
      ''Must be fail-closed.'',
      '''',
      ''Must not weaken Coherence Verification structural coverage discipline.'',
      '''',
      ''Must remain deterministic.'',
      '''',
      ''Must not use LLM-based inference in the first implementation.'',
      '''',
      ''## Acceptance Criteria'',
      ''1. The engine accepts the supported semantic review inputs in the initial narrow version.'',
      ''2. The engine produces a semantic review verdict suitable for later integration.'',
      ''3. The engine blocks unsupported or invalid review cases explicitly.'',
      ''4. The implementation preserves lineage and explicitness in emitted artifacts.'',
      ''5. The implementation remains separate from Intent-to-Executable compiler logic in this first bridge increment.'',
      '''',
      ''## Success Metrics'',
      ''Deterministic semantic review rendering outputs across repeated runs.'',
      '''',
      ''Stable and reviewable verdict structure for the supported semantic review path.'',
      '''',
      ''Zero compiler behavior changes required to adopt the produced Intent Specification artifact.'',
      '''',
      ''## Out of Scope'',
      ''Generalized support for all semantic review proposal families.'',
      '''',
      ''LLM-based semantic analysis.'',
      '''',
      ''Runtime execution, Fidelity Verification, Persistence Verification, and assurance propagation.'']"

definition architecture_candidate_prd_body :: "string list" where
  "architecture_candidate_prd_body =
     [''## Problem'',
      ''The current Intent-to-Executable compiler emits ExecutableSpecification artifacts, but it does not emit ArchitectureCandidate artifacts that make the execution arrangement explicit before runtime exists.'',
      '''',
      ''## Goal'',
      ''Implement a deterministic architecture-candidate execution engine that renders explicit candidate artifacts alongside ExecutableSpecifications, capturing candidate execution arrangement without modifying compiler behavior in this bridge step.'',
      '''',
      ''## Constraints'',
      ''Must remain separate from Intent-to-Executable compiler logic in the first implementation.'',
      '''',
      ''Must preserve lineage and explicit rationale in emitted artifacts.'',
      '''',
      ''Must keep ArchitectureCandidate artifacts separately addressable from ExecutableSpecifications.'',
      '''',
      ''Must not use LLM-based inference in the first implementation.'',
      '''',
      ''## Acceptance Criteria'',
      ''1. The engine accepts the supported architecture-candidate inputs in the initial narrow version.'',
      ''2. The engine renders an explicit architecture-candidate execution artifact plan suitable for later Intent-to-Executable integration.'',
      ''3. The implementation preserves lineage and explicitness in emitted artifacts.'',
      ''4. The implementation fails explicitly for unsupported proposal types in the current narrow bridge.'',
      ''5. The implementation remains deterministic across repeated runs.'',
      '''',
      ''## Success Metrics'',
      ''Deterministic architecture-candidate rendering outputs across repeated runs.'',
      '''',
      ''Stable candidate execution structure for the supported architecture-candidate path.'',
      '''',
      ''Zero compiler behavior changes required to adopt the produced Intent Specification artifact.'',
      '''',
      ''## Out of Scope'',
      ''Generalized support for all architecture-candidate proposal families.'',
      '''',
      ''Runtime execution and candidate selection at runtime.'',
      '''',
      ''LLM-based execution-arrangement synthesis.'']"

definition prd_title :: "string \<Rightarrow> string option" where
  "prd_title fp =
     (if fp = ''FP-META-CAPABILITY-DELTA-ENGINE'' then Some ''Capability Delta Execution Engine''
      else if fp = ''FP-META-SEMANTIC-REVIEW-EXECUTION'' then Some ''Semantic Review Execution Engine''
      else if fp = ''FP-META-ARCHITECTURE-CANDIDATE-EXECUTION'' then Some ''Architecture Candidate Execution Engine''
      else None)"

definition prd_body :: "string \<Rightarrow> string list" where
  "prd_body fp =
     (if fp = ''FP-META-CAPABILITY-DELTA-ENGINE'' then delta_engine_body
      else if fp = ''FP-META-SEMANTIC-REVIEW-EXECUTION'' then semantic_review_body
      else if fp = ''FP-META-ARCHITECTURE-CANDIDATE-EXECUTION'' then architecture_candidate_prd_body
      else [])"

definition renderPrdFromFunctionProposal ::
  "string \<Rightarrow> string \<Rightarrow> string \<Rightarrow> string list \<Rightarrow> authoring_error + rendered_prd" where
  "renderPrdFromFunctionProposal fp cap fn refs =
     (let isid = intentSpecificationIdFromFunctionProposalId fp in
      case prd_title fp of
        None \<Rightarrow> Inl Unsupported_proposal
      | Some ti \<Rightarrow> Inr \<lparr>rendered_id = isid, filename = isid @ ''.md'',
          markdown = prd_document (prd_front isid refs fp cap fn ti) ti (prd_body fp)\<rparr>)"

definition required_sections :: "string list" where
  "required_sections =
     [''## Problem'', ''## Goal'', ''## Constraints'', ''## Acceptance Criteria'',
      ''## Success Metrics'', ''## Out of Scope'']"

definition validateRenderedPrdShape :: "string \<Rightarrow> authoring_error + unit" where
  "validateRenderedPrdShape md =
     (case find (\<lambda>s. \<not> contains_str s md) required_sections of
        Some s \<Rightarrow> Inl (Missing_section s)
      | None \<Rightarrow> require (starts_with (''---'' @ [nl]) md) Missing_frontmatter)"

section \<open>Recursion governance\<close>

definition forbidden_tokens :: "string list" where
  "forbidden_tokens = [''TODO'', ''TBD'', ''[placeholder]'', ''<placeholder>'']"

definition evaluatePrdQualityGate :: "string \<Rightarrow> authoring_error + unit" where
  "evaluatePrdQualityGate md =
     (case find (\<lambda>s. \<not> contains_str s md) required_sections of
        Some s \<Rightarrow> Inl (Quality_missing_section s)
      | None \<Rightarrow>
        (case find (\<lambda>t. contains_str t md) forbidden_tokens of
           Some t \<Rightarrow> Inl (Quality_forbidden_token t)
         | None \<Rightarrow> require (\<not> length md < 600) Quality_too_short))"






section \<open>What is proposed conforms to its schema\<close>

lemma capabilityDeltaId_supported:
  "c \<in> set supported_capabilities \<Longrightarrow> starts_with ''DEL-'' (capabilityDeltaId c)"
  by (auto simp: supported_capabilities_def capabilityDeltaId_def replace_prefix_def)

lemma templates_ok:
  "list_all delta_finding_ok (finding_templates ''BC-META-COMPUTE-CAPABILITY-DELTA'')"
  "list_all delta_finding_ok (finding_templates ''BC-META-SEMANTICALLY-REVIEW-Intent SpecificationS'')"
  "list_all delta_finding_ok (finding_templates ''BC-META-EMIT-ARCHITECTURE-CANDIDATES'')"
  by code_simp+

text \<open>The name of the second capability holds a space and lower-case letters.\<close>

lemma supported_ids:
  "artifact_id_ok ''BC-META-COMPUTE-CAPABILITY-DELTA''"
  "\<not> artifact_id_ok ''BC-META-SEMANTICALLY-REVIEW-Intent SpecificationS''"
  "artifact_id_ok ''BC-META-EMIT-ARCHITECTURE-CANDIDATES''"
  "artifact_id_ok (capabilityDeltaId ''BC-META-COMPUTE-CAPABILITY-DELTA'')"
  "\<not> artifact_id_ok (capabilityDeltaId ''BC-META-SEMANTICALLY-REVIEW-Intent SpecificationS'')"
  "artifact_id_ok (capabilityDeltaId ''BC-META-EMIT-ARCHITECTURE-CANDIDATES'')"
  by code_simp+

lemma proposal_ids:
  "map artifact_id (proposal_templates ''BC-META-COMPUTE-CAPABILITY-DELTA'' refs) =
     [''FP-META-CAPABILITY-DELTA-ENGINE'', ''FP-META-CAPABILITY-DELTA-RULES'',
      ''FP-META-CAPABILITY-DELTA-EVIDENCE'']"
  "map artifact_id (proposal_templates ''BC-META-SEMANTICALLY-REVIEW-Intent SpecificationS'' refs) =
     [''FP-META-SEMANTIC-REVIEW-EXECUTION'', ''FP-META-SEMANTIC-REVIEW-RULES'',
      ''FP-META-SEMANTIC-REVIEW-EVIDENCE'']"
  "map artifact_id (proposal_templates ''BC-META-EMIT-ARCHITECTURE-CANDIDATES'' refs) =
     [''FP-META-ARCHITECTURE-CANDIDATE-EXECUTION'', ''FP-META-ARCHITECTURE-CANDIDATE-RULES'',
      ''FP-META-ARCHITECTURE-CANDIDATE-EVIDENCE'']"
  by (simp_all add: proposal_templates_def proposal_def)

lemma proposal_types:
  "c \<in> set supported_capabilities \<Longrightarrow>
     map functionType (proposal_templates c refs) = [Dim_execution, Dim_control, Dim_evidence]"
  by (auto simp: supported_capabilities_def proposal_templates_def proposal_def)

lemma proposal_refs:
  "p \<in> set (proposal_templates c refs) \<Longrightarrow> source_refs p = refs \<and> fp_capabilityId p = c"
  by (auto simp: proposal_templates_def proposal_def split: if_splits)

definition proposal_shape_ok :: "function_proposal \<Rightarrow> bool" where
  "proposal_shape_ok p \<longleftrightarrow>
     artifact_id_ok (artifact_id p) \<and> rationale p \<noteq> [] \<and> starts_with ''FP-'' (artifact_id p) \<and>
     snake_case (fp_name p) \<and> fp_purpose p \<noteq> [] \<and> in_unit (fp_confidence p)"

lemma proposal_shapes_sample:
  "list_all proposal_shape_ok (proposal_templates ''BC-META-COMPUTE-CAPABILITY-DELTA'' [])"
  "list_all proposal_shape_ok (proposal_templates ''BC-META-SEMANTICALLY-REVIEW-Intent SpecificationS'' [])"
  "list_all proposal_shape_ok (proposal_templates ''BC-META-EMIT-ARCHITECTURE-CANDIDATES'' [])"
  by code_simp+

lemma proposal_templates_refs:
  "proposal_templates c refs = map (\<lambda>p. p\<lparr>source_refs := refs\<rparr>) (proposal_templates c [])"
  by (simp add: proposal_templates_def proposal_def)

lemma proposal_shapes:
  assumes "c \<in> set supported_capabilities"
  shows "list_all proposal_shape_ok (proposal_templates c refs)"
proof -
  have "list_all proposal_shape_ok (proposal_templates c [])"
    using assms proposal_shapes_sample by (auto simp: supported_capabilities_def)
  then show ?thesis
    by (subst proposal_templates_refs) (simp add: list_all_iff proposal_shape_ok_def)
qed

section \<open>Lines of a document\<close>

text \<open>A text without a line break occurs in a document exactly when it occurs in a line.\<close>

lemma append_eq_line:
  assumes "t @ b = l @ nl # r" "nl \<notin> set t"
  shows "\<exists>b'. l = t @ b'"
  using assms
proof (induction t arbitrary: l)
  case Nil
  then show ?case by simp
next
  case (Cons x t)
  then obtain l' where l: "l = x # l'" by (cases l) auto
  with Cons.prems have "t @ b = l' @ nl # r" "nl \<notin> set t" by auto
  from Cons.IH [OF this] l show ?case by auto
qed

lemma contains_str_line:
  assumes "t \<noteq> []" "nl \<notin> set t"
  shows "contains_str t (l @ nl # r) \<longleftrightarrow> contains_str t l \<or> contains_str t r"
proof (induction l)
  case Nil
  have "\<not> starts_with t (nl # r)" using assms by (cases t) auto
  with assms show ?case by simp
next
  case (Cons x l)
  have "starts_with t ((x # l) @ nl # r) \<longleftrightarrow> starts_with t (x # l)"
  proof
    assume "starts_with t ((x # l) @ nl # r)"
    then obtain b where "(x # l) @ nl # r = t @ b" unfolding starts_with_iff by blast
    from append_eq_line [OF this [symmetric] assms(2)] show "starts_with t (x # l)"
      unfolding starts_with_iff .
  next
    assume "starts_with t (x # l)"
    then obtain b where "x # l = t @ b" unfolding starts_with_iff by blast
    then have "(x # l) @ nl # r = t @ (b @ nl # r)" by simp
    then show "starts_with t ((x # l) @ nl # r)" unfolding starts_with_iff by blast
  qed
  with Cons.IH show ?case by simp
qed

lemma contains_str_lines:
  assumes "t \<noteq> []" "nl \<notin> set t"
  shows "contains_str t (join [nl] ls) \<longleftrightarrow> (\<exists>l \<in> set ls. contains_str t l)"
  using assms by (induction "[nl]" ls rule: join.induct) (auto simp: contains_str_line)

lemma contains_document:
  assumes "t \<noteq> []" "nl \<notin> set t"
  shows "contains_str t (prd_document front ti body) \<longleftrightarrow>
    (\<exists>l \<in> set (''---'' # front @ ''---'' # [[], ''# '' @ ti, []] @ body). contains_str t l)"
  unfolding prd_document_def by (rule contains_str_lines [OF assms])

section \<open>The rendered documents\<close>

definition authored_proposals :: "string list" where
  "authored_proposals =
     [''FP-META-CAPABILITY-DELTA-ENGINE'', ''FP-META-SEMANTIC-REVIEW-EXECUTION'',
      ''FP-META-ARCHITECTURE-CANDIDATE-EXECUTION'']"

lemma prd_title_Some: "(\<exists>ti. prd_title fp = Some ti) \<longleftrightarrow> fp \<in> set authored_proposals"
  by (simp add: prd_title_def authored_proposals_def)

definition plain_lines :: "string list \<Rightarrow> bool" where
  "plain_lines ls \<longleftrightarrow> list_all (\<lambda>l. list_all (\<lambda>t. \<not> contains_str t l) forbidden_tokens) ls"

definition clean_body :: "string \<Rightarrow> bool" where
  "clean_body fp \<longleftrightarrow>
     list_all (\<lambda>s. s \<in> set (prd_body fp)) required_sections \<and>
     plain_lines (prd_body fp) \<and> list_all (\<lambda>l. nl \<notin> set l) (prd_body fp) \<and>
     600 \<le> length (join [nl] (prd_body fp)) \<and>
     (case prd_title fp of None \<Rightarrow> False
      | Some ti \<Rightarrow> plain_lines [''---'', ''# '' @ ti, ''title: '' @ ti] \<and> nl \<notin> set ti)"

lemma clean_bodies:
  "clean_body ''FP-META-CAPABILITY-DELTA-ENGINE''"
  "clean_body ''FP-META-SEMANTIC-REVIEW-EXECUTION''"
  "clean_body ''FP-META-ARCHITECTURE-CANDIDATE-EXECUTION''"
  by code_simp+

lemma clean_body: "fp \<in> set authored_proposals \<Longrightarrow> clean_body fp"
  using clean_bodies by (auto simp: authored_proposals_def)

lemma required_section_simps:
  "s \<in> set required_sections \<Longrightarrow> s \<noteq> [] \<and> nl \<notin> set s"
  "t \<in> set forbidden_tokens \<Longrightarrow> t \<noteq> [] \<and> nl \<notin> set t"
  by (auto simp: required_sections_def forbidden_tokens_def)

lemma document_sections:
  assumes "fp \<in> set authored_proposals" "s \<in> set required_sections"
  shows "contains_str s (prd_document front ti (prd_body fp))"
proof -
  have "s \<in> set (prd_body fp)"
    using clean_body [OF assms(1)] assms(2) by (simp add: clean_body_def list_all_iff)
  then have "\<exists>l \<in> set (''---'' # front @ ''---'' # [[], ''# '' @ ti, []] @ prd_body fp). contains_str s l"
    by (intro bexI [of _ s]) simp_all
  then show ?thesis
    using required_section_simps(1) [OF assms(2)] contains_document [of s front ti "prd_body fp"]
    by blast
qed

lemma length_join_append:
  "b \<noteq> [] \<Longrightarrow> length (join sep b) \<le> length (join sep (a @ b))"
proof (induction a)
  case (Cons x a)
  then obtain y ys where "a @ b = y # ys" by (cases "a @ b") auto
  with Cons show ?case by simp
qed simp

lemma document_long:
  assumes "fp \<in> set authored_proposals"
  shows "600 \<le> length (prd_document front ti (prd_body fp))"
proof -
  have b: "600 \<le> length (join [nl] (prd_body fp))"
    using clean_body [OF assms] by (simp add: clean_body_def)
  then have "prd_body fp \<noteq> []" by auto
  from length_join_append [OF this, of "[nl]" "''---'' # front @ ''---'' # [[], ''# '' @ ti, []]"] b
  show ?thesis unfolding prd_document_def append_Cons append_assoc by linarith
qed

lemma document_plain:
  assumes fp: "fp \<in> set authored_proposals" and ti: "prd_title fp = Some ti"
  shows "find (\<lambda>t. contains_str t (prd_document front ti (prd_body fp))) forbidden_tokens = None \<longleftrightarrow>
    plain_lines front"
proof -
  have clean: "plain_lines (prd_body fp)" "plain_lines [''---'', ''# '' @ ti]"
    using clean_body [OF fp] ti by (auto simp: clean_body_def plain_lines_def)
  have "contains_str t (prd_document front ti (prd_body fp)) \<longleftrightarrow> (\<exists>l \<in> set front. contains_str t l)"
    if t: "t \<in> set forbidden_tokens" for t
  proof -
    note ne = required_section_simps(2) [OF t]
    have "\<not> contains_str t []" using ne by simp
    with clean t show ?thesis
      using contains_document [of t front ti "prd_body fp"] ne
      by (auto simp: plain_lines_def list_all_iff simp del: contains_str.simps)
  qed
  then show ?thesis by (auto simp: find_None_iff plain_lines_def list_all_iff)
qed

lemma find_sections_None:
  assumes "fp \<in> set authored_proposals"
  shows "find (\<lambda>s. \<not> contains_str s (prd_document front ti (prd_body fp))) required_sections = None"
  using document_sections [OF assms] by (simp add: find_None_iff)

section \<open>Reading a rendered document back\<close>

text \<open>The content lines of a body, without the numbers of its one numbered list.\<close>

definition strip_number :: "string \<Rightarrow> string" where
  "strip_number l = (if is_digit (hd l) then drop 3 l else l)"

definition prd_items :: "string \<Rightarrow> string list" where
  "prd_items fp = map strip_number (filter (\<lambda>l. l \<noteq> [] \<and> \<not> starts_with ''## '' l) (prd_body fp))"

definition item_fields :: "string list \<Rightarrow> (string \<times> json) list" where
  "item_fields xs =
     [(''problem'', JStr (xs ! 0)), (''goal'', JStr (xs ! 1)),
      (''constraints'', JArr (map JStr (take 4 (drop 2 xs)))),
      (''acceptanceCriteria'', JArr (map JStr (take 5 (drop 6 xs)))),
      (''successMetrics'', JArr (map JStr (take 3 (drop 11 xs)))),
      (''outOfScope'', JArr (map JStr (drop 14 xs)))]"

text \<open>The loop over the lines of a body, and the loop over the sections it finds.\<close>

definition body_fields :: "string \<Rightarrow> string list \<Rightarrow> (string \<times> json) list \<times> string list" where
  "body_fields ti body = foldl place_section ([], [])
     (obj_entries (flush_section (foldl section_line
        \<lparr>doc_title = None, sections_so_far = [], current_section = None, current_content = []\<rparr>
        ([[], ''# '' @ ti, []] @ body))))"

definition reads_back :: "string \<Rightarrow> bool" where
  "reads_back fp \<longleftrightarrow>
     (case prd_title fp of None \<Rightarrow> False
      | Some ti \<Rightarrow> body_fields ti (prd_body fp) = (item_fields (prd_items fp), [])) \<and>
     length (prd_items fp) = 17 \<and> list_all (\<lambda>i. i \<noteq> []) (prd_items fp)"

lemma reads_back_engine: "reads_back ''FP-META-CAPABILITY-DELTA-ENGINE''"
  by code_simp

lemma reads_back_review: "reads_back ''FP-META-SEMANTIC-REVIEW-EXECUTION''"
  by code_simp

lemma reads_back_candidate: "reads_back ''FP-META-ARCHITECTURE-CANDIDATE-EXECUTION''"
  by code_simp

lemma reads_back: "fp \<in> set authored_proposals \<Longrightarrow> reads_back fp"
  using reads_back_engine reads_back_review reads_back_candidate
  by (auto simp: authored_proposals_def)


















section \<open>Properties\<close>

lemma render_Inr:
  "renderPrdFromFunctionProposal fp cap fn refs = Inr r \<longleftrightarrow>
     (\<exists>ti. prd_title fp = Some ti \<and>
       r = \<lparr>rendered_id = intentSpecificationIdFromFunctionProposalId fp,
            filename = intentSpecificationIdFromFunctionProposalId fp @ ''.md'',
            markdown = prd_document (prd_front (intentSpecificationIdFromFunctionProposalId fp)
              refs fp cap fn ti) ti (prd_body fp)\<rparr>)"
  by (auto simp: renderPrdFromFunctionProposal_def Let_def split: option.splits)

lemma render_is_ok:
  "is_ok (renderPrdFromFunctionProposal fp cap fn refs) \<longleftrightarrow> fp \<in> set authored_proposals"
  by (simp add: is_ok_iff render_Inr flip: prd_title_Some)


lemma proposals_renderable:
  assumes "c \<in> set supported_capabilities" "p \<in> set (proposal_templates c refs)"
  shows "artifact_id p \<in> set authored_proposals \<longleftrightarrow> functionType p = Dim_execution"
  using assms
  by (auto simp: supported_capabilities_def proposal_templates_def proposal_def authored_proposals_def)

lemma evaluateDelta_ok:
  assumes "c \<in> set supported_capabilities" "list_all artifact_id_ok refs" "evaluateDelta c refs = Inr d"
  shows "capability_delta_ok d \<longleftrightarrow> artifact_id_ok c"
proof -
  have "list_all delta_finding_ok (finding_templates c) \<and> finding_templates c \<noteq> [] \<and>
      delta_rationale c \<noteq> [] \<and> (artifact_id_ok (capabilityDeltaId c) \<longleftrightarrow> artifact_id_ok c)"
    using assms(1) templates_ok supported_ids
    by (auto simp: supported_capabilities_def finding_templates_def delta_rationale_def)
  then show ?thesis
    using assms capabilityDeltaId_supported [OF assms(1)]
    by (auto simp: evaluateDelta_def capability_delta_ok_def lineage_ok_def)
qed

lemma proposals_ok:
  assumes "c \<in> set supported_capabilities" "list_all artifact_id_ok refs"
  shows "list_all function_proposal_ok (proposal_templates c refs) \<longleftrightarrow> artifact_id_ok c"
proof -
  have "proposal_templates c refs \<noteq> []"
    using proposal_types [OF assms(1), of refs] by auto
  then show ?thesis
    using proposal_shapes [OF assms(1), of refs] assms(2) proposal_refs [of _ c refs]
    by (cases "proposal_templates c refs")
       (auto simp: function_proposal_ok_def proposal_shape_ok_def lineage_ok_def list_all_iff)
qed

text \<open>
  From capability to proposals: each supported capability yields a delta and one proposal
  for each recommended function type, all of which cite the capability and its sources; exactly
  the execution proposal can then be rendered as an Intent Specification. Any other capability
  is refused by name. The delta and the proposals conform to their schemas exactly when the id
  of the capability is an artifact id, which the second supported id is not.
\<close>

theorem capability_to_proposals:
  assumes refs: "list_all artifact_id_ok refs"
  shows "(c \<notin> set supported_capabilities \<longrightarrow> evaluateDelta c refs = Inl (Unsupported_capability c)) \<and>
    (c \<in> set supported_capabilities \<longrightarrow>
      (\<exists>d ps. evaluateDelta c refs = Inr d \<and> emitFunctionProposals d = Inr ps \<and>
        map functionType ps = recommendedFunctionTypes d \<and>
        (\<forall>p \<in> set ps. source_refs p = refs \<and> fp_capabilityId p = c \<and>
          (is_ok (renderPrdFromFunctionProposal (artifact_id p) cap fn refs) \<longleftrightarrow>
            functionType p = Dim_execution)) \<and>
        (capability_delta_ok d \<longleftrightarrow> artifact_id_ok c) \<and>
        (list_all function_proposal_ok ps \<longleftrightarrow> artifact_id_ok c))) \<and>
    \<not> artifact_id_ok (supported_capabilities ! 1)"
proof -
  have "\<not> artifact_id_ok (supported_capabilities ! 1)"
    using supported_ids by (simp add: supported_capabilities_def)
  moreover have "\<exists>d ps. evaluateDelta c refs = Inr d \<and> emitFunctionProposals d = Inr ps \<and>
        map functionType ps = recommendedFunctionTypes d \<and>
        (\<forall>p \<in> set ps. source_refs p = refs \<and> fp_capabilityId p = c \<and>
          (is_ok (renderPrdFromFunctionProposal (artifact_id p) cap fn refs) \<longleftrightarrow>
            functionType p = Dim_execution)) \<and>
        (capability_delta_ok d \<longleftrightarrow> artifact_id_ok c) \<and>
        (list_all function_proposal_ok ps \<longleftrightarrow> artifact_id_ok c)" if c: "c \<in> set supported_capabilities"
  proof -
    obtain d where d: "evaluateDelta c refs = Inr d" "delta_capabilityId d = c" "source_refs d = refs"
      "recommendedFunctionTypes d = [Dim_execution, Dim_control, Dim_evidence]"
      using c by (simp add: evaluateDelta_def)
    then have "emitFunctionProposals d = Inr (proposal_templates c refs)"
      using c by (simp add: emitFunctionProposals_def)
    moreover have "\<forall>p \<in> set (proposal_templates c refs). source_refs p = refs \<and> fp_capabilityId p = c \<and>
        (is_ok (renderPrdFromFunctionProposal (artifact_id p) cap fn refs) \<longleftrightarrow>
          functionType p = Dim_execution)"
      using proposal_refs proposals_renderable [OF c] by (simp add: render_is_ok)
    ultimately show ?thesis
      using d proposal_types [OF c] evaluateDelta_ok [OF c refs d(1)] proposals_ok [OF c refs] by auto
  qed
  ultimately show ?thesis by (simp add: evaluateDelta_def)
qed

lemma capability_to_proposals_witness:
  "\<exists>d ps. evaluateDelta ''BC-META-EMIT-ARCHITECTURE-CANDIDATES'' [''SIG-META-A''] = Inr d \<and>
    emitFunctionProposals d = Inr ps \<and> list_all function_proposal_ok ps \<and> length ps = 3"
proof -
  have "list_all artifact_id_ok [''SIG-META-A'']" by code_simp
  from capability_to_proposals [OF this, of "''BC-META-EMIT-ARCHITECTURE-CANDIDATES''" "''BC-A''" "''FN-A''"]
    supported_ids(3)
  obtain d ps where "evaluateDelta ''BC-META-EMIT-ARCHITECTURE-CANDIDATES'' [''SIG-META-A''] = Inr d"
    "emitFunctionProposals d = Inr ps" "list_all function_proposal_ok ps"
    "map functionType ps = recommendedFunctionTypes d"
    by (auto simp: supported_capabilities_def)
  moreover from this have "length (map functionType ps) = 3"
    by (auto simp: evaluateDelta_def split: if_splits)
  then have "length ps = 3" by (simp only: length_map)
  ultimately show ?thesis by blast
qed

text \<open>
  What is rendered passes the shape check whatever the lineage it is given, and passes the
  quality gate exactly when no placeholder token occurs in a line of its front matter: the six
  sections are there, the document is long enough, and its fixed text holds no placeholder.
\<close>

theorem rendered_prd_gates:
  assumes r: "renderPrdFromFunctionProposal fp cap fn refs = Inr r"
  shows "validateRenderedPrdShape (markdown r) = Inr () \<and>
    (evaluatePrdQualityGate (markdown r) = Inr () \<longleftrightarrow>
      (\<forall>t \<in> set forbidden_tokens. \<forall>l \<in> set (prd_front (rendered_id r) refs fp cap fn
        (the (prd_title fp))). \<not> contains_str t l)) \<and>
    filename r = rendered_id r @ ''.md''"
proof -
  from r obtain ti where ti: "prd_title fp = Some ti"
    and md: "markdown r = prd_document (prd_front (rendered_id r) refs fp cap fn ti) ti (prd_body fp)"
      "filename r = rendered_id r @ ''.md''"
    by (auto simp: render_Inr)
  then have fp: "fp \<in> set authored_proposals" using prd_title_Some by blast
  have "starts_with (''---'' @ [nl]) (markdown r)"
  proof -
    obtain y ys where "prd_front (rendered_id r) refs fp cap fn ti @ ''---'' #
        [[], ''# '' @ ti, []] @ prd_body fp = y # ys"
      by (meson append_is_Nil_conv list.distinct(1) neq_Nil_conv)
    then show ?thesis unfolding md prd_document_def by (simp add: starts_with_iff)
  qed
  then have "validateRenderedPrdShape (markdown r) = Inr ()"
    by (simp add: validateRenderedPrdShape_def md find_sections_None [OF fp])
  moreover have "evaluatePrdQualityGate (markdown r) = Inr () \<longleftrightarrow>
      plain_lines (prd_front (rendered_id r) refs fp cap fn ti)"
    using document_plain [OF fp ti, of "prd_front (rendered_id r) refs fp cap fn ti"]
      document_long [OF fp, of "prd_front (rendered_id r) refs fp cap fn ti" ti]
    by (auto simp: evaluatePrdQualityGate_def md find_sections_None [OF fp] not_less
        split: option.splits)
  ultimately show ?thesis using md(2) ti by (auto simp: plain_lines_def list_all_iff)
qed

lemma rendered_prd_gates_witness:
  "\<exists>r. renderPrdFromFunctionProposal ''FP-META-ARCHITECTURE-CANDIDATE-EXECUTION''
      ''BC-META-EMIT-ARCHITECTURE-CANDIDATES'' ''FN-META-ARCHITECTURE-CANDIDATE-EXECUTION''
      [''DEL-META-EMIT-ARCHITECTURE-CANDIDATES''] = Inr r \<and>
    evaluatePrdQualityGate (markdown r) = Inr ()"
proof -
  have "is_ok (renderPrdFromFunctionProposal ''FP-META-ARCHITECTURE-CANDIDATE-EXECUTION''
      ''BC-META-EMIT-ARCHITECTURE-CANDIDATES'' ''FN-META-ARCHITECTURE-CANDIDATE-EXECUTION''
      [''DEL-META-EMIT-ARCHITECTURE-CANDIDATES''])"
    by (simp add: render_is_ok authored_proposals_def)
  then obtain r where r: "renderPrdFromFunctionProposal ''FP-META-ARCHITECTURE-CANDIDATE-EXECUTION''
      ''BC-META-EMIT-ARCHITECTURE-CANDIDATES'' ''FN-META-ARCHITECTURE-CANDIDATE-EXECUTION''
      [''DEL-META-EMIT-ARCHITECTURE-CANDIDATES''] = Inr r" unfolding is_ok_iff by blast
  then have "rendered_id r =
      intentSpecificationIdFromFunctionProposalId ''FP-META-ARCHITECTURE-CANDIDATE-EXECUTION''"
    by (auto simp: render_Inr)
  moreover have "\<forall>t \<in> set forbidden_tokens. \<forall>l \<in> set (prd_front
      (intentSpecificationIdFromFunctionProposalId ''FP-META-ARCHITECTURE-CANDIDATE-EXECUTION'')
      [''DEL-META-EMIT-ARCHITECTURE-CANDIDATES''] ''FP-META-ARCHITECTURE-CANDIDATE-EXECUTION''
      ''BC-META-EMIT-ARCHITECTURE-CANDIDATES'' ''FN-META-ARCHITECTURE-CANDIDATE-EXECUTION''
      (the (prd_title ''FP-META-ARCHITECTURE-CANDIDATE-EXECUTION''))). \<not> contains_str t l"
    by code_simp
  ultimately show ?thesis using rendered_prd_gates [OF r] r by auto
qed








end
