(* ===== verification/Adaptive_Scoring.thy ===== *)
theory Adaptive_Scoring
  imports Execution_Schemas Governance_Ids
begin

text \<open>
  The scores that feed back into the factory: the packages \<open>signal-hygiene\<close>,
  \<open>adaptive-recalibration\<close> and \<open>selection-bias\<close>, with their schemas in
  \<open>packages/schemas/src\<close>. Every number is a binary64 value and every operation rounds
  (\<open>Js_Numbers\<close>), in the order in which the code evaluates it. A literal such as \<open>0.12\<close> is
  \<open>lit 12 100\<close>. The bounds of the scores and their monotonicity follow from the
  monotonicity of rounding, whatever the rounding errors are.
\<close>

section \<open>Schemas\<close>

datatype signal_kind = External | Feedback | Inferred_signal

fun signal_kind_str :: "signal_kind \<Rightarrow> string" where
  "signal_kind_str External = ''external''"
| "signal_kind_str Feedback = ''feedback''"
| "signal_kind_str Inferred_signal = ''inferred''"

record raw_signal =
  sig_id :: string
  sig_kind :: signal_kind
  sig_title :: string
  sig_source :: string
  sig_confidence :: rat
  sig_severity :: rat

record normalized_signal = raw_signal +
  trustScore :: rat
  effectiveWeight :: rat
  dedupeKey :: string

definition normalized_signal_ok :: "normalized_signal \<Rightarrow> bool" where
  "normalized_signal_ok s \<longleftrightarrow>
     artifact_id_ok (sig_id s) \<and> sig_title s \<noteq> [] \<and> sig_source s \<noteq> [] \<and>
     unit_interval (sig_confidence s) \<and> unit_interval (sig_severity s) \<and>
     unit_interval (trustScore s) \<and> unit_interval (effectiveWeight s) \<and> dedupeKey s \<noteq> []"

record signal_batch = lineage +
  normalizedSignals :: "normalized_signal list"
  duplicateSignalIds :: "string list"
  weightingPolicyId :: string
  batch_summary :: string

definition signal_batch_ok :: "signal_batch \<Rightarrow> bool" where
  "signal_batch_ok b \<longleftrightarrow>
     lineage_ok b \<and> starts_with ''SNB-'' (artifact_id b) \<and>
     list_all normalized_signal_ok (normalizedSignals b) \<and> normalizedSignals b \<noteq> [] \<and>
     list_all artifact_id_ok (duplicateSignalIds b) \<and> artifact_id_ok (weightingPolicyId b) \<and>
     batch_summary b \<noteq> []"

record recalibrated_pressure = lineage +
  rprs_sourcePressureId :: string
  baselineStrength :: rat
  baselineUrgency :: rat
  feedbackInfluence :: rat
  recalibratedStrength :: rat
  recalibratedUrgency :: rat
  rprs_summary :: string

definition recalibrated_pressure_ok :: "recalibrated_pressure \<Rightarrow> bool" where
  "recalibrated_pressure_ok p \<longleftrightarrow>
     lineage_ok p \<and> starts_with ''RPRS-'' (artifact_id p) \<and> artifact_id_ok (rprs_sourcePressureId p) \<and>
     unit_interval (baselineStrength p) \<and> unit_interval (baselineUrgency p) \<and>
     unit_interval (feedbackInfluence p) \<and> unit_interval (recalibratedStrength p) \<and>
     unit_interval (recalibratedUrgency p) \<and> rprs_summary p \<noteq> []"

record delta_drift_input = lineage +
  ddi_sourcePressureId :: string
  ddi_sourceRecalibratedPressureId :: string
  ddi_driftIndicator :: rat
  ddi_deviationCount :: nat
  ddi_matchedCount :: nat
  ddi_summary :: string

definition delta_drift_input_ok :: "delta_drift_input \<Rightarrow> bool" where
  "delta_drift_input_ok d \<longleftrightarrow>
     lineage_ok d \<and> starts_with ''DDI-'' (artifact_id d) \<and> artifact_id_ok (ddi_sourcePressureId d) \<and>
     artifact_id_ok (ddi_sourceRecalibratedPressureId d) \<and> unit_interval (ddi_driftIndicator d) \<and>
     ddi_summary d \<noteq> []"

record candidate_reliability = lineage +
  crl_sourceArchitectureCandidateId :: string
  crl_matchedCount :: nat
  crl_deviatedCount :: nat
  reliabilityScore :: rat
  crl_summary :: string

definition candidate_reliability_ok :: "candidate_reliability \<Rightarrow> bool" where
  "candidate_reliability_ok c \<longleftrightarrow>
     lineage_ok c \<and> starts_with ''CRL-'' (artifact_id c) \<and>
     artifact_id_ok (crl_sourceArchitectureCandidateId c) \<and> unit_interval (reliabilityScore c) \<and>
     crl_summary c \<noteq> []"

record selection_bias_input = lineage +
  sbi_sourceArchitectureCandidateId :: string
  sbi_sourceReliabilityId :: string
  sbi_sourceDriftInputId :: string
  sbi_reliabilityScore :: rat
  sbi_driftIndicator :: rat
  boundedBiasAdjustment :: rat
  sbi_summary :: string

definition selection_bias_input_ok :: "selection_bias_input \<Rightarrow> bool" where
  "selection_bias_input_ok b \<longleftrightarrow>
     lineage_ok b \<and> starts_with ''SBI-'' (artifact_id b) \<and>
     artifact_id_ok (sbi_sourceArchitectureCandidateId b) \<and>
     artifact_id_ok (sbi_sourceReliabilityId b) \<and> artifact_id_ok (sbi_sourceDriftInputId b) \<and>
     unit_interval (sbi_reliabilityScore b) \<and> unit_interval (sbi_driftIndicator b) \<and>
     - (1 / 4) \<le> boundedBiasAdjustment b \<and> boundedBiasAdjustment b \<le> 1 / 4 \<and> sbi_summary b \<noteq> []"

section \<open>Signal hygiene\<close>

fun SIGNAL_TRUST_BY_KIND :: "signal_kind \<Rightarrow> rat" where
  "SIGNAL_TRUST_BY_KIND External = lit 95 100"
| "SIGNAL_TRUST_BY_KIND Feedback = lit 75 100"
| "SIGNAL_TRUST_BY_KIND Inferred_signal = lit 6 10"

fun SIGNAL_WEIGHT_CAP_BY_KIND :: "signal_kind \<Rightarrow> rat" where
  "SIGNAL_WEIGHT_CAP_BY_KIND External = 1"
| "SIGNAL_WEIGHT_CAP_BY_KIND Feedback = lit 6 10"
| "SIGNAL_WEIGHT_CAP_BY_KIND Inferred_signal = lit 5 10"

definition normalize_signal :: "raw_signal \<Rightarrow> normalized_signal" where
  "normalize_signal s =
     \<lparr>sig_id = sig_id s, sig_kind = sig_kind s, sig_title = trim (sig_title s),
      sig_source = trim (sig_source s), sig_confidence = sig_confidence s,
      sig_severity = sig_severity s, trustScore = SIGNAL_TRUST_BY_KIND (sig_kind s),
      effectiveWeight = 0,
      dedupeKey = signal_kind_str (sig_kind s) @ ''::'' @ to_lower (trim (sig_title s)) @ ''::'' @
        to_lower (trim (sig_source s))\<rparr>"

definition normalizeSignals :: "raw_signal list \<Rightarrow> normalized_signal list" where
  "normalizeSignals = map normalize_signal"

text \<open>One step of the loop over the signals: the \<open>seen\<close> map and the duplicate ids.\<close>

fun dedupe_step ::
  "(string \<times> normalized_signal) list \<times> string list \<Rightarrow> normalized_signal \<Rightarrow>
   (string \<times> normalized_signal) list \<times> string list" where
  "dedupe_step (seen, dups) s =
     (if map_of seen (dedupeKey s) = None then (AList.update (dedupeKey s) s seen, dups)
      else (seen, dups @ [sig_id s]))"

definition deduplicateSignals :: "normalized_signal list \<Rightarrow> normalized_signal list \<times> string list" where
  "deduplicateSignals ss = (case foldl dedupe_step ([], []) ss of (seen, dups) \<Rightarrow> (map snd seen, dups))"

definition weight_signal :: "normalized_signal \<Rightarrow> normalized_signal" where
  "weight_signal s =
     (let raw = rnd (rnd (sig_confidence s * sig_severity s) * trustScore s)
      in s\<lparr>effectiveWeight := fixed4 (min raw (SIGNAL_WEIGHT_CAP_BY_KIND (sig_kind s)))\<rparr>)"

definition weightSignals :: "normalized_signal list \<Rightarrow> normalized_signal list" where
  "weightSignals = map weight_signal"

definition emitSignalBatch ::
  "string \<Rightarrow> normalized_signal list \<Rightarrow> string list \<Rightarrow> string list \<Rightarrow> signal_batch" where
  "emitSignalBatch runId ss dups refs =
     \<lparr>artifact_id = signalBatchIdFromRunId runId, source_refs = refs, explicitness = Inferred,
      rationale = ''Signal normalization batch emitted deterministically from Persistence Verification signal hygiene.'',
      normalizedSignals = ss, duplicateSignalIds = dups,
      weightingPolicyId = ''GOV-META-SIGNAL-HYGIENE-WEIGHTING'',
      batch_summary = ''Normalized, deduplicated, and weighted signal batch for bootstrap upstream interpretation.''\<rparr>"

section \<open>Adaptive recalibration\<close>

definition computeDriftIndicator :: "rat \<Rightarrow> rat \<Rightarrow> rat" where
  "computeDriftIndicator deviationCount matchedCount =
     (let raw = rnd (rnd (deviationCount * lit 12 100) - rnd (matchedCount * lit 5 100))
      in fixed4 (max 0 (min raw (lit 8 10))))"

definition recalibratePressure :: "rat \<Rightarrow> rat \<Rightarrow> rat \<Rightarrow> rat \<Rightarrow> rat \<Rightarrow> rat \<times> rat \<times> rat" where
  "recalibratePressure strength urgency ext feedback drift =
     (let b = min feedback (lit 35 100)
      in (fixed4 b,
          min 1 (fixed4 (rnd (rnd (rnd (rnd (strength * lit 7 10) + rnd (ext * lit 2 10)) +
            rnd (b * lit 1 10)) + rnd (drift * lit 1 10)))),
          min 1 (fixed4 (rnd (rnd (rnd (rnd (urgency * lit 65 100) + rnd (ext * lit 15 100)) +
            rnd (b * lit 1 10)) + rnd (drift * lit 2 10))))))"

definition emitRecalibratedPressure ::
  "string \<Rightarrow> rat \<Rightarrow> rat \<Rightarrow> rat \<Rightarrow> rat \<Rightarrow> rat \<Rightarrow> string list \<Rightarrow> recalibrated_pressure" where
  "emitRecalibratedPressure prs strength urgency influence rstrength rurgency refs =
     \<lparr>artifact_id = recalibratedPressureIdFromPressureId prs, source_refs = refs,
      explicitness = Inferred,
      rationale = ''Pressure recalibrated deterministically from weighted signals and bounded drift input.'',
      rprs_sourcePressureId = prs, baselineStrength = strength, baselineUrgency = urgency,
      feedbackInfluence = influence, recalibratedStrength = rstrength,
      recalibratedUrgency = rurgency,
      rprs_summary = ''Recalibrated pressure emitted under bounded feedback influence policy.''\<rparr>"

definition emitDeltaDriftInput ::
  "string \<Rightarrow> string \<Rightarrow> rat \<Rightarrow> nat \<Rightarrow> nat \<Rightarrow> string list \<Rightarrow> delta_drift_input" where
  "emitDeltaDriftInput prs rprs drift deviated matched refs =
     \<lparr>artifact_id = deltaDriftInputIdFromPressureId prs, source_refs = refs,
      explicitness = Inferred,
      rationale = ''Drift-aware DEL input emitted deterministically from repeated observation outcomes.'',
      ddi_sourcePressureId = prs, ddi_sourceRecalibratedPressureId = rprs,
      ddi_driftIndicator = drift, ddi_deviationCount = deviated, ddi_matchedCount = matched,
      ddi_summary = ''Drift-aware input prepared for downstream capability-delta prioritization.''\<rparr>"

section \<open>Selection bias\<close>

definition computeCandidateReliability :: "rat \<Rightarrow> rat \<Rightarrow> rat" where
  "computeCandidateReliability matchedCount deviatedCount =
     (let raw = rnd (rnd (lit 5 10 + rnd (matchedCount * lit 8 100)) -
                 rnd (deviatedCount * lit 12 100))
      in fixed4 (max 0 (min raw 1)))"

definition computeSelectionBiasAdjustment :: "rat \<Rightarrow> rat \<Rightarrow> rat" where
  "computeSelectionBiasAdjustment reliability drift =
     (let centered = rnd (reliability - lit 5 10);
          raw = rnd (rnd (centered * lit 3 10) - rnd (drift * lit 2 10))
      in fixed4 (max (lit (- 2) 10) (min raw (lit 15 100))))"

definition emitCandidateReliability ::
  "string \<Rightarrow> nat \<Rightarrow> nat \<Rightarrow> rat \<Rightarrow> string list \<Rightarrow> candidate_reliability" where
  "emitCandidateReliability ac matched deviated reliability refs =
     \<lparr>artifact_id = candidateReliabilityIdFromCandidateId ac, source_refs = refs,
      explicitness = Inferred,
      rationale = ''Candidate reliability emitted deterministically from repeated observation outcomes.'',
      crl_sourceArchitectureCandidateId = ac, crl_matchedCount = matched,
      crl_deviatedCount = deviated, reliabilityScore = reliability,
      crl_summary = ''Reliability score derived from bounded historical observation outcomes.''\<rparr>"

definition emitSelectionBiasInput ::
  "string \<Rightarrow> string \<Rightarrow> string \<Rightarrow> rat \<Rightarrow> rat \<Rightarrow> rat \<Rightarrow> string list \<Rightarrow> selection_bias_input" where
  "emitSelectionBiasInput ac crl ddi reliability drift bias refs =
     \<lparr>artifact_id = selectionBiasInputIdFromCandidateId ac, source_refs = refs,
      explicitness = Inferred,
      rationale = ''Selection bias input emitted deterministically from reliability and bounded drift penalty.'',
      sbi_sourceArchitectureCandidateId = ac, sbi_sourceReliabilityId = crl,
      sbi_sourceDriftInputId = ddi, sbi_reliabilityScore = reliability,
      sbi_driftIndicator = drift, boundedBiasAdjustment = bias,
      sbi_summary = ''Bounded selection-bias adjustment prepared for future ACS scoring.''\<rparr>"

section \<open>Bounds\<close>

lemma fixed4_endpoints [simp]:
  "fixed4 0 = 0" "fixed4 1 = 1" "fixed4 (lit 8 10) = lit 8 10"
  "fixed4 (lit 35 100) = lit 35 100" "fixed4 (lit 6 10) = lit 6 10"
  "fixed4 (lit 5 10) = lit 5 10" "fixed4 (lit 15 100) = lit 15 100"
  "fixed4 (lit (- 2) 10) = lit (- 2) 10"
  by code_simp+

lemma literal_order:
  "0 \<le> lit 5 100" "0 \<le> lit 8 100" "0 \<le> lit 12 100" "0 \<le> lit 8 10" "lit 8 10 \<le> 1"
  "lit (- 2) 10 \<le> lit 15 100" "0 \<le> lit 35 100" "lit 35 100 \<le> 1"
  "- (1 / 4) \<le> lit (- 2) 10" "lit 15 100 \<le> 1 / 4" "0 \<le> lit 3 10" "0 \<le> lit 2 10"
  by code_simp+

lemma fixed4_between:
  assumes "a \<le> x" "x \<le> b" "fixed4 a = a" "fixed4 b = b"
  shows "a \<le> fixed4 x \<and> fixed4 x \<le> b"
  using fixed4_mono [OF assms(1)] fixed4_mono [OF assms(2)] assms(3,4) by simp

lemma computeDriftIndicator_bounds: "0 \<le> computeDriftIndicator d m \<and> computeDriftIndicator d m \<le> lit 8 10"
  unfolding computeDriftIndicator_def Let_def using literal_order by (intro fixed4_between) auto

lemma computeCandidateReliability_bounds:
  "0 \<le> computeCandidateReliability m d \<and> computeCandidateReliability m d \<le> 1"
  unfolding computeCandidateReliability_def Let_def by (intro fixed4_between) auto

lemma computeSelectionBiasAdjustment_bounds:
  "lit (- 2) 10 \<le> computeSelectionBiasAdjustment r d \<and>
   computeSelectionBiasAdjustment r d \<le> lit 15 100"
  unfolding computeSelectionBiasAdjustment_def Let_def using literal_order
  by (intro fixed4_between) auto

lemma mult_rnd_mono: "x \<le> y \<Longrightarrow> 0 \<le> c \<Longrightarrow> rnd (x * c) \<le> rnd (y * c)"
  by (intro rnd_mono mult_right_mono)

lemma clamp_mono: "x \<le> y \<Longrightarrow> fixed4 (max a (min x b)) \<le> fixed4 (max a (min y b))"
  for x :: rat by (intro fixed4_mono) auto

lemma computeDriftIndicator_mono:
  "d \<le> d' \<Longrightarrow> m' \<le> m \<Longrightarrow> computeDriftIndicator d m \<le> computeDriftIndicator d' m'"
  unfolding computeDriftIndicator_def Let_def using literal_order
  by (intro clamp_mono rnd_mono diff_mono mult_rnd_mono)

lemma computeCandidateReliability_mono:
  "m \<le> m' \<Longrightarrow> d' \<le> d \<Longrightarrow> computeCandidateReliability m d \<le> computeCandidateReliability m' d'"
  unfolding computeCandidateReliability_def Let_def using literal_order
  by (intro clamp_mono rnd_mono diff_mono add_mono mult_rnd_mono) auto

lemma computeSelectionBiasAdjustment_mono:
  "r \<le> r' \<Longrightarrow> d' \<le> d \<Longrightarrow>
     computeSelectionBiasAdjustment r d \<le> computeSelectionBiasAdjustment r' d'"
  unfolding computeSelectionBiasAdjustment_def Let_def using literal_order
  by (intro clamp_mono rnd_mono diff_mono mult_rnd_mono) auto

lemma fixed4_nonneg: "0 \<le> x \<Longrightarrow> 0 \<le> fixed4 x"
  using fixed4_mono [of 0 x] by simp

lemma lit_nonneg: "0 \<le> m \<Longrightarrow> 0 \<le> d \<Longrightarrow> 0 \<le> lit m d"
  unfolding lit_def by (intro rnd_nonneg) simp

lemma recalibratePressure_bounds:
  assumes "0 \<le> s" "0 \<le> u" "0 \<le> e" "0 \<le> f" "0 \<le> dr"
    and r: "recalibratePressure s u e f dr = (fi, rs, ru)"
  shows "unit_interval fi \<and> fi \<le> lit 35 100 \<and> unit_interval rs \<and> unit_interval ru"
proof -
  let ?b = "min f (lit 35 100)"
  have b: "0 \<le> ?b" "?b \<le> lit 35 100" using assms literal_order by auto
  then have "0 \<le> fixed4 ?b \<and> fixed4 ?b \<le> lit 35 100" by (intro fixed4_between) auto
  moreover have "0 \<le> rs \<and> 0 \<le> ru"
    using r assms b by (auto simp: recalibratePressure_def Let_def
        intro!: fixed4_nonneg rnd_nonneg add_nonneg_nonneg mult_nonneg_nonneg lit_nonneg)
  moreover have "fi = fixed4 ?b" "rs \<le> 1" "ru \<le> 1"
    using r by (auto simp: recalibratePressure_def Let_def)
  ultimately show ?thesis using literal_order by (auto simp: unit_interval_def)
qed

lemma literal_drift_le_1: "computeDriftIndicator d m \<le> 1"
  using computeDriftIndicator_bounds [of d m] literal_order by linarith

section \<open>Deduplication\<close>

text \<open>A signal is the first of its key in a list.\<close>

definition first_of_key :: "normalized_signal list \<Rightarrow> normalized_signal \<Rightarrow> bool" where
  "first_of_key ss s \<longleftrightarrow> (\<exists>a b. ss = a @ s # b \<and> dedupeKey s \<notin> dedupeKey ` set a)"

lemma first_of_key_Cons: "first_of_key ss s \<Longrightarrow> dedupeKey x \<noteq> dedupeKey s \<Longrightarrow> first_of_key (x # ss) s"
  unfolding first_of_key_def by (metis append_Cons image_insert insertE list.simps(15))

lemma first_of_key_hd: "first_of_key (s # ss) s"
  unfolding first_of_key_def by (metis append_Nil empty_iff empty_set image_empty)

text \<open>The loop only appends: what it adds is the first of its key, and new to the map.\<close>

lemma dedupe_loop:
  "foldl dedupe_step (seen, dups) ss = (seen', dups') \<Longrightarrow>
     \<exists>new. seen' = seen @ map (\<lambda>s. (dedupeKey s, s)) new \<and>
       (\<forall>s \<in> set new. first_of_key ss s \<and> dedupeKey s \<notin> fst ` set seen) \<and>
       distinct (map dedupeKey new) \<and>
       fst ` set seen' = fst ` set seen \<union> dedupeKey ` set ss \<and>
       mset (map sig_id new) + mset dups' = mset dups + mset (map sig_id ss)"
proof (induction ss arbitrary: seen dups)
  case Nil
  then show ?case by auto
next
  case (Cons s ss)
  show ?case
  proof (cases "map_of seen (dedupeKey s)")
    case None
    let ?seen = "seen @ [(dedupeKey s, s)]"
    from None Cons.prems have "foldl dedupe_step (?seen, dups) ss = (seen', dups')"
      by (simp add: update_new)
    from Cons.IH [OF this] obtain new where
      new: "seen' = ?seen @ map (\<lambda>s. (dedupeKey s, s)) new"
      "\<forall>x \<in> set new. first_of_key ss x \<and> dedupeKey x \<notin> fst ` set ?seen"
      "distinct (map dedupeKey new)" "fst ` set seen' = fst ` set ?seen \<union> dedupeKey ` set ss"
      "mset (map sig_id new) + mset dups' = mset dups + mset (map sig_id ss)" by blast
    have "dedupeKey s \<notin> fst ` set seen" using None by (simp add: map_of_eq_None_iff)
    have "first_of_key (s # ss) x \<and> dedupeKey x \<notin> fst ` set seen" if "x \<in> set new" for x
    proof -
      from new(2) that have "first_of_key ss x" "dedupeKey x \<notin> fst ` set ?seen" by auto
      then show ?thesis using first_of_key_Cons [of ss x s] by auto
    qed
    with \<open>dedupeKey s \<notin> fst ` set seen\<close>
    have "\<forall>x \<in> set (s # new). first_of_key (s # ss) x \<and> dedupeKey x \<notin> fst ` set seen"
      by (simp add: first_of_key_hd)
    moreover have "distinct (map dedupeKey (s # new))" using new(2,3) by auto
    ultimately show ?thesis using new by (intro exI [of _ "s # new"]) auto
  next
    case (Some x)
    then have key: "dedupeKey s \<in> fst ` set seen" by (metis map_of_eq_None_iff option.distinct(1))
    from Some Cons.prems have "foldl dedupe_step (seen, dups @ [sig_id s]) ss = (seen', dups')" by simp
    from Cons.IH [OF this] obtain new where
      new: "seen' = seen @ map (\<lambda>s. (dedupeKey s, s)) new"
      "\<forall>x \<in> set new. first_of_key ss x \<and> dedupeKey x \<notin> fst ` set seen"
      "distinct (map dedupeKey new)" "fst ` set seen' = fst ` set seen \<union> dedupeKey ` set ss"
      "mset (map sig_id new) + mset dups' = mset (dups @ [sig_id s]) + mset (map sig_id ss)" by blast
    have "\<forall>x \<in> set new. first_of_key (s # ss) x \<and> dedupeKey x \<notin> fst ` set seen"
      using new(2) key first_of_key_Cons [of ss _ s] by metis
    then show ?thesis using new key by (intro exI [of _ new]) auto
  qed
qed

lemma dedupe_facts:
  assumes "deduplicateSignals ss = (kept, dups)"
  shows "distinct (map dedupeKey kept) \<and> set (map dedupeKey kept) = set (map dedupeKey ss) \<and>
    mset (map sig_id kept) + mset dups = mset (map sig_id ss) \<and> (\<forall>s \<in> set kept. first_of_key ss s)"
proof -
  obtain seen ds where f: "foldl dedupe_step ([], []) ss = (seen, ds)" by fastforce
  with assms have k: "kept = map snd seen" "dups = ds" by (simp_all add: deduplicateSignals_def)
  from dedupe_loop [OF f] obtain new where
    new: "seen = map (\<lambda>s. (dedupeKey s, s)) new" "\<forall>s \<in> set new. first_of_key ss s"
    "distinct (map dedupeKey new)" "fst ` set seen = dedupeKey ` set ss"
    "mset (map sig_id new) + mset ds = mset (map sig_id ss)" by auto
  have "kept = new" by (simp add: k new(1) comp_def)
  with new k show ?thesis by (auto simp: image_image)
qed

lemma first_of_key_in: "first_of_key ss s \<Longrightarrow> s \<in> set ss"
  by (auto simp: first_of_key_def)

lemma dedupe_kept_subset: "deduplicateSignals ss = (kept, dups) \<Longrightarrow> set kept \<subseteq> set ss"
  using dedupe_facts [of ss kept dups] first_of_key_in by blast

lemma dedupe_nonempty: "deduplicateSignals ss = (kept, dups) \<Longrightarrow> ss \<noteq> [] \<Longrightarrow> kept \<noteq> []"
  using dedupe_facts [of ss kept dups] by (cases ss) auto

lemma weight_signal_bounds:
  assumes "unit_interval (sig_confidence s)" "unit_interval (sig_severity s)" "0 \<le> trustScore s"
  shows "0 \<le> effectiveWeight (weight_signal s) \<and>
    effectiveWeight (weight_signal s) \<le> SIGNAL_WEIGHT_CAP_BY_KIND (sig_kind s)"
proof -
  have cap: "0 \<le> SIGNAL_WEIGHT_CAP_BY_KIND (sig_kind s)"
    "fixed4 (SIGNAL_WEIGHT_CAP_BY_KIND (sig_kind s)) = SIGNAL_WEIGHT_CAP_BY_KIND (sig_kind s)"
    by (cases "sig_kind s"; simp add: lit_nonneg)+
  have "0 \<le> rnd (rnd (sig_confidence s * sig_severity s) * trustScore s)"
    using assms by (intro rnd_nonneg mult_nonneg_nonneg) (auto simp: unit_interval_def)
  then have "0 \<le> min (rnd (rnd (sig_confidence s * sig_severity s) * trustScore s))
      (SIGNAL_WEIGHT_CAP_BY_KIND (sig_kind s))"
    using cap(1) by simp
  from fixed4_between [OF this, of "SIGNAL_WEIGHT_CAP_BY_KIND (sig_kind s)"] cap(2) show ?thesis
    by (simp add: weight_signal_def Let_def)
qed

lemma cap_le_1: "SIGNAL_WEIGHT_CAP_BY_KIND k \<le> 1"
proof -
  have "SIGNAL_WEIGHT_CAP_BY_KIND External \<le> 1" "SIGNAL_WEIGHT_CAP_BY_KIND Feedback \<le> 1"
    "SIGNAL_WEIGHT_CAP_BY_KIND Inferred_signal \<le> 1" by code_simp+
  then show ?thesis by (cases k) auto
qed

lemma trust_unit: "unit_interval (SIGNAL_TRUST_BY_KIND k)"
proof -
  have "unit_interval (SIGNAL_TRUST_BY_KIND External)" "unit_interval (SIGNAL_TRUST_BY_KIND Feedback)"
    "unit_interval (SIGNAL_TRUST_BY_KIND Inferred_signal)" by code_simp+
  then show ?thesis by (cases k) auto
qed

definition raw_signal_ok :: "raw_signal \<Rightarrow> bool" where
  "raw_signal_ok s \<longleftrightarrow>
     artifact_id_ok (sig_id s) \<and> trim (sig_title s) \<noteq> [] \<and> trim (sig_source s) \<noteq> [] \<and>
     unit_interval (sig_confidence s) \<and> unit_interval (sig_severity s)"

lemma weighted_ok:
  assumes "raw_signal_ok s"
  shows "normalized_signal_ok (weight_signal (normalize_signal s)) \<and>
    effectiveWeight (weight_signal (normalize_signal s)) \<le> SIGNAL_WEIGHT_CAP_BY_KIND (sig_kind s)"
proof -
  let ?n = "normalize_signal s"
  have "0 \<le> effectiveWeight (weight_signal ?n)"
    "effectiveWeight (weight_signal ?n) \<le> SIGNAL_WEIGHT_CAP_BY_KIND (sig_kind s)"
    using assms weight_signal_bounds [of ?n] trust_unit [of "sig_kind s"]
    by (auto simp: normalize_signal_def raw_signal_ok_def unit_interval_def)
  then show ?thesis
    using assms cap_le_1 [of "sig_kind s"] trust_unit [of "sig_kind s"]
    by (auto simp: normalized_signal_ok_def unit_interval_def weight_signal_def Let_def
        normalize_signal_def raw_signal_ok_def)
qed

section \<open>Properties\<close>

text \<open>
  C36. Every score stays in its bounds, for any evidence and in spite of rounding, so the
  artifacts that carry the scores conform to their schemas: the drift indicator is between 0
  and 0.8, the reliability between 0 and 1, the bias between -0.2 and 0.15 (the schema allows a
  quarter either way), and recalibration keeps strength, urgency and influence between 0 and 1.
\<close>

theorem adaptive_artifacts_valid:
  assumes ids: "artifact_id_ok ac" "starts_with ''AC-'' ac" "artifact_id_ok prs" "starts_with ''PRS-'' prs"
      "list_all artifact_id_ok refs"
    and inputs: "unit_interval s" "unit_interval u" "0 \<le> e" "0 \<le> f"
    and scores: "drift = computeDriftIndicator (of_nat deviated) (of_nat matched)"
      "rel = computeCandidateReliability (of_nat matched) (of_nat deviated)"
      "recalibratePressure s u e f drift = (fi, rs, ru)"
  shows "delta_drift_input_ok (emitDeltaDriftInput prs (recalibratedPressureIdFromPressureId prs) drift
      deviated matched refs) \<and>
    recalibrated_pressure_ok (emitRecalibratedPressure prs s u fi rs ru refs) \<and>
    candidate_reliability_ok (emitCandidateReliability ac matched deviated rel refs) \<and>
    selection_bias_input_ok (emitSelectionBiasInput ac (candidateReliabilityIdFromCandidateId ac)
      (deltaDriftInputIdFromPressureId prs) rel drift (computeSelectionBiasAdjustment rel drift) refs) \<and>
    drift \<le> lit 8 10 \<and> fi \<le> lit 35 100 \<and>
    lit (- 2) 10 \<le> computeSelectionBiasAdjustment rel drift \<and>
    computeSelectionBiasAdjustment rel drift \<le> lit 15 100"
proof -
  have drift: "0 \<le> drift" "drift \<le> lit 8 10" "drift \<le> 1"
    using computeDriftIndicator_bounds literal_drift_le_1 by (auto simp: scores(1))
  have rel: "0 \<le> rel" "rel \<le> 1" using computeCandidateReliability_bounds by (auto simp: scores(2))
  have bias: "lit (- 2) 10 \<le> computeSelectionBiasAdjustment rel drift"
    "computeSelectionBiasAdjustment rel drift \<le> lit 15 100"
    using computeSelectionBiasAdjustment_bounds by auto
  have rec: "unit_interval fi \<and> fi \<le> lit 35 100 \<and> unit_interval rs \<and> unit_interval ru"
    using inputs drift(1) by (intro recalibratePressure_bounds [OF _ _ _ _ _ scores(3)])
      (auto simp: unit_interval_def)
  have names: "artifact_id_ok (recalibratedPressureIdFromPressureId prs)"
    "artifact_id_ok (deltaDriftInputIdFromPressureId prs)"
    "artifact_id_ok (candidateReliabilityIdFromCandidateId ac)"
    "artifact_id_ok (selectionBiasInputIdFromCandidateId ac)"
    using ids by (auto intro: rprs_id.rename_artifact_id ddi_id.rename_artifact_id
        crl_id.rename_artifact_id sbi_id.rename_artifact_id)
  have starts: "starts_with ''RPRS-'' (recalibratedPressureIdFromPressureId prs)"
    "starts_with ''DDI-'' (deltaDriftInputIdFromPressureId prs)"
    "starts_with ''CRL-'' (candidateReliabilityIdFromCandidateId ac)"
    "starts_with ''SBI-'' (selectionBiasInputIdFromCandidateId ac)"
    using rprs_id.rename_starts [OF ids(4)] ddi_id.rename_starts [OF ids(4)]
      crl_id.rename_starts [OF ids(2)] sbi_id.rename_starts [OF ids(2)] by auto
  have "delta_drift_input_ok (emitDeltaDriftInput prs (recalibratedPressureIdFromPressureId prs) drift
      deviated matched refs)"
    using ids names starts drift
    by (simp add: delta_drift_input_ok_def emitDeltaDriftInput_def lineage_ok_def unit_interval_def)
  moreover have "recalibrated_pressure_ok (emitRecalibratedPressure prs s u fi rs ru refs)"
    using ids names starts rec inputs
    by (simp add: recalibrated_pressure_ok_def emitRecalibratedPressure_def lineage_ok_def)
  moreover have "candidate_reliability_ok (emitCandidateReliability ac matched deviated rel refs)"
    using ids names starts rel
    by (simp add: candidate_reliability_ok_def emitCandidateReliability_def lineage_ok_def unit_interval_def)
  moreover have "selection_bias_input_ok (emitSelectionBiasInput ac (candidateReliabilityIdFromCandidateId ac)
      (deltaDriftInputIdFromPressureId prs) rel drift (computeSelectionBiasAdjustment rel drift) refs)"
  proof -
    have "- (1 / 4) \<le> computeSelectionBiasAdjustment rel drift"
      "computeSelectionBiasAdjustment rel drift \<le> 1 / 4"
      using bias literal_order by linarith+
    with ids names starts rel drift show ?thesis
      by (simp add: selection_bias_input_ok_def emitSelectionBiasInput_def lineage_ok_def unit_interval_def)
  qed
  ultimately show ?thesis using drift bias rec by blast
qed

lemma adaptive_artifacts_valid_witness:
  "candidate_reliability_ok (emitCandidateReliability ''AC-META-A'' 3 9
     (computeCandidateReliability (of_nat 3) (of_nat 9)) [])"
proof -
  have ids: "artifact_id_ok ''AC-META-A''" "starts_with ''AC-'' ''AC-META-A''" "artifact_id_ok ''PRS-META-A''"
    "starts_with ''PRS-'' ''PRS-META-A''" "list_all artifact_id_ok []" by code_simp+
  obtain fi rs ru where "recalibratePressure 1 1 1 1 (computeDriftIndicator (of_nat 9) (of_nat 3)) = (fi, rs, ru)"
    by (metis prod_cases3)
  from adaptive_artifacts_valid [OF ids _ _ _ _ refl refl this] show ?thesis
    by (simp add: unit_interval_def)
qed

text \<open>
  Evidence pulls the right way: with at least as many matches and at most as many
  deviations, the reliability of a candidate and the bias in its favour do not fall, and the
  drift indicator does not rise. No rounding step can invert the order.
\<close>

theorem evidence_monotone:
  assumes "matched \<le> matched'" "deviated' \<le> deviated"
  shows "computeCandidateReliability (of_nat matched) (of_nat deviated) \<le>
      computeCandidateReliability (of_nat matched') (of_nat deviated') \<and>
    computeDriftIndicator (of_nat deviated') (of_nat matched') \<le>
      computeDriftIndicator (of_nat deviated) (of_nat matched) \<and>
    computeSelectionBiasAdjustment (computeCandidateReliability (of_nat matched) (of_nat deviated))
        (computeDriftIndicator (of_nat deviated) (of_nat matched)) \<le>
      computeSelectionBiasAdjustment (computeCandidateReliability (of_nat matched') (of_nat deviated'))
        (computeDriftIndicator (of_nat deviated') (of_nat matched'))"
  using assms
  by (intro conjI computeSelectionBiasAdjustment_mono computeCandidateReliability_mono
      computeDriftIndicator_mono) simp_all

lemma evidence_monotone_witness:
  "computeCandidateReliability (of_nat 1) (of_nat 2) \<le> computeCandidateReliability (of_nat 2) (of_nat 2)"
  using evidence_monotone [of 1 2 2 2] by simp

text \<open>
  Signal hygiene loses no signal and counts none twice: the batch made from a non-empty
  list of valid signals is valid; the kept signals have distinct keys and every key is kept;
  the ids of kept and duplicate signals are together those of the input; what is kept is the
  first of its key; and no weight exceeds the cap of its kind.
\<close>

theorem signal_batch_exact:
  assumes raws: "raws \<noteq> []" "list_all raw_signal_ok raws"
    and ids: "artifact_id_ok (''SNB-'' @ runId)" "list_all artifact_id_ok refs"
    and d: "deduplicateSignals (normalizeSignals raws) = (kept, dups)"
    and b: "b = emitSignalBatch runId (weightSignals kept) dups refs"
  shows "signal_batch_ok b \<and> distinct (map dedupeKey (normalizedSignals b)) \<and>
    set (map dedupeKey (normalizedSignals b)) = set (map dedupeKey (normalizeSignals raws)) \<and>
    mset (map sig_id (normalizedSignals b)) + mset (duplicateSignalIds b) = mset (map sig_id raws) \<and>
    (\<forall>s \<in> set kept. \<exists>a b. normalizeSignals raws = a @ s # b \<and> dedupeKey s \<notin> dedupeKey ` set a) \<and>
    (\<forall>s \<in> set (normalizedSignals b). effectiveWeight s \<le> SIGNAL_WEIGHT_CAP_BY_KIND (sig_kind s))"
proof -
  have copied: "dedupeKey (weight_signal s) = dedupeKey s" "sig_id (weight_signal s) = sig_id s"
    "sig_kind (weight_signal s) = sig_kind s" for s
    by (simp_all add: weight_signal_def Let_def)
  have maps: "map dedupeKey (weightSignals kept) = map dedupeKey kept"
    "map sig_id (weightSignals kept) = map sig_id kept"
    "map sig_id (normalizeSignals raws) = map sig_id raws"
    by (simp_all add: weightSignals_def normalizeSignals_def copied comp_def normalize_signal_def)
  have kept: "\<exists>r \<in> set raws. raw_signal_ok r \<and> s = normalize_signal r" if "s \<in> set kept" for s
    using that dedupe_kept_subset [OF d] raws(2) by (auto simp: normalizeSignals_def list_all_iff)
  have dups: "set dups \<subseteq> sig_id ` set raws"
    using dedupe_facts [OF d] by (metis maps(3) image_set mset_subset_eq_add_right set_mset_mono set_mset_mset)
  have valid: "normalized_signal_ok s \<and> effectiveWeight s \<le> SIGNAL_WEIGHT_CAP_BY_KIND (sig_kind s)"
    if "s \<in> set (weightSignals kept)" for s
  proof -
    from that obtain k where "s = weight_signal k" "k \<in> set kept" by (auto simp: weightSignals_def)
    with kept [of k] obtain r where "raw_signal_ok r" "s = weight_signal (normalize_signal r)" by blast
    with weighted_ok [of r] show ?thesis by (simp add: copied normalize_signal_def)
  qed
  have "kept \<noteq> []" using dedupe_nonempty [OF d] raws(1) by (simp add: normalizeSignals_def)
  moreover have "artifact_id_ok ''GOV-META-SIGNAL-HYGIENE-WEIGHTING''" by code_simp
  moreover have "list_all artifact_id_ok dups"
    using dups raws(2) by (auto simp: list_all_iff raw_signal_ok_def)
  ultimately have "signal_batch_ok b"
    using valid ids by (auto simp: b emitSignalBatch_def signal_batch_ok_def lineage_ok_def
        signalBatchIdFromRunId_def list_all_iff weightSignals_def)
  moreover have "normalizedSignals b = weightSignals kept" "duplicateSignalIds b = dups"
    by (simp_all add: b emitSignalBatch_def)
  moreover note dedupe_facts [OF d, unfolded first_of_key_def]
  ultimately show ?thesis using valid by (simp only: maps) blast
qed

lemma signal_batch_exact_witness:
  "\<exists>kept dups. deduplicateSignals (normalizeSignals
      [\<lparr>sig_id = ''SIG-A'', sig_kind = External, sig_title = '' T'', sig_source = ''s'',
        sig_confidence = 1, sig_severity = 1\<rparr>,
       \<lparr>sig_id = ''SIG-B'', sig_kind = External, sig_title = ''t'', sig_source = ''S'',
        sig_confidence = 1, sig_severity = 1\<rparr>]) = (kept, dups) \<and>
    signal_batch_ok (emitSignalBatch ''RUN-1'' (weightSignals kept) dups [])"
proof -
  let ?raws = "[\<lparr>sig_id = ''SIG-A'', sig_kind = External, sig_title = '' T'', sig_source = ''s'',
        sig_confidence = 1, sig_severity = 1\<rparr>,
       \<lparr>sig_id = ''SIG-B'', sig_kind = External, sig_title = ''t'', sig_source = ''S'',
        sig_confidence = 1, sig_severity = 1\<rparr>]"
  obtain kept dups where d: "deduplicateSignals (normalizeSignals ?raws) = (kept, dups)" by fastforce
  have "list_all raw_signal_ok ?raws" "artifact_id_ok (''SNB-'' @ ''RUN-1'')" "list_all artifact_id_ok []"
    by code_simp+
  from signal_batch_exact [OF _ this d refl] d show ?thesis by blast
qed

end
