(* ===== verification/Policy_Evolution.thy ===== *)
theory Policy_Evolution
  imports Adaptive_Scoring
begin

text \<open>
  How governance policies change: the packages \<open>meta-governance\<close> (stress report, proposal,
  human decision, successor note) and \<open>policy-activation\<close> (guarded activation, rollback plan),
  with their schemas in \<open>packages/schemas/src\<close>. The drift indicator of a stress report is the
  score of \<open>Adaptive_Scoring\<close>; an approval that \<open>throws\<close> is an \<open>Inl\<close> with the message.
\<close>

section \<open>Schemas\<close>

datatype policy_stress_level = Low_stress | Moderate_stress | High_stress

instantiation policy_stress_level :: linorder
begin

fun stress_rank :: "policy_stress_level \<Rightarrow> nat" where
  "stress_rank Low_stress = 0"
| "stress_rank Moderate_stress = 1"
| "stress_rank High_stress = 2"

definition less_eq_policy_stress_level :: "policy_stress_level \<Rightarrow> policy_stress_level \<Rightarrow> bool" where
  "less_eq_policy_stress_level a b \<longleftrightarrow> stress_rank a \<le> stress_rank b"

definition less_policy_stress_level :: "policy_stress_level \<Rightarrow> policy_stress_level \<Rightarrow> bool" where
  "less_policy_stress_level a b \<longleftrightarrow> stress_rank a < stress_rank b"

instance
proof
  fix a b :: policy_stress_level
  assume "a \<le> b" "b \<le> a"
  then show "a = b" unfolding less_eq_policy_stress_level_def by (cases a; cases b) auto
qed (auto simp: less_eq_policy_stress_level_def less_policy_stress_level_def)

end

record policy_stress_report = lineage +
  psr_targetPolicyId :: string
  psr_driftIndicator :: rat
  psr_deviationCount :: nat
  repeatedProposalCount :: nat
  stressLevel :: policy_stress_level
  psr_summary :: string

definition policy_stress_report_ok :: "policy_stress_report \<Rightarrow> bool" where
  "policy_stress_report_ok r \<longleftrightarrow>
     lineage_ok r \<and> starts_with ''PSR-'' (artifact_id r) \<and> artifact_id_ok (psr_targetPolicyId r) \<and>
     unit_interval (psr_driftIndicator r) \<and> psr_summary r \<noteq> []"

datatype proposal_type = Threshold_adjustment | Weight_adjustment | Cap_adjustment | Other_proposal

record governance_proposal = lineage +
  govp_targetPolicyId :: string
  proposedPolicyId :: string
  proposalType :: proposal_type
  proposedChangeSummary :: string
  justification :: string

definition governance_proposal_ok :: "governance_proposal \<Rightarrow> bool" where
  "governance_proposal_ok p \<longleftrightarrow>
     lineage_ok p \<and> starts_with ''GOVP-'' (artifact_id p) \<and> artifact_id_ok (govp_targetPolicyId p) \<and>
     artifact_id_ok (proposedPolicyId p) \<and> proposedChangeSummary p \<noteq> [] \<and> justification p \<noteq> []"

datatype human_decision = Approved | Rejected

record governance_decision = lineage +
  govd_sourceProposalId :: string
  govd_decision :: human_decision
  decidedBy :: string
  decisionSummary :: string

definition governance_decision_ok :: "governance_decision \<Rightarrow> bool" where
  "governance_decision_ok d \<longleftrightarrow>
     lineage_ok d \<and> starts_with ''GOVD-'' (artifact_id d) \<and> artifact_id_ok (govd_sourceProposalId d) \<and>
     decidedBy d \<noteq> [] \<and> decisionSummary d \<noteq> []"

datatype activation_state = Proposed_only | Approved_not_activated | Activated

record policy_successor_note = lineage +
  govs_predecessorPolicyId :: string
  govs_sourceProposalId :: string
  govs_sourceDecisionId :: string
  govs_successorPolicyId :: string
  activationState :: activation_state
  govs_summary :: string

definition policy_successor_note_ok :: "policy_successor_note \<Rightarrow> bool" where
  "policy_successor_note_ok n \<longleftrightarrow>
     lineage_ok n \<and> starts_with ''GOVS-'' (artifact_id n) \<and> artifact_id_ok (govs_predecessorPolicyId n) \<and>
     artifact_id_ok (govs_sourceProposalId n) \<and> artifact_id_ok (govs_sourceDecisionId n) \<and>
     artifact_id_ok (govs_successorPolicyId n) \<and> govs_summary n \<noteq> []"

datatype rollout_state = Shadow | Partial | Full

record policy_activation = lineage +
  gova_predecessorPolicyId :: string
  gova_successorPolicyId :: string
  gova_sourceProposalId :: string
  gova_sourceDecisionId :: string
  sourceSuccessorNoteId :: string
  rolloutState :: rollout_state
  gova_rollbackTargetPolicyId :: string
  activationSummary :: string

definition policy_activation_ok :: "policy_activation \<Rightarrow> bool" where
  "policy_activation_ok a \<longleftrightarrow>
     lineage_ok a \<and> starts_with ''GOVA-'' (artifact_id a) \<and> artifact_id_ok (gova_predecessorPolicyId a) \<and>
     artifact_id_ok (gova_successorPolicyId a) \<and> artifact_id_ok (gova_sourceProposalId a) \<and>
     artifact_id_ok (gova_sourceDecisionId a) \<and> artifact_id_ok (sourceSuccessorNoteId a) \<and>
     artifact_id_ok (gova_rollbackTargetPolicyId a) \<and> activationSummary a \<noteq> [] \<and>
     gova_rollbackTargetPolicyId a = gova_predecessorPolicyId a"

record policy_rollback_plan = lineage +
  sourceActivationId :: string
  govr_predecessorPolicyId :: string
  govr_successorPolicyId :: string
  govr_rollbackTargetPolicyId :: string
  rolloutStateAtCreation :: rollout_state
  rollbackSummary :: string

definition policy_rollback_plan_ok :: "policy_rollback_plan \<Rightarrow> bool" where
  "policy_rollback_plan_ok p \<longleftrightarrow>
     lineage_ok p \<and> starts_with ''GOVR-'' (artifact_id p) \<and> artifact_id_ok (sourceActivationId p) \<and>
     artifact_id_ok (govr_predecessorPolicyId p) \<and> artifact_id_ok (govr_successorPolicyId p) \<and>
     artifact_id_ok (govr_rollbackTargetPolicyId p) \<and> rollbackSummary p \<noteq> [] \<and>
     govr_rollbackTargetPolicyId p = govr_predecessorPolicyId p"

section \<open>Stress\<close>

definition HIGH_STRESS_DRIFT_THRESHOLD :: rat where "HIGH_STRESS_DRIFT_THRESHOLD = lit 45 100"
definition HIGH_STRESS_DEVIATION_THRESHOLD :: nat where "HIGH_STRESS_DEVIATION_THRESHOLD = 3"
definition HIGH_STRESS_REPEAT_THRESHOLD :: nat where "HIGH_STRESS_REPEAT_THRESHOLD = 2"
definition MODERATE_STRESS_DRIFT_THRESHOLD :: rat where "MODERATE_STRESS_DRIFT_THRESHOLD = lit 25 100"
definition MODERATE_STRESS_DEVIATION_THRESHOLD :: nat where "MODERATE_STRESS_DEVIATION_THRESHOLD = 2"
definition MODERATE_STRESS_REPEAT_THRESHOLD :: nat where "MODERATE_STRESS_REPEAT_THRESHOLD = 1"

lemmas stress_thresholds = HIGH_STRESS_DRIFT_THRESHOLD_def HIGH_STRESS_DEVIATION_THRESHOLD_def
  HIGH_STRESS_REPEAT_THRESHOLD_def MODERATE_STRESS_DRIFT_THRESHOLD_def
  MODERATE_STRESS_DEVIATION_THRESHOLD_def MODERATE_STRESS_REPEAT_THRESHOLD_def

definition detectPolicyStress :: "string \<Rightarrow> rat \<Rightarrow> nat \<Rightarrow> nat \<Rightarrow> string list \<Rightarrow> policy_stress_report" where
  "detectPolicyStress policy drift deviations repeats refs =
     (let driftHigh = drift \<ge> HIGH_STRESS_DRIFT_THRESHOLD;
          deviationHigh = deviations \<ge> HIGH_STRESS_DEVIATION_THRESHOLD;
          repeatHigh = repeats \<ge> HIGH_STRESS_REPEAT_THRESHOLD;
          highCount = length (filter id [driftHigh, deviationHigh, repeatHigh]);
          driftMod = drift \<ge> MODERATE_STRESS_DRIFT_THRESHOLD;
          deviationMod = deviations \<ge> MODERATE_STRESS_DEVIATION_THRESHOLD;
          repeatMod = repeats \<ge> MODERATE_STRESS_REPEAT_THRESHOLD;
          modCount = length (filter id [driftMod, deviationMod, repeatMod])
      in \<lparr>artifact_id = policyStressReportIdFromPolicyId policy, source_refs = refs,
          explicitness = Inferred,
          rationale = ''Policy stress report emitted deterministically from drift and repeated deviation evidence.'',
          psr_targetPolicyId = policy, psr_driftIndicator = drift, psr_deviationCount = deviations,
          repeatedProposalCount = repeats,
          stressLevel = (if highCount \<ge> 2 then High_stress
             else if modCount \<ge> 1 then Moderate_stress else Low_stress),
          psr_summary = ''Policy stress detected for bounded governance review.''\<rparr>)"

lemma count_two_of_three: "length (filter id [a, b, c]) \<ge> 2 \<longleftrightarrow> a \<and> b \<or> a \<and> c \<or> b \<and> c"
  by (cases a; cases b; cases c) simp_all

lemma count_one_of_three: "length (filter id [a, b, c]) \<ge> 1 \<longleftrightarrow> a \<or> b \<or> c"
  by (cases a; cases b; cases c) simp_all

lemma stressLevel_detect:
  "stressLevel (detectPolicyStress policy drift deviations repeats refs) =
     (if lit 45 100 \<le> drift \<and> 3 \<le> deviations \<or> lit 45 100 \<le> drift \<and> 2 \<le> repeats \<or>
         3 \<le> deviations \<and> 2 \<le> repeats then High_stress
      else if lit 25 100 \<le> drift \<or> 2 \<le> deviations \<or> 1 \<le> repeats then Moderate_stress
      else Low_stress)"
  unfolding detectPolicyStress_def Let_def count_two_of_three count_one_of_three stress_thresholds
  by simp

text \<open>More drift, deviations or repeated proposals never lower the level.\<close>

lemma stressLevel_mono:
  assumes "drift \<le> drift'" "deviations \<le> deviations'" "repeats \<le> repeats'"
  shows "stressLevel (detectPolicyStress policy drift deviations repeats refs) \<le>
    stressLevel (detectPolicyStress policy' drift' deviations' repeats' refs')"
  using assms unfolding stressLevel_detect less_eq_policy_stress_level_def by auto

section \<open>Proposal, decision, successor\<close>

definition emitGovernanceProposal ::
  "string \<Rightarrow> string \<Rightarrow> proposal_type \<Rightarrow> string \<Rightarrow> string \<Rightarrow> string list \<Rightarrow> governance_proposal" where
  "emitGovernanceProposal policy proposed t change why refs =
     \<lparr>artifact_id = governanceProposalIdFromPolicyId policy, source_refs = refs,
      explicitness = Inferred,
      rationale = ''Governance proposal emitted deterministically from policy stress evidence.'',
      govp_targetPolicyId = policy, proposedPolicyId = proposed, proposalType = t,
      proposedChangeSummary = change, justification = why\<rparr>"

definition emitGovernanceDecision ::
  "string \<Rightarrow> human_decision \<Rightarrow> string \<Rightarrow> string \<Rightarrow> string list \<Rightarrow> governance_decision" where
  "emitGovernanceDecision proposal d who summary refs =
     \<lparr>artifact_id = governanceDecisionIdFromProposalId proposal, source_refs = refs,
      explicitness = Explicit,
      rationale = ''Governance decision recorded explicitly under human authority.'',
      govd_sourceProposalId = proposal, govd_decision = d, decidedBy = who,
      decisionSummary = summary\<rparr>"

definition emitPolicySuccessorNote ::
  "string \<Rightarrow> string \<Rightarrow> string \<Rightarrow> string \<Rightarrow> activation_state \<Rightarrow> string list \<Rightarrow> policy_successor_note" where
  "emitPolicySuccessorNote predecessor proposal decided successor st refs =
     \<lparr>artifact_id = policySuccessorNoteIdFromPolicyId predecessor, source_refs = refs,
      explicitness = Inferred,
      rationale = ''Policy successor lineage note emitted deterministically from proposal and human decision.'',
      govs_predecessorPolicyId = predecessor, govs_sourceProposalId = proposal,
      govs_sourceDecisionId = decided, govs_successorPolicyId = successor, activationState = st,
      govs_summary = ''Governance lineage note connecting predecessor, proposal, decision, and successor policy.''\<rparr>"

section \<open>Activation and rollback\<close>

definition assertActivationAllowed :: "human_decision \<Rightarrow> bool \<Rightarrow> string \<Rightarrow> string \<Rightarrow> string + unit" where
  "assertActivationAllowed verdict autoActivation decisionProposal activationProposal =
     (if verdict \<noteq> Approved
      then Inl ''Policy activation denied: governance decision is not approved''
      else if autoActivation
      then Inl ''Policy activation denied: auto-activation must remain disabled''
      else if decisionProposal \<noteq> activationProposal
      then Inl ''Policy activation denied: decision proposal ID does not match activation proposal ID''
      else Inr ())"

record activation_input =
  in_predecessor :: string
  in_successor :: string
  in_proposal :: string
  in_decisionId :: string
  in_successorNote :: string
  in_decision :: human_decision
  in_decisionProposal :: string
  autoActivationAllowed :: bool
  in_rollout :: rollout_state
  in_refs :: "string list"

definition emitPolicyActivation :: "activation_input \<Rightarrow> string + policy_activation" where
  "emitPolicyActivation i =
     and_then (assertActivationAllowed (in_decision i) (autoActivationAllowed i)
         (in_decisionProposal i) (in_proposal i))
       (\<lambda>_. Inr \<lparr>artifact_id = policyActivationIdFromSuccessorId (in_successor i),
          source_refs = in_refs i, explicitness = Explicit,
          rationale = ''Policy activation recorded explicitly after human approval and staged rollout choice.'',
          gova_predecessorPolicyId = in_predecessor i, gova_successorPolicyId = in_successor i,
          gova_sourceProposalId = in_proposal i, gova_sourceDecisionId = in_decisionId i,
          sourceSuccessorNoteId = in_successorNote i, rolloutState = in_rollout i,
          gova_rollbackTargetPolicyId = in_predecessor i,
          activationSummary = ''Approved successor policy activated under controlled rollout with rollback preserved.''\<rparr>)"

definition emitRollbackPlan ::
  "string \<Rightarrow> string \<Rightarrow> string \<Rightarrow> rollout_state \<Rightarrow> string list \<Rightarrow> policy_rollback_plan" where
  "emitRollbackPlan activation predecessor successor rollout refs =
     \<lparr>artifact_id = rollbackPlanIdFromSuccessorId successor, source_refs = refs,
      explicitness = Inferred,
      rationale = ''Rollback plan emitted deterministically alongside controlled activation.'',
      sourceActivationId = activation, govr_predecessorPolicyId = predecessor,
      govr_successorPolicyId = successor, govr_rollbackTargetPolicyId = predecessor,
      rolloutStateAtCreation = rollout,
      rollbackSummary = ''Rollback returns policy control to the predecessor policy without silent replacement.''\<rparr>"

lemma assertActivationAllowed_Inr:
  "assertActivationAllowed d auto p q = Inr u \<longleftrightarrow> d = Approved \<and> \<not> auto \<and> p = q"
  by (simp add: assertActivationAllowed_def)

lemma emitPolicyActivation_is_ok:
  "is_ok (emitPolicyActivation i) \<longleftrightarrow>
     in_decision i = Approved \<and> \<not> autoActivationAllowed i \<and> in_decisionProposal i = in_proposal i"
  by (auto simp: is_ok_iff emitPolicyActivation_def and_then_Inr assertActivationAllowed_Inr)

section \<open>Properties\<close>

text \<open>
  C37. A policy changes only under human control. Starting from a policy under stress, the
  stress level is high exactly when two of the three kinds of evidence are high; the report, the
  proposal, the decision and the successor note conform to their schemas; the successor can be
  activated exactly when the decision on this very proposal is an approval and automatic
  activation is off; and what is activated is valid and rolls back to the policy it replaces.
\<close>

theorem policy_change_governed:
  assumes ids: "artifact_id_ok policy" "starts_with ''GOV-'' policy" "artifact_id_ok successor"
      "starts_with ''GOV-'' successor" "list_all artifact_id_ok refs"
    and texts: "change \<noteq> []" "why \<noteq> []" "who \<noteq> []" "summary \<noteq> []"
    and chain: "report = detectPolicyStress policy
        (computeDriftIndicator (of_nat deviated) (of_nat matched)) deviated repeats refs"
      "p = emitGovernanceProposal policy successor t change why refs"
      "d = emitGovernanceDecision (artifact_id p) choice who summary refs"
      "n = emitPolicySuccessorNote policy (artifact_id p) (artifact_id d) successor st refs"
    and input: "i = \<lparr>in_predecessor = policy, in_successor = successor, in_proposal = artifact_id p,
        in_decisionId = artifact_id d, in_successorNote = artifact_id n, in_decision = govd_decision d,
        in_decisionProposal = other, autoActivationAllowed = auto, in_rollout = rollout,
        in_refs = refs\<rparr>"
  shows "(stressLevel report = High_stress \<longleftrightarrow>
      (lit 45 100 \<le> psr_driftIndicator report \<and> 3 \<le> deviated) \<or>
      (lit 45 100 \<le> psr_driftIndicator report \<and> 2 \<le> repeats) \<or> (3 \<le> deviated \<and> 2 \<le> repeats)) \<and>
    policy_stress_report_ok report \<and> governance_proposal_ok p \<and> governance_decision_ok d \<and>
    policy_successor_note_ok n \<and>
    (is_ok (emitPolicyActivation i) \<longleftrightarrow>
       choice = Approved \<and> \<not> auto \<and> other = governanceProposalIdFromPolicyId policy) \<and>
    (\<forall>a. emitPolicyActivation i = Inr a \<longrightarrow>
       policy_activation_ok a \<and> gova_rollbackTargetPolicyId a = policy \<and>
       policy_rollback_plan_ok (emitRollbackPlan (artifact_id a) policy successor rollout refs))"
proof -
  have drift: "unit_interval (computeDriftIndicator (of_nat deviated) (of_nat matched))"
    using computeDriftIndicator_bounds [of "of_nat deviated" "of_nat matched"] literal_drift_le_1
    by (auto simp: unit_interval_def)
  have start: "starts_with ''PSR-'' (policyStressReportIdFromPolicyId policy)"
    "starts_with ''GOVP-'' (governanceProposalIdFromPolicyId policy)"
    "starts_with ''GOVS-'' (policySuccessorNoteIdFromPolicyId policy)"
    "starts_with ''GOVA-'' (policyActivationIdFromSuccessorId successor)"
    "starts_with ''GOVR-'' (rollbackPlanIdFromSuccessorId successor)"
    using ids by (auto intro: psr_id.rename_starts govp_id.rename_starts govs_id.rename_starts
        gova_id.rename_starts govr_id.rename_starts)
  have name: "artifact_id_ok (policyStressReportIdFromPolicyId policy)"
    "artifact_id_ok (governanceProposalIdFromPolicyId policy)"
    "artifact_id_ok (policySuccessorNoteIdFromPolicyId policy)"
    "artifact_id_ok (policyActivationIdFromSuccessorId successor)"
    "artifact_id_ok (rollbackPlanIdFromSuccessorId successor)"
    using ids by (auto intro: psr_id.rename_artifact_id govp_id.rename_artifact_id
        govs_id.rename_artifact_id gova_id.rename_artifact_id govr_id.rename_artifact_id)
  have decided: "starts_with ''GOVD-'' (governanceDecisionIdFromProposalId (governanceProposalIdFromPolicyId policy))"
    "artifact_id_ok (governanceDecisionIdFromProposalId (governanceProposalIdFromPolicyId policy))"
    by (rule govd_id.rename_starts [OF start(2)] govd_id.rename_artifact_id [OF name(2) start(2)])+
  note facts = ids texts start name decided
  have "policy_stress_report_ok report"
    using facts drift by (simp add: chain detectPolicyStress_def Let_def policy_stress_report_ok_def lineage_ok_def)
  moreover have "governance_proposal_ok p"
    using facts by (simp add: chain emitGovernanceProposal_def governance_proposal_ok_def lineage_ok_def)
  moreover have "governance_decision_ok d"
    using facts by (simp add: chain emitGovernanceDecision_def emitGovernanceProposal_def
        governance_decision_ok_def lineage_ok_def)
  moreover have "policy_successor_note_ok n"
    using facts by (simp add: chain emitPolicySuccessorNote_def emitGovernanceDecision_def
        emitGovernanceProposal_def policy_successor_note_ok_def lineage_ok_def)
  moreover have "is_ok (emitPolicyActivation i) \<longleftrightarrow>
      choice = Approved \<and> \<not> auto \<and> other = governanceProposalIdFromPolicyId policy"
    by (simp add: emitPolicyActivation_is_ok input chain emitGovernanceDecision_def emitGovernanceProposal_def)
  moreover have "policy_activation_ok a \<and> gova_rollbackTargetPolicyId a = policy \<and>
      policy_rollback_plan_ok (emitRollbackPlan (artifact_id a) policy successor rollout refs)"
    if a: "emitPolicyActivation i = Inr a" for a
    using a facts
    by (auto simp: emitPolicyActivation_def and_then_Inr input chain emitPolicySuccessorNote_def
        emitGovernanceDecision_def emitGovernanceProposal_def policy_activation_ok_def lineage_ok_def
        policy_rollback_plan_ok_def emitRollbackPlan_def)
  moreover have "stressLevel report = High_stress \<longleftrightarrow>
      (lit 45 100 \<le> psr_driftIndicator report \<and> 3 \<le> deviated) \<or>
      (lit 45 100 \<le> psr_driftIndicator report \<and> 2 \<le> repeats) \<or> (3 \<le> deviated \<and> 2 \<le> repeats)"
    unfolding chain(1) stressLevel_detect by (simp add: detectPolicyStress_def Let_def)
  ultimately show ?thesis by blast
qed

lemma policy_change_governed_witness:
  "is_ok (emitPolicyActivation
     \<lparr>in_predecessor = ''GOV-META-A'', in_successor = ''GOV-META-B'', in_proposal = ''GOVP-META-A'',
      in_decisionId = ''GOVD-META-A'', in_successorNote = ''GOVS-META-A'', in_decision = Approved,
      in_decisionProposal = ''GOVP-META-A'', autoActivationAllowed = False, in_rollout = Shadow,
      in_refs = []\<rparr>)"
proof -
  have ids: "artifact_id_ok ''GOV-META-A''" "starts_with ''GOV-'' ''GOV-META-A''"
    "artifact_id_ok ''GOV-META-B''" "starts_with ''GOV-'' ''GOV-META-B''" "list_all artifact_id_ok []"
    by code_simp+
  have names: "governanceProposalIdFromPolicyId ''GOV-META-A'' = ''GOVP-META-A''"
    "governanceDecisionIdFromProposalId ''GOVP-META-A'' = ''GOVD-META-A''"
    "policySuccessorNoteIdFromPolicyId ''GOV-META-A'' = ''GOVS-META-A''" by code_simp+
  have texts: "''c'' \<noteq> []" "''w'' \<noteq> []" "''h'' \<noteq> []" "''s'' \<noteq> []" by simp_all
  from policy_change_governed [OF ids texts refl refl refl refl refl,
      of 0 0 0 Other_proposal Approved Approved_not_activated "''GOVP-META-A''" False Shadow] names
  show ?thesis
    by (simp add: emitPolicySuccessorNote_def emitGovernanceDecision_def emitGovernanceProposal_def)
qed

end
