(* ===== verification/Layer_Dispatch.thy ===== *)
theory Layer_Dispatch
  imports Factory_Prelude
begin

text \<open>
  \<open>workers/ff-pipeline/src/coordinator/layer-dispatch.ts\<close>: Kahn's algorithm, which groups the
  atoms of a specification into dependency layers. The in-degrees and the lists of dependents
  are JavaScript maps that are read with a default (\<open>?? 0\<close>, \<open>?? []\<close>), so they are total
  functions here. \<open>level\<close> and \<open>dep_relation\<close> are the specification: the position of the layer
  of an atom, and the edges between atoms of the specification.
\<close>

section \<open>Data\<close>

text \<open>
  What the dispatch code reads of an atom: its identity, the upstream atoms it names, and
  whether it is critical. The rest of the record is passed on unread.
\<close>

record atom_spec =
  spec_id :: "string option"
  spec_key :: string
  spec_dependencies :: "string list"
  spec_critical :: "bool option"

definition atom_key :: "atom_spec \<Rightarrow> string" where
  "atom_key a = (case spec_id a of Some i \<Rightarrow> i | None \<Rightarrow> spec_key a)"

record dep_edge =
  dep_from :: string
  dep_to :: string

record dependency_layer =
  layer_index :: nat
  layer_atomIds :: "string list"

section \<open>The algorithm\<close>

type_synonym in_degrees = "string \<Rightarrow> int"
type_synonym dependents = "string \<Rightarrow> string list"

fun count_dep :: "string list \<Rightarrow> in_degrees \<times> dependents \<Rightarrow> dep_edge \<Rightarrow> in_degrees \<times> dependents" where
  "count_dep ids (inDegree, deps) d =
     (if dep_from d \<notin> set ids \<or> dep_to d \<notin> set ids then (inDegree, deps)
      else (inDegree(dep_to d := inDegree (dep_to d) + 1),
            deps(dep_from d := deps (dep_from d) @ [dep_to d])))"

definition build_graph :: "string list \<Rightarrow> dep_edge list \<Rightarrow> in_degrees \<times> dependents" where
  "build_graph ids ds = foldl (count_dep ids) (\<lambda>_. 0, \<lambda>_. []) ds"

definition complete_atom :: "dependents \<Rightarrow> in_degrees \<Rightarrow> string \<Rightarrow> in_degrees" where
  "complete_atom deps inDegree a = foldl (\<lambda>f t. f(t := f t - 1)) inDegree (deps a)"

function kahn_layers :: "dependents \<Rightarrow> nat \<Rightarrow> in_degrees \<Rightarrow> string list \<Rightarrow> dependency_layer list" where
  "kahn_layers deps n inDegree remaining =
     (if remaining = [] then []
      else let layerAtoms = filter (\<lambda>a. inDegree a = 0) remaining
           in if layerAtoms = [] then [\<lparr>layer_index = n, layer_atomIds = remaining\<rparr>]
              else \<lparr>layer_index = n, layer_atomIds = layerAtoms\<rparr> #
                kahn_layers deps (Suc n) (foldl (complete_atom deps) inDegree layerAtoms)
                  (filter (\<lambda>a. a \<notin> set layerAtoms) remaining))"
  by pat_completeness auto
termination
  by (relation "measure (\<lambda>(_, _, _, remaining). length remaining)")
    (auto simp: filter_empty_conv intro!: length_filter_less)

declare kahn_layers.simps [simp del]

definition topologicalSort :: "atom_spec list \<Rightarrow> dep_edge list \<Rightarrow> dependency_layer list" where
  "topologicalSort atoms ds =
     (if atoms = [] then []
      else let ids = oset_of (map atom_key atoms)
           in case build_graph ids ds of (inDegree, deps) \<Rightarrow> kahn_layers deps 0 inDegree ids)"

section \<open>Specification\<close>

definition internal_edges :: "string list \<Rightarrow> dep_edge list \<Rightarrow> dep_edge list" where
  "internal_edges ids ds = filter (\<lambda>d. dep_from d \<in> set ids \<and> dep_to d \<in> set ids) ds"

definition edge_rel :: "dep_edge list \<Rightarrow> (string \<times> string) set" where
  "edge_rel es = (\<lambda>d. (dep_from d, dep_to d)) ` set es"

definition dep_relation :: "atom_spec list \<Rightarrow> dep_edge list \<Rightarrow> (string \<times> string) set" where
  "dep_relation atoms ds = {(u, v). u \<in> atom_key ` set atoms \<and> v \<in> atom_key ` set atoms \<and>
     (\<exists>d \<in> set ds. dep_from d = u \<and> dep_to d = v)}"

fun level :: "string list list \<Rightarrow> string \<Rightarrow> nat" where
  "level [] a = 0"
| "level (l # ls) a = (if a \<in> set l then 0 else Suc (level ls a))"

text \<open>
  What the loop builds: every layer takes all atoms that wait for no remaining atom, or, when
  there are none, everything that is left.
\<close>

fun layered :: "(string \<times> string) set \<Rightarrow> string set \<Rightarrow> string list list \<Rightarrow> bool" where
  "layered E R [] \<longleftrightarrow> R = {}"
| "layered E R (l # ls) \<longleftrightarrow> l \<noteq> [] \<and> set l \<subseteq> R \<and>
     (set l = {a \<in> R. \<forall>u \<in> R. (u, a) \<notin> E} \<and> layered E (R - set l) ls \<or>
      set l = R \<and> ls = [] \<and> (\<forall>a \<in> R. \<exists>u \<in> R. (u, a) \<in> E))"

section \<open>The maps count edges\<close>

lemma build_graph_state:
  "foldl (count_dep ids) (f, g) ds =
     (\<lambda>v. f v + int (length (filter (\<lambda>d. dep_to d = v) (internal_edges ids ds))),
      \<lambda>u. g u @ map dep_to (filter (\<lambda>d. dep_from d = u) (internal_edges ids ds)))"
proof (induction ds arbitrary: f g)
  case Nil
  then show ?case by (simp add: internal_edges_def)
next
  case (Cons d ds)
  then show ?case by (auto simp: internal_edges_def fun_eq_iff)
qed

lemma foldl_decrement: "foldl (\<lambda>f t. f(t := f t - 1)) f ts v = (f v - int (count_list ts v) :: int)"
  by (induction ts arbitrary: f) auto

lemma complete_atom_apply: "complete_atom deps f a v = f v - int (count_list (deps a) v)"
  by (simp add: complete_atom_def foldl_decrement)

lemma foldl_complete:
  "foldl (complete_atom deps) f as v = f v - int (sum_list (map (\<lambda>a. count_list (deps a) v) as))"
  by (induction as arbitrary: f) (simp_all add: complete_atom_apply)

lemma count_list_map_filter:
  "count_list (map dep_to (filter (\<lambda>d. dep_from d = u) es)) v =
     length (filter (\<lambda>d. dep_to d = v \<and> dep_from d = u) es)"
  by (induction es) auto

lemma length_filter_split:
  "length (filter (\<lambda>d. P d \<and> (Q d \<or> S d)) es) + length (filter (\<lambda>d. P d \<and> Q d \<and> S d) es) =
     length (filter (\<lambda>d. P d \<and> Q d) es) + length (filter (\<lambda>d. P d \<and> S d) es)"
  by (induction es) auto

lemma count_layer:
  "distinct as \<Longrightarrow>
     sum_list (map (\<lambda>a. length (filter (\<lambda>d. dep_to d = v \<and> dep_from d = a) es)) as) =
     length (filter (\<lambda>d. dep_to d = v \<and> dep_from d \<in> set as) es)"
proof (induction as)
  case Nil
  then show ?case by simp
next
  case (Cons a as)
  have "filter (\<lambda>d. dep_to d = v \<and> dep_from d = a \<and> dep_from d \<in> set as) es = []"
    using Cons.prems by (auto simp: filter_empty_conv)
  with Cons length_filter_split [of "\<lambda>d. dep_to d = v" "\<lambda>d. dep_from d = a"
      "\<lambda>d. dep_from d \<in> set as" es] show ?case by simp
qed

text \<open>The invariant of the loop: an in-degree counts the edges from remaining atoms.\<close>

definition counts :: "dep_edge list \<Rightarrow> in_degrees \<Rightarrow> string list \<Rightarrow> bool" where
  "counts es f R \<longleftrightarrow>
     (\<forall>v. f v = int (length (filter (\<lambda>d. dep_to d = v \<and> dep_from d \<in> set R) es)))"

lemma counts_zero: "counts es f R \<Longrightarrow> f v = 0 \<longleftrightarrow> (\<forall>u \<in> set R. (u, v) \<notin> edge_rel es)"
  by (auto simp: counts_def edge_rel_def filter_empty_conv)

lemma counts_step:
  assumes c: "counts es f R" and sub: "set l \<subseteq> set R" "distinct l"
    and g: "g = (\<lambda>u. map dep_to (filter (\<lambda>d. dep_from d = u) es))"
  shows "counts es (foldl (complete_atom g) f l) (filter (\<lambda>a. a \<notin> set l) R)"
proof -
  have "f v - int (length (filter (\<lambda>d. dep_to d = v \<and> dep_from d \<in> set l) es)) =
      int (length (filter (\<lambda>d. dep_to d = v \<and> dep_from d \<in> set R \<and> dep_from d \<notin> set l) es))" for v
  proof -
    have "filter (\<lambda>d. dep_to d = v \<and> dep_from d \<in> set R) es =
        filter (\<lambda>d. dep_to d = v \<and> (dep_from d \<in> set l \<or> dep_from d \<in> set R \<and> dep_from d \<notin> set l)) es"
      using sub(1) by (intro filter_cong) auto
    moreover have "filter (\<lambda>d. dep_to d = v \<and> dep_from d \<in> set l \<and> dep_from d \<in> set R \<and> dep_from d \<notin> set l) es = []"
      by (auto simp: filter_empty_conv)
    ultimately show ?thesis
      using c length_filter_split [of "\<lambda>d. dep_to d = v" "\<lambda>d. dep_from d \<in> set l"
        "\<lambda>d. dep_from d \<in> set R \<and> dep_from d \<notin> set l" es]
      by (simp add: counts_def)
  qed
  then show ?thesis
    unfolding counts_def g foldl_complete count_list_map_filter count_layer [OF sub(2)] by simp
qed

section \<open>The loop builds layers\<close>

lemma kahn_layered:
  assumes "counts es f R" "distinct R" "g = (\<lambda>u. map dep_to (filter (\<lambda>d. dep_from d = u) es))"
  shows "layered (edge_rel es) (set R) (map layer_atomIds (kahn_layers g n f R)) \<and>
    mset (concat (map layer_atomIds (kahn_layers g n f R))) = mset R \<and>
    map layer_index (kahn_layers g n f R) = [n..<n + length (kahn_layers g n f R)]"
  using assms
proof (induction g n f R rule: kahn_layers.induct)
  case (1 g n f R)
  let ?l = "filter (\<lambda>a. f a = 0) R"
  let ?R = "filter (\<lambda>a. a \<notin> set ?l) R"
  let ?f = "foldl (complete_atom g) f ?l"
  have l: "set ?l = {a \<in> set R. \<forall>u \<in> set R. (u, a) \<notin> edge_rel es}"
    using counts_zero [OF 1(2)] by auto
  consider "R = []" | "R \<noteq> []" "?l = []" | "R \<noteq> []" "?l \<noteq> []" by blast
  then show ?case
  proof cases
    case 1
    then show ?thesis by (simp add: kahn_layers.simps)
  next
    case 2
    have "\<forall>a \<in> set R. \<exists>u \<in> set R. (u, a) \<in> edge_rel es" using l unfolding 2(2) by auto
    with 2 show ?thesis by (subst (1 2 3 4) kahn_layers.simps) (simp add: Let_def)
  next
    case 3
    have unfold: "kahn_layers g n f R = \<lparr>layer_index = n, layer_atomIds = ?l\<rparr> # kahn_layers g (Suc n) ?f ?R"
      using 3 by (subst kahn_layers.simps) (simp only: Let_def if_False)
    have "counts es ?f ?R" by (rule counts_step [OF 1(2) _ _ 1(4)]) (use 1(3) in auto)
    from "1.IH" [OF 3(1) refl 3(2) this] 1(3,4) have IH:
      "layered (edge_rel es) (set ?R) (map layer_atomIds (kahn_layers g (Suc n) ?f ?R))"
      "mset (concat (map layer_atomIds (kahn_layers g (Suc n) ?f ?R))) = mset ?R"
      "map layer_index (kahn_layers g (Suc n) ?f ?R) =
         [Suc n..<Suc n + length (kahn_layers g (Suc n) ?f ?R)]"
      by simp_all
    have "set ?R = set R - set ?l" by auto
    with IH(1) l 3(2) have "layered (edge_rel es) (set R)
        (?l # map layer_atomIds (kahn_layers g (Suc n) ?f ?R))"
      unfolding layered.simps by (metis (no_types, lifting) filter_is_subset)
    moreover have "mset ?l + mset ?R = mset R"
    proof -
      have "?R = filter (\<lambda>a. \<not> f a = 0) R" by (intro filter_cong) auto
      then show ?thesis by (simp add: multiset_partition [symmetric])
    qed
    ultimately show ?thesis
      unfolding unfold using IH(2,3) by (simp add: upt_rec)
  qed
qed

section \<open>What layers mean\<close>

lemma layered_stuck_cyclic:
  assumes "R \<noteq> {}" "\<forall>a \<in> R. \<exists>u \<in> R. (u, a) \<in> E" "finite E"
  shows "\<not> acyclic E"
proof
  assume "acyclic E"
  with assms(3) have "wf E" by (rule finite_acyclic_wf)
  then obtain z where "z \<in> R" "\<forall>y. (y, z) \<in> E \<longrightarrow> y \<notin> R"
    using assms(1) by (metis wf_eq_minimal ex_in_conv)
  with assms(2) show False by blast
qed

lemma layered_ConsD:
  assumes "layered E R (l # ls)" "acyclic E" "finite E"
  shows "set l = {a \<in> R. \<forall>u \<in> R. (u, a) \<notin> E} \<and> layered E (R - set l) ls"
proof -
  have "R \<noteq> {}" using assms(1) by auto
  with layered_stuck_cyclic [of R E] assms(2,3) have "\<not> (\<forall>a \<in> R. \<exists>u \<in> R. (u, a) \<in> E)" by blast
  with assms(1) show ?thesis unfolding layered.simps by blast
qed

lemma layered_ascends:
  assumes "layered E R ls" "acyclic E" "finite E"
  shows "(u, v) \<in> E \<Longrightarrow> u \<in> R \<Longrightarrow> v \<in> R \<Longrightarrow> level ls u < level ls v"
  using assms
proof (induction ls arbitrary: R)
  case Nil
  then show ?case by simp
next
  case (Cons l ls)
  have l: "set l = {a \<in> R. \<forall>u \<in> R. (u, a) \<notin> E}" "layered E (R - set l) ls"
    using layered_ConsD [OF Cons.prems(4-6)] by auto
  have "v \<notin> set l" using Cons.prems l(1) by blast
  show ?case
  proof (cases "u \<in> set l")
    case True
    with \<open>v \<notin> set l\<close> show ?thesis by simp
  next
    case False
    with \<open>v \<notin> set l\<close> Cons.IH [OF Cons.prems(1) _ _ l(2) Cons.prems(5,6)] Cons.prems(2,3)
    show ?thesis by simp
  qed
qed

lemma layered_minimal:
  assumes "layered E R ls" "acyclic E" "finite E"
  shows "a \<in> R \<Longrightarrow> level ls a = 0 \<or> (\<exists>u \<in> R. (u, a) \<in> E \<and> Suc (level ls u) = level ls a)"
  using assms
proof (induction ls arbitrary: R)
  case Nil
  then show ?case by simp
next
  case (Cons l ls)
  have l: "set l = {a \<in> R. \<forall>u \<in> R. (u, a) \<notin> E}" "layered E (R - set l) ls"
    using layered_ConsD [OF Cons.prems(2-4)] by auto
  show ?case
  proof (cases "a \<in> set l")
    case True
    then show ?thesis by simp
  next
    case False
    then obtain u where u: "u \<in> R" "(u, a) \<in> E" using Cons.prems(1) l(1) by blast
    have a: "a \<in> R - set l" using False Cons.prems(1) by simp
    from Cons.IH [OF a l(2) Cons.prems(3,4)] show ?thesis
    proof (elim disjE bexE conjE)
      assume 1: "level ls a = 0"
      have "u \<in> set l"
      proof (rule ccontr)
        assume "u \<notin> set l"
        with u layered_ascends [OF l(2) Cons.prems(3,4) u(2) _ a] 1 show False by simp
      qed
      with u 1 False show ?thesis by (intro disjI2 bexI [of _ u]) simp_all
    next
      fix w
      assume "w \<in> R - set l" "(w, a) \<in> E" "Suc (level ls w) = level ls a"
      with False show ?thesis by (intro disjI2 bexI [of _ w]) simp_all
    qed
  qed
qed

lemma ascends_acyclic: "\<forall>(u, v) \<in> E. level ls u < level ls v \<Longrightarrow> acyclic E"
proof -
  assume "\<forall>(u, v) \<in> E. level ls u < level ls v"
  then have "E \<subseteq> measure (level ls)" by auto
  then show "acyclic E" by (metis wf_measure wf_subset wf_acyclic)
qed

lemma layered_nonempty: "layered E R ls \<Longrightarrow> [] \<notin> set ls"
  by (induction E R ls rule: layered.induct) auto

lemma edge_rel_internal:
  "edge_rel (internal_edges (oset_of (map atom_key atoms)) ds) = dep_relation atoms ds"
  unfolding edge_rel_def internal_edges_def dep_relation_def by force

lemma topologicalSort_layered:
  fixes atoms ds
  defines "ls \<equiv> topologicalSort atoms ds"
  shows "layered (dep_relation atoms ds) (atom_key ` set atoms) (map layer_atomIds ls) \<and>
    mset (concat (map layer_atomIds ls)) = mset (oset_of (map atom_key atoms)) \<and>
    map layer_index ls = [0..<length ls]"
proof (cases "atoms = []")
  case True
  then show ?thesis by (simp add: ls_def topologicalSort_def)
next
  case False
  let ?ids = "oset_of (map atom_key atoms)"
  let ?es = "internal_edges ?ids ds"
  let ?f = "\<lambda>v. int (length (filter (\<lambda>d. dep_to d = v) ?es))"
  let ?g = "\<lambda>u. map dep_to (filter (\<lambda>d. dep_from d = u) ?es)"
  have "filter (\<lambda>d. dep_to d = v \<and> dep_from d \<in> set ?ids) ?es = filter (\<lambda>d. dep_to d = v) ?es" for v
    by (intro filter_cong) (auto simp: internal_edges_def)
  then have "counts ?es ?f ?ids" by (simp add: counts_def)
  from kahn_layered [OF this _ refl, of 0] show ?thesis
    using False by (simp add: ls_def topologicalSort_def build_graph_def build_graph_state Let_def edge_rel_internal)
qed

lemma finite_dep_relation: "finite (dep_relation atoms ds)"
  unfolding edge_rel_internal [symmetric] by (simp add: edge_rel_def)

lemma dep_relation_atoms:
  "(u, v) \<in> dep_relation atoms ds \<Longrightarrow> u \<in> atom_key ` set atoms \<and> v \<in> atom_key ` set atoms"
  by (auto simp: dep_relation_def)

text \<open>
  C38. The layers are right, and the sort always ends: every atom is in exactly one layer, no
  layer is empty and they are numbered from 0. The dependencies ascend from layer to layer
  exactly when they are acyclic, and then no atom waits longer than it must: one that is not in
  layer 0 has a dependency in the layer just before its own.
\<close>

theorem topologicalSort_exact:
  fixes atoms ds
  defines "ls \<equiv> map layer_atomIds (topologicalSort atoms ds)"
  shows "mset (concat ls) = mset (oset_of (map atom_key atoms)) \<and> [] \<notin> set ls \<and>
    map layer_index (topologicalSort atoms ds) = [0..<length ls] \<and>
    (acyclic (dep_relation atoms ds) \<longleftrightarrow>
       (\<forall>(u, v) \<in> dep_relation atoms ds. level ls u < level ls v)) \<and>
    (acyclic (dep_relation atoms ds) \<longrightarrow> (\<forall>a \<in> atom_key ` set atoms. level ls a = 0 \<or>
       (\<exists>u. (u, a) \<in> dep_relation atoms ds \<and> Suc (level ls u) = level ls a)))"
proof -
  let ?E = "dep_relation atoms ds"
  have lay: "layered ?E (atom_key ` set atoms) ls"
    using topologicalSort_layered [of atoms ds] by (simp add: ls_def)
  have "acyclic ?E \<longleftrightarrow> (\<forall>(u, v) \<in> ?E. level ls u < level ls v)"
  proof
    assume ac: "acyclic ?E"
    show "\<forall>(u, v) \<in> ?E. level ls u < level ls v"
    proof (intro ballI case_prodI2)
      fix e u v
      assume "e \<in> ?E" "e = (u, v)"
      then have "(u, v) \<in> ?E" by simp
      with layered_ascends [OF lay ac finite_dep_relation this] dep_relation_atoms [OF this]
      show "level ls u < level ls v" by simp
    qed
  qed (rule ascends_acyclic)
  moreover have "\<forall>a \<in> atom_key ` set atoms. level ls a = 0 \<or>
      (\<exists>u. (u, a) \<in> ?E \<and> Suc (level ls u) = level ls a)" if ac: "acyclic ?E"
  proof
    fix a
    assume "a \<in> atom_key ` set atoms"
    from layered_minimal [OF lay ac finite_dep_relation this]
    show "level ls a = 0 \<or> (\<exists>u. (u, a) \<in> ?E \<and> Suc (level ls u) = level ls a)" by (elim disjE bexE) auto
  qed
  moreover have "[] \<notin> set ls" using lay by (rule layered_nonempty)
  moreover have "mset (concat ls) = mset (oset_of (map atom_key atoms))"
    "map layer_index (topologicalSort atoms ds) = [0..<length ls]"
    using topologicalSort_layered [of atoms ds] by (simp_all add: ls_def)
  ultimately show ?thesis by (intro conjI impI)
qed

lemma topologicalSort_exact_witness:
  "level (map layer_atomIds (topologicalSort
     [\<lparr>spec_id = Some ''a'', spec_key = '''', spec_dependencies = [''b''], spec_critical = None\<rparr>,
      \<lparr>spec_id = None, spec_key = ''b'', spec_dependencies = [], spec_critical = None\<rparr>]
     [\<lparr>dep_from = ''b'', dep_to = ''a''\<rparr>])) ''b'' < level (map layer_atomIds (topologicalSort
     [\<lparr>spec_id = Some ''a'', spec_key = '''', spec_dependencies = [''b''], spec_critical = None\<rparr>,
      \<lparr>spec_id = None, spec_key = ''b'', spec_dependencies = [], spec_critical = None\<rparr>]
     [\<lparr>dep_from = ''b'', dep_to = ''a''\<rparr>])) ''a''"
proof -
  let ?atoms = "[\<lparr>spec_id = Some ''a'', spec_key = '''', spec_dependencies = [''b''], spec_critical = None\<rparr>,
      \<lparr>spec_id = None, spec_key = ''b'', spec_dependencies = [], spec_critical = None\<rparr>]"
  let ?ds = "[\<lparr>dep_from = ''b'', dep_to = ''a''\<rparr>]"
  have rel: "dep_relation ?atoms ?ds = {(''b'', ''a'')}"
    by (auto simp: dep_relation_def atom_key_def)
  have "acyclic (dep_relation ?atoms ?ds)"
    unfolding rel by (rule ascends_acyclic [of _ "[[''b''], [''a'']]"]) simp
  with topologicalSort_exact [of ?atoms ?ds] rel show ?thesis by simp
qed

end
