(* ===== verification/Atom_Ledger.thy ===== *)
theory Atom_Ledger
  imports Layer_Dispatch Js_Numbers
begin

text \<open>
  The completion ledger of the synthesis pipeline
  (\<open>workers/ff-pipeline/src/coordinator/completion-ledger.ts\<close>), the dispatch of the first
  layer (\<open>coordinator.ts\<close>, phase 2), and the consumer of the \<open>atom-results\<close> queue
  (\<open>workers/ff-pipeline/src/index.ts\<close>), which records a result, dispatches the atoms that
  became ready and decides the verdict when the ledger is complete.

  The collection \<open>completion_ledgers\<close> is a map from keys to ledgers: \<open>save\<close> and \<open>update\<close> of the
  client are upserts, and an \<open>update\<close> with a whole ledger replaces it. Objects keyed by atom ids
  are association lists in insertion order. What the code passes on unread (the shared context,
  the contents of a code artifact) has the type variable \<open>'w\<close>.
\<close>

section \<open>Data\<close>

datatype atom_decision = Atom_pass | Atom_fail | Atom_patch

record atom_verdict =
  av_decision :: atom_decision
  av_confidence :: rat
  av_reason :: string

record 'w code_artifact =
  ca_files :: "'w list"
  ca_rest :: 'w

record 'w atom_result =
  res_atomId :: string
  res_verdict :: atom_verdict
  codeArtifact :: "'w code_artifact option"
  retryCount :: nat

datatype ledger_phase = Dispatched | Executing | Complete_phase | Failed_phase

record 'w completion_ledger =
  ledger_key :: string
  ledger_workflowId :: string
  totalAtoms :: nat
  completedAtoms :: nat
  atomResults :: "(string \<times> 'w atom_result) list"
  ledger_layers :: "dependency_layer list"
  allAtomSpecs :: "(string \<times> atom_spec) list"
  sharedContext :: 'w
  pendingAtoms :: "string list"
  ledger_phase :: ledger_phase

type_synonym 'w ledger_store = "string \<Rightarrow> 'w completion_ledger option"

record 'w dispatch_msg =
  dm_executableSpecificationId :: string
  dm_workflowId :: string
  dm_atomId :: string
  dm_atomSpec :: "atom_spec option"
  dm_sharedContext :: 'w
  dm_upstreamArtifacts :: "(string \<times> 'w code_artifact) list"
  dm_maxRetries :: nat
  dm_dryRun :: bool

record 'w atoms_complete =
  ac_target :: string
  ac_verdict :: atom_verdict
  ac_tokenUsage :: nat
  ac_repairCount :: nat
  ac_atomResults :: "(string \<times> 'w atom_result) list"
  ac_mergedFiles :: "'w list"

section \<open>Ledger operations\<close>

definition createLedger ::
  "'w ledger_store \<Rightarrow> string \<Rightarrow> string \<Rightarrow> nat \<Rightarrow> dependency_layer list \<Rightarrow> (string \<times> atom_spec) list \<Rightarrow>
     'w \<Rightarrow> 'w ledger_store" where
  "createLedger db es workflow n layers specs ctx =
     (let layer0Atoms = (case layers of [] \<Rightarrow> [] | l # _ \<Rightarrow> layer_atomIds l);
          pending = filter (\<lambda>i. i \<notin> set layer0Atoms) (map fst specs)
      in db(es \<mapsto> \<lparr>ledger_key = es, ledger_workflowId = workflow, totalAtoms = n,
            completedAtoms = 0, atomResults = [], ledger_layers = layers, allAtomSpecs = specs,
            sharedContext = ctx, pendingAtoms = pending, ledger_phase = Dispatched\<rparr>))"

definition record_in_ledger :: "string \<Rightarrow> 'w atom_result \<Rightarrow> 'w completion_ledger \<Rightarrow> 'w completion_ledger" where
  "record_in_ledger atom r l =
     l\<lparr>completedAtoms := completedAtoms l + 1,
       atomResults := AList.update atom r (atomResults l),
       pendingAtoms := filter (\<lambda>i. i \<noteq> atom) (pendingAtoms l),
       ledger_phase := (if completedAtoms l + 1 \<ge> totalAtoms l then Complete_phase else ledger_phase l)\<rparr>"

definition recordAtomResult ::
  "'w ledger_store \<Rightarrow> string \<Rightarrow> string \<Rightarrow> 'w atom_result \<Rightarrow> string + ('w ledger_store \<times> 'w completion_ledger)" where
  "recordAtomResult db es atom r =
     (case db es of
        None \<Rightarrow> Inl (''Completion ledger not found for executableSpecificationId: '' @ es)
      | Some existing \<Rightarrow>
          (let updated = record_in_ledger atom r existing in Inr (db(es \<mapsto> updated), updated)))"

definition deps_of :: "'w completion_ledger \<Rightarrow> string \<Rightarrow> string list" where
  "deps_of l a = (case map_of (allAtomSpecs l) a of Some s \<Rightarrow> spec_dependencies s | None \<Rightarrow> [])"

definition has_result :: "'w completion_ledger \<Rightarrow> string \<Rightarrow> bool" where
  "has_result l a \<longleftrightarrow> a \<in> fst ` set (atomResults l)"

definition getReadyAtoms :: "'w completion_ledger \<Rightarrow> string list" where
  "getReadyAtoms l =
     filter (\<lambda>a. \<not> has_result l a \<and> list_all (has_result l) (deps_of l a)) (pendingAtoms l)"

definition isComplete :: "'w completion_ledger \<Rightarrow> bool" where
  "isComplete l \<longleftrightarrow> completedAtoms l \<ge> totalAtoms l"

section \<open>Dispatch\<close>

fun send_layer0 :: "string \<Rightarrow> string \<Rightarrow> 'w \<Rightarrow> bool \<Rightarrow> (string \<times> atom_spec) list \<Rightarrow> string list \<Rightarrow>
    string + 'w dispatch_msg list" where
  "send_layer0 es workflow ctx dryRun specs [] = Inr []"
| "send_layer0 es workflow ctx dryRun specs (a # as) =
     (case map_of specs a of
        None \<Rightarrow> Inl (''missing atom spec for '' @ a)
      | Some s \<Rightarrow> and_then (send_layer0 es workflow ctx dryRun specs as) (\<lambda>ms.
          Inr (\<lparr>dm_executableSpecificationId = es, dm_workflowId = workflow, dm_atomId = a,
                dm_atomSpec = Some s, dm_sharedContext = ctx, dm_upstreamArtifacts = [],
                dm_maxRetries = 3, dm_dryRun = dryRun\<rparr> # ms)))"

definition phase2_dispatch ::
  "'w ledger_store \<Rightarrow> string \<Rightarrow> string option \<Rightarrow> atom_spec list \<Rightarrow> dep_edge list \<Rightarrow> 'w \<Rightarrow> bool \<Rightarrow>
     string + ('w ledger_store \<times> 'w dispatch_msg list)" where
  "phase2_dispatch db es workflowId atoms ds ctx dryRun =
     (let layers = topologicalSort atoms ds;
          specs = foldl (\<lambda>m a. AList.update (atom_key a) a m) [] atoms;
          workflow = (case workflowId of Some w \<Rightarrow> w | None \<Rightarrow> []);
          db' = createLedger db es workflow (length atoms) layers specs ctx
      in and_then (case layers of [] \<Rightarrow> Inr []
            | layer0 # _ \<Rightarrow> send_layer0 es workflow ctx dryRun specs (layer_atomIds layer0))
          (\<lambda>sent. Inr (db', sent)))"

definition upstream_artifacts :: "'w completion_ledger \<Rightarrow> string \<Rightarrow> (string \<times> 'w code_artifact) list" where
  "upstream_artifacts l a = foldl (\<lambda>m u. case map_of (atomResults l) u of
       Some r \<Rightarrow> (case codeArtifact r of Some c \<Rightarrow> AList.update u c m | None \<Rightarrow> m)
     | None \<Rightarrow> m) [] (deps_of l a)"

definition dispatch_ready :: "string \<Rightarrow> string option \<Rightarrow> 'w completion_ledger \<Rightarrow> string \<Rightarrow> 'w dispatch_msg" where
  "dispatch_ready es workflowId l a =
     \<lparr>dm_executableSpecificationId = es,
      dm_workflowId = (case workflowId of Some w \<Rightarrow> w | None \<Rightarrow> ledger_workflowId l),
      dm_atomId = a, dm_atomSpec = map_of (allAtomSpecs l) a, dm_sharedContext = sharedContext l,
      dm_upstreamArtifacts = upstream_artifacts l a, dm_maxRetries = 3, dm_dryRun = False\<rparr>"

section \<open>The verdict of phase 3\<close>

definition atom_passed :: "'w atom_result \<Rightarrow> bool" where
  "atom_passed r \<longleftrightarrow> av_decision (res_verdict r) = Atom_pass"

definition is_critical :: "'w completion_ledger \<Rightarrow> 'w atom_result \<Rightarrow> bool" where
  "is_critical l r \<longleftrightarrow> (case map_of (allAtomSpecs l) (res_atomId r) of
       Some s \<Rightarrow> spec_critical s \<noteq> Some False | None \<Rightarrow> True)"

definition phase3_verdict :: "'w completion_ledger \<Rightarrow> atom_verdict" where
  "phase3_verdict l =
     (let rs = map snd (atomResults l);
          failed = filter (\<lambda>r. \<not> atom_passed r) rs;
          criticalFailures = filter (is_critical l) failed;
          n = length rs; f = length failed;
          passRate = (if n > 0 then rnd (of_nat (n - f) / of_nat n) else 0)
      in if list_all atom_passed rs
         then \<lparr>av_decision = Atom_pass, av_confidence = lit 95 100,
               av_reason = ''All '' @ dec n @ '' atoms passed''\<rparr>
         else if length criticalFailures > 0
         then \<lparr>av_decision = Atom_fail, av_confidence = lit 9 10,
               av_reason = dec (length criticalFailures) @ '' critical atom(s) failed: '' @
                 join '', '' (map res_atomId criticalFailures)\<rparr>
         else if passRate \<ge> lit 7 10
         then \<lparr>av_decision = Atom_pass, av_confidence = passRate,
               av_reason = dec (n - f) @ ''/'' @ dec n @ '' atoms passed ('' @ dec f @
                 '' non-critical failed: '' @ join '', '' (map res_atomId failed) @ '')''\<rparr>
         else \<lparr>av_decision = Atom_fail, av_confidence = lit 8 10,
               av_reason = dec f @ ''/'' @ dec n @ '' atoms failed: '' @
                 join '', '' (map res_atomId failed)\<rparr>)"

text \<open>
  The event for the workflow; an empty workflow id is falsy, and then nobody is told. The
  payload falls back to another queue when the event cannot be sent, with the same verdict.
\<close>

definition phase3 :: "string option \<Rightarrow> 'w completion_ledger \<Rightarrow> 'w atoms_complete option" where
  "phase3 workflowId l =
     (let target = (case workflowId of Some w \<Rightarrow> w | None \<Rightarrow> ledger_workflowId l);
          rs = map snd (atomResults l)
      in if target = [] then None
         else Some \<lparr>ac_target = target, ac_verdict = phase3_verdict l, ac_tokenUsage = 0,
           ac_repairCount = sum_list (map retryCount rs), ac_atomResults = atomResults l,
           ac_mergedFiles = concat (map (\<lambda>r. case codeArtifact r of Some c \<Rightarrow> ca_files c | None \<Rightarrow> []) rs)\<rparr>)"

text \<open>The consumer of \<open>atom-results\<close>; \<open>hasQueue\<close> says whether \<open>SYNTHESIS_QUEUE\<close> is bound.\<close>

definition consume_result ::
  "bool \<Rightarrow> 'w ledger_store \<Rightarrow> string \<Rightarrow> string \<Rightarrow> 'w atom_result \<Rightarrow> string option \<Rightarrow>
     string + ('w ledger_store \<times> 'w dispatch_msg list \<times> 'w atoms_complete option)" where
  "consume_result hasQueue db es atom r workflowId =
     and_then (recordAtomResult db es atom r) (\<lambda>(db', l).
       Inr (db', (if hasQueue then map (dispatch_ready es workflowId l) (getReadyAtoms l) else []),
            (if isComplete l then phase3 workflowId l else None)))"

section \<open>A sequence of deliveries\<close>

fun record_all ::
  "'w ledger_store \<Rightarrow> string \<Rightarrow> (string \<times> 'w atom_result) list \<Rightarrow> string + 'w ledger_store" where
  "record_all db es [] = Inr db"
| "record_all db es ((a, r) # ds) =
     and_then (recordAtomResult db es a r) (\<lambda>(db', _). record_all db' es ds)"

lemma record_in_ledger_simps [simp]:
  "completedAtoms (record_in_ledger a r l) = Suc (completedAtoms l)"
  "atomResults (record_in_ledger a r l) = AList.update a r (atomResults l)"
  "pendingAtoms (record_in_ledger a r l) = filter (\<lambda>i. i \<noteq> a) (pendingAtoms l)"
  "totalAtoms (record_in_ledger a r l) = totalAtoms l"
  "allAtomSpecs (record_in_ledger a r l) = allAtomSpecs l"
  "sharedContext (record_in_ledger a r l) = sharedContext l"
  "ledger_phase (record_in_ledger a r l) =
     (if totalAtoms l \<le> Suc (completedAtoms l) then Complete_phase else ledger_phase l)"
  by (simp_all add: record_in_ledger_def)

lemma record_in_ledger_frame [simp]:
  "deps_of (record_in_ledger a r l) = deps_of l"
  "has_result (record_in_ledger a r l) b \<longleftrightarrow> b = a \<or> has_result l b"
  by (auto simp: deps_of_def has_result_def fst_update_subset fun_eq_iff)

lemma recordAtomResult_Some:
  "db es = Some l \<Longrightarrow>
     recordAtomResult db es a r = Inr (db(es \<mapsto> record_in_ledger a r l), record_in_ledger a r l)"
  by (simp add: recordAtomResult_def Let_def)

lemma recordAtomResult_Inr:
  "recordAtomResult db es a r = Inr (db', l') \<longleftrightarrow>
     (\<exists>l. db es = Some l \<and> l' = record_in_ledger a r l \<and> db' = db(es \<mapsto> l'))"
  by (auto simp: recordAtomResult_def Let_def split: option.splits)

lemma record_all_Some:
  "db es = Some l \<Longrightarrow>
     record_all db es ds = Inr (db(es \<mapsto> foldl (\<lambda>l (a, r). record_in_ledger a r l) l ds))"
proof (induction ds arbitrary: db l)
  case Nil
  then show ?case by (auto simp: fun_eq_iff)
next
  case (Cons d ds)
  obtain a r where d: "d = (a, r)" by force
  have "record_all (db(es \<mapsto> record_in_ledger a r l)) es ds = Inr (db(es \<mapsto> record_in_ledger a r l,
      es \<mapsto> foldl (\<lambda>l (a, r). record_in_ledger a r l) (record_in_ledger a r l) ds))"
    by (rule Cons.IH) simp
  then show ?case by (simp only: d record_all.simps recordAtomResult_Some [where db = db, OF Cons.prems] and_then.simps
      prod.case fun_upd_upd foldl.simps)
qed

text \<open>What any sequence of deliveries makes of a ledger.\<close>

lemma foldl_record:
  fixes ds :: "(string \<times> 'w atom_result) list"
  defines "rec \<equiv> foldl (\<lambda>l (a, r). record_in_ledger a r l)"
  shows "completedAtoms (rec l ds) = completedAtoms l + length ds \<and>
    totalAtoms (rec l ds) = totalAtoms l \<and> allAtomSpecs (rec l ds) = allAtomSpecs l \<and>
    pendingAtoms (rec l ds) = filter (\<lambda>i. i \<notin> fst ` set ds) (pendingAtoms l) \<and>
    map_of (atomResults (rec l ds)) = map_of (rev ds @ atomResults l) \<and>
    ledger_phase (rec l ds) =
      (if ds \<noteq> [] \<and> totalAtoms l \<le> completedAtoms l + length ds then Complete_phase else ledger_phase l)"
  unfolding rec_def
proof (induction ds arbitrary: l)
  case Nil
  then show ?case by simp
next
  case (Cons d ds)
  obtain a r where d: "d = (a, r)" by force
  have "filter (\<lambda>i. i \<notin> fst ` set ds) (filter (\<lambda>i. i \<noteq> a) (pendingAtoms l)) =
      filter (\<lambda>i. i \<notin> fst ` set (d # ds)) (pendingAtoms l)"
    by (auto simp: d intro: filter_cong)
  then show ?case using Cons.IH [of "record_in_ledger a r l"]
    by (simp add: d update_conv' fun_eq_iff map_add_def)
qed

section \<open>The first layer\<close>

lemma send_layer0_ok:
  "set as \<subseteq> fst ` set specs \<Longrightarrow>
     \<exists>ms. send_layer0 es w ctx dry specs as = Inr ms \<and> map dm_atomId ms = as"
proof (induction as)
  case Nil
  then show ?case by simp
next
  case (Cons a as)
  then obtain s ms where "map_of specs a = Some s" "send_layer0 es w ctx dry specs as = Inr ms"
    "map dm_atomId ms = as"
    using in_dom_map_of [of a specs] by auto
  then show ?case by simp
qed

lemma atom_specs_list:
  "distinct (map atom_key atoms) \<Longrightarrow>
     foldl (\<lambda>m a. AList.update (atom_key a) a m) [] atoms = map (\<lambda>a. (atom_key a, a)) atoms"
  using foldl_update_distinct [of atom_key atoms "[]"] by simp

lemma first_layer_atoms:
  "topologicalSort atoms ds = layer0 # rest \<Longrightarrow> set (layer_atomIds layer0) \<subseteq> atom_key ` set atoms"
proof -
  assume t: "topologicalSort atoms ds = layer0 # rest"
  have "mset (concat (map layer_atomIds (topologicalSort atoms ds))) = mset (oset_of (map atom_key atoms))"
    using topologicalSort_layered [of atoms ds] by simp
  then have "set (concat (map layer_atomIds (topologicalSort atoms ds))) = atom_key ` set atoms"
    by (metis set_mset_mset set_oset_of image_set)
  with t show ?thesis by auto
qed

definition layer0_atoms :: "atom_spec list \<Rightarrow> dep_edge list \<Rightarrow> string list" where
  "layer0_atoms atoms ds = (case topologicalSort atoms ds of [] \<Rightarrow> [] | l # _ \<Rightarrow> layer_atomIds l)"

lemma layer0_atoms_Cons:
  "a \<in> set (layer0_atoms atoms ds) \<Longrightarrow>
     \<exists>layer0 rest. topologicalSort atoms ds = layer0 # rest \<and> a \<in> set (layer_atomIds layer0)"
  by (cases "topologicalSort atoms ds") (simp_all add: layer0_atoms_def)

lemma phase2_dispatch_ok:
  assumes "distinct (map atom_key atoms)"
  shows "\<exists>db' sent l. phase2_dispatch db es w atoms ds ctx dry = Inr (db', sent) \<and> db' es = Some l \<and>
    map dm_atomId sent = layer0_atoms atoms ds \<and> totalAtoms l = length atoms \<and> completedAtoms l = 0 \<and>
    atomResults l = [] \<and> allAtomSpecs l = map (\<lambda>a. (atom_key a, a)) atoms \<and>
    pendingAtoms l = filter (\<lambda>i. i \<notin> set (layer0_atoms atoms ds)) (map atom_key atoms) \<and>
    ledger_phase l = Dispatched"
proof (cases "topologicalSort atoms ds")
  case Nil
  then show ?thesis
    by (simp add: phase2_dispatch_def createLedger_def Let_def atom_specs_list [OF assms] comp_def
        layer0_atoms_def)
next
  case (Cons layer0 rest)
  from first_layer_atoms [OF this]
  have "set (layer_atomIds layer0) \<subseteq> fst ` set (map (\<lambda>a. (atom_key a, a)) atoms)"
    by (simp add: image_image)
  from send_layer0_ok [OF this, of es "case w of Some w \<Rightarrow> w | None \<Rightarrow> []" ctx dry] obtain ms where
    "send_layer0 es (case w of Some w \<Rightarrow> w | None \<Rightarrow> []) ctx dry (map (\<lambda>a. (atom_key a, a)) atoms)
       (layer_atomIds layer0) = Inr ms" "map dm_atomId ms = layer_atomIds layer0" by blast
  with Cons show ?thesis
    by (simp add: phase2_dispatch_def createLedger_def Let_def atom_specs_list [OF assms] comp_def
        layer0_atoms_def)
qed

lemma phase2_ledger:
  assumes "distinct (map atom_key atoms)" "phase2_dispatch db es w atoms ds ctx dry = Inr (db', sent)"
  obtains l where "db' es = Some l" "map dm_atomId sent = layer0_atoms atoms ds"
    "totalAtoms l = length atoms" "completedAtoms l = 0" "atomResults l = []"
    "allAtomSpecs l = map (\<lambda>a. (atom_key a, a)) atoms"
    "pendingAtoms l = filter (\<lambda>i. i \<notin> set (layer0_atoms atoms ds)) (map atom_key atoms)"
    "ledger_phase l = Dispatched"
  using phase2_dispatch_ok [OF assms(1), of db es w ds ctx dry] assms(2) that by auto

section \<open>Properties\<close>

text \<open>
  C39. The ledger counts deliveries, not atoms. After any sequence of deliveries of atom results
  it holds the last result of every delivered atom and waits for the others; it is complete, and
  its phase says so, exactly when as many results were delivered as there are atoms. So at the
  moment it becomes complete every atom has a result exactly if none was delivered twice: a
  repeated delivery completes the ledger while an atom is still missing.
\<close>

theorem ledger_counts_deliveries:
  assumes plan: "distinct (map atom_key atoms)" "atoms \<noteq> []"
      "phase2_dispatch db es w atoms edges ctx dry = Inr (db0, sent)"
    and ds: "fst ` set ds \<subseteq> atom_key ` set atoms"
  shows "\<exists>db' l. record_all db0 es ds = Inr db' \<and> db' es = Some l \<and>
    completedAtoms l = length ds \<and> map_of (atomResults l) = map_of (rev ds) \<and>
    pendingAtoms l = filter (\<lambda>a. a \<notin> fst ` set ds \<and> a \<notin> set (layer0_atoms atoms edges))
      (map atom_key atoms) \<and>
    (isComplete l \<longleftrightarrow> length atoms \<le> length ds) \<and> (ledger_phase l = Complete_phase \<longleftrightarrow> isComplete l) \<and>
    (length ds = length atoms \<longrightarrow>
       ((\<forall>a \<in> set atoms. map_of (atomResults l) (atom_key a) \<noteq> None) \<longleftrightarrow> distinct (map fst ds)))"
proof -
  from plan(1,3) obtain l0 where l0: "db0 es = Some l0" "map dm_atomId sent = layer0_atoms atoms edges"
    "totalAtoms l0 = length atoms" "completedAtoms l0 = 0" "atomResults l0 = []"
    "allAtomSpecs l0 = map (\<lambda>a. (atom_key a, a)) atoms"
    "pendingAtoms l0 = filter (\<lambda>i. i \<notin> set (layer0_atoms atoms edges)) (map atom_key atoms)"
    "ledger_phase l0 = Dispatched" by (rule phase2_ledger)
  define l where "l = foldl (\<lambda>l (a, r). record_in_ledger a r l) l0 ds"
  have run: "record_all db0 es ds = Inr (db0(es \<mapsto> l))"
    using record_all_Some [of db0 es l0 ds] l0(1) by (simp add: l_def)
  note facts = foldl_record [where l = l0 and ds = ds, folded l_def]
  have results: "map_of (atomResults l) = map_of (rev ds)" using facts l0 by simp
  have every: "(\<forall>a \<in> set atoms. map_of (atomResults l) (atom_key a) \<noteq> None) \<longleftrightarrow>
      atom_key ` set atoms \<subseteq> fst ` set ds"
    by (auto simp: results map_of_eq_None_iff)
  have "atom_key ` set atoms \<subseteq> fst ` set ds \<longleftrightarrow> distinct (map fst ds)" if len: "length ds = length atoms"
  proof -
    have card: "card (atom_key ` set atoms) = length ds"
      using distinct_card [OF plan(1)] len by simp
    show ?thesis
    proof
      assume "atom_key ` set atoms \<subseteq> fst ` set ds"
      with ds have "fst ` set ds = atom_key ` set atoms" by simp
      with card show "distinct (map fst ds)" by (intro card_distinct) simp
    next
      assume "distinct (map fst ds)"
      then have "card (fst ` set ds) = length ds" using distinct_card by fastforce
      with card ds show "atom_key ` set atoms \<subseteq> fst ` set ds"
        by (metis card_subset_eq finite_imageI List.finite_set order_refl)
    qed
  qed
  with every have exact: "length ds = length atoms \<longrightarrow>
      ((\<forall>a \<in> set atoms. map_of (atomResults l) (atom_key a) \<noteq> None) \<longleftrightarrow> distinct (map fst ds))"
    by blast
  have complete: "isComplete l \<longleftrightarrow> length atoms \<le> length ds" using facts l0 by (simp add: isComplete_def)
  moreover have "ledger_phase l = Complete_phase \<longleftrightarrow> length atoms \<le> length ds"
    using facts l0 plan(2) by auto
  ultimately have phase: "ledger_phase l = Complete_phase \<longleftrightarrow> isComplete l" by simp
  have "pendingAtoms l = filter (\<lambda>a. a \<notin> fst ` set ds \<and> a \<notin> set (layer0_atoms atoms edges))
      (map atom_key atoms)" using facts l0 by (simp add: conj_commute)
  moreover have "completedAtoms l = length ds" using facts l0 by simp
  ultimately have "record_all db0 es ds = Inr (db0(es \<mapsto> l)) \<and> (db0(es \<mapsto> l)) es = Some l \<and>
    completedAtoms l = length ds \<and> map_of (atomResults l) = map_of (rev ds) \<and>
    pendingAtoms l = filter (\<lambda>a. a \<notin> fst ` set ds \<and> a \<notin> set (layer0_atoms atoms edges))
      (map atom_key atoms) \<and>
    (isComplete l \<longleftrightarrow> length atoms \<le> length ds) \<and> (ledger_phase l = Complete_phase \<longleftrightarrow> isComplete l) \<and>
    (length ds = length atoms \<longrightarrow>
       ((\<forall>a \<in> set atoms. map_of (atomResults l) (atom_key a) \<noteq> None) \<longleftrightarrow> distinct (map fst ds)))"
    using run results complete phase exact by (intro conjI fun_upd_same)
  then show ?thesis by blast
qed

definition atom_a :: atom_spec where
  "atom_a = \<lparr>spec_id = Some ''a'', spec_key = [], spec_dependencies = [], spec_critical = None\<rparr>"

definition atom_b :: atom_spec where
  "atom_b = \<lparr>spec_id = Some ''b'', spec_key = [], spec_dependencies = [''a''], spec_critical = None\<rparr>"

definition passing :: "string \<Rightarrow> unit atom_result" where
  "passing a = \<lparr>res_atomId = a,
     res_verdict = \<lparr>av_decision = Atom_pass, av_confidence = 1, av_reason = ''ok''\<rparr>,
     codeArtifact = None, retryCount = 0\<rparr>"

text \<open>The result of atom \<open>a\<close>, delivered twice, completes a ledger of two atoms.\<close>

lemma ledger_counts_deliveries_witness:
  "\<exists>db0 sent db' l. phase2_dispatch Map.empty ''ES-A'' None [atom_a, atom_b]
       [\<lparr>dep_from = ''a'', dep_to = ''b''\<rparr>] () False = Inr (db0, sent) \<and>
     record_all db0 ''ES-A'' [(''a'', passing ''a''), (''a'', passing ''a'')] = Inr db' \<and>
     db' ''ES-A'' = Some l \<and> isComplete l \<and> map_of (atomResults l) ''b'' = None"
proof -
  let ?ds = "[(''a'', passing ''a''), (''a'', passing ''a'')]"
  have keys: "map atom_key [atom_a, atom_b] = [''a'', ''b'']"
    by (simp add: atom_key_def atom_a_def atom_b_def)
  then have d: "distinct (map atom_key [atom_a, atom_b])" by simp
  obtain db0 sent where p: "phase2_dispatch Map.empty ''ES-A'' None [atom_a, atom_b]
      [\<lparr>dep_from = ''a'', dep_to = ''b''\<rparr>] () False = Inr (db0, sent)"
    using phase2_dispatch_ok [OF d, of Map.empty "''ES-A''" None "[\<lparr>dep_from = ''a'', dep_to = ''b''\<rparr>]" "()" False]
    by (elim exE conjE)
  have "fst ` set ?ds \<subseteq> atom_key ` set [atom_a, atom_b]" using keys by auto
  from ledger_counts_deliveries [OF d _ p this] p show ?thesis by auto
qed

end
