(* ===== verification/Atom_Synthesis.thy ===== *)
theory Atom_Synthesis
  imports Atom_Ledger
begin

text \<open>
  The synthesis of the atoms of one Executable Specification as a step relation: the two queues
  of \<open>workers/ff-pipeline/src/index.ts\<close>, the per-atom Durable Object \<open>AtomExecutor\<close>
  (\<open>coordinator/atom-executor-do.ts\<close>) and the completion ledger. The pipeline of agents inside
  an executor may return any result. Deliveries are at least once, as the handlers of
  \<open>index.ts\<close> have it: a message stays in its queue until it is acknowledged, a handler that
  throws after its first effects runs again, and a publication may be lost.
\<close>

section \<open>Executors\<close>

text \<open>
  The storage of an executor (\<open>atomResult\<close>, \<open>__completed\<close>, the alarm) and the number of calls
  of \<open>handleExecuteAtom\<close> that are under way: a second call may enter while the first awaits.
\<close>

record 'w executor =
  cached :: "'w atom_result option"
  completed_flag :: bool
  alarm_set :: bool
  running :: nat


definition begin_run :: "'w executor \<Rightarrow> 'w executor" where
  "begin_run e = e\<lparr>completed_flag := False, alarm_set := True, running := running e + 1\<rparr>"

definition finish_run :: "'w atom_result \<Rightarrow> 'w executor \<Rightarrow> 'w executor" where
  "finish_run r e = e\<lparr>cached := Some r, completed_flag := True, alarm_set := False, running := running e - 1\<rparr>"

definition fail_preflight :: "'w atom_result \<Rightarrow> 'w executor \<Rightarrow> 'w executor" where
  "fail_preflight r e = e\<lparr>cached := Some r, completed_flag := True\<rparr>"

definition fire_alarm :: "'w atom_result \<Rightarrow> 'w executor \<Rightarrow> 'w executor" where
  "fire_alarm r e = (if completed_flag e then e\<lparr>alarm_set := False\<rparr>
     else e\<lparr>cached := Some r, completed_flag := True, alarm_set := False\<rparr>)"

definition failure :: "string \<Rightarrow> string \<Rightarrow> 'w atom_result" where
  "failure a why = \<lparr>res_atomId = a,
     res_verdict = \<lparr>av_decision = Atom_fail, av_confidence = 1, av_reason = why\<rparr>,
     codeArtifact = None, retryCount = 0\<rparr>"

definition timeout_result :: "string \<Rightarrow> 'w atom_result" where
  "timeout_result a = failure a (''AtomExecutor alarm: atom '' @ a @ '' exceeded 900s wall-clock deadline'')"

section \<open>The system\<close>

record 'w synthesis =
  store :: "'w ledger_store"
  dispatchQ :: "string list"
  execs :: "string \<Rightarrow> 'w executor"
  resultQ :: "(string \<times> 'w atom_result) list"
  announced :: "'w atoms_complete list"


text \<open>
  A publication reaches the queue or is lost (\<open>publishResult\<close> only logs the failure). The rule
  \<open>consume_retry\<close> is a handler that throws after it has updated the ledger, at the \<open>send\<close> of a
  ready atom or of the verdict: the first atoms have been dispatched, and the message stays. The
  executors are those of this specification alone, and start without a cached result.
\<close>

definition published :: "string \<Rightarrow> 'w atom_result \<Rightarrow> (string \<times> 'w atom_result) list \<Rightarrow> bool" where
  "published a r ms \<longleftrightarrow> ms = [] \<or> ms = [(a, r)]"

inductive synth_step :: "string \<Rightarrow> string option \<Rightarrow> 'w synthesis \<Rightarrow> 'w synthesis \<Rightarrow> bool"
  for es :: string and w :: "string option" where
  execute: "a \<in> set (dispatchQ s) \<Longrightarrow> cached (execs s a) = None \<Longrightarrow>
     synth_step es w s (s\<lparr>execs := (execs s)(a := begin_run (execs s a))\<rparr>)"
| preflight: "a \<in> set (dispatchQ s) \<Longrightarrow> cached (execs s a) = None \<Longrightarrow> published a (failure a why) ms \<Longrightarrow>
     synth_step es w s (s\<lparr>execs := (execs s)(a := fail_preflight (failure a why) (execs s a)),
       resultQ := resultQ s @ ms\<rparr>)"
| finish: "0 < running (execs s a) \<Longrightarrow> res_atomId r = a \<Longrightarrow> published a r ms \<Longrightarrow>
     synth_step es w s (s\<lparr>execs := (execs s)(a := finish_run r (execs s a)), resultQ := resultQ s @ ms\<rparr>)"
| alarm: "alarm_set (execs s a) \<Longrightarrow>
     (if completed_flag (execs s a) then ms = [] else published a (timeout_result a) ms) \<Longrightarrow>
     synth_step es w s (s\<lparr>execs := (execs s)(a := fire_alarm (timeout_result a) (execs s a)),
       resultQ := resultQ s @ ms\<rparr>)"
| acknowledge: "dispatchQ s = xs @ a # ys \<Longrightarrow> synth_step es w s (s\<lparr>dispatchQ := xs @ ys\<rparr>)"
| give_up: "dispatchQ s = xs @ a # ys \<Longrightarrow> published a (failure a why) ms \<Longrightarrow>
     synth_step es w s (s\<lparr>dispatchQ := xs @ ys, resultQ := resultQ s @ ms\<rparr>)"
| consume: "resultQ s = xs @ (a, r) # ys \<Longrightarrow>
     consume_result True (store s) es a r w = Inr (db', sent, fin) \<Longrightarrow>
     synth_step es w s (s\<lparr>store := db', dispatchQ := dispatchQ s @ map dm_atomId sent,
       resultQ := xs @ ys, announced := announced s @ (case fin of None \<Rightarrow> [] | Some v \<Rightarrow> [v])\<rparr>)"
| consume_retry: "(a, r) \<in> set (resultQ s) \<Longrightarrow>
     consume_result True (store s) es a r w = Inr (db', sent, fin) \<Longrightarrow> k \<le> length sent \<Longrightarrow>
     synth_step es w s (s\<lparr>store := db', dispatchQ := dispatchQ s @ map dm_atomId (take k sent)\<rparr>)"
| drop_result: "resultQ s = xs @ m # ys \<Longrightarrow> synth_step es w s (s\<lparr>resultQ := xs @ ys\<rparr>)"

inductive_cases synth_stepE: "synth_step es w s t"

section \<open>The invariant\<close>

















section \<open>Properties\<close>







end
