(* ===== verification/Run_Coordinator.thy ===== *)
theory Run_Coordinator
  imports Factory_Prelude "HOL-Library.AList"
begin

text \<open>
  The Durable Object that drives one harness run
  (\<open>workers/ff-pipeline/src/coordinator/run-coordinator.ts\<close>): its storage, its handlers and its
  alarm. The harness runtime is third-party: the compiled harness is of a type \<open>'c\<close>, the part of a
  harness state that the coordinator does not read of a type \<open>'x\<close>, and \<open>advanceHarness\<close> a
  parameter. A queue send and a workflow notification may reject; a step is told which do. Events
  of the run log are best effort and never throw (\<open>RunEventLog.emit\<close> catches everything), so they
  are output only.
\<close>

section \<open>State\<close>

record 'x harness_state =
  hs_runId :: string
  hs_currentStage :: string
  hs_status :: string
  hs_stageAttempts :: "(string \<times> nat) list"
  hs_rest :: 'x

record harness_result =
  hres_overall :: string
  hres_finalStage :: string
  hres_reason :: "string option"
  hres_failureClass :: "string option"

record gate_result =
  gr_gateName :: string
  gr_passed :: bool
  gr_failureClass :: "string option"
  gr_detail :: "string option"

record stage_result =
  sres_stageName :: string
  sres_createdArtifacts :: "string list"
  sres_message :: "string option"
  sres_gateResults :: "gate_result list"

text \<open>The variants of a harness advance; each carries the new state.\<close>

datatype 'x harness_advance =
  Adv_dispatch "'x harness_state" string
| Adv_retry "'x harness_state" string
| Adv_return "'x harness_state" string
| Adv_complete "'x harness_state" harness_result
| Adv_fail "'x harness_state" harness_result

record queue_message =
  qm_runId :: string
  qm_stageName :: string
  qm_attempt :: nat

record run_event =
  ev_runId :: string
  ev_workflowId :: "string option"
  ev_stage :: string
  ev_attempt :: "nat option"
  ev_type :: string
  ev_data :: "(string \<times> string) list"
  ev_error :: "string option"

record operator_record =
  or_runId :: string
  or_stageName :: string
  or_action :: string
  or_attempt :: nat
  or_enqueuedAt :: string

text \<open>The keys of the storage, the alarm, and what has been sent out.\<close>

record ('c, 'x) coordinator =
  co_compiled :: "'c option"
  co_state :: "'x harness_state option"
  co_workflowId :: "string option"
  co_taskText :: "string option"
  co_result :: "harness_result option"
  co_dispatched :: bool
  co_notifyAttempts :: "nat option"
  co_abandoned :: "string option"
  co_operator :: "(string \<times> operator_record) list"
  co_alarm :: "nat option"
  co_queue :: "queue_message list"
  co_events :: "run_event list"
  co_notified :: "harness_result list"

definition NOTIFY_RETRY_DELAY_MS :: nat where
  "NOTIFY_RETRY_DELAY_MS = 30000"

definition MAX_NOTIFY_ATTEMPTS :: nat where
  "MAX_NOTIFY_ATTEMPTS = 100"

text \<open>
  What the services do in a step: whether a queue send resolves, the message with which the
  notification of the workflow rejects, if it does, and the clock.
\<close>

record services =
  sv_send :: "string option"
  sv_notify :: "string option"
  sv_date :: string
  sv_millis :: nat

record ('c, 'x) runtime =
  rt_advance :: "'c \<Rightarrow> 'x harness_state \<Rightarrow> stage_result \<Rightarrow> string + 'x harness_advance"
  rt_hasStage :: "'c \<Rightarrow> string \<Rightarrow> bool"

text \<open>A response: its status and its \<open>action\<close>, or the error.\<close>

datatype response = Response nat string | Failure nat string

definition emit_event :: "run_event \<Rightarrow> ('c, 'x) coordinator \<Rightarrow> ('c, 'x) coordinator" where
  "emit_event e s = s\<lparr>co_events := co_events s @ [e]\<rparr>"

definition send_message :: "queue_message \<Rightarrow> ('c, 'x) coordinator \<Rightarrow> ('c, 'x) coordinator" where
  "send_message m s = s\<lparr>co_queue := co_queue s @ [m]\<rparr>"

section \<open>Notification of the workflow\<close>

definition permanentlyAbandonWorkflowNotification ::
  "services \<Rightarrow> string \<Rightarrow> harness_result \<Rightarrow> string \<Rightarrow> nat \<Rightarrow> string \<Rightarrow> ('c, 'x) coordinator \<Rightarrow> ('c, 'x) coordinator" where
  "permanentlyAbandonWorkflowNotification sv runId result workflowId attempts message s =
     (if co_abandoned s \<noteq> None then s
      else emit_event
        \<lparr>ev_runId = runId, ev_workflowId = None, ev_stage = hres_finalStage result, ev_attempt = None,
         ev_type = ''workflow_notify_failed'',
         ev_data = [(''workflowId'', workflowId), (''attempts'', dec attempts),
           (''failureClass'', ''infrastructure_error''), (''permanentlyAbandoned'', ''true'')],
         ev_error = Some message\<rparr>
        (s\<lparr>co_abandoned := Some (sv_date sv)\<rparr>))"

definition notifyWorkflowComplete ::
  "services \<Rightarrow> string \<Rightarrow> harness_result \<Rightarrow> ('c, 'x) coordinator \<Rightarrow> ('c, 'x) coordinator" where
  "notifyWorkflowComplete sv runId result s =
     (case co_workflowId s of
        None \<Rightarrow> s
      | Some workflowId \<Rightarrow>
          (case sv_notify sv of
             None \<Rightarrow>
               (emit_event
                 \<lparr>ev_runId = runId, ev_workflowId = None, ev_stage = hres_finalStage result, ev_attempt = None,
                  ev_type = ''workflow_notified'',
                  ev_data = [(''workflowId'', workflowId), (''overall'', hres_overall result)], ev_error = None\<rparr>
                 (s\<lparr>co_notified := co_notified s @ [result]\<rparr>))\<lparr>co_notifyAttempts := None, co_alarm := None\<rparr>
           | Some message \<Rightarrow>
               (let nextAttempts = (case co_notifyAttempts s of None \<Rightarrow> 0 | Some n \<Rightarrow> n) + 1;
                    s1 = s\<lparr>co_notifyAttempts := Some nextAttempts\<rparr>
                in if MAX_NOTIFY_ATTEMPTS \<le> nextAttempts then
                     permanentlyAbandonWorkflowNotification sv runId result workflowId nextAttempts message
                       (s1\<lparr>co_alarm := None\<rparr>)
                   else
                     emit_event
                       \<lparr>ev_runId = runId, ev_workflowId = None, ev_stage = hres_finalStage result, ev_attempt = None,
                        ev_type = ''workflow_notify_failed'',
                        ev_data = [(''workflowId'', workflowId), (''attempts'', dec nextAttempts),
                          (''failureClass'', ''infrastructure_error'')],
                        ev_error = Some message\<rparr>
                       (s1\<lparr>co_alarm := Some (sv_millis sv + NOTIFY_RETRY_DELAY_MS)\<rparr>))))"

definition run_id_of :: "('c, 'x) coordinator \<Rightarrow> string" where
  "run_id_of s = (case co_state s of None \<Rightarrow> ''unknown'' | Some st \<Rightarrow> hs_runId st)"

text \<open>The runtime clears the alarm before it calls the handler.\<close>

definition handle_alarm :: "services \<Rightarrow> ('c, 'x) coordinator \<Rightarrow> ('c, 'x) coordinator" where
  "handle_alarm sv s0 =
     (let s = s0\<lparr>co_alarm := None\<rparr> in
      case co_result s of
        None \<Rightarrow> s
      | Some result \<Rightarrow>
          (let attempts = (case co_notifyAttempts s of None \<Rightarrow> 0 | Some n \<Rightarrow> n)
           in if MAX_NOTIFY_ATTEMPTS \<le> attempts then
                permanentlyAbandonWorkflowNotification sv (run_id_of s) result
                  (case co_workflowId s of None \<Rightarrow> ''unknown'' | Some w \<Rightarrow> w) attempts
                  ''maximum harness-complete notification attempts exhausted'' s
              else notifyWorkflowComplete sv (run_id_of s) result s))"

section \<open>The handlers\<close>

text \<open>Missing and empty fields of a payload are falsy, so an absent one is \<open>None\<close> or empty.\<close>

record ('c, 'x) init_payload =
  ip_compiled :: "'c option"
  ip_initialState :: "'x harness_state option"
  ip_workflowId :: string
  ip_taskText :: "string option"

definition handleInit ::
  "services \<Rightarrow> ('c, 'x) init_payload \<Rightarrow> ('c, 'x) coordinator \<Rightarrow> ('c, 'x) coordinator \<times> response" where
  "handleInit sv p s =
     (case (ip_compiled p, ip_initialState p, ip_taskText p) of
        (Some compiled, Some initial, Some taskText) \<Rightarrow>
          if ip_workflowId p = [] then (s, Failure 400 ''missing compiled, initialState, workflowId, or taskText'')
          else if co_state s \<noteq> None \<and> co_dispatched s then (s, Response 200 ''replayed'')
          else
            (let s1 = s\<lparr>co_compiled := Some compiled, co_state := Some initial,
                   co_workflowId := Some (ip_workflowId p), co_taskText := Some taskText\<rparr>
             in case sv_send sv of
               Some message \<Rightarrow> (s1, Failure 500 message)
             | None \<Rightarrow>
                 (let s2 = send_message
                        \<lparr>qm_runId = hs_runId initial, qm_stageName = hs_currentStage initial, qm_attempt = 1\<rparr> s1;
                      s3 = emit_event
                        \<lparr>ev_runId = hs_runId initial, ev_workflowId = Some (ip_workflowId p),
                         ev_stage = hs_currentStage initial, ev_attempt = Some 1, ev_type = ''stage_dispatched'',
                         ev_data = [(''action'', ''init'')], ev_error = None\<rparr> s2
                  in (s3\<lparr>co_dispatched := True\<rparr>,
                      Response 200 (if co_state s \<noteq> None then ''resumed'' else ''initialised''))))
      | _ \<Rightarrow> (s, Failure 400 ''missing compiled, initialState, workflowId, or taskText''))"

definition handleGetCompiled :: "('c, 'x) coordinator \<Rightarrow> response" where
  "handleGetCompiled s =
     (if co_compiled s = None \<or> co_state s = None then Failure 404 ''run not initialised''
      else Response 200 ''compiled'')"

record stage_complete_payload =
  sp_stageName :: string
  sp_createdArtifacts :: "string list"
  sp_message :: "string option"
  sp_gateResults :: "gate_result list"
  sp_workerThrew :: "(string \<times> string option) option"

definition nonempty_text :: "string option \<Rightarrow> string option" where
  "nonempty_text t = (if t = Some [] then None else t)"

definition stage_result_of :: "stage_complete_payload \<Rightarrow> stage_result" where
  "stage_result_of p =
     (let gates = map (\<lambda>g. g\<lparr>gr_failureClass := nonempty_text (gr_failureClass g),
            gr_detail := nonempty_text (gr_detail g)\<rparr>) (sp_gateResults p)
      in \<lparr>sres_stageName = sp_stageName p, sres_createdArtifacts = sp_createdArtifacts p,
          sres_message = nonempty_text (sp_message p),
          sres_gateResults =
            (case sp_workerThrew p of
               None \<Rightarrow> gates
             | Some (message, failureClass) \<Rightarrow>
                 \<lparr>gr_gateName = ''worker_executed'', gr_passed = False, gr_failureClass = nonempty_text failureClass,
                  gr_detail = Some (''worker threw: '' @ message)\<rparr> # gates)\<rparr>)"

definition inferAttemptNumber :: "'x harness_state \<Rightarrow> string \<Rightarrow> nat" where
  "inferAttemptNumber st stage =
     (case map_of (hs_stageAttempts st) stage of None \<Rightarrow> 1 | Some n \<Rightarrow> max 1 n)"

text \<open>The new state is stored first; then the next stage is sent, or the result stored and reported.\<close>

definition dispatch_next ::
  "services \<Rightarrow> string \<Rightarrow> string \<Rightarrow> 'x harness_state \<Rightarrow> string \<Rightarrow> ('c, 'x) coordinator \<Rightarrow>
     ('c, 'x) coordinator \<times> response" where
  "dispatch_next sv action fromStage st stage s =
     (case sv_send sv of
        Some message \<Rightarrow> (s, Failure 500 message)
      | None \<Rightarrow>
          (let n = inferAttemptNumber st stage in
           (emit_event
              \<lparr>ev_runId = hs_runId st, ev_workflowId = None, ev_stage = stage, ev_attempt = Some n,
               ev_type = ''stage_dispatched'', ev_data = [(''action'', action), (''fromExecutionNode'', fromStage)],
               ev_error = None\<rparr>
              (send_message \<lparr>qm_runId = hs_runId st, qm_stageName = stage, qm_attempt = n\<rparr> s),
            Response 200 action)))"

definition opt_data :: "string \<Rightarrow> string option \<Rightarrow> (string \<times> string) list" where
  "opt_data k v = (case v of None \<Rightarrow> [] | Some t \<Rightarrow> [(k, t)])"

definition complete_run ::
  "services \<Rightarrow> string \<Rightarrow> (string \<times> string) list \<Rightarrow> harness_result \<Rightarrow> ('c, 'x) coordinator \<Rightarrow>
     ('c, 'x) coordinator" where
  "complete_run sv runId extra result s =
     notifyWorkflowComplete sv runId result
       (emit_event
         \<lparr>ev_runId = runId, ev_workflowId = None, ev_stage = hres_finalStage result, ev_attempt = None,
          ev_type = ''harness_complete'',
          ev_data = [(''overall'', hres_overall result), (''finalExecutionNode'', hres_finalStage result)] @
            opt_data ''reason'' (hres_reason result) @ opt_data ''failureClass'' (hres_failureClass result) @ extra,
          ev_error = None\<rparr> s)"

definition apply_advance ::
  "services \<Rightarrow> string \<Rightarrow> 'x harness_advance \<Rightarrow> ('c, 'x) coordinator \<Rightarrow> ('c, 'x) coordinator \<times> response" where
  "apply_advance sv fromStage adv s =
     (case adv of
        Adv_dispatch st stage \<Rightarrow> dispatch_next sv ''dispatch'' fromStage st stage (s\<lparr>co_state := Some st\<rparr>)
      | Adv_retry st stage \<Rightarrow> dispatch_next sv ''retry'' fromStage st stage (s\<lparr>co_state := Some st\<rparr>)
      | Adv_return st stage \<Rightarrow> dispatch_next sv ''return'' fromStage st stage (s\<lparr>co_state := Some st\<rparr>)
      | Adv_complete st r \<Rightarrow>
          (complete_run sv (hs_runId st) [] r (s\<lparr>co_state := Some st, co_result := Some r\<rparr>), Response 200 ''complete'')
      | Adv_fail st r \<Rightarrow>
          (complete_run sv (hs_runId st) [] r (s\<lparr>co_state := Some st, co_result := Some r\<rparr>), Response 200 ''fail''))"

definition handleStageComplete ::
  "('c, 'x) runtime \<Rightarrow> services \<Rightarrow> stage_complete_payload \<Rightarrow> ('c, 'x) coordinator \<Rightarrow>
     ('c, 'x) coordinator \<times> response" where
  "handleStageComplete rt sv p s =
     (if sp_stageName p = [] then (s, Failure 400 ''missing stageName'')
      else if co_result s \<noteq> None then (s, Response 200 ''already-complete'')
      else case (co_state s, co_compiled s) of
        (Some st, Some compiled) \<Rightarrow>
          (case rt_advance rt compiled st (stage_result_of p) of
             Inl message \<Rightarrow> (s, Failure 500 message)
           | Inr adv \<Rightarrow> apply_advance sv (sp_stageName p) adv s)
      | _ \<Rightarrow> (s, Failure 409 (''run state missing '' @ em_dash @ '' was /init called?'')))"

record force_payload =
  fp_runId :: "string option"
  fp_result :: "harness_result option"
  fp_reason :: "string option"

definition handleForceComplete ::
  "services \<Rightarrow> force_payload \<Rightarrow> ('c, 'x) coordinator \<Rightarrow> ('c, 'x) coordinator \<times> response" where
  "handleForceComplete sv p s =
     (case fp_result p of
        None \<Rightarrow> (s, Failure 400 ''missing result'')
      | Some r \<Rightarrow>
          (let runId = (case fp_runId p of Some i \<Rightarrow> i | None \<Rightarrow> run_id_of s)
           in case co_result s of
             Some r0 \<Rightarrow> (notifyWorkflowComplete sv runId r0 s, Response 200 ''already-complete'')
           | None \<Rightarrow>
               (complete_run sv runId ([(''forced'', ''true'')] @ opt_data ''forceReason'' (fp_reason p)) r
                  (s\<lparr>co_result := Some r,
                     co_state := map_option (\<lambda>st. st\<lparr>hs_status := ''failed''\<rparr>) (co_state s)\<rparr>),
                Response 200 ''force-complete'')))"

datatype operator_action = Retry_stage | Redispatch_stage

fun operator_action_str :: "operator_action \<Rightarrow> string" where
  "operator_action_str Retry_stage = ''retry-stage''"
| "operator_action_str Redispatch_stage = ''redispatch-stage''"

record operator_payload =
  op_runId :: string
  op_stageName :: string
  op_action :: "operator_action option"
  op_idempotencyKey :: string
  op_operator :: "string option"
  op_reason :: "string option"

definition handleOperatorDispatch ::
  "('c, 'x) runtime \<Rightarrow> services \<Rightarrow> operator_payload \<Rightarrow> ('c, 'x) coordinator \<Rightarrow>
     ('c, 'x) coordinator \<times> response" where
  "handleOperatorDispatch rt sv p s =
     (case op_action p of
        None \<Rightarrow> (s, Failure 400 ''missing runId, stageName, action, or idempotencyKey'')
      | Some action \<Rightarrow>
          if op_runId p = [] \<or> op_stageName p = [] \<or> op_idempotencyKey p = [] then
            (s, Failure 400 ''missing runId, stageName, action, or idempotencyKey'')
          else (case (co_compiled s, co_state s) of
             (Some compiled, Some st) \<Rightarrow>
               if op_runId p \<noteq> hs_runId st then (s, Failure 409 ''runId does not match coordinator state'')
               else if co_result s \<noteq> None \<or> hs_status st \<noteq> ''running'' then (s, Failure 409 ''run is already terminal'')
               else if \<not> rt_hasStage rt compiled (op_stageName p) then
                 (s, Failure 404 (''unknown stage in compiled harness: '' @ op_stageName p))
               else if op_stageName p \<noteq> hs_currentStage st then (s, Failure 409 ''stage is not current'')
               else (case map_of (co_operator s) (op_idempotencyKey p) of
                  Some _ \<Rightarrow> (s, Response 200 ''already-dispatched'')
                | None \<Rightarrow>
                    (let completed = (case map_of (hs_stageAttempts st) (op_stageName p) of None \<Rightarrow> 0 | Some n \<Rightarrow> n);
                         n = (if action = Retry_stage then max 1 (completed + 1) else max 1 completed)
                     in case sv_send sv of
                       Some message \<Rightarrow> (s, Failure 500 message)
                     | None \<Rightarrow>
                         (emit_event
                            \<lparr>ev_runId = hs_runId st, ev_workflowId = None, ev_stage = op_stageName p, ev_attempt = Some n,
                             ev_type = ''stage_dispatched'',
                             ev_data = [(''action'', if action = Retry_stage then ''operator_retry'' else ''operator_redispatch'')] @
                               opt_data ''operator'' (op_operator p) @ opt_data ''reason'' (op_reason p) @
                               [(''idempotencyKey'', op_idempotencyKey p)],
                             ev_error = None\<rparr>
                            (let s1 = send_message
                                   \<lparr>qm_runId = hs_runId st, qm_stageName = op_stageName p, qm_attempt = n\<rparr> s
                             in s1\<lparr>co_operator := AList.update (op_idempotencyKey p)
                                  \<lparr>or_runId = hs_runId st, or_stageName = op_stageName p,
                                   or_action = operator_action_str action, or_attempt = n,
                                   or_enqueuedAt = sv_date sv\<rparr> (co_operator s1)\<rparr>),
                          Response 202 (operator_action_str action))))
           | _ \<Rightarrow> (s, Failure 409 (''run state missing '' @ em_dash @ '' was /init called?''))))"

section \<open>Runs\<close>

datatype ('c, 'x) coordinator_step =
  Init_request "('c, 'x) init_payload"
| Stage_complete_request stage_complete_payload
| Force_complete_request force_payload
| Operator_request operator_payload
| Get_compiled_request
| Alarm_fires

definition coordinator_step ::
  "('c, 'x) runtime \<Rightarrow> services \<times> ('c, 'x) coordinator_step \<Rightarrow> ('c, 'x) coordinator \<Rightarrow> ('c, 'x) coordinator" where
  "coordinator_step rt x s =
     (case snd x of
        Init_request p \<Rightarrow> fst (handleInit (fst x) p s)
      | Stage_complete_request p \<Rightarrow> fst (handleStageComplete rt (fst x) p s)
      | Force_complete_request p \<Rightarrow> fst (handleForceComplete (fst x) p s)
      | Operator_request p \<Rightarrow> fst (handleOperatorDispatch rt (fst x) p s)
      | Get_compiled_request \<Rightarrow> s
      | Alarm_fires \<Rightarrow> handle_alarm (fst x) s)"

definition coordinator_run ::
  "('c, 'x) runtime \<Rightarrow> (services \<times> ('c, 'x) coordinator_step) list \<Rightarrow> ('c, 'x) coordinator \<Rightarrow>
     ('c, 'x) coordinator" where
  "coordinator_run rt xs s = foldl (\<lambda>s x. coordinator_step rt x s) s xs"

definition empty_coordinator :: "('c, 'x) coordinator" where
  "empty_coordinator =
     \<lparr>co_compiled = None, co_state = None, co_workflowId = None, co_taskText = None, co_result = None,
      co_dispatched = False, co_notifyAttempts = None, co_abandoned = None, co_operator = [], co_alarm = None,
      co_queue = [], co_events = [], co_notified = []\<rparr>"

lemma coordinator_run_simps [simp]:
  "coordinator_run rt [] s = s"
  "coordinator_run rt (x # xs) s = coordinator_run rt xs (coordinator_step rt x s)"
  by (simp_all add: coordinator_run_def)

section \<open>A finished run\<close>

text \<open>What a step keeps once a result is stored and the first stage was dispatched.\<close>

definition finished_as :: "harness_result \<Rightarrow> queue_message list \<Rightarrow> harness_result list \<Rightarrow> ('c, 'x) coordinator \<Rightarrow> bool" where
  "finished_as r q ns s \<longleftrightarrow>
     co_result s = Some r \<and> co_state s \<noteq> None \<and> co_dispatched s \<and> co_queue s = q \<and>
     (\<exists>k. co_notified s = ns @ replicate k r)"

lemma abandon_keeps [simp]:
  "co_result (permanentlyAbandonWorkflowNotification sv i r w n m s) = co_result s"
  "co_state (permanentlyAbandonWorkflowNotification sv i r w n m s) = co_state s"
  "co_dispatched (permanentlyAbandonWorkflowNotification sv i r w n m s) = co_dispatched s"
  "co_queue (permanentlyAbandonWorkflowNotification sv i r w n m s) = co_queue s"
  "co_notified (permanentlyAbandonWorkflowNotification sv i r w n m s) = co_notified s"
  "co_workflowId (permanentlyAbandonWorkflowNotification sv i r w n m s) = co_workflowId s"
  "co_alarm (permanentlyAbandonWorkflowNotification sv i r w n m s) = co_alarm s"
  "co_notifyAttempts (permanentlyAbandonWorkflowNotification sv i r w n m s) = co_notifyAttempts s"
  "co_abandoned (permanentlyAbandonWorkflowNotification sv i r w n m s) \<noteq> None"
  by (auto simp: permanentlyAbandonWorkflowNotification_def emit_event_def)

lemma notify_keeps [simp]:
  "co_result (notifyWorkflowComplete sv i r s) = co_result s"
  "co_state (notifyWorkflowComplete sv i r s) = co_state s"
  "co_dispatched (notifyWorkflowComplete sv i r s) = co_dispatched s"
  "co_queue (notifyWorkflowComplete sv i r s) = co_queue s"
  "co_workflowId (notifyWorkflowComplete sv i r s) = co_workflowId s"
  by (auto simp: notifyWorkflowComplete_def emit_event_def Let_def split: option.split)

lemma notify_notified:
  "co_notified (notifyWorkflowComplete sv i r s) =
     co_notified s @ (if co_workflowId s \<noteq> None \<and> sv_notify sv = None then [r] else [])"
  by (auto simp: notifyWorkflowComplete_def emit_event_def Let_def split: option.split)

lemma finished_as_notify:
  assumes "finished_as r q ns s"
  shows "finished_as r q ns (notifyWorkflowComplete sv i r s)"
proof -
  obtain k where "co_notified s = ns @ replicate k r"
    using assms by (auto simp: finished_as_def)
  then have "\<exists>k. co_notified (notifyWorkflowComplete sv i r s) = ns @ replicate k r"
    by (auto simp: notify_notified intro: exI [of _ k] exI [of _ "Suc k"] simp flip: replicate_append_same)
  then show ?thesis
    using assms by (simp add: finished_as_def)
qed

lemma finished_as_abandon:
  "finished_as r q ns s \<Longrightarrow> finished_as r q ns (permanentlyAbandonWorkflowNotification sv i r' w n m s)"
  by (simp add: finished_as_def)

lemma finished_as_alarm_field: "finished_as r q ns (s\<lparr>co_alarm := a\<rparr>) = finished_as r q ns s"
  by (simp add: finished_as_def)

lemma finished_as_step:
  assumes "finished_as r q ns s"
  shows "finished_as r q ns (coordinator_step rt x s)"
proof -
  have s: "co_result s = Some r" "co_state s \<noteq> None" "co_dispatched s"
    using assms by (auto simp: finished_as_def)
  show ?thesis
  proof (cases "snd x")
    case (Init_request p)
    then show ?thesis
      using assms s by (auto simp: coordinator_step_def handleInit_def split: option.split)
  next
    case (Stage_complete_request p)
    then show ?thesis
      using assms s by (auto simp: coordinator_step_def handleStageComplete_def)
  next
    case (Force_complete_request p)
    then show ?thesis
      using assms s by (auto simp: coordinator_step_def handleForceComplete_def finished_as_notify split: option.split)
  next
    case (Operator_request p)
    then show ?thesis
      using assms s by (auto simp: coordinator_step_def handleOperatorDispatch_def split: option.split)
  next
    case Alarm_fires
    then show ?thesis
      using assms s
      by (auto simp: coordinator_step_def handle_alarm_def Let_def finished_as_notify finished_as_abandon
        finished_as_alarm_field split: option.split)
  qed (use assms in \<open>auto simp: coordinator_step_def\<close>)
qed

text \<open>Requests and alarms are calls that keep each of the invariants.\<close>

interpretation finished: call_system "\<lambda>x s. (coordinator_step rt x s, ())" "\<lambda>x. True" "finished_as r q ns"
  for rt r q ns
  by unfold_locales (simp add: finished_as_step)

lemma finished_as_run: "finished_as r q ns s \<Longrightarrow> finished_as r q ns (coordinator_run rt xs s)"
  using finished.inv_calls [of xs r q ns s rt] by (simp add: coordinator_run_def list_all_iff)

lemma complete_run_keeps [simp]:
  "co_result (complete_run sv i extra r s) = co_result s"
  "co_state (complete_run sv i extra r s) = co_state s"
  "co_dispatched (complete_run sv i extra r s) = co_dispatched s"
  "co_queue (complete_run sv i extra r s) = co_queue s"
  "co_workflowId (complete_run sv i extra r s) = co_workflowId s"
  by (auto simp: complete_run_def emit_event_def)

lemma complete_run_notified:
  "co_notified (complete_run sv i extra r s) =
     co_notified s @ (if co_workflowId s \<noteq> None \<and> sv_notify sv = None then [r] else [])"
  by (simp add: complete_run_def notify_notified emit_event_def)

lemma dispatch_next_keeps [simp]:
  "co_result (fst (dispatch_next sv a f st stage s)) = co_result s"
  "co_notified (fst (dispatch_next sv a f st stage s)) = co_notified s"
  "co_workflowId (fst (dispatch_next sv a f st stage s)) = co_workflowId s"
  "co_alarm (fst (dispatch_next sv a f st stage s)) = co_alarm s"
  "co_abandoned (fst (dispatch_next sv a f st stage s)) = co_abandoned s"
  "co_notifyAttempts (fst (dispatch_next sv a f st stage s)) = co_notifyAttempts s"
  by (auto simp: dispatch_next_def emit_event_def send_message_def Let_def split: option.split)

text \<open>What the workflow was told is the stored result, and nothing is told before there is one.\<close>

definition told_result :: "('c, 'x) coordinator \<Rightarrow> bool" where
  "told_result s \<longleftrightarrow> (\<forall>n\<in>set (co_notified s). co_result s = Some n)"

lemma told_result_notify:
  "told_result s \<Longrightarrow> co_result s = Some r \<Longrightarrow> told_result (notifyWorkflowComplete sv i r s)"
  by (auto simp: told_result_def notify_notified split: if_splits)

lemma told_result_complete:
  assumes "told_result s" and "co_result s = None" and "co_notified s1 = co_notified s" and "co_result s1 = Some r"
  shows "told_result (complete_run sv i extra r s1)"
  using assms by (auto simp: told_result_def complete_run_notified)

lemma told_result_apply_advance:
  assumes "told_result s" and "co_result s = None"
  shows "told_result (fst (apply_advance sv f adv s))"
proof (cases adv)
  case (Adv_complete st r)
  then show ?thesis
    using assms by (simp add: apply_advance_def) (rule told_result_complete [of s], simp_all)
next
  case (Adv_fail st r)
  then show ?thesis
    using assms by (simp add: apply_advance_def) (rule told_result_complete [of s], simp_all)
qed (use assms in \<open>auto simp: apply_advance_def told_result_def\<close>)

lemma told_result_alarm: "told_result s \<Longrightarrow> told_result (handle_alarm sv s)"
proof -
  assume "told_result s"
  then have t: "told_result (s\<lparr>co_alarm := None\<rparr>)"
    by (simp add: told_result_def)
  show ?thesis
    using told_result_notify [OF t] t
    by (auto simp: handle_alarm_def Let_def told_result_def split: option.split)
qed

lemma told_result_step:
  assumes "told_result s"
  shows "told_result (coordinator_step rt x s)"
proof (cases "snd x")
  case (Init_request p)
  then show ?thesis
    using assms by (auto simp: coordinator_step_def handleInit_def told_result_def send_message_def
        emit_event_def Let_def split: option.split)
next
  case (Stage_complete_request p)
  then show ?thesis
    using assms by (auto simp: coordinator_step_def handleStageComplete_def told_result_apply_advance
        split: option.split sum.split)
next
  case (Force_complete_request p)
  then show ?thesis
    using assms
    by (auto simp: coordinator_step_def handleForceComplete_def Let_def told_result_notify
        intro!: told_result_complete [of s] split: option.split)
next
  case (Operator_request p)
  then show ?thesis
    using assms by (auto simp: coordinator_step_def handleOperatorDispatch_def told_result_def send_message_def
        emit_event_def Let_def split: option.split)
next
  case Alarm_fires
  then show ?thesis
    using assms by (simp add: coordinator_step_def told_result_alarm)
qed (use assms in \<open>simp add: coordinator_step_def\<close>)

interpretation told: call_system "\<lambda>x s. (coordinator_step rt x s, ())" "\<lambda>x. True" told_result for rt
  by unfold_locales (simp add: told_result_step)

lemma told_result_run: "told_result s \<Longrightarrow> told_result (coordinator_run rt xs s)"
  using told.inv_calls [of xs s rt] by (simp add: coordinator_run_def list_all_iff)

lemma coordinator_run_append: "coordinator_run rt (xs @ ys) s = coordinator_run rt ys (coordinator_run rt xs s)"
  by (simp add: coordinator_run_def)

text \<open>
  C21. A finished run stays finished. Whatever requests and alarms reach a coordinator, and
  whatever the harness runtime and the services do, the workflow is told nothing but the stored
  result. Once the first stage was dispatched and a result is stored, then whatever follows: the
  result does not change, no stage is dispatched again, and the workflow is told the same result
  at most again.
\<close>

theorem finished_run_stays_finished:
  assumes "s = coordinator_run rt xs empty_coordinator" and "s' = coordinator_run rt (xs @ ys) empty_coordinator"
    and "co_result s = Some r" and "co_state s \<noteq> None" and "co_dispatched s"
  shows "set (co_notified s) \<subseteq> {r} \<and> co_result s' = Some r \<and> co_queue s' = co_queue s \<and>
    (\<exists>k. co_notified s' = co_notified s @ replicate k r)"
proof -
  have "told_result s"
    unfolding assms(1) by (rule told_result_run) (simp add: told_result_def empty_coordinator_def)
  moreover have "finished_as r (co_queue s) (co_notified s) s"
    using assms(3-5) by (auto simp: finished_as_def intro: exI [of _ 0])
  then have "finished_as r (co_queue s) (co_notified s) s'"
    unfolding assms(1,2) coordinator_run_append by (rule finished_as_run)
  ultimately show ?thesis
    using assms(3) by (auto simp: told_result_def finished_as_def)
qed

text \<open>A run of one stage whose harness completes at once, in a world whose notifications fail.\<close>

definition done_result :: harness_result where
  "done_result =
     \<lparr>hres_overall = ''pass'', hres_finalStage = ''plan'', hres_reason = None, hres_failureClass = None\<rparr>"

definition one_stage :: "(unit, unit) runtime" where
  "one_stage =
     \<lparr>rt_advance = (\<lambda>c st r. Inr (Adv_complete (st\<lparr>hs_status := ''done''\<rparr>) done_result)), rt_hasStage = (\<lambda>c n. True)\<rparr>"

definition failing_services :: services where
  "failing_services = \<lparr>sv_send = None, sv_notify = Some ''down'', sv_date = ''t'', sv_millis = 0\<rparr>"

definition plan_init :: "(unit, unit) init_payload" where
  "plan_init =
     \<lparr>ip_compiled = Some (),
      ip_initialState = Some \<lparr>hs_runId = ''R'', hs_currentStage = ''plan'', hs_status = ''running'', hs_stageAttempts = [], hs_rest = ()\<rparr>,
      ip_workflowId = ''W'', ip_taskText = Some ''t''\<rparr>"

definition plan_done :: stage_complete_payload where
  "plan_done =
     \<lparr>sp_stageName = ''plan'', sp_createdArtifacts = [], sp_message = None, sp_gateResults = [], sp_workerThrew = None\<rparr>"

definition plan_steps :: "(services \<times> (unit, unit) coordinator_step) list" where
  "plan_steps = [(failing_services, Init_request plan_init), (failing_services, Stage_complete_request plan_done)]"

lemmas plan_defs = plan_steps_def plan_done_def plan_init_def failing_services_def one_stage_def done_result_def
  coordinator_step_def handleInit_def handleStageComplete_def apply_advance_def complete_run_def
  notifyWorkflowComplete_def emit_event_def send_message_def empty_coordinator_def MAX_NOTIFY_ATTEMPTS_def

lemma plan_run:
  "co_result (coordinator_run one_stage plan_steps empty_coordinator) = Some done_result"
  "co_state (coordinator_run one_stage plan_steps empty_coordinator) \<noteq> None"
  "co_dispatched (coordinator_run one_stage plan_steps empty_coordinator)"
  by (simp_all add: plan_defs Let_def)

theorem finished_run_stays_finished_witness:
  "co_result (coordinator_run one_stage
       (plan_steps @ [(failing_services, Stage_complete_request plan_done), (failing_services, Alarm_fires)])
       empty_coordinator) = Some done_result"
  using finished_run_stays_finished [OF refl refl plan_run] by blast

section \<open>No result is lost\<close>

text \<open>
  A stored result is told, or an alarm will tell it, or the notification was abandoned for good;
  an alarm is only pending below the bound on the attempts.
\<close>

definition notice_kept :: "('c, 'x) coordinator \<Rightarrow> bool" where
  "notice_kept s \<longleftrightarrow>
     (co_result s \<noteq> None \<longrightarrow> co_notified s \<noteq> [] \<or> co_alarm s \<noteq> None \<or> co_abandoned s \<noteq> None) \<and>
     (co_alarm s \<noteq> None \<longrightarrow> co_result s \<noteq> None \<and>
        (case co_notifyAttempts s of None \<Rightarrow> False | Some n \<Rightarrow> n < MAX_NOTIFY_ATTEMPTS))"

lemma operator_keeps [simp]:
  "co_result (fst (handleOperatorDispatch rt sv p s)) = co_result s"
  "co_notified (fst (handleOperatorDispatch rt sv p s)) = co_notified s"
  "co_workflowId (fst (handleOperatorDispatch rt sv p s)) = co_workflowId s"
  "co_alarm (fst (handleOperatorDispatch rt sv p s)) = co_alarm s"
  "co_abandoned (fst (handleOperatorDispatch rt sv p s)) = co_abandoned s"
  "co_notifyAttempts (fst (handleOperatorDispatch rt sv p s)) = co_notifyAttempts s"
  by (auto simp: handleOperatorDispatch_def emit_event_def send_message_def Let_def split: option.split)

lemma notify_settles:
  assumes "co_workflowId s \<noteq> None" and "co_result s \<noteq> None"
  shows "notice_kept (notifyWorkflowComplete sv i r s)"
  using assms
  by (auto simp: notice_kept_def notifyWorkflowComplete_def permanentlyAbandonWorkflowNotification_def
      emit_event_def Let_def MAX_NOTIFY_ATTEMPTS_def split: option.split)

lemma notice_kept_emit: "notice_kept (emit_event e s) = notice_kept s"
  by (simp add: notice_kept_def emit_event_def)

lemma complete_run_settles:
  "co_workflowId s \<noteq> None \<Longrightarrow> co_result s \<noteq> None \<Longrightarrow> notice_kept (complete_run sv i extra r s)"
  by (simp add: complete_run_def emit_event_def notify_settles)

lemma alarm_settles:
  assumes "notice_kept s" and "co_workflowId s \<noteq> None"
  shows "notice_kept (handle_alarm sv s)"
proof (cases "co_result s")
  case None
  then show ?thesis
    by (simp add: handle_alarm_def notice_kept_def)
next
  case (Some r)
  have "notice_kept (permanentlyAbandonWorkflowNotification sv i r w n m (s\<lparr>co_alarm := None\<rparr>))" for i w n m
    by (simp add: notice_kept_def)
  then show ?thesis
    using Some assms(2) by (simp add: handle_alarm_def Let_def notify_settles)
qed

lemma notice_kept_step:
  assumes "notice_kept s" and "co_workflowId s \<noteq> None"
  shows "notice_kept (coordinator_step rt x s) \<and> co_workflowId (coordinator_step rt x s) \<noteq> None"
proof (cases "snd x")
  case (Init_request p)
  then show ?thesis
    using assms by (auto simp: coordinator_step_def handleInit_def notice_kept_def send_message_def
        emit_event_def Let_def split: option.split)
next
  case (Stage_complete_request p)
  have "notice_kept (fst (apply_advance sv f adv s)) \<and> co_workflowId (fst (apply_advance sv f adv s)) \<noteq> None"
    if "co_result s = None" for sv f adv
    using assms that
    by (cases adv) (auto simp: apply_advance_def complete_run_settles notice_kept_def [of "fst _"] notice_kept_def [of s])
  then show ?thesis
    using assms Stage_complete_request
    by (auto simp: coordinator_step_def handleStageComplete_def split: option.split sum.split)
next
  case (Force_complete_request p)
  then show ?thesis
    using assms by (auto simp: coordinator_step_def handleForceComplete_def Let_def notify_settles
        complete_run_settles split: option.split)
next
  case (Operator_request p)
  then show ?thesis
    using assms by (simp add: coordinator_step_def notice_kept_def)
next
  case Alarm_fires
  have "co_workflowId (handle_alarm sv s) = co_workflowId s" for sv
    by (simp add: handle_alarm_def Let_def split: option.split)
  then show ?thesis
    using assms Alarm_fires by (simp add: coordinator_step_def alarm_settles)
qed (use assms in \<open>simp add: coordinator_step_def\<close>)

interpretation noticed: call_system "\<lambda>x s. (coordinator_step rt x s, ())" "\<lambda>x. True"
  "\<lambda>s. notice_kept s \<and> co_workflowId s \<noteq> None" for rt
  by unfold_locales (simp only: fst_conv, elim conjE, rule notice_kept_step)

lemma notice_kept_run:
  "notice_kept s \<Longrightarrow> co_workflowId s \<noteq> None \<Longrightarrow>
     notice_kept (coordinator_run rt xs s) \<and> co_workflowId (coordinator_run rt xs s) \<noteq> None"
  using noticed.inv_calls [of xs s rt] by (simp add: coordinator_run_def list_all_iff)

text \<open>Alarms alone settle a result: every one that fails uses up an attempt.\<close>

definition attempts_made :: "('c, 'x) coordinator \<Rightarrow> nat" where
  "attempts_made s = (case co_notifyAttempts s of None \<Rightarrow> 0 | Some n \<Rightarrow> n)"

definition settled :: "('c, 'x) coordinator \<Rightarrow> bool" where
  "settled s \<longleftrightarrow> co_notified s \<noteq> [] \<or> co_abandoned s \<noteq> None"

lemma alarm_progress:
  assumes "co_result s = Some r" and "co_workflowId s \<noteq> None"
  shows "settled (handle_alarm sv s) \<or> (\<not> settled s \<and> attempts_made (handle_alarm sv s) = attempts_made s + 1 \<and>
    attempts_made (handle_alarm sv s) < MAX_NOTIFY_ATTEMPTS)"
  using assms
  by (auto simp: handle_alarm_def settled_def attempts_made_def Let_def notifyWorkflowComplete_def
      permanentlyAbandonWorkflowNotification_def emit_event_def split: option.split)

lemma alarm_keeps_run:
  "co_result (handle_alarm sv s) = co_result s" "co_workflowId (handle_alarm sv s) = co_workflowId s"
  by (simp_all add: handle_alarm_def Let_def split: option.split)

lemma settled_alarm: "settled s \<Longrightarrow> settled (handle_alarm sv s)"
  by (auto simp: handle_alarm_def settled_def Let_def notify_notified notifyWorkflowComplete_def
      permanentlyAbandonWorkflowNotification_def emit_event_def split: option.split)

lemma settled_alarms: "settled s \<Longrightarrow> settled (coordinator_run rt (map (\<lambda>sv. (sv, Alarm_fires)) svs) s)"
  by (induction svs arbitrary: s) (simp_all add: coordinator_step_def settled_alarm)

lemma alarms_settle:
  assumes "co_result s = Some r" and "co_workflowId s \<noteq> None"
    and "MAX_NOTIFY_ATTEMPTS \<le> attempts_made s + length svs" and "svs \<noteq> []"
  shows "settled (coordinator_run rt (map (\<lambda>sv. (sv, Alarm_fires)) svs) s)"
  using assms
proof (induction svs arbitrary: s)
  case (Cons sv svs)
  have step: "coordinator_step rt (sv, Alarm_fires) s = handle_alarm sv s"
    by (simp add: coordinator_step_def)
  show ?case
  proof (cases "settled (handle_alarm sv s)")
    case True
    then show ?thesis
      by (simp add: step settled_alarms)
  next
    case False
    then have "attempts_made (handle_alarm sv s) = attempts_made s + 1"
      "attempts_made (handle_alarm sv s) < MAX_NOTIFY_ATTEMPTS"
      using alarm_progress [OF Cons.prems(1,2), of sv] by auto
    moreover from this have "svs \<noteq> []"
      using Cons.prems(3) by auto
    ultimately show ?thesis
      using Cons.prems Cons.IH [of "handle_alarm sv s"] by (simp add: step alarm_keeps_run)
  qed
qed simp

text \<open>
  C22. No result is lost. After a first request that initialised a fresh coordinator (whether or not
  its queue send went through), and whatever follows: a stored result has been told to the
  workflow, or an alarm is pending to tell it with fewer than 100 attempts made, or the
  notification has been abandoned for good. And if then only alarms fire, at most 100 of them
  lead to one of the two ends, whatever the workflow service does.
\<close>

theorem no_result_lost:
  assumes "s0 = coordinator_step rt (sv, Init_request p) empty_coordinator" and "co_workflowId s0 \<noteq> None"
    and "s = coordinator_run rt xs s0" and "co_result s \<noteq> None"
  shows "(co_notified s \<noteq> [] \<or> co_alarm s \<noteq> None \<or> co_abandoned s \<noteq> None) \<and>
    (co_alarm s \<noteq> None \<longrightarrow> (\<exists>n<100. co_notifyAttempts s = Some n)) \<and>
    (100 \<le> length svs \<longrightarrow>
      (let s' = coordinator_run rt (map (\<lambda>sv. (sv, Alarm_fires)) svs) s
       in co_notified s' \<noteq> [] \<or> co_abandoned s' \<noteq> None))"
proof -
  have "notice_kept s0"
    unfolding assms(1)
    by (auto simp: coordinator_step_def handleInit_def notice_kept_def empty_coordinator_def send_message_def
        emit_event_def Let_def split: option.split)
  then have s: "notice_kept s" "co_workflowId s \<noteq> None"
    using notice_kept_run assms(2,3) by blast+
  obtain r where "co_result s = Some r"
    using assms(4) by blast
  then have "settled (coordinator_run rt (map (\<lambda>sv. (sv, Alarm_fires)) svs) s)" if "100 \<le> length svs"
    by (rule alarms_settle) (use s that in \<open>auto simp: MAX_NOTIFY_ATTEMPTS_def\<close>)
  then show ?thesis
    using s(1) assms(4) by (auto simp: notice_kept_def settled_def MAX_NOTIFY_ATTEMPTS_def split: option.splits)
qed

theorem no_result_lost_witness:
  "co_alarm (coordinator_run one_stage plan_steps empty_coordinator) \<noteq> None \<and>
   (let s' = coordinator_run one_stage (plan_steps @ replicate 100 (failing_services, Alarm_fires)) empty_coordinator
    in co_notified s' \<noteq> [] \<or> co_abandoned s' \<noteq> None)"
proof -
  define s where "s = coordinator_run one_stage plan_steps empty_coordinator"
  have "co_workflowId (coordinator_step one_stage (failing_services, Init_request plan_init) empty_coordinator) \<noteq> None"
    by (simp add: plan_defs Let_def)
  moreover have "s = coordinator_run one_stage [(failing_services, Stage_complete_request plan_done)]
      (coordinator_step one_stage (failing_services, Init_request plan_init) empty_coordinator)"
    by (simp add: s_def plan_steps_def)
  ultimately have kept: "(co_notified s \<noteq> [] \<or> co_alarm s \<noteq> None \<or> co_abandoned s \<noteq> None) \<and>
      (co_alarm s \<noteq> None \<longrightarrow> (\<exists>n<100. co_notifyAttempts s = Some n)) \<and>
      (100 \<le> length (replicate 100 failing_services) \<longrightarrow>
        (let s' = coordinator_run one_stage (map (\<lambda>sv. (sv, Alarm_fires)) (replicate 100 failing_services)) s
         in co_notified s' \<noteq> [] \<or> co_abandoned s' \<noteq> None))"
    using no_result_lost [OF refl _ _ _, of one_stage failing_services plan_init s
      "[(failing_services, Stage_complete_request plan_done)]" "replicate 100 failing_services"] plan_run(1)
    by (simp add: s_def)
  have "co_notified s = []" "co_abandoned s = None"
    by (simp_all add: s_def plan_defs Let_def)
  then show ?thesis
    using kept by (simp add: s_def coordinator_run_append Let_def)
qed

end
