(* ===== verification/Intent_Fidelity.thy ===== *)
theory Intent_Fidelity
  imports Trellis_Canonical_Json Js_Numbers
begin

text \<open>
  Intent fidelity of the compile pipeline (\<open>workers/ff-pipeline/src\<close>): the anchors of a signal
  (\<open>stages/crystallize-intent.ts\<close>, \<open>stages/pass-specific-anchors.ts\<close>), the probe of the output of a pass
  against them (\<open>stages/intent-probe.ts\<close>), the deterministic gate (\<open>stages/reconciliation-gate.ts\<close>),
  the feedback (\<open>stages/violation-feedback.ts\<close>), the loop over remediation attempts
  (\<open>pipeline.ts\<close>) and the drift ledger (\<open>stages/drift-ledger.ts\<close>). The model call, the compiler pass, the
  JSON extraction of the output-reliability layer and the database are parameters. Lengths are
  counted in characters of the model, which are bytes; they are the lengths of JavaScript for ASCII text.
\<close>

section \<open>Anchors\<close>

datatype yes_no = Ans_yes | Ans_no

fun yes_no_str :: "yes_no \<Rightarrow> string" where
  "yes_no_str Ans_yes = ''yes''"
| "yes_no_str Ans_no = ''no''"

datatype anchor_severity = Anchor_block | Anchor_warn | Anchor_log

record intent_anchor =
  ia_id :: string
  ia_signal_id :: string
  ia_claim :: string
  ia_question :: string
  ia_violation :: yes_no
  ia_severity :: anchor_severity
  ia_times_probed :: nat
  ia_times_violated :: nat
  ia_passes :: "string list option"

definition MAX_ANCHORS :: nat where
  "MAX_ANCHORS = 6"

definition validateSeverity :: "json option \<Rightarrow> anchor_severity" where
  "validateSeverity v =
     (if v = Some (JStr ''block'') then Anchor_block
      else if v = Some (JStr ''warn'') then Anchor_warn else Anchor_log)"

definition text_field :: "(string \<times> json) list \<Rightarrow> string \<Rightarrow> string" where
  "text_field kvs k = (case map_of kvs k of Some (JStr s) \<Rightarrow> s | _ \<Rightarrow> [])"

fun json_strings :: "json list \<Rightarrow> string list" where
  "json_strings [] = []"
| "json_strings (JStr s # js) = s # json_strings js"
| "json_strings (j # js) = json_strings js"

definition signal_answer :: "json option \<Rightarrow> yes_no option" where
  "signal_answer v =
     (if v = Some (JStr ''yes'') then Some Ans_yes else if v = Some (JStr ''no'') then Some Ans_no else None)"

definition anchor_id :: "string \<Rightarrow> nat \<Rightarrow> string" where
  "anchor_id signalId n = ''IA-'' @ signalId @ ''-'' @ pad_start 2 (CHR ''0'') (dec n)"

text \<open>One round of the loop of \<open>parseAnchors\<close>; \<open>n\<close> anchors have been taken before.\<close>

definition parse_anchor :: "string \<Rightarrow> nat \<Rightarrow> json \<Rightarrow> intent_anchor option" where
  "parse_anchor signalId n raw =
     (case raw of
        JObj kvs \<Rightarrow>
          (case signal_answer (map_of kvs ''violation_signal'') of
             None \<Rightarrow> None
           | Some v \<Rightarrow>
               if text_field kvs ''claim'' = [] \<or> text_field kvs ''probe_question'' = [] then None
               else
                 (let passes = (case map_of kvs ''applicable_passes'' of
                       Some (JArr js) \<Rightarrow> if json_strings js = [] then None else Some (json_strings js)
                     | _ \<Rightarrow> None)
                  in Some \<lparr>ia_id = anchor_id signalId (n + 1), ia_signal_id = signalId,
                       ia_claim = text_field kvs ''claim'', ia_question = text_field kvs ''probe_question'',
                       ia_violation = v, ia_severity = validateSeverity (map_of kvs ''severity''),
                       ia_times_probed = 0, ia_times_violated = 0, ia_passes = passes\<rparr>))
      | _ \<Rightarrow> None)"

fun parse_anchor_loop :: "string \<Rightarrow> intent_anchor list \<Rightarrow> json list \<Rightarrow> intent_anchor list" where
  "parse_anchor_loop signalId acc [] = acc"
| "parse_anchor_loop signalId acc (raw # raws) =
     (if MAX_ANCHORS \<le> length acc then acc
      else case parse_anchor signalId (length acc) raw of
        None \<Rightarrow> parse_anchor_loop signalId acc raws
      | Some a \<Rightarrow> parse_anchor_loop signalId (acc @ [a]) raws)"

text \<open>\<open>extracted\<close> is what \<open>extractJSON\<close> finds in the reply.\<close>

definition parseAnchors :: "(string \<Rightarrow> json option) \<Rightarrow> string \<Rightarrow> string \<Rightarrow> intent_anchor list" where
  "parseAnchors extractJSON reply signalId =
     (case extractJSON reply of
        Some (JArr js) \<Rightarrow> parse_anchor_loop signalId [] js
      | Some (JObj kvs) \<Rightarrow>
          (case map_of kvs ''anchors'' of
             Some (JArr js) \<Rightarrow> parse_anchor_loop signalId [] js
           | _ \<Rightarrow> [])
      | _ \<Rightarrow> [])"

definition quote_mark :: string where
  "quote_mark = [CHR 0x22]"

definition buildStubAnchors :: "string \<Rightarrow> string \<Rightarrow> intent_anchor list" where
  "buildStubAnchors signalId ttl =
     (let stub = (\<lambda>n claim question v sev.
            \<lparr>ia_id = ''IA-'' @ signalId @ ''-0'' @ dec n, ia_signal_id = signalId, ia_claim = claim,
             ia_question = question, ia_violation = v, ia_severity = sev, ia_times_probed = 0,
             ia_times_violated = 0, ia_passes = None\<rparr>)
      in [stub 1 (''Signal intent: '' @ ttl)
            (''Does this output address '' @ quote_mark @ ttl @ quote_mark @ ''?'') Ans_no Anchor_block,
          stub 2 ''Signal scope preserved''
            (''Does this output stay within the scope of '' @ quote_mark @ ttl @ quote_mark @ ''?'') Ans_no Anchor_warn,
          stub 3 ''No extraneous additions''
            ''Does this output introduce concepts not present in the original signal?'' Ans_yes Anchor_log])"

record crystallize_input =
  ci_signalId :: string
  ci_title :: string
  ci_description :: string
  ci_specContent :: "string option"

definition buildUserMessage :: "crystallize_input \<Rightarrow> string" where
  "buildUserMessage i =
     join [nl, nl]
       ([''Signal: '' @ ci_title i, ''Description: '' @ ci_description i] @
        (case ci_specContent i of
           None \<Rightarrow> []
         | Some c \<Rightarrow> if c = [] then [] else [''Specification content:'' @ [nl] @ c]))"

text \<open>
  The anchors and the model of a crystallization. A model call takes the world and the user
  message and gives an error message or the reply; the system prompts are constants of the calls.
\<close>

definition crystallizeIntent ::
  "(string \<Rightarrow> json option) \<Rightarrow> ('w \<Rightarrow> string \<Rightarrow> 'w \<times> (string + string)) \<Rightarrow> bool \<Rightarrow> bool \<Rightarrow> bool \<Rightarrow>
     crystallize_input \<Rightarrow> 'w \<Rightarrow> 'w \<times> intent_anchor list \<times> string" where
  "crystallizeIntent extractJSON callModel enabled dryRun ai_bound i w =
     (if \<not> enabled then (w, [], ''disabled'')
      else if dryRun then (w, buildStubAnchors (ci_signalId i) (ci_title i), ''dry-run'')
      else if \<not> ai_bound then (w, [], ''none'')
      else case callModel w (buildUserMessage i) of
        (w1, Inl e) \<Rightarrow> (w1, [], ''none'')
      | (w1, Inr reply) \<Rightarrow> (w1, parseAnchors extractJSON reply (ci_signalId i), ''crystallizer''))"

definition filterAnchorsForPass :: "intent_anchor list \<Rightarrow> string \<Rightarrow> intent_anchor list" where
  "filterAnchorsForPass anchors pass =
     filter (\<lambda>a. pass \<in> set (case ia_passes a of None \<Rightarrow> [''decompose''] | Some ps \<Rightarrow> ps)) anchors"

section \<open>The probe\<close>

record probe_result =
  pr_anchor_id :: string
  pr_answer :: yes_no
  pr_violation :: bool
  pr_explanation :: "string option"
  pr_pass_name :: string
  pr_timestamp :: string

text \<open>The code fences that the reply may have: \<open>```json\<close> with the blanks after it, then \<open>```\<close>.\<close>

lemma after_prefix_shorter:
  assumes "starts_with p s" and "p \<noteq> []"
  shows "length (dropWhile P (drop (length p) s)) < length s"
proof -
  obtain r where s: "s = p @ r"
    using assms(1) by (auto simp: starts_with_iff)
  show ?thesis
    using assms(2) length_dropWhile_le [of P r] unfolding s by (cases p) simp_all
qed

lemma after_fence_shorter:
  "starts_with ''```json'' s \<Longrightarrow> length (dropWhile is_ws (drop 7 s)) < length s"
  using after_prefix_shorter [of "''```json''" s is_ws] by (simp add: eval_nat_numeral)

function strip_json_fences :: "string \<Rightarrow> string" where
  "strip_json_fences s =
     (if starts_with ''```json'' s then strip_json_fences (dropWhile is_ws (drop 7 s))
      else case s of [] \<Rightarrow> [] | c # cs \<Rightarrow> c # strip_json_fences cs)"
  by pat_completeness auto
termination
  by (relation "measure length") (auto dest: after_fence_shorter)

declare strip_json_fences.simps [simp del]

fun strip_fences :: "string \<Rightarrow> string" where
  "strip_fences [] = []"
| "strip_fences (c # s) =
     (if starts_with ''```'' (c # s) then strip_fences (drop 2 s) else c # strip_fences s)"

definition prefix_ci :: "string \<Rightarrow> string \<Rightarrow> bool" where
  "prefix_ci p s \<longleftrightarrow> starts_with p (to_lower (take (length p) s))"

definition yes_no_at :: "string \<Rightarrow> (string \<times> string) option" where
  "yes_no_at s =
     (if prefix_ci ''yes'' s then Some (''yes'', drop 3 s)
      else if prefix_ci ''no'' s then Some (''no'', drop 2 s) else None)"

text \<open>The three patterns of the fallback for question \<open>i\<close>, at the head of a text.\<close>

definition skip_prefix :: "string \<Rightarrow> string \<Rightarrow> string option" where
  "skip_prefix p s = (if starts_with p s then Some (drop (length p) s) else None)"

definition quoted_answer :: "nat \<Rightarrow> string \<Rightarrow> string option" where
  "quoted_answer i s =
     Option.bind (skip_prefix (quote_mark @ dec i @ quote_mark) s) (\<lambda>s1.
     Option.bind (skip_prefix '':'' (dropWhile is_ws s1)) (\<lambda>s2.
     Option.bind (skip_prefix quote_mark (dropWhile is_ws s2)) (\<lambda>s3.
     Option.bind (yes_no_at s3) (\<lambda>(a, s4).
     if starts_with quote_mark s4 then Some a else None))))"

definition numbered_answer :: "nat \<Rightarrow> string \<Rightarrow> string option" where
  "numbered_answer i s =
     Option.bind (skip_prefix (dec i) s) (\<lambda>s1.
       case s1 of
         c # s2 \<Rightarrow> if c \<in> set ''.):;'' then map_option fst (yes_no_at (dropWhile is_ws s2)) else None
       | [] \<Rightarrow> None)"

definition question_answer :: "nat \<Rightarrow> string \<Rightarrow> string option" where
  "question_answer i s =
     (if prefix_ci ''question'' s
      then Option.bind (skip_prefix (dec i) (dropWhile is_ws (drop 8 s))) (\<lambda>s1.
        let s2 = (case s1 of c # cs \<Rightarrow> if c \<in> set ''.:;'' then cs else s1 | [] \<Rightarrow> s1)
        in map_option fst (yes_no_at (dropWhile is_ws s2)))
      else None)"

fun first_match :: "(string \<Rightarrow> 'a option) \<Rightarrow> string \<Rightarrow> 'a option" where
  "first_match p [] = p []"
| "first_match p (c # s) = (case p (c # s) of Some a \<Rightarrow> Some a | None \<Rightarrow> first_match p s)"

definition fallback_answer :: "string \<Rightarrow> nat \<Rightarrow> string option" where
  "fallback_answer raw i =
     (case first_match (quoted_answer i) raw of
        Some a \<Rightarrow> Some a
      | None \<Rightarrow>
          (case first_match (numbered_answer i) raw of
             Some a \<Rightarrow> Some a
           | None \<Rightarrow> first_match (question_answer i) raw))"

definition fallbackParse :: "string \<Rightarrow> nat \<Rightarrow> (string \<times> json) list" where
  "fallbackParse raw expectedCount =
     concat (map (\<lambda>i. case fallback_answer raw i of None \<Rightarrow> [] | Some a \<Rightarrow> [(dec i, JStr a)])
       [1..<expectedCount + 1])"

text \<open>
  The reply as the value that is indexed with \<open>"1"\<close>, \<open>"2"\<close>, \<open>\<dots>\<close>. \<open>parse_json\<close> is \<open>JSON.parse\<close>,
  \<open>None\<close> when it throws.
\<close>

definition parseProbeResponse :: "(string \<Rightarrow> json option) \<Rightarrow> string \<Rightarrow> nat \<Rightarrow> json" where
  "parseProbeResponse parse_json raw expectedCount =
     (let cleaned = trim (strip_fences (strip_json_fences raw))
      in case parse_json cleaned of
        Some (JObj kvs) \<Rightarrow> JObj kvs
      | Some (JArr js) \<Rightarrow> JArr js
      | _ \<Rightarrow> JObj (fallbackParse cleaned expectedCount))"

fun answer_at :: "json \<Rightarrow> nat \<Rightarrow> json option" where
  "answer_at (JObj kvs) i = map_of kvs (dec i)"
| "answer_at (JArr js) i = (if i < length js then Some (js ! i) else None)"
| "answer_at _ i = None"

text \<open>\<open>!raw\<close>, and the call of \<open>toLowerCase\<close>, which throws on a truthy value that is no string.\<close>

fun falsy_json :: "json option \<Rightarrow> bool" where
  "falsy_json None \<longleftrightarrow> True"
| "falsy_json (Some JNull) \<longleftrightarrow> True"
| "falsy_json (Some (JBool b)) \<longleftrightarrow> \<not> b"
| "falsy_json (Some (JNum q)) \<longleftrightarrow> q = 0"
| "falsy_json (Some (JStr s)) \<longleftrightarrow> s = []"
| "falsy_json (Some _) \<longleftrightarrow> False"

definition answer_of_text :: "string \<Rightarrow> yes_no" where
  "answer_of_text s =
     (let cleaned = trim (to_lower s) in
      if starts_with ''no'' cleaned then Ans_no
      else if starts_with ''yes'' cleaned then Ans_yes
      else if cleaned = ''true'' \<or> cleaned = ''1'' then Ans_yes
      else if cleaned = ''false'' \<or> cleaned = ''0'' then Ans_no
      else Ans_yes)"

definition normalizeAnswer :: "json option \<Rightarrow> string + yes_no" where
  "normalizeAnswer raw =
     (if falsy_json raw then Inr Ans_yes
      else case raw of
        Some (JStr s) \<Rightarrow> Inr (answer_of_text s)
      | _ \<Rightarrow> Inl ''raw.toLowerCase is not a function'')"

definition violates :: "intent_anchor \<Rightarrow> yes_no \<Rightarrow> bool" where
  "violates a ans \<longleftrightarrow>
     (ia_violation a = Ans_yes \<and> ans = Ans_yes) \<or> (ia_violation a = Ans_no \<and> ans = Ans_no)"

fun probe_answers :: "(nat \<Rightarrow> string) \<Rightarrow> json \<Rightarrow> nat \<Rightarrow> intent_anchor list \<Rightarrow> string + probe_result list" where
  "probe_answers clock reply i [] = Inr []"
| "probe_answers clock reply i (a # as) =
     and_then (normalizeAnswer (answer_at reply i)) (\<lambda>ans.
     and_then (probe_answers clock reply (i + 1) as) (\<lambda>rs.
     Inr (\<lparr>pr_anchor_id = ia_id a, pr_answer = ans, pr_violation = violates a ans, pr_explanation = None,
           pr_pass_name = ''probe'', pr_timestamp = clock (i - 1)\<rparr> # rs)))"

definition probe_failsafe :: "(nat \<Rightarrow> string) \<Rightarrow> string \<Rightarrow> intent_anchor list \<Rightarrow> probe_result list" where
  "probe_failsafe clock msg anchors =
     map (\<lambda>(i, a). \<lparr>pr_anchor_id = ia_id a, pr_answer = ia_violation a, pr_violation = True,
         pr_explanation = Some (''Probe failed: '' @ msg), pr_pass_name = ''probe-failsafe'', pr_timestamp = clock i\<rparr>)
       (enumerate 0 (filter (\<lambda>a. ia_severity a = Anchor_block) anchors))"

definition MAX_OUTPUT_CHARS :: nat where
  "MAX_OUTPUT_CHARS = 16000"

text \<open>
  The binary search for the number of items of an array that fit, with \<open>fits\<close> the test of a
  candidate.
\<close>

function max_items :: "(nat \<Rightarrow> bool) \<Rightarrow> nat \<Rightarrow> nat \<Rightarrow> nat" where
  "max_items fits lo hi =
     (if lo < hi then
        (let mid = (lo + hi + 1) div 2
         in if fits mid then max_items fits mid hi else max_items fits lo (mid - 1))
      else lo)"
  by pat_completeness auto
termination
  by (relation "measure (\<lambda>(fits, lo, hi). hi - lo)") auto

declare max_items.simps [simp del]

text \<open>
  The first array field whose text is longer than four fifths of the limit. An array at the
  top spreads into an object with its indices as keys.
\<close>

fun top_fields :: "json \<Rightarrow> (string \<times> json) list" where
  "top_fields (JObj kvs) = obj_entries kvs"
| "top_fields (JArr js) = map (\<lambda>(i, j). (dec i, j)) (enumerate 0 js)"
| "top_fields _ = []"

fun long_array :: "host \<Rightarrow> nat \<Rightarrow> (string \<times> json) list \<Rightarrow> (string \<times> json list) option" where
  "long_array h maxChars [] = None"
| "long_array h maxChars ((k, JArr js) # rest) =
     (if maxChars * 4 < length (json_text h (JArr js)) * 5 then Some (k, js) else long_array h maxChars rest)"
| "long_array h maxChars ((k, j) # rest) = long_array h maxChars rest"

definition with_items :: "(string \<times> json) list \<Rightarrow> string \<Rightarrow> json list \<Rightarrow> nat \<Rightarrow> json" where
  "with_items kvs k js n = JObj (AList.update k (JArr (take n js)) kvs)"

definition truncatePassOutput :: "host \<Rightarrow> (string \<Rightarrow> json option) \<Rightarrow> string \<Rightarrow> nat \<Rightarrow> string" where
  "truncatePassOutput h parse_json output maxChars =
     (case Option.bind (parse_json output) (\<lambda>j. map_option (Pair (top_fields j)) (long_array h maxChars (top_fields j))) of
        Some (kvs, k, js) \<Rightarrow>
          json_text h (with_items kvs k js
            (max_items (\<lambda>n. length (json_text h (with_items kvs k js n)) \<le> maxChars) 1 (length js)))
      | None \<Rightarrow> take maxChars output @ [nl] @ ''[TRUNCATED]'')"

definition probe_message :: "string \<Rightarrow> intent_anchor list \<Rightarrow> string" where
  "probe_message out anchors =
     (let q3 = quote_mark @ quote_mark @ quote_mark in
      join [nl]
        ([''TEXT TO EVALUATE:'', q3, out, q3, [], ''QUESTIONS:''] @
         map (\<lambda>(i, a). dec i @ ''. '' @ ia_question a) (enumerate 1 anchors) @
         [[], ''Respond as JSON: {'' @ quote_mark @ ''1'' @ quote_mark @ '': '' @ quote_mark @ ''yes'' @ quote_mark @
           ''|'' @ quote_mark @ ''no'' @ quote_mark @ '', ...}'']))"

text \<open>The live call, and the fail-safe of its \<open>catch\<close>.\<close>

definition live_probe ::
  "(string \<Rightarrow> json option) \<Rightarrow> ('w \<Rightarrow> string \<Rightarrow> 'w \<times> (string + string)) \<Rightarrow> (nat \<Rightarrow> string) \<Rightarrow>
     string \<Rightarrow> intent_anchor list \<Rightarrow> 'w \<Rightarrow> 'w \<times> probe_result list" where
  "live_probe parse_json callModel clock out anchors w =
     (case callModel w (probe_message out anchors) of
        (w1, Inl msg) \<Rightarrow> (w1, probe_failsafe clock msg anchors)
      | (w1, Inr raw) \<Rightarrow>
          (case probe_answers clock (parseProbeResponse parse_json raw (length anchors)) 1 anchors of
             Inl msg \<Rightarrow> (w1, probe_failsafe clock msg anchors)
           | Inr rs \<Rightarrow> (w1, rs)))"

definition probeAnchors ::
  "host \<Rightarrow> (string \<Rightarrow> json option) \<Rightarrow> ('w \<Rightarrow> string \<Rightarrow> 'w \<times> (string + string)) \<Rightarrow> (nat \<Rightarrow> string) \<Rightarrow> bool \<Rightarrow>
     string \<Rightarrow> intent_anchor list \<Rightarrow> 'w \<Rightarrow> 'w \<times> probe_result list" where
  "probeAnchors h parse_json callModel clock dryRun passOutput anchors w =
     (if anchors = [] then (w, [])
      else if dryRun then
        (w, map (\<lambda>(i, a). \<lparr>pr_anchor_id = ia_id a,
              pr_answer = (if ia_violation a = Ans_yes then Ans_no else Ans_yes), pr_violation = False,
              pr_explanation = None, pr_pass_name = ''dry-run'', pr_timestamp = clock i\<rparr>) (enumerate 0 anchors))
      else
        live_probe parse_json callModel clock
          (if MAX_OUTPUT_CHARS < length passOutput
           then truncatePassOutput h parse_json passOutput MAX_OUTPUT_CHARS else passOutput) anchors w)"

section \<open>The gate\<close>

datatype gate_verdict = Gate_pass | Gate_warn | Gate_remediate | Gate_escalate

fun gate_verdict_str :: "gate_verdict \<Rightarrow> string" where
  "gate_verdict_str Gate_pass = ''pass''"
| "gate_verdict_str Gate_warn = ''warn''"
| "gate_verdict_str Gate_remediate = ''remediate''"
| "gate_verdict_str Gate_escalate = ''escalate''"

record gate_decision =
  gd_verdict :: gate_verdict
  gd_violated :: "string list"
  gd_probes :: "probe_result list"
  gd_attempt :: nat
  gd_advisory :: "string option"

text \<open>\<open>new Map(anchors.map(a => [a.id, a]))\<close>: the last anchor with an id counts.\<close>

definition anchor_map :: "intent_anchor list \<Rightarrow> string \<Rightarrow> intent_anchor option" where
  "anchor_map anchors = map_of (rev (map (\<lambda>a. (ia_id a, a)) anchors))"

definition of_severity :: "intent_anchor list \<Rightarrow> anchor_severity \<Rightarrow> probe_result list \<Rightarrow> probe_result list" where
  "of_severity anchors sev vs =
     filter (\<lambda>v. case anchor_map anchors (pr_anchor_id v) of None \<Rightarrow> False | Some a \<Rightarrow> ia_severity a = sev) vs"

definition reconcile :: "probe_result list \<Rightarrow> intent_anchor list \<Rightarrow> nat \<Rightarrow> nat \<Rightarrow> gate_decision" where
  "reconcile probes anchors attempt maxAttempts =
     (let violations = filter pr_violation probes;
          decide = (\<lambda>verdict violated advisory.
            \<lparr>gd_verdict = verdict, gd_violated = violated, gd_probes = probes, gd_attempt = attempt,
             gd_advisory = advisory\<rparr>)
      in if violations = [] then decide Gate_pass [] None
         else
           (let block = of_severity anchors Anchor_block violations;
                warn = of_severity anchors Anchor_warn violations;
                log = of_severity anchors Anchor_log violations;
                violated = map pr_anchor_id (block @ warn @ log)
            in if block = [] \<and> warn = [] then decide Gate_pass violated None
               else if block = [] then
                 decide Gate_warn violated
                   (Some (''Intent drift detected in: '' @
                     join ''; '' (map (\<lambda>v. case anchor_map anchors (pr_anchor_id v) of
                       None \<Rightarrow> pr_anchor_id v | Some a \<Rightarrow> ia_claim a) warn) @ ''.''))
               else if attempt < maxAttempts then decide Gate_remediate violated None
               else decide Gate_escalate violated
                 (Some (''INTENT VIOLATION ESCALATION: Block-severity anchors violated after '' @ dec attempt @
                   '' remediation attempts. Compilation cannot proceed.''))))"

definition block_violated :: "intent_anchor list \<Rightarrow> probe_result list \<Rightarrow> bool" where
  "block_violated anchors probes \<longleftrightarrow>
     (\<exists>r\<in>set probes. pr_violation r \<and>
        (\<exists>a. anchor_map anchors (pr_anchor_id r) = Some a \<and> ia_severity a = Anchor_block))"

lemma of_severity_block:
  "of_severity anchors Anchor_block (filter pr_violation probes) = [] \<longleftrightarrow> \<not> block_violated anchors probes"
  by (auto simp: of_severity_def block_violated_def filter_empty_conv split: option.splits)

lemma reconcile_verdict:
  "gd_verdict (reconcile probes anchors attempt maxAttempts) =
     (if block_violated anchors probes then (if attempt < maxAttempts then Gate_remediate else Gate_escalate)
      else if of_severity anchors Anchor_warn (filter pr_violation probes) = [] then Gate_pass else Gate_warn)"
  using of_severity_block [of anchors probes]
  by (auto simp: reconcile_def Let_def) (auto simp: of_severity_def)

section \<open>Feedback\<close>

record violation_feedback =
  vf_violatedClaims :: "string list"
  vf_avoidanceClaims :: "string list option"
  vf_avoidanceProbes :: "string list option"
  vf_instruction :: string

definition feedback_message :: string where
  "feedback_message = ''Your previous decomposition violated block-severity intent anchors.''"

text \<open>The loop over the violated ids; it stops when six claims have been collected.\<close>

fun collect_claims ::
  "intent_anchor list \<Rightarrow> string list \<Rightarrow> string list \<times> string list \<times> string list \<Rightarrow>
     string list \<times> string list \<times> string list" where
  "collect_claims anchors [] acc = acc"
| "collect_claims anchors (i # is) (required, avoid, probes) =
     (let acc = (case anchor_map anchors i of
            None \<Rightarrow> (required, avoid, probes)
          | Some a \<Rightarrow>
              if ia_severity a \<noteq> Anchor_block then (required, avoid, probes)
              else if ia_violation a = Ans_yes then (required, avoid @ [ia_claim a], probes @ [ia_question a])
              else (required @ [ia_claim a], avoid, probes))
      in if 6 \<le> length (fst acc) + length (fst (snd acc)) then acc else collect_claims anchors is acc)"

definition feedback_json :: "violation_feedback \<Rightarrow> json" where
  "feedback_json f =
     JObj ([(''message'', JStr feedback_message), (''violatedClaims'', JArr (map JStr (vf_violatedClaims f)))] @
       (case vf_avoidanceClaims f of None \<Rightarrow> [] | Some cs \<Rightarrow> [(''avoidanceClaims'', JArr (map JStr cs))]) @
       (case vf_avoidanceProbes f of None \<Rightarrow> [] | Some cs \<Rightarrow> [(''avoidanceProbes'', JArr (map JStr cs))]) @
       [(''instruction'', JStr (vf_instruction f))])"

definition buildViolationFeedback ::
  "host \<Rightarrow> string list \<Rightarrow> intent_anchor list \<Rightarrow> violation_feedback option" where
  "buildViolationFeedback h violatedIds anchors =
     (let (required, avoid, probes) = collect_claims anchors violatedIds ([], [], [])
      in if violatedIds = [] \<or> (required = [] \<and> avoid = []) then None
         else
           (let f = \<lparr>vf_violatedClaims = required,
                vf_avoidanceClaims = (if avoid \<noteq> [] then Some avoid else None),
                vf_avoidanceProbes = (if avoid \<noteq> [] then Some probes else None),
                vf_instruction = join '' ''
                  ((if required \<noteq> [] then
                      [''Required claims: explicitly address them in at least one atom title, description, or verifies field.'']
                    else []) @
                   (if avoid \<noteq> [] then
                      [''Avoidance claims: satisfied by absence; remove atom wording, target files, and planned work that would make the avoidance probe answer yes. Do not merely repeat the avoidance claim.'']
                    else []))\<rparr>
            in if 500 < (length (json_text h (feedback_json f)) + 3) div 4 then
                 Some (f\<lparr>vf_violatedClaims := take 3 required,
                         vf_avoidanceClaims := map_option (take 3) (vf_avoidanceClaims f),
                         vf_avoidanceProbes := map_option (take 3) (vf_avoidanceProbes f)\<rparr>)
               else Some f))"

lemma collect_claims_bound:
  assumes "length (fst acc) + length (fst (snd acc)) < 6"
  shows "length (fst (collect_claims anchors ids acc)) + length (fst (snd (collect_claims anchors ids acc))) \<le> 6"
  using assms
  by (induction anchors ids acc rule: collect_claims.induct) (auto simp: Let_def split: option.splits)

lemma feedback_bounded:
  assumes "buildViolationFeedback h ids anchors = Some f"
  shows "length (vf_violatedClaims f) + (case vf_avoidanceClaims f of None \<Rightarrow> 0 | Some cs \<Rightarrow> length cs) \<le> 6"
  using assms collect_claims_bound [of "([], [], [])" anchors ids]
  by (auto simp: buildViolationFeedback_def Let_def split: prod.splits if_splits)

section \<open>The drift ledger\<close>

record drift_entry =
  de_pipeline_id :: string
  de_signal_id :: string
  de_pass_name :: string
  de_anchors :: "string list"
  de_probes :: "probe_result list"
  de_verdict :: gate_verdict
  de_remediation :: nat
  de_probe_model :: string
  de_latency :: rat
  de_timestamp :: string

text \<open>
  Appending is best effort: \<open>ensure\<close> and \<open>save\<close> act on the world and may reject; a rejection is
  swallowed.
\<close>

definition appendDriftEntry ::
  "('w \<Rightarrow> 'w \<times> bool) \<Rightarrow> ('w \<Rightarrow> drift_entry \<Rightarrow> 'w \<times> bool) \<Rightarrow> drift_entry \<Rightarrow> 'w \<Rightarrow> 'w" where
  "appendDriftEntry ensure save e w = fst (save (fst (ensure w)) e)"

definition violations_of :: "drift_entry \<Rightarrow> nat" where
  "violations_of e = length (filter pr_violation (de_probes e))"

record drift_analysis =
  da_entries :: nat
  da_probes :: nat
  da_violations :: nat
  da_rate :: rat
  da_passes :: "(string \<times> nat \<times> nat) list"
  da_anchors :: "(string \<times> nat \<times> nat) list"

text \<open>
  A counter in a dictionary or a \<open>Map\<close>: a pair of probes and violations. Pass names are keys of an
  object, so the model needs them to be no names of \<open>Object.prototype\<close>; the pipeline's are not.
\<close>

definition add_count :: "string \<Rightarrow> nat \<Rightarrow> nat \<Rightarrow> (string \<times> nat \<times> nat) list \<Rightarrow> (string \<times> nat \<times> nat) list" where
  "add_count k n v stats =
     (let (n0, v0) = (case map_of stats k of None \<Rightarrow> (0, 0) | Some c \<Rightarrow> c)
      in AList.update k (n0 + n, v0 + v) stats)"

definition pass_stats :: "drift_entry list \<Rightarrow> (string \<times> nat \<times> nat) list" where
  "pass_stats entries =
     fold (\<lambda>e. add_count (de_pass_name e) (length (de_probes e)) (violations_of e)) entries []"

definition anchor_stats :: "drift_entry list \<Rightarrow> (string \<times> nat \<times> nat) list" where
  "anchor_stats entries =
     fold (\<lambda>r. add_count (pr_anchor_id r) 1 (if pr_violation r then 1 else 0)) (concat (map de_probes entries)) []"

definition total_probes :: "drift_entry list \<Rightarrow> nat" where
  "total_probes entries = sum_list (map (\<lambda>e. length (de_probes e)) entries)"

definition total_violations :: "drift_entry list \<Rightarrow> nat" where
  "total_violations entries = sum_list (map violations_of entries)"

definition violation_rate :: "drift_entry list \<Rightarrow> rat" where
  "violation_rate entries =
     (if 0 < total_probes entries then rnd (of_nat (total_violations entries) / of_nat (total_probes entries)) else 0)"

definition analyzeDrift :: "drift_entry list \<Rightarrow> drift_analysis" where
  "analyzeDrift entries =
     (if entries = [] then
        \<lparr>da_entries = 0, da_probes = 0, da_violations = 0, da_rate = 0, da_passes = [], da_anchors = []\<rparr>
      else
        \<lparr>da_entries = length entries, da_probes = total_probes entries, da_violations = total_violations entries,
         da_rate = violation_rate entries, da_passes = pass_stats entries,
         da_anchors = sort_key (\<lambda>(k, n, v). - int v) (anchor_stats entries)\<rparr>)"

record erosion_report =
  er_eroding :: bool
  er_early :: rat
  er_late :: rat
  er_delta :: rat

text \<open>\<open>entries.slice(-n)\<close> is the whole array when \<open>n\<close> is 0, since \<open>-0\<close> counts from the start.\<close>

definition last_entries :: "nat \<Rightarrow> 'a list \<Rightarrow> 'a list" where
  "last_entries n es = (if n = 0 then es else drop (length es - n) es)"

definition detectErosion :: "drift_entry list \<Rightarrow> nat \<Rightarrow> erosion_report" where
  "detectErosion entries windowSize =
     (if length entries < windowSize * 2 then \<lparr>er_eroding = False, er_early = 0, er_late = 0, er_delta = 0\<rparr>
      else
        (let early = violation_rate (take windowSize entries);
             late = violation_rate (last_entries windowSize entries)
         in \<lparr>er_eroding = (if early = 0 then 0 < late else rnd (early * (3 / 2)) < late),
             er_early = early, er_late = late, er_delta = rnd (late - early)\<rparr>))"

text \<open>The counters of the passes and of the anchors add up to the totals.\<close>

definition count_sum :: "(string \<times> nat \<times> nat) list \<Rightarrow> nat \<times> nat" where
  "count_sum stats = (sum_list (map (\<lambda>(k, n, v). n) stats), sum_list (map (\<lambda>(k, n, v). v) stats))"

lemma distinct_add_count: "distinct (map fst stats) \<Longrightarrow> distinct (map fst (add_count k n v stats))"
  by (simp add: add_count_def split_beta distinct_update)

lemma count_sum_add:
  "distinct (map fst stats) \<Longrightarrow>
     count_sum (add_count k n v stats) = (fst (count_sum stats) + n, snd (count_sum stats) + v)"
  by (induction stats) (auto simp: add_count_def count_sum_def split_beta)

lemma count_sum_fold:
  assumes "distinct (map fst stats)"
  shows "count_sum (fold (\<lambda>x. add_count (f x) (g x) (m x)) xs stats) =
      (fst (count_sum stats) + sum_list (map g xs), snd (count_sum stats) + sum_list (map m xs))"
  using assms
  by (induction xs arbitrary: stats) (simp_all add: count_sum_add distinct_add_count count_sum_def [of "[]"])

lemma count_violations: "sum_list (map (\<lambda>r. if pr_violation r then 1 else 0) rs) = length (filter pr_violation rs)"
  by (induction rs) auto

lemma drift_counts_add_up:
  "count_sum (pass_stats entries) = (total_probes entries, total_violations entries)"
  "count_sum (anchor_stats entries) = (total_probes entries, total_violations entries)"
proof -
  show "count_sum (pass_stats entries) = (total_probes entries, total_violations entries)"
    by (simp add: pass_stats_def count_sum_fold total_probes_def total_violations_def) (simp add: count_sum_def)
  have "sum_list (map (\<lambda>r. if pr_violation r then 1 else 0) (concat (map de_probes entries))) = total_violations entries"
    by (simp add: count_violations filter_concat length_concat comp_def total_violations_def violations_of_def [abs_def])
  moreover have "length (concat (map de_probes entries)) = total_probes entries"
    by (simp add: length_concat total_probes_def comp_def)
  ultimately show "count_sum (anchor_stats entries) = (total_probes entries, total_violations entries)"
    by (simp add: anchor_stats_def count_sum_fold sum_list_triv) (simp add: count_sum_def)
qed

section \<open>The probed pass\<close>

definition MAX_REMEDIATION :: nat where
  "MAX_REMEDIATION = 2"

text \<open>
  The parts that a probed pass calls: the compiler pass on the compile state, which may throw,
  the model, and the ledger; the clock gives readings per attempt.
\<close>

record 'w pass_env =
  pe_host :: host
  pe_parse_json :: "string \<Rightarrow> json option"
  pe_compile :: "'w \<Rightarrow> (string \<times> json) list \<Rightarrow> 'w \<times> (string + (string \<times> json) list)"
  pe_callModel :: "'w \<Rightarrow> string \<Rightarrow> 'w \<times> (string + string)"
  pe_append :: "drift_entry \<Rightarrow> 'w \<Rightarrow> 'w"
  pe_clock :: "nat \<Rightarrow> nat \<Rightarrow> string"
  pe_latency :: "nat \<Rightarrow> rat"
  pe_instance :: string
  pe_signal :: string
  pe_dryRun :: bool

text \<open>Keys that start with an underscore are internal; the others count when they are new or changed.\<close>

definition computeDelta ::
  "host \<Rightarrow> (string \<times> json) list \<Rightarrow> (string \<times> json) list \<Rightarrow> (string \<times> json) list" where
  "computeDelta h prevState newState =
     filter (\<lambda>(k, v). \<not> starts_with ''_'' k \<and>
         (case map_of prevState k of None \<Rightarrow> True | Some v0 \<Rightarrow> json_text h v0 \<noteq> json_text h v))
       (obj_entries newState)"

text \<open>On a remediation the violated anchors of the last attempt become feedback; an absent feedback is an
  undefined field, which the model leaves out.\<close>

definition with_feedback ::
  "host \<Rightarrow> intent_anchor list \<Rightarrow> nat \<Rightarrow> (string \<times> json) list \<Rightarrow> (string \<times> json) list" where
  "with_feedback h anchors r compState =
     (case (0 < r, map_of compState ''_violatedAnchors'') of
        (True, Some (JArr js)) \<Rightarrow>
          (case buildViolationFeedback h (json_strings js) anchors of
             None \<Rightarrow> AList.delete ''_violationFeedback'' compState
           | Some f \<Rightarrow> obj_set ''_violationFeedback'' (feedback_json f) compState)
      | _ \<Rightarrow> compState)"

definition record_verdict :: "gate_decision \<Rightarrow> (string \<times> json) list \<Rightarrow> (string \<times> json) list" where
  "record_verdict gate newState =
     (let s = obj_set ''_gateVerdict'' (JStr (gate_verdict_str (gd_verdict gate))) newState
      in if gd_verdict gate = Gate_pass \<or> gd_verdict gate = Gate_warn then s
         else obj_set ''_violatedAnchors'' (JArr (map JStr (gd_violated gate))) s)"

definition probed_attempt ::
  "'w pass_env \<Rightarrow> string \<Rightarrow> intent_anchor list \<Rightarrow> nat \<Rightarrow> (string \<times> json) list \<Rightarrow> 'w \<Rightarrow>
     'w \<times> (string + (string \<times> json) list)" where
  "probed_attempt env passName anchors r compState w =
     (let prevState = with_feedback (pe_host env) anchors r compState in
      case pe_compile env w prevState of
        (w1, Inl e) \<Rightarrow> (w1, Inl e)
      | (w1, Inr newState) \<Rightarrow>
          (let delta = json_text (pe_host env) (JObj (computeDelta (pe_host env) prevState newState));
               (w2, probes) = probeAnchors (pe_host env) (pe_parse_json env) (pe_callModel env) (pe_clock env r)
                 (pe_dryRun env) delta anchors w1;
               gate = reconcile probes anchors r MAX_REMEDIATION;
               entry = \<lparr>de_pipeline_id = pe_instance env, de_signal_id = pe_signal env, de_pass_name = passName,
                 de_anchors = map ia_id anchors, de_probes = probes, de_verdict = gd_verdict gate,
                 de_remediation = r, de_probe_model = ''llama-70b'', de_latency = pe_latency env r,
                 de_timestamp = pe_clock env r (length anchors)\<rparr>
           in (pe_append env entry w2, Inr (record_verdict gate newState))))"

function probed_pass ::
  "'w pass_env \<Rightarrow> string \<Rightarrow> intent_anchor list \<Rightarrow> nat \<Rightarrow> (string \<times> json) list \<Rightarrow> 'w \<Rightarrow>
     'w \<times> (string + (string \<times> json) list)" where
  "probed_pass env passName anchors r compState w =
     (if MAX_REMEDIATION < r then (w, Inr compState)
      else case probed_attempt env passName anchors r compState w of
        (w1, Inl e) \<Rightarrow> (w1, Inl e)
      | (w1, Inr s1) \<Rightarrow>
          if map_of s1 ''_gateVerdict'' \<noteq> Some (JStr ''remediate'') then (w1, Inr s1)
          else probed_pass env passName anchors (r + 1) s1 w1)"
  by pat_completeness auto
termination
  by (relation "measure (\<lambda>(env, passName, anchors, r, s, w). MAX_REMEDIATION + 1 - r)") auto

declare probed_pass.simps [simp del]

section \<open>What a probed pass lets through\<close>

lemma map_of_obj_set: "k \<noteq> ''__proto__'' \<Longrightarrow> map_of (obj_set k v kvs) k' = (if k' = k then Some v else map_of kvs k')"
  by (simp add: obj_set_def update_conv')

lemma record_verdict_lookup:
  "map_of (record_verdict gate s) ''_gateVerdict'' = Some (JStr (gate_verdict_str (gd_verdict gate)))"
  by (simp add: record_verdict_def Let_def map_of_obj_set)

lemma gate_verdict_str_remediate [simp]: "gate_verdict_str v = ''remediate'' \<longleftrightarrow> v = Gate_remediate"
  by (cases v) simp_all

lemma probeAnchors_keeps:
  assumes "\<And>w m. ledger (fst (callModel w m)) = ledger w"
  shows "ledger (fst (probeAnchors h parse_json callModel clock dryRun out anchors w)) = ledger w"
proof -
  have "ledger (fst (live_probe parse_json callModel clock out anchors w)) = ledger w" for out
    using assms [of w "probe_message out anchors"]
    by (cases "callModel w (probe_message out anchors)") (auto simp: live_probe_def split: sum.split)
  then show ?thesis
    by (simp add: probeAnchors_def)
qed

lemma probed_attempt_entry:
  assumes keeps: "\<And>w s. ledger (fst (pe_compile env w s)) = ledger w"
    "\<And>w m. ledger (fst (pe_callModel env w m)) = ledger w"
    and append: "\<And>e w. ledger (pe_append env e w) = ledger w @ [e]"
    and run: "probed_attempt env passName anchors r s w = (w', Inr s')"
  shows "\<exists>e. ledger w' = ledger w @ [e] \<and> de_remediation e = r \<and>
    map_of s' ''_gateVerdict'' = Some (JStr (gate_verdict_str (de_verdict e))) \<and>
    de_verdict e = gd_verdict (reconcile (de_probes e) anchors r MAX_REMEDIATION)"
proof -
  define prev where "prev = with_feedback (pe_host env) anchors r s"
  obtain w1 new where c: "pe_compile env w prev = (w1, Inr new)"
    using run by (auto simp: probed_attempt_def Let_def prev_def split: prod.splits sum.splits)
  define out where "out = json_text (pe_host env) (JObj (computeDelta (pe_host env) prev new))"
  obtain w2 probes where p: "probeAnchors (pe_host env) (pe_parse_json env) (pe_callModel env) (pe_clock env r)
      (pe_dryRun env) out anchors w1 = (w2, probes)"
    by force
  have "ledger w1 = ledger w"
    using keeps(1) [of w prev] by (simp add: c)
  moreover have "ledger w2 = ledger w1"
    using probeAnchors_keeps [where ledger = ledger and callModel = "pe_callModel env", OF keeps(2),
      of "pe_host env" "pe_parse_json env" "pe_clock env r" "pe_dryRun env" out anchors w1] by (simp add: p)
  moreover have "(w', Inr s') = (pe_append env
      \<lparr>de_pipeline_id = pe_instance env, de_signal_id = pe_signal env, de_pass_name = passName,
       de_anchors = map ia_id anchors, de_probes = probes,
       de_verdict = gd_verdict (reconcile probes anchors r MAX_REMEDIATION),
       de_remediation = r, de_probe_model = ''llama-70b'', de_latency = pe_latency env r,
       de_timestamp = pe_clock env r (length anchors)\<rparr> w2,
     Inr (record_verdict (reconcile probes anchors r MAX_REMEDIATION) new) :: string + _)"
    using run c p by (simp add: probed_attempt_def Let_def prev_def [symmetric] out_def [symmetric] del: json_text.simps)
  ultimately show ?thesis
    by (simp add: append record_verdict_lookup)
qed

definition attempts_recorded ::
  "intent_anchor list \<Rightarrow> nat \<Rightarrow> drift_entry list \<Rightarrow> (string \<times> json) list \<Rightarrow> bool" where
  "attempts_recorded anchors r es s \<longleftrightarrow>
     es \<noteq> [] \<and> r + length es \<le> 3 \<and> map de_remediation es = [r..<r + length es] \<and>
     (\<forall>e\<in>set (butlast es). de_verdict e = Gate_remediate \<and> block_violated anchors (de_probes e)) \<and>
     map_of s ''_gateVerdict'' = Some (JStr (gate_verdict_str (de_verdict (last es)))) \<and>
     (if block_violated anchors (de_probes (last es)) then r + length es = 3 \<and> de_verdict (last es) = Gate_escalate
      else de_verdict (last es) = Gate_pass \<or> de_verdict (last es) = Gate_warn)"

lemma attempts_recorded_one:
  assumes "r \<le> 2" and "de_remediation e = r" and "de_verdict e \<noteq> Gate_remediate"
    and "map_of s ''_gateVerdict'' = Some (JStr (gate_verdict_str (de_verdict e)))"
    and v: "de_verdict e = gd_verdict (reconcile (de_probes e) anchors r MAX_REMEDIATION)"
  shows "attempts_recorded anchors r [e] s"
  using assms(1-4) v [unfolded reconcile_verdict]
  by (auto simp: attempts_recorded_def MAX_REMEDIATION_def split: if_splits)

lemma attempts_recorded_Cons:
  assumes "attempts_recorded anchors (Suc r) es s" and "de_remediation e = r" and "de_verdict e = Gate_remediate"
    and "block_violated anchors (de_probes e)"
  shows "attempts_recorded anchors r (e # es) s"
  using assms by (cases es) (auto simp: attempts_recorded_def upt_conv_Cons simp del: upt_Suc split: if_splits)

lemma probed_pass_attempts:
  assumes compile: "\<And>w s. ledger (fst (pe_compile env w s)) = ledger w"
    and model: "\<And>w m. ledger (fst (pe_callModel env w m)) = ledger w"
    and append: "\<And>e w. ledger (pe_append env e w) = ledger w @ [e]"
    and "r \<le> 2" and "probed_pass env passName anchors r s w = (w', Inr s')"
  shows "\<exists>es. ledger w' = ledger w @ es \<and> attempts_recorded anchors r es s'"
  using assms(4,5)
proof (induction "3 - r" arbitrary: r s w rule: less_induct)
  case less
  obtain w1 s1 where a: "probed_attempt env passName anchors r s w = (w1, Inr s1)"
    and rest: "(if map_of s1 ''_gateVerdict'' \<noteq> Some (JStr ''remediate'') then (w1, Inr s1)
      else probed_pass env passName anchors (r + 1) s1 w1) = (w', Inr s')"
    using less.prems
    by (auto simp: probed_pass.simps [of env passName anchors r s w] MAX_REMEDIATION_def split: prod.splits sum.splits)
  obtain e where e: "ledger w1 = ledger w @ [e]" "de_remediation e = r"
    "map_of s1 ''_gateVerdict'' = Some (JStr (gate_verdict_str (de_verdict e)))"
    "de_verdict e = gd_verdict (reconcile (de_probes e) anchors r MAX_REMEDIATION)"
    using probed_attempt_entry [where ledger = ledger and env = env, OF compile model append a] by blast
  show ?case
  proof (cases "de_verdict e = Gate_remediate")
    case False
    then have "w' = w1" "s' = s1"
      using rest e(3) by auto
    then show ?thesis
      using attempts_recorded_one [OF less.prems(1) e(2) False e(3,4)] e(1) by blast
  next
    case True
    have b: "block_violated anchors (de_probes e)" "r < 2"
      using e(4) True by (auto simp: reconcile_verdict MAX_REMEDIATION_def split: if_splits)
    obtain es where "ledger w' = ledger w1 @ es" "attempts_recorded anchors (Suc r) es s'"
      using less.hyps [of "Suc r" s1 w1] rest e(3) True b(2) diff_less_mono2 [of r "Suc r" 3] by auto
    then show ?thesis
      using attempts_recorded_Cons [OF _ e(2) True b(1)] e(1) by (intro exI [of _ "e # es"]) auto
  qed
qed

text \<open>
  C23. A probed pass lets nothing through that its gate blocks, and it ends. For a ledger that the
  compiler and the model leave alone and that keeps what is appended: a pass that returns has
  made one to three attempts, each recorded in the ledger in order; every attempt but the last
  violated a block anchor and asked for a remediation; the verdict left in the compile state is
  that of the last attempt, which is an escalation exactly when the third attempt still violated
  a block anchor, and otherwise a pass or a warning on probes that violate no block anchor.
\<close>

theorem probed_pass_exact:
  assumes compile: "\<And>w s. ledger (fst (pe_compile env w s)) = ledger w"
    and model: "\<And>w m. ledger (fst (pe_callModel env w m)) = ledger w"
    and append: "\<And>e w. ledger (pe_append env e w) = ledger w @ [e]"
    and run: "probed_pass env passName anchors 0 s w = (w', Inr s')"
  shows "\<exists>es. es \<noteq> [] \<and> length es \<le> 3 \<and> ledger w' = ledger w @ es \<and>
    map de_remediation es = [0..<length es] \<and>
    (\<forall>e\<in>set (butlast es). de_verdict e = Gate_remediate \<and> block_violated anchors (de_probes e)) \<and>
    map_of s' ''_gateVerdict'' = Some (JStr (gate_verdict_str (de_verdict (last es)))) \<and>
    (if block_violated anchors (de_probes (last es)) then length es = 3 \<and> de_verdict (last es) = Gate_escalate
     else de_verdict (last es) = Gate_pass \<or> de_verdict (last es) = Gate_warn)"
proof -
  obtain es where "ledger w' = ledger w @ es" "attempts_recorded anchors 0 es s'"
    using probed_pass_attempts [where ledger = ledger and env = env, OF compile model append _ run] by auto
  then show ?thesis
    unfolding attempts_recorded_def by (intro exI [of _ es]) auto
qed

text \<open>An attempt that violates its only anchor, three times.\<close>

definition sample_anchor :: intent_anchor where
  "sample_anchor =
     \<lparr>ia_id = ''IA-1'', ia_signal_id = ''S'', ia_claim = ''c'', ia_question = ''q'', ia_violation = Ans_no,
      ia_severity = Anchor_block, ia_times_probed = 0, ia_times_violated = 0, ia_passes = None\<rparr>"

definition failing_env :: "drift_entry list pass_env" where
  "failing_env =
     \<lparr>pe_host = \<lparr>nfc = id, collation_key = id, number_text = (\<lambda>q. []), sha256Hex = id\<rparr>,
      pe_parse_json = (\<lambda>s. None), pe_compile = (\<lambda>w s. (w, Inr [])),
      pe_callModel = (\<lambda>w m. (w, Inl ''down'')), pe_append = (\<lambda>e w. w @ [e]), pe_clock = (\<lambda>r i. ''t''),
      pe_latency = (\<lambda>r. 0), pe_instance = ''i'', pe_signal = ''s'', pe_dryRun = False\<rparr>"

lemma failing_env_escalates: "\<exists>w' s'. probed_pass failing_env p [sample_anchor] r s w = (w', Inr s')"
proof (induction failing_env p "[sample_anchor]" r s w rule: probed_pass.induct)
  case (1 p r s w)
  have "\<exists>w1 s1. probed_attempt failing_env p [sample_anchor] r s w = (w1, Inr s1)"
    by (simp add: probed_attempt_def failing_env_def Let_def split: prod.split)
  then show ?case
    using 1 by (subst probed_pass.simps) (auto split: prod.split)
qed

theorem probed_pass_exact_witness:
  "\<exists>es s'. probed_pass failing_env ''decompose'' [sample_anchor] 0 [] [] = (es, Inr s') \<and> es \<noteq> [] \<and> length es \<le> 3"
proof -
  obtain es s' where run: "probed_pass failing_env ''decompose'' [sample_anchor] 0 [] [] = (es, Inr s')"
    using failing_env_escalates by blast
  show ?thesis
    using probed_pass_exact [where ledger = id, OF _ _ _ run] run by (auto simp: failing_env_def)
qed

section \<open>What the probe reports\<close>

definition usable :: "json \<Rightarrow> nat \<Rightarrow> nat \<Rightarrow> bool" where
  "usable reply i n \<longleftrightarrow> (\<forall>j<n. is_ok (normalizeAnswer (answer_at reply (i + j))))"

definition block_all :: "intent_anchor list \<Rightarrow> probe_result list \<Rightarrow> bool" where
  "block_all anchors rs \<longleftrightarrow>
     map pr_anchor_id rs = map ia_id (filter (\<lambda>a. ia_severity a = Anchor_block) anchors) \<and> list_all pr_violation rs"

definition answered :: "json \<Rightarrow> nat \<Rightarrow> intent_anchor list \<Rightarrow> probe_result list \<Rightarrow> bool" where
  "answered reply i anchors rs \<longleftrightarrow>
     map pr_anchor_id rs = map ia_id anchors \<and>
     map pr_violation rs =
       map (\<lambda>j. normalizeAnswer (answer_at reply (i + j)) = Inr (ia_violation (anchors ! j))) [0..<length anchors]"

lemma usable_Suc: "usable reply i (Suc n) \<longleftrightarrow> is_ok (normalizeAnswer (answer_at reply i)) \<and> usable reply (Suc i) n"
  by (auto simp: usable_def All_less_Suc2)

lemma violates_iff: "violates a ans \<longleftrightarrow> ans = ia_violation a"
  by (cases ans; cases "ia_violation a") (simp_all add: violates_def)

lemma answered_Cons:
  "answered reply i (a # as) (r # rs) \<longleftrightarrow>
     pr_anchor_id r = ia_id a \<and> (pr_violation r \<longleftrightarrow> normalizeAnswer (answer_at reply i) = Inr (ia_violation a)) \<and>
     answered reply (Suc i) as rs"
  by (auto simp: answered_def upt_conv_Cons map_Suc_upt [symmetric] comp_def simp del: upt_Suc)

lemma probe_answers_exact:
  "case probe_answers clock reply i as of
     Inl e \<Rightarrow> \<not> usable reply i (length as)
   | Inr rs \<Rightarrow> usable reply i (length as) \<and> answered reply i as rs"
proof (induction as arbitrary: i)
  case Nil
  then show ?case
    by (simp add: usable_def answered_def)
next
  case (Cons a as)
  show ?case
    using Cons [of "Suc i"]
    by (cases "normalizeAnswer (answer_at reply i)"; cases "probe_answers clock reply (Suc i) as")
      (auto simp: usable_Suc answered_Cons violates_iff)
qed

lemma probe_failsafe_blocks: "block_all anchors (probe_failsafe clock msg anchors)"
proof -
  have "map (ia_id \<circ> snd) (enumerate n as) = map ia_id as" for n and as :: "intent_anchor list"
    by (metis map_map map_snd_enumerate)
  then show ?thesis
    by (auto simp: block_all_def probe_failsafe_def list_all_iff comp_def split_beta)
qed

text \<open>
  C24. The probe blocks when it cannot see, but not when it is not answered. A failed model call, and
  an answer that is no text, report exactly the block anchors, all of them violated. Otherwise
  there is one result for each anchor, in order, violated exactly when the normalized answer is the
  answer that signals a violation. A missing answer is read as yes, whatever the anchor: so a reply
  that answers nothing violates no anchor that asks for something to be present.
\<close>

theorem probe_exact:
  assumes "live_probe parse_json callModel clock out anchors w = (w', rs)"
  shows "case snd (callModel w (probe_message out anchors)) of
      Inl msg \<Rightarrow> block_all anchors rs
    | Inr raw \<Rightarrow>
        (let reply = parseProbeResponse parse_json raw (length anchors)
         in if usable reply 1 (length anchors) then answered reply 1 anchors rs else block_all anchors rs)"
proof (cases "callModel w (probe_message out anchors)")
  case (Pair w1 r)
  show ?thesis
  proof (cases r)
    case (Inl msg)
    then show ?thesis
      using assms Pair by (auto simp: live_probe_def probe_failsafe_blocks)
  next
    case (Inr raw)
    define reply where "reply = parseProbeResponse parse_json raw (length anchors)"
    show ?thesis
      using assms probe_answers_exact [where clock = clock and reply = reply and i = 1 and as = anchors]
      unfolding live_probe_def Pair Inr reply_def [symmetric] Let_def
      by (cases "probe_answers clock reply 1 anchors")
        (auto simp: probe_failsafe_blocks reply_def [symmetric])
  qed
qed

theorem probe_exact_witness:
  "\<exists>rs. live_probe (\<lambda>s. Some (JObj [])) (\<lambda>w m. (w, Inr ''{}'')) (\<lambda>i. ''t'') ''{}'' [sample_anchor] () = ((), rs) \<and>
     map pr_anchor_id rs = [''IA-1''] \<and> map pr_violation rs = [False]"
proof -
  obtain rs where rs: "live_probe (\<lambda>s. Some (JObj [])) (\<lambda>w m. (w, Inr ''{}'')) (\<lambda>i. ''t'') ''{}'' [sample_anchor] () = ((), rs)"
    by (cases "live_probe (\<lambda>s. Some (JObj [])) (\<lambda>w m. (w, Inr ''{}'')) (\<lambda>i. ''t'') ''{}'' [sample_anchor] ()") auto
  show ?thesis
    using probe_exact [OF rs] rs
    by (auto simp: parseProbeResponse_def usable_def answered_def normalizeAnswer_def sample_anchor_def)
qed

end
