(* ===== verification/Function_Synthesis.thy ===== *)
theory Function_Synthesis
  imports Governance_Schemas Intent_Markdown
begin

text \<open>
  Function synthesis (\<open>packages/function-synthesis/src\<close>): the decision state with its bounds
  (\<open>decision-state.ts\<close>), the loop over a binding mode (\<open>orchestrate.ts\<close>, \<open>binding-mode.ts\<close>), the
  contracts of the five roles and the check of a trace against them (\<open>role-contracts.ts\<close>,
  \<open>role-adherence.ts\<close>), the evidence (\<open>evidence.ts\<close>), the resolution of disagreements
  (\<open>disagreement.ts\<close>) and the crystallization check (\<open>crystallization.ts\<close>). The binding mode and
  the code emitter are parameters: they take the world and reject or resolve.
\<close>

section \<open>Types\<close>

datatype role_name = Planner_role | Coder_role | Critic_role | Tester_role | Verifier_role

fun role_name_str :: "role_name \<Rightarrow> string" where
  "role_name_str Planner_role = ''Planner''"
| "role_name_str Coder_role = ''Coder''"
| "role_name_str Critic_role = ''Critic''"
| "role_name_str Tester_role = ''Tester''"
| "role_name_str Verifier_role = ''Verifier''"

datatype terminal_verdict =
  Verdict_pass | Patch_exhausted | Resample_exhausted | Verdict_interrupt | Verdict_fail

fun terminal_str :: "terminal_verdict \<Rightarrow> string" where
  "terminal_str Verdict_pass = ''pass''"
| "terminal_str Patch_exhausted = ''patch-exhausted''"
| "terminal_str Resample_exhausted = ''resample-exhausted''"
| "terminal_str Verdict_interrupt = ''interrupt''"
| "terminal_str Verdict_fail = ''fail''"

datatype verifier_decision =
  Decide_pass | Decide_patch | Decide_resample | Decide_interrupt | Decide_fail

datatype disagreement_class = Repairable_local | Architectural | Governance

record inference_config =
  ic_maxRepairLoops :: nat
  ic_patchIterationCap :: nat

record convergence_policy =
  cp_maxResampleBranches :: nat

record tool_call =
  tc_role :: role_name
  tc_tool :: string
  tc_input :: "(string \<times> json) list"
  tc_output :: "(string \<times> json) list"
  tc_timestamp :: string

record role_iteration =
  ri_role :: role_name
  ri_iteration :: nat
  inputFields :: "string list"
  outputFields :: "string list"
  toolCalls :: "tool_call list"
  durationMs :: rat

record resample_node =
  branchIndex :: nat
  rn_roleIterations :: "role_iteration list"
  rn_terminal :: "terminal_verdict option"

record validation_outcome =
  vo_validationId :: string
  vo_passed :: bool
  vo_summary :: string
  vo_details :: "(string \<times> json) list option"

record patch_proposal =
  targetPath :: string
  patch_content :: string
  patch_nodeId :: string
  patch_rationale :: string

record terminal_decision =
  td_verdict :: terminal_verdict
  td_rationale :: string
  td_repairLoopCount :: nat
  td_resampleBranchCount :: nat

datatype violation_type = Scope_violation | Hard_constraint

datatype requested_action = Approve_action | Reject_action | Amend_action

record approval_payload =
  ap_reason :: string
  ap_violationType :: violation_type
  ap_requestedAction :: requested_action

record trace_log =
  tl_runId :: string
  tl_executableSpecificationId :: string
  tl_architectureCandidateId :: string
  tl_bindingModeName :: string
  tl_roleIterations :: "role_iteration list"
  tl_resampleBranches :: "resample_node list"
  tl_validationOutcomes :: "validation_outcome list"
  terminalDecision :: terminal_decision
  tl_generatedArtifactPaths :: "string list"
  tl_startedAt :: string
  tl_completedAt :: string

datatype contract_surface = Read_access | Write_access | Do_not | Output_semantics

datatype surface_verdict = Surface_pass | Surface_fail | Surface_unknown

record surface_check =
  sc_surface :: contract_surface
  sc_verdict :: surface_verdict
  sc_violations :: "string list"

record adherence_entry =
  ae_role :: role_name
  ae_checks :: "surface_check list"
  ae_compliant :: bool

record adherence_report =
  ar_synthesisRunId :: string
  ar_entries :: "adherence_entry list"
  ar_compliant :: bool
  ar_timestamp :: string

record fidelity_input =
  fi_synthesisRunId :: string
  fi_functionId :: string
  fi_executableSpecificationId :: string
  fi_architectureCandidateId :: string
  fi_artifactPaths :: "string list"
  fi_validationOutcomes :: "validation_outcome list"
  compileSummary :: string
  testSummary :: string
  fi_scopeViolation :: bool
  fi_constraintViolation :: bool
  fi_repairLoopCount :: nat
  resampleSummary :: string
  fi_bindingModeName :: string
  fi_promptPackVersion :: string
  fi_toolPolicyHash :: string
  fi_modelBindingHash :: string
  fi_startedAt :: string
  fi_completedAt :: string

record selection_report =
  sr_synthesisRunId :: string
  sr_candidateId :: string
  sr_topology :: string
  sr_modelBinding :: string
  sr_objectiveScores :: "(string \<times> rat) list"
  sr_selectionReason :: string
  sr_timestamp :: string

record memory_write =
  mw_layer :: string
  mw_key :: string
  mw_content :: string
  mw_sourceRefs :: "string list"
  mw_timestamp :: string

record crystallization =
  cz_synthesisRunId :: string
  cz_pattern :: string
  cz_proposedArtifactPath :: string
  cz_sourceRefs :: "string list"
  cz_timestamp :: string

record synthesis_result =
  syn_runId :: string
  syn_verdict :: terminal_verdict
  syn_paths :: "string list"
  syn_traceLog :: trace_log
  syn_adherence :: adherence_report
  syn_fidelity :: fidelity_input
  syn_selection :: selection_report
  syn_requiresHumanApproval :: bool
  syn_approval :: "approval_payload option"

text \<open>The schemas; \<open>dt\<close> is the test of a time stamp.\<close>

definition tool_call_ok :: "(string \<Rightarrow> bool) \<Rightarrow> tool_call \<Rightarrow> bool" where
  "tool_call_ok dt c \<longleftrightarrow> tc_tool c \<noteq> [] \<and> dt (tc_timestamp c)"

definition role_iteration_ok :: "(string \<Rightarrow> bool) \<Rightarrow> role_iteration \<Rightarrow> bool" where
  "role_iteration_ok dt i \<longleftrightarrow> list_all (tool_call_ok dt) (toolCalls i) \<and> 0 \<le> durationMs i"

definition resample_node_ok :: "(string \<Rightarrow> bool) \<Rightarrow> resample_node \<Rightarrow> bool" where
  "resample_node_ok dt n \<longleftrightarrow> list_all (role_iteration_ok dt) (rn_roleIterations n)"

definition validation_outcome_ok :: "validation_outcome \<Rightarrow> bool" where
  "validation_outcome_ok v \<longleftrightarrow> vo_validationId v \<noteq> [] \<and> vo_summary v \<noteq> []"

definition terminal_decision_ok :: "terminal_decision \<Rightarrow> bool" where
  "terminal_decision_ok d \<longleftrightarrow> td_rationale d \<noteq> []"

definition trace_log_ok :: "(string \<Rightarrow> bool) \<Rightarrow> trace_log \<Rightarrow> bool" where
  "trace_log_ok dt l \<longleftrightarrow>
     tl_runId l \<noteq> [] \<and> tl_executableSpecificationId l \<noteq> [] \<and> tl_architectureCandidateId l \<noteq> [] \<and>
     tl_bindingModeName l \<noteq> [] \<and> list_all (role_iteration_ok dt) (tl_roleIterations l) \<and>
     list_all (resample_node_ok dt) (tl_resampleBranches l) \<and>
     list_all validation_outcome_ok (tl_validationOutcomes l) \<and>
     terminal_decision_ok (terminalDecision l) \<and> dt (tl_startedAt l) \<and> dt (tl_completedAt l)"

definition adherence_report_ok :: "(string \<Rightarrow> bool) \<Rightarrow> adherence_report \<Rightarrow> bool" where
  "adherence_report_ok dt r \<longleftrightarrow>
     ar_synthesisRunId r \<noteq> [] \<and> ar_entries r \<noteq> [] \<and>
     list_all (\<lambda>e. length (ae_checks e) = 4) (ar_entries r) \<and> dt (ar_timestamp r)"

definition fidelity_input_ok :: "(string \<Rightarrow> bool) \<Rightarrow> fidelity_input \<Rightarrow> bool" where
  "fidelity_input_ok dt i \<longleftrightarrow>
     fi_synthesisRunId i \<noteq> [] \<and> fi_functionId i \<noteq> [] \<and> fi_executableSpecificationId i \<noteq> [] \<and>
     fi_architectureCandidateId i \<noteq> [] \<and> list_all validation_outcome_ok (fi_validationOutcomes i) \<and>
     compileSummary i \<noteq> [] \<and> testSummary i \<noteq> [] \<and> resampleSummary i \<noteq> [] \<and>
     fi_bindingModeName i \<noteq> [] \<and> fi_promptPackVersion i \<noteq> [] \<and> fi_toolPolicyHash i \<noteq> [] \<and>
     fi_modelBindingHash i \<noteq> [] \<and> dt (fi_startedAt i) \<and> dt (fi_completedAt i)"

definition selection_report_ok :: "(string \<Rightarrow> bool) \<Rightarrow> selection_report \<Rightarrow> bool" where
  "selection_report_ok dt r \<longleftrightarrow>
     sr_synthesisRunId r \<noteq> [] \<and> sr_candidateId r \<noteq> [] \<and> sr_topology r \<noteq> [] \<and>
     sr_modelBinding r \<noteq> [] \<and> sr_selectionReason r \<noteq> [] \<and> dt (sr_timestamp r)"

definition memory_write_ok :: "(string \<Rightarrow> bool) \<Rightarrow> memory_write \<Rightarrow> bool" where
  "memory_write_ok dt m \<longleftrightarrow>
     mw_layer m \<noteq> [] \<and> mw_key m \<noteq> [] \<and> mw_content m \<noteq> [] \<and> mw_sourceRefs m \<noteq> [] \<and>
     [] \<notin> set (mw_sourceRefs m) \<and> dt (mw_timestamp m)"

definition crystallization_ok :: "(string \<Rightarrow> bool) \<Rightarrow> crystallization \<Rightarrow> bool" where
  "crystallization_ok dt c \<longleftrightarrow>
     cz_synthesisRunId c \<noteq> [] \<and> cz_pattern c \<noteq> [] \<and> cz_proposedArtifactPath c \<noteq> [] \<and>
     cz_sourceRefs c \<noteq> [] \<and> [] \<notin> set (cz_sourceRefs c) \<and> dt (cz_timestamp c)"

text \<open>
  What \<open>SynthesisResult.parse\<close> checks; the parts passed their own schemas before.
\<close>

definition synthesis_result_ok :: "(string \<Rightarrow> bool) \<Rightarrow> synthesis_result \<Rightarrow> bool" where
  "synthesis_result_ok dt r \<longleftrightarrow>
     syn_runId r \<noteq> [] \<and> trace_log_ok dt (syn_traceLog r) \<and> adherence_report_ok dt (syn_adherence r) \<and>
     fidelity_input_ok dt (syn_fidelity r) \<and> selection_report_ok dt (syn_selection r) \<and>
     (case syn_approval r of None \<Rightarrow> True | Some p \<Rightarrow> ap_reason p \<noteq> [])"

datatype synthesis_error = Schema_violation string | Rejected_call string

definition parsed :: "string \<Rightarrow> ('a \<Rightarrow> bool) \<Rightarrow> 'a \<Rightarrow> synthesis_error + 'a" where
  "parsed schema ok a = (if ok a then Inr a else Inl (Schema_violation schema))"

lemma parsed_Inr [simp]: "parsed schema ok a = Inr b \<longleftrightarrow> ok a \<and> b = a"
  by (auto simp: parsed_def)

section \<open>The decision state\<close>

text \<open>The \<open>to\<close> states of the transition table; the code keeps the name of the state.\<close>

datatype synthesis_lifecycle = In_progress | Implemented | Synthesis_failed

record decision_state =
  repairLoopCount :: nat
  resampleBranchCount :: nat
  maxRepairLoops :: nat
  maxResampleBranches :: nat
  patchIterationCap :: nat
  currentLifecycle :: synthesis_lifecycle

definition createDecisionState :: "inference_config \<Rightarrow> convergence_policy \<Rightarrow> decision_state" where
  "createDecisionState ic cp =
     \<lparr>repairLoopCount = 0, resampleBranchCount = 0, maxRepairLoops = ic_maxRepairLoops ic,
      maxResampleBranches = cp_maxResampleBranches cp, patchIterationCap = ic_patchIterationCap ic,
      currentLifecycle = In_progress\<rparr>"

fun available_decision :: "decision_state \<Rightarrow> verifier_decision \<Rightarrow> bool" where
  "available_decision s Decide_patch \<longleftrightarrow> repairLoopCount s < maxRepairLoops s"
| "available_decision s Decide_resample \<longleftrightarrow> resampleBranchCount s < maxResampleBranches s"
| "available_decision s d \<longleftrightarrow> True"

definition availableDecisions :: "decision_state \<Rightarrow> verifier_decision list" where
  "availableDecisions s = filter (available_decision s)
     [Decide_pass, Decide_interrupt, Decide_fail, Decide_patch, Decide_resample]"

fun applyDecision :: "decision_state \<Rightarrow> verifier_decision \<Rightarrow> decision_state \<times> terminal_verdict option" where
  "applyDecision s Decide_pass = (s\<lparr>currentLifecycle := Implemented\<rparr>, Some Verdict_pass)"
| "applyDecision s Decide_patch =
     (if Decide_patch \<notin> set (availableDecisions s) then (s, Some Patch_exhausted)
      else (s\<lparr>repairLoopCount := repairLoopCount s + 1\<rparr>, None))"
| "applyDecision s Decide_resample =
     (if Decide_resample \<notin> set (availableDecisions s) then (s, Some Resample_exhausted)
      else (s\<lparr>resampleBranchCount := resampleBranchCount s + 1\<rparr>, None))"
| "applyDecision s Decide_interrupt = (s\<lparr>currentLifecycle := Synthesis_failed\<rparr>, Some Verdict_interrupt)"
| "applyDecision s Decide_fail = (s\<lparr>currentLifecycle := Synthesis_failed\<rparr>, Some Verdict_fail)"

text \<open>The bound of \<open>orchestrate\<close>: a decision that is not available fails.\<close>

definition bounded_decision :: "decision_state \<Rightarrow> verifier_decision \<Rightarrow> verifier_decision" where
  "bounded_decision s d =
     (if d \<notin> set (availableDecisions s) then
        (if d = Decide_patch then Decide_fail else if d = Decide_resample then Decide_fail else d)
      else d)"

section \<open>Role contracts\<close>

record role_contract =
  rc_name :: role_name
  reads :: "string list"
  writes :: "string list"
  doNot :: "string list"
  outputArtifact :: string

definition PlannerContract :: role_contract where
  "PlannerContract =
     \<lparr>rc_name = Planner_role,
      reads = [''specEnvelope'', ''executableSpecification'', ''targetNodeIds'', ''activeCandidate'',
        ''repoContract'', ''validationOutcomes''],
      writes = [''plan''],
      doNot = [''read or write code'', ''execute tests'', ''access tools beyond its read set''],
      outputArtifact = ''plan''\<rparr>"

definition CoderContract :: role_contract where
  "CoderContract =
     \<lparr>rc_name = Coder_role,
      reads = [''plan'', ''executableSpecification'', ''activeCandidate'', ''repoContract'', ''editScopes'',
        ''repoContext''],
      writes = [''patchProposals''],
      doNot = [''evaluate its own output'', ''run tests'', ''modify plan''],
      outputArtifact = ''patchProposals''\<rparr>"

definition CriticContract :: role_contract where
  "CriticContract =
     \<lparr>rc_name = Critic_role,
      reads = [''plan'', ''patchProposals'', ''executableSpecification'', ''specEnvelope'', ''repoContract''],
      writes = [''critique''],
      doNot = [''modify code'', ''run tests'', ''override the plan''],
      outputArtifact = ''critique''\<rparr>"

definition TesterContract :: role_contract where
  "TesterContract =
     \<lparr>rc_name = Tester_role,
      reads = [''plan'', ''patchProposals'', ''critique'', ''executableSpecification'', ''scenarioManifest'',
        ''toolResults''],
      writes = [''validationPlan'', ''validationOutcomes''],
      doNot = [''modify code'', ''modify the plan'', ''override the critique''],
      outputArtifact = ''validationOutcomes''\<rparr>"

definition VerifierContract :: role_contract where
  "VerifierContract =
     \<lparr>rc_name = Verifier_role,
      reads = [''plan'', ''patchProposals'', ''critique'', ''validationOutcomes'', ''repairLoopCount'',
        ''maxRepairLoops'', ''scopeViolation'', ''hardConstraintViolation'', ''activeCandidate''],
      writes = [''decision'', ''requiresHumanApproval'', ''humanApprovalPayload''],
      doNot = [''modify code'', ''run tests'', ''override the critique''],
      outputArtifact = ''decision''\<rparr>"

definition ALL_ROLE_CONTRACTS :: "role_contract list" where
  "ALL_ROLE_CONTRACTS = [PlannerContract, CoderContract, CriticContract, TesterContract, VerifierContract]"

definition getRoleContract :: "role_name \<Rightarrow> synthesis_error + role_contract" where
  "getRoleContract name =
     (case find (\<lambda>c. rc_name c = name) ALL_ROLE_CONTRACTS of
        None \<Rightarrow> Inl (Rejected_call (''Unknown role: '' @ role_name_str name))
      | Some c \<Rightarrow> Inr c)"

section \<open>Role adherence\<close>

definition unauthorized :: "string \<Rightarrow> string list \<Rightarrow> string list \<Rightarrow> string list" where
  "unauthorized what allowed used =
     map (\<lambda>f. what @ f) (filter (\<lambda>f. f \<notin> set allowed) used)"

definition surface_check_of :: "contract_surface \<Rightarrow> string list \<Rightarrow> surface_check" where
  "surface_check_of surface violations =
     \<lparr>sc_surface = surface, sc_verdict = (if violations = [] then Surface_pass else Surface_fail),
      sc_violations = violations\<rparr>"

text \<open>The loop over the \<open>doNot\<close> rules has empty branches: it adds no violation.\<close>

definition checkRole :: "role_contract \<Rightarrow> role_iteration list \<Rightarrow> adherence_entry" where
  "checkRole contract iterations =
     (let readViolations = concat (map (\<lambda>i. unauthorized
            (role_name_str (rc_name contract) @ '' read unauthorized field: '') (reads contract) (inputFields i)) iterations);
          writeViolations = concat (map (\<lambda>i. unauthorized
            (role_name_str (rc_name contract) @ '' wrote unauthorized field: '') (writes contract) (outputFields i)) iterations);
          checks = [surface_check_of Read_access readViolations, surface_check_of Write_access writeViolations,
            surface_check_of Do_not [],
            \<lparr>sc_surface = Output_semantics, sc_verdict = Surface_unknown, sc_violations = []\<rparr>]
      in \<lparr>ae_role = rc_name contract, ae_checks = checks,
          ae_compliant = list_all (\<lambda>c. sc_verdict c = Surface_pass \<or> sc_verdict c = Surface_unknown) checks\<rparr>)"

definition checkRoleAdherence ::
  "(string \<Rightarrow> bool) \<Rightarrow> string \<Rightarrow> role_contract list \<Rightarrow> role_iteration list \<Rightarrow> string \<Rightarrow>
     synthesis_error + adherence_report" where
  "checkRoleAdherence dt runId contracts iterations stamp =
     (let entries = map (\<lambda>c. checkRole c (filter (\<lambda>i. ri_role i = rc_name c) iterations)) contracts
      in parsed ''RoleAdherenceReport'' (adherence_report_ok dt)
           \<lparr>ar_synthesisRunId = runId, ar_entries = entries, ar_compliant = list_all ae_compliant entries,
            ar_timestamp = stamp\<rparr>)"

definition injectDoNotViolation :: "role_name \<Rightarrow> string \<Rightarrow> role_iteration list \<Rightarrow> role_iteration list" where
  "injectDoNotViolation role forbidden iterations =
     map (\<lambda>i. if ri_role i = role then i\<lparr>inputFields := inputFields i @ [forbidden]\<rparr> else i) iterations"

section \<open>Disagreement\<close>

record disagreement_conditions =
  isLocalDefect :: bool
  isArchitecturalMismatch :: bool
  isGovernanceViolation :: bool

record disagreement_resolution =
  dr_class :: disagreement_class
  dr_procedure :: string
  allowsAutonomousRetry :: bool
  dr_requiresHumanApproval :: bool
  requiresCandidateReevaluation :: bool

definition resolveDisagreement :: "disagreement_conditions \<Rightarrow> disagreement_resolution" where
  "resolveDisagreement c =
     (if isGovernanceViolation c then
        \<lparr>dr_class = Governance, dr_procedure = ''Route to human approval. No autonomous retry permitted.'',
         allowsAutonomousRetry = False, dr_requiresHumanApproval = True, requiresCandidateReevaluation = False\<rparr>
      else if isArchitecturalMismatch c then
        \<lparr>dr_class = Architectural, dr_procedure = ''Prohibit blind replay. Re-evaluate ArchitectureCandidate before retry.'',
         allowsAutonomousRetry = False, dr_requiresHumanApproval = False, requiresCandidateReevaluation = True\<rparr>
      else if isLocalDefect c then
        \<lparr>dr_class = Repairable_local, dr_procedure = ''Retry with targeted repair addressing the specific defect.'',
         allowsAutonomousRetry = True, dr_requiresHumanApproval = False, requiresCandidateReevaluation = False\<rparr>
      else
        \<lparr>dr_class = Governance,
         dr_procedure = ''Unclassifiable disagreement '' @ em_dash @ '' route to human approval (fail-closed).'',
         allowsAutonomousRetry = False, dr_requiresHumanApproval = True, requiresCandidateReevaluation = False\<rparr>)"

section \<open>Crystallization\<close>

definition KNOWN_PATTERNS :: "string list" where
  "KNOWN_PATTERNS = [''five-role-topology-linear'', ''single-pass-convergence'', ''repair-loop-with-critic-feedback'']"

definition extractPattern :: "trace_log \<Rightarrow> string" where
  "extractPattern l =
     (let roleCount = length (oset_of (map ri_role (tl_roleIterations l)));
          repairCount = td_repairLoopCount (terminalDecision l)
      in if tl_resampleBranches l \<noteq> []
         then ''resample-'' @ dec roleCount @ ''-roles-'' @ dec repairCount @ ''-repairs''
         else if repairCount > 0 then ''repair-loop-with-critic-feedback''
         else ''five-role-topology-linear'')"

definition checkCrystallization ::
  "(string \<Rightarrow> bool) \<Rightarrow> trace_log \<Rightarrow> string \<Rightarrow> synthesis_error + crystallization option" where
  "checkCrystallization dt l stamp =
     (let pattern = extractPattern l
      in if pattern \<in> set KNOWN_PATTERNS then Inr None
         else and_then (parsed ''CrystallizationProposal'' (crystallization_ok dt)
           \<lparr>cz_synthesisRunId = tl_runId l, cz_pattern = pattern,
            cz_proposedArtifactPath = ''specs/crystallized/'' @ tl_runId l @ ''-'' @ pattern @ ''.yaml'',
            cz_sourceRefs = [tl_runId l], cz_timestamp = stamp\<rparr>) (\<lambda>c. Inr (Some c)))"

section \<open>The evidence\<close>

definition buildTraceLog :: "(string \<Rightarrow> bool) \<Rightarrow> trace_log \<Rightarrow> synthesis_error + trace_log" where
  "buildTraceLog dt l = parsed ''SynthesisTraceLog'' (trace_log_ok dt) l"

definition buildFidelityVerificationInput ::
  "(string \<Rightarrow> bool) \<Rightarrow> fidelity_input \<Rightarrow> synthesis_error + fidelity_input" where
  "buildFidelityVerificationInput dt i = parsed ''FidelityVerificationInput'' (fidelity_input_ok dt) i"

definition buildCandidateSelectionReport ::
  "(string \<Rightarrow> bool) \<Rightarrow> string \<Rightarrow> architecture_candidate \<Rightarrow> (string \<times> rat) list \<Rightarrow> string \<Rightarrow> string \<Rightarrow>
     synthesis_error + selection_report" where
  "buildCandidateSelectionReport dt runId c scores why stamp =
     parsed ''SynthesisCandidateSelectionReport'' (selection_report_ok dt)
       \<lparr>sr_synthesisRunId = runId, sr_candidateId = artifact_id c, sr_topology = snd (topology c),
        sr_modelBinding = snd (modelBinding c), sr_objectiveScores = scores, sr_selectionReason = why,
        sr_timestamp = stamp\<rparr>"

text \<open>
  The memory collector: a write parses its record and appends it; \<open>orchestrate\<close> never reads the
  collector back.
\<close>

definition memoryWrite ::
  "(string \<Rightarrow> bool) \<Rightarrow> string \<Rightarrow> string \<Rightarrow> string \<Rightarrow> string \<Rightarrow> string list \<Rightarrow> memory_write list \<Rightarrow>
     synthesis_error + memory_write list" where
  "memoryWrite dt stamp layer key text refs records =
     and_then (parsed ''MemoryWriteRecord'' (memory_write_ok dt)
       \<lparr>mw_layer = layer, mw_key = key, mw_content = text, mw_sourceRefs = refs, mw_timestamp = stamp\<rparr>)
       (\<lambda>r. Inr (records @ [r]))"

definition allHaveSourceRefs :: "memory_write list \<Rightarrow> bool" where
  "allHaveSourceRefs records \<longleftrightarrow> list_all (\<lambda>r. 0 < length (mw_sourceRefs r)) records"

lemma memoryWrite_sourceRefs:
  assumes "memoryWrite dt stamp layer key text refs records = Inr records'"
    and "allHaveSourceRefs records"
  shows "allHaveSourceRefs records'"
  using assms by (auto simp: memoryWrite_def and_then_Inr allHaveSourceRefs_def memory_write_ok_def)

section \<open>Binding modes and code emitters\<close>

record binding_output =
  patchProposals :: "patch_proposal list"
  bo_validationOutcomes :: "validation_outcome list"
  verifierDecision :: verifier_decision
  bo_roleIterations :: "role_iteration list"
  bo_requiresHumanApproval :: bool
  humanApprovalReason :: "string option"
  bo_scopeViolation :: bool
  hardConstraintViolation :: bool

record binding_context =
  bc_repairLoopCount :: nat
  bc_maxRepairLoops :: nat
  bc_resampleBranchCount :: nat
  bc_maxResampleBranches :: nat
  previousPatchProposals :: "patch_proposal list option"
  previousCritique :: "string option"

text \<open>
  A binding mode acts on a world \<open>'w\<close> and rejects or resolves.
\<close>

record 'w binding_mode_impl =
  bm_name :: string
  bm_execute :: "'w \<Rightarrow> executable_specification \<Rightarrow> architecture_candidate \<Rightarrow> role_contract list \<Rightarrow> binding_context \<Rightarrow>
    'w \<times> (synthesis_error + binding_output)"

record stub_config =
  stub_patches :: "patch_proposal list"
  stub_outcomes :: "validation_outcome list"
  stub_decisions :: "verifier_decision list"
  stub_iterations :: "role_iteration list option"
  stub_scope :: "bool option"
  stub_constraint :: "bool option"
  stub_approval :: "bool option"
  stub_reason :: "string option"

text \<open>
  \<open>StubBindingMode\<close>: the world is its \<open>callCount\<close>; with no decisions the index is \<open>NaN\<close> and the
  decision undefined, so the call throws.
\<close>

definition or_default :: "'a option \<Rightarrow> 'a \<Rightarrow> 'a" where
  "or_default m d = (case m of None \<Rightarrow> d | Some a \<Rightarrow> a)"

definition stub_execute ::
  "stub_config \<Rightarrow> nat \<Rightarrow> executable_specification \<Rightarrow> architecture_candidate \<Rightarrow> role_contract list \<Rightarrow> binding_context \<Rightarrow>
     nat \<times> (synthesis_error + binding_output)" where
  "stub_execute c callCount e cand contracts ctx =
     (if stub_decisions c = [] then
        (callCount, Inl (Rejected_call ''StubBindingMode: no verifier decisions configured''))
      else
        (callCount + 1, Inr
          \<lparr>patchProposals = stub_patches c, bo_validationOutcomes = stub_outcomes c,
           verifierDecision = stub_decisions c ! (callCount mod length (stub_decisions c)),
           bo_roleIterations = or_default (stub_iterations c) [],
           bo_requiresHumanApproval = or_default (stub_approval c) False,
           humanApprovalReason = stub_reason c, bo_scopeViolation = or_default (stub_scope c) False,
           hardConstraintViolation = or_default (stub_constraint c) False\<rparr>))"

definition StubBindingMode :: "stub_config \<Rightarrow> nat binding_mode_impl" where
  "StubBindingMode c = \<lparr>bm_name = ''stub'', bm_execute = stub_execute c\<rparr>"

definition full_path :: "string \<Rightarrow> patch_proposal \<Rightarrow> string" where
  "full_path outputDir p = outputDir @ ''/'' @ targetPath p"

text \<open>\<open>DefaultCodeEmitter\<close> writes the patches in order and stops at the first write that rejects.\<close>

fun default_emit ::
  "('w \<Rightarrow> string \<Rightarrow> string \<Rightarrow> 'w \<times> (synthesis_error + unit)) \<Rightarrow> 'w \<Rightarrow> patch_proposal list \<Rightarrow> string \<Rightarrow>
     'w \<times> (synthesis_error + string list)" where
  "default_emit write w [] outputDir = (w, Inr [])"
| "default_emit write w (p # ps) outputDir =
     (case write w (full_path outputDir p) (patch_content p) of
        (w1, Inl e) \<Rightarrow> (w1, Inl e)
      | (w1, Inr _) \<Rightarrow>
          (case default_emit write w1 ps outputDir of
             (w2, Inl e) \<Rightarrow> (w2, Inl e)
           | (w2, Inr paths) \<Rightarrow> (w2, Inr (full_path outputDir p # paths))))"

definition dry_run_emit ::
  "string list \<Rightarrow> patch_proposal list \<Rightarrow> string \<Rightarrow> string list \<times> (synthesis_error + string list)" where
  "dry_run_emit emitted patches outputDir =
     (let paths = map (full_path outputDir) patches in (emitted @ paths, Inr paths))"

section \<open>The loop\<close>

record synthesis_config =
  inferenceConfig :: inference_config
  sc_convergencePolicy :: convergence_policy
  outputDir :: string
  sc_functionId :: string

record synthesis_state =
  decisionState :: decision_state
  allRoleIterations :: "role_iteration list"
  allResampleBranches :: "resample_node list"
  latestOutcomes :: "validation_outcome list"
  latestPatches :: "patch_proposal list"
  st_requiresApproval :: bool
  st_approval :: "approval_payload option"

definition initial_synthesis :: "synthesis_config \<Rightarrow> synthesis_state" where
  "initial_synthesis cfg =
     \<lparr>decisionState = createDecisionState (inferenceConfig cfg) (sc_convergencePolicy cfg),
      allRoleIterations = [], allResampleBranches = [], latestOutcomes = [], latestPatches = [],
      st_requiresApproval = False, st_approval = None\<rparr>"

definition context_of :: "synthesis_state \<Rightarrow> binding_context" where
  "context_of s =
     (let d = decisionState s in
      \<lparr>bc_repairLoopCount = repairLoopCount d, bc_maxRepairLoops = maxRepairLoops d,
       bc_resampleBranchCount = resampleBranchCount d, bc_maxResampleBranches = maxResampleBranches d,
       previousPatchProposals = (if latestPatches s \<noteq> [] then Some (latestPatches s) else None),
       previousCritique = None\<rparr>)"

definition approval_payload_ok :: "approval_payload \<Rightarrow> bool" where
  "approval_payload_ok p \<longleftrightarrow> ap_reason p \<noteq> []"

definition approval_of :: "binding_output \<Rightarrow> synthesis_error + approval_payload" where
  "approval_of out =
     parsed ''HumanApprovalPayload'' approval_payload_ok
       \<lparr>ap_reason = or_default (humanApprovalReason out) ''Human approval required'',
        ap_violationType = (if bo_scopeViolation out then Scope_violation else Hard_constraint),
        ap_requestedAction = Approve_action\<rparr>"

text \<open>What one round does with the output of the binding mode, up to the decision.\<close>

definition record_output :: "synthesis_state \<Rightarrow> binding_output \<Rightarrow> synthesis_error + synthesis_state" where
  "record_output s out =
     (let s1 = s\<lparr>allRoleIterations := allRoleIterations s @ bo_roleIterations out,
                 latestOutcomes := bo_validationOutcomes out, latestPatches := patchProposals out\<rparr>
      in if bo_requiresHumanApproval out then
           and_then (approval_of out)
             (\<lambda>p. Inr (s1\<lparr>st_requiresApproval := True, st_approval := Some p\<rparr>))
         else Inr s1)"

definition take_decision ::
  "synthesis_state \<Rightarrow> binding_output \<Rightarrow> synthesis_state \<times> terminal_verdict option" where
  "take_decision s out =
     (let decision = bounded_decision (decisionState s) (verifierDecision out);
          (d, terminal) = applyDecision (decisionState s) decision;
          s1 = s\<lparr>decisionState := d\<rparr>
      in if decision = Decide_resample then
           (s1\<lparr>allResampleBranches := allResampleBranches s1 @
              [\<lparr>branchIndex = resampleBranchCount d - 1, rn_roleIterations = bo_roleIterations out,
                rn_terminal = terminal\<rparr>]\<rparr>, terminal)
         else (s1, terminal))"

definition synthesis_round ::
  "synthesis_state \<Rightarrow> binding_output \<Rightarrow> synthesis_error + synthesis_state \<times> terminal_verdict option" where
  "synthesis_round s out = and_then (record_output s out) (\<lambda>s1. Inr (take_decision s1 out))"

definition rounds_left :: "synthesis_state \<Rightarrow> nat" where
  "rounds_left s =
     (let d = decisionState s in
      (maxRepairLoops d - repairLoopCount d) + (maxResampleBranches d - resampleBranchCount d))"

lemma take_decision_rounds_left:
  assumes "take_decision s out = (s', None)"
  shows "rounds_left s' < rounds_left s"
  using assms
  by (cases "verifierDecision out")
    (auto simp: take_decision_def bounded_decision_def availableDecisions_def rounds_left_def Let_def
      split: if_splits)

lemma record_output_keeps_decisions:
  "record_output s out = Inr s' \<Longrightarrow> decisionState s' = decisionState s"
  by (auto simp: record_output_def Let_def and_then_Inr split: if_splits)

lemma synthesis_round_rounds_left:
  assumes "synthesis_round s out = Inr (s', None)"
  shows "rounds_left s' < rounds_left s"
proof -
  obtain s1 where s1: "record_output s out = Inr s1" and s': "take_decision s1 out = (s', None)"
    using assms by (auto simp: synthesis_round_def and_then_Inr)
  have "rounds_left s1 = rounds_left s"
    using record_output_keeps_decisions [OF s1] by (simp add: rounds_left_def)
  then show ?thesis
    using take_decision_rounds_left [OF s'] by simp
qed

text \<open>
  The \<open>while\<close> loop: every round that does not end it uses up a repair loop or a resample branch.
\<close>

function synthesis_loop ::
  "('w \<Rightarrow> binding_context \<Rightarrow> 'w \<times> (synthesis_error + binding_output)) \<Rightarrow> synthesis_state \<Rightarrow> 'w \<Rightarrow>
     'w \<times> (synthesis_error + synthesis_state \<times> terminal_verdict)" where
  "synthesis_loop execute s w =
     (case execute w (context_of s) of
        (w1, Inl e) \<Rightarrow> (w1, Inl e)
      | (w1, Inr out) \<Rightarrow>
          (case synthesis_round s out of
             Inl e \<Rightarrow> (w1, Inl e)
           | Inr (s1, Some v) \<Rightarrow> (w1, Inr (s1, v))
           | Inr (s1, None) \<Rightarrow> synthesis_loop execute s1 w1))"
  by pat_completeness auto
termination
  by (relation "measure (\<lambda>(execute, s, w). rounds_left s)") (auto dest: synthesis_round_rounds_left)

declare synthesis_loop.simps [simp del]

section \<open>The orchestration\<close>

text \<open>
  After the loop: the files are written on the verdict pass, then the evidence is built. The
  clock is a sequence of readings: 0 the start, 1 the first memory write, 2 the completion, 3 the
  selection report, 4 the adherence report, 5 the crystallization, 6 and 7 the last memory writes.
\<close>

definition terminal_decision_of :: "synthesis_state \<Rightarrow> terminal_verdict \<Rightarrow> terminal_decision" where
  "terminal_decision_of s v =
     \<lparr>td_verdict = v, td_rationale = ''Synthesis completed with verdict: '' @ terminal_str v,
      td_repairLoopCount = repairLoopCount (decisionState s),
      td_resampleBranchCount = resampleBranchCount (decisionState s)\<rparr>"

definition trace_of ::
  "(nat \<Rightarrow> string) \<Rightarrow> string \<Rightarrow> executable_specification \<Rightarrow> architecture_candidate \<Rightarrow> string \<Rightarrow>
     synthesis_state \<Rightarrow> terminal_verdict \<Rightarrow> string list \<Rightarrow> trace_log" where
  "trace_of clock runId es cand mode s v paths =
     \<lparr>tl_runId = runId, tl_executableSpecificationId = artifact_id es,
      tl_architectureCandidateId = artifact_id cand, tl_bindingModeName = mode,
      tl_roleIterations = allRoleIterations s, tl_resampleBranches = allResampleBranches s,
      tl_validationOutcomes = latestOutcomes s, terminalDecision = terminal_decision_of s v,
      tl_generatedArtifactPaths = paths, tl_startedAt = clock 0, tl_completedAt = clock 2\<rparr>"

definition fidelity_of ::
  "(nat \<Rightarrow> string) \<Rightarrow> string \<Rightarrow> executable_specification \<Rightarrow> architecture_candidate \<Rightarrow> string \<Rightarrow>
     synthesis_config \<Rightarrow> synthesis_state \<Rightarrow> terminal_verdict \<Rightarrow> string list \<Rightarrow> fidelity_input" where
  "fidelity_of clock runId es cand mode cfg s v paths =
     \<lparr>fi_synthesisRunId = runId, fi_functionId = sc_functionId cfg,
      fi_executableSpecificationId = artifact_id es, fi_architectureCandidateId = artifact_id cand,
      fi_artifactPaths = paths, fi_validationOutcomes = latestOutcomes s,
      compileSummary = (if v = Verdict_pass then ''All compilations passed''
        else ''Compilation status: N/A (synthesis did not pass)''),
      testSummary = (if v = Verdict_pass then ''All tests passed''
        else ''Test status: N/A (synthesis did not pass)''),
      fi_scopeViolation = False, fi_constraintViolation = False,
      fi_repairLoopCount = repairLoopCount (decisionState s),
      resampleSummary = dec (resampleBranchCount (decisionState s)) @ '' resample branches explored'',
      fi_bindingModeName = mode, fi_promptPackVersion = ''1.0.0'', fi_toolPolicyHash = ''stub-hash'',
      fi_modelBindingHash = ''stub-hash'', fi_startedAt = clock 0, fi_completedAt = clock 2\<rparr>"

definition write_proposal ::
  "(string \<Rightarrow> bool) \<Rightarrow> (nat \<Rightarrow> string) \<Rightarrow> string \<Rightarrow> crystallization option \<Rightarrow> memory_write list \<Rightarrow>
     synthesis_error + memory_write list" where
  "write_proposal dt clock runId proposal mem =
     (case proposal of
        None \<Rightarrow> Inr mem
      | Some c \<Rightarrow> memoryWrite dt (clock 6) ''crystallization'' (''proposal-'' @ runId)
          (''Crystallization proposal: '' @ cz_pattern c) [runId] mem)"

definition conclude ::
  "(string \<Rightarrow> bool) \<Rightarrow> (nat \<Rightarrow> string) \<Rightarrow> string \<Rightarrow> executable_specification \<Rightarrow> architecture_candidate \<Rightarrow>
     string \<Rightarrow> synthesis_config \<Rightarrow> memory_write list \<Rightarrow> synthesis_state \<Rightarrow> terminal_verdict \<Rightarrow> string list \<Rightarrow>
     synthesis_error + synthesis_result" where
  "conclude dt clock runId es cand mode cfg mem s v paths =
     and_then (buildTraceLog dt (trace_of clock runId es cand mode s v paths)) (\<lambda>trace.
     and_then (buildFidelityVerificationInput dt (fidelity_of clock runId es cand mode cfg s v paths)) (\<lambda>fid.
     and_then (buildCandidateSelectionReport dt runId cand
         [(''synthesis'', if v = Verdict_pass then 1 else 0)]
         (''Candidate '' @ artifact_id cand @ '' selected for synthesis of '' @ artifact_id es) (clock 3)) (\<lambda>sel.
     and_then (checkRoleAdherence dt runId ALL_ROLE_CONTRACTS (allRoleIterations s) (clock 4)) (\<lambda>adh.
     and_then (if v = Verdict_pass
               then and_then (checkCrystallization dt trace (clock 5)) (\<lambda>c. write_proposal dt clock runId c mem)
               else Inr mem) (\<lambda>mem1.
     and_then (memoryWrite dt (clock 7) ''execution'' (''synthesis-complete-'' @ runId)
         (''Synthesis completed: '' @ terminal_str v @ '', '' @ dec (length paths) @ '' files emitted'') [runId] mem1) (\<lambda>_.
     parsed ''SynthesisResult'' (synthesis_result_ok dt)
       \<lparr>syn_runId = runId, syn_verdict = v, syn_paths = paths, syn_traceLog = trace, syn_adherence = adh,
        syn_fidelity = fid, syn_selection = sel, syn_requiresHumanApproval = st_requiresApproval s,
        syn_approval = st_approval s\<rparr>))))))"

text \<open>\<open>millis\<close> and \<open>suffix\<close> stand for the clock and the random part of the run id.\<close>

definition synthesis_run_id :: "string \<Rightarrow> string \<Rightarrow> string" where
  "synthesis_run_id millis suffix = ''SYN-'' @ millis @ ''-'' @ suffix"

definition orchestrate ::
  "(string \<Rightarrow> bool) \<Rightarrow> (nat \<Rightarrow> string) \<Rightarrow> string \<Rightarrow> string \<Rightarrow> executable_specification \<Rightarrow> architecture_candidate \<Rightarrow>
     'w binding_mode_impl \<Rightarrow> synthesis_config \<Rightarrow>
     ('w \<Rightarrow> patch_proposal list \<Rightarrow> string \<Rightarrow> 'w \<times> (synthesis_error + string list)) \<Rightarrow> 'w \<Rightarrow>
     'w \<times> (synthesis_error + synthesis_result)" where
  "orchestrate dt clock millis suffix es cand mode cfg emit w =
     (let runId = synthesis_run_id millis suffix in
      case memoryWrite dt (clock 1) ''execution'' (''synthesis-start-'' @ runId)
        (''Synthesis started for ExecutableSpecification '' @ artifact_id es @ '' with candidate '' @ artifact_id cand)
        [artifact_id es, artifact_id cand] [] of
        Inl e \<Rightarrow> (w, Inl e)
      | Inr mem \<Rightarrow>
          (case synthesis_loop (\<lambda>w1. bm_execute mode w1 es cand ALL_ROLE_CONTRACTS) (initial_synthesis cfg) w of
             (w1, Inl e) \<Rightarrow> (w1, Inl e)
           | (w1, Inr (s, v)) \<Rightarrow>
               (case (if v = Verdict_pass then emit w1 (latestPatches s) (outputDir cfg) else (w1, Inr [])) of
                  (w2, Inl e) \<Rightarrow> (w2, Inl e)
                | (w2, Inr paths) \<Rightarrow>
                    (w2, conclude dt clock runId es cand (bm_name mode) cfg mem s v paths))))"

section \<open>What a run does\<close>

text \<open>
  The specification: \<open>f i\<close> is the answer of the binding mode to call \<open>i\<close>. A round ends the run
  unless it asks for a patch or a resample that is still allowed by the bounds.
\<close>

definition asked :: "(nat \<Rightarrow> binding_output) \<Rightarrow> verifier_decision \<Rightarrow> nat \<Rightarrow> nat list" where
  "asked f d n = filter (\<lambda>i. verifierDecision (f i) = d) [0..<n]"

definition round_ends :: "nat \<Rightarrow> nat \<Rightarrow> (nat \<Rightarrow> binding_output) \<Rightarrow> nat \<Rightarrow> bool" where
  "round_ends R S f n \<longleftrightarrow>
     (case verifierDecision (f n) of
        Decide_patch \<Rightarrow> R \<le> length (asked f Decide_patch n)
      | Decide_resample \<Rightarrow> S \<le> length (asked f Decide_resample n)
      | _ \<Rightarrow> True)"

fun verdict_of_decision :: "verifier_decision \<Rightarrow> terminal_verdict" where
  "verdict_of_decision Decide_pass = Verdict_pass"
| "verdict_of_decision Decide_interrupt = Verdict_interrupt"
| "verdict_of_decision _ = Verdict_fail"

definition branch_node :: "(nat \<Rightarrow> binding_output) \<Rightarrow> nat \<Rightarrow> resample_node" where
  "branch_node f i =
     \<lparr>branchIndex = length (asked f Decide_resample i), rn_roleIterations = bo_roleIterations (f i),
      rn_terminal = None\<rparr>"

definition scripted :: "(nat \<Rightarrow> binding_output) \<Rightarrow> nat \<times> 'f \<Rightarrow> 'c \<Rightarrow> (nat \<times> 'f) \<times> (synthesis_error + binding_output)" where
  "scripted f w ctx = ((Suc (fst w), snd w), Inr (f (fst w)))"

definition counts_recorded :: "nat \<Rightarrow> nat \<Rightarrow> (nat \<Rightarrow> binding_output) \<Rightarrow> nat \<Rightarrow> synthesis_state \<Rightarrow> bool" where
  "counts_recorded R S f n s \<longleftrightarrow>
     repairLoopCount (decisionState s) = length (asked f Decide_patch n) \<and>
     resampleBranchCount (decisionState s) = length (asked f Decide_resample n) \<and>
     length (asked f Decide_patch n) \<le> R \<and> length (asked f Decide_resample n) \<le> S \<and>
     n = length (asked f Decide_patch n) + length (asked f Decide_resample n) \<and>
     maxRepairLoops (decisionState s) = R \<and> maxResampleBranches (decisionState s) = S \<and>
     allResampleBranches s = map (branch_node f) (asked f Decide_resample n)"

definition outputs_recorded :: "(nat \<Rightarrow> binding_output) \<Rightarrow> nat \<Rightarrow> synthesis_state \<Rightarrow> bool" where
  "outputs_recorded f n s \<longleftrightarrow>
     allRoleIterations s = concat (map (\<lambda>i. bo_roleIterations (f i)) [0..<n]) \<and>
     (st_requiresApproval s \<longleftrightarrow> (\<exists>i<n. bo_requiresHumanApproval (f i))) \<and>
     (case st_approval s of None \<Rightarrow> True | Some p \<Rightarrow> ap_reason p \<noteq> [])"

lemma asked_Suc [simp]:
  "asked f d (Suc n) = asked f d n @ (if verifierDecision (f n) = d then [n] else [])"
  by (simp add: asked_def)

lemma asked_0 [simp]: "asked f d 0 = []"
  by (simp add: asked_def)

lemma record_output_scripted:
  assumes "outputs_recorded f n s" and "humanApprovalReason (f n) \<noteq> Some []"
  obtains s1 where "record_output s (f n) = Inr s1" and "outputs_recorded f (Suc n) s1"
    and "latestOutcomes s1 = bo_validationOutcomes (f n)" and "latestPatches s1 = patchProposals (f n)"
    and "decisionState s1 = decisionState s" and "allResampleBranches s1 = allResampleBranches s"
proof (cases "bo_requiresHumanApproval (f n)")
  case True
  obtain p where p: "approval_of (f n) = Inr p" "ap_reason p \<noteq> []"
    using assms(2) by (fastforce simp: approval_of_def approval_payload_ok_def parsed_def or_default_def split: option.splits)
  show ?thesis
    by (rule that [of "s\<lparr>allRoleIterations := allRoleIterations s @ bo_roleIterations (f n),
                 latestOutcomes := bo_validationOutcomes (f n), latestPatches := patchProposals (f n),
                 st_requiresApproval := True, st_approval := Some p\<rparr>"])
      (use True p assms(1) in \<open>auto simp: record_output_def Let_def outputs_recorded_def\<close>)
next
  case False
  show ?thesis
    by (rule that [of "s\<lparr>allRoleIterations := allRoleIterations s @ bo_roleIterations (f n),
                 latestOutcomes := bo_validationOutcomes (f n), latestPatches := patchProposals (f n)\<rparr>"])
      (use False assms(1) in \<open>auto simp: record_output_def Let_def outputs_recorded_def less_Suc_eq\<close>)
qed

lemma take_decision_keeps_outputs:
  assumes "take_decision s out = (s', t)"
  shows "outputs_recorded f n s' = outputs_recorded f n s" "latestOutcomes s' = latestOutcomes s"
    "latestPatches s' = latestPatches s"
  using assms by (auto simp: take_decision_def Let_def outputs_recorded_def split: prod.splits if_splits)

lemma take_decision_goes_on:
  assumes "counts_recorded R S f n s" and "\<not> round_ends R S f n"
  obtains s' where "take_decision s (f n) = (s', None)" and "counts_recorded R S f (Suc n) s'"
  using assms
  by (cases "verifierDecision (f n)")
    (auto simp: take_decision_def bounded_decision_def availableDecisions_def counts_recorded_def
      round_ends_def branch_node_def Let_def)

lemma take_decision_ends:
  assumes "counts_recorded R S f n s" and "round_ends R S f n"
  obtains s' where "take_decision s (f n) = (s', Some (verdict_of_decision (verifierDecision (f n))))"
    and "counts_recorded R S f n s'"
  using assms
  by (cases "verifierDecision (f n)")
    (auto simp: take_decision_def bounded_decision_def availableDecisions_def counts_recorded_def
      round_ends_def Let_def)

lemma synthesis_loop_scripted:
  assumes approvals: "\<And>i. humanApprovalReason (f i) \<noteq> Some []"
    and "counts_recorded R S f n s" and "outputs_recorded f n s"
  shows "\<exists>m s'. n \<le> m \<and> m \<le> R + S \<and> round_ends R S f m \<and> (\<forall>i. n \<le> i \<and> i < m \<longrightarrow> \<not> round_ends R S f i) \<and>
    synthesis_loop (scripted f) s (n, files) =
      ((Suc m, files), Inr (s', verdict_of_decision (verifierDecision (f m)))) \<and>
    counts_recorded R S f m s' \<and> outputs_recorded f (Suc m) s' \<and>
    latestOutcomes s' = bo_validationOutcomes (f m) \<and> latestPatches s' = patchProposals (f m)"
  using assms(2,3)
proof (induction "rounds_left s" arbitrary: n s rule: less_induct)
  case less
  obtain s1 where s1: "record_output s (f n) = Inr s1" "outputs_recorded f (Suc n) s1"
    "latestOutcomes s1 = bo_validationOutcomes (f n)" "latestPatches s1 = patchProposals (f n)"
    "decisionState s1 = decisionState s" "allResampleBranches s1 = allResampleBranches s"
    using record_output_scripted [OF less.prems(2) approvals] by blast
  have c1: "counts_recorded R S f n s1"
    using less.prems(1) s1(5,6) by (simp add: counts_recorded_def)
  note unfold = synthesis_loop.simps [of "scripted f" s "(n, files)"]
  show ?case
  proof (cases "round_ends R S f n")
    case True
    obtain s2 where s2: "take_decision s1 (f n) = (s2, Some (verdict_of_decision (verifierDecision (f n))))"
      "counts_recorded R S f n s2"
      using take_decision_ends [OF c1 True] by blast
    have "n \<le> R + S"
      using less.prems(1) by (simp add: counts_recorded_def)
    then show ?thesis
      using True s1 s2 take_decision_keeps_outputs [OF s2(1)]
      by (intro exI [of _ n] exI [of _ s2]) (auto simp: unfold scripted_def synthesis_round_def)
  next
    case False
    obtain s2 where s2: "take_decision s1 (f n) = (s2, None)" "counts_recorded R S f (Suc n) s2"
      using take_decision_goes_on [OF c1 False] by blast
    have round: "synthesis_round s (f n) = Inr (s2, None)"
      using s1(1) s2(1) by (simp add: synthesis_round_def)
    have step: "synthesis_loop (scripted f) s (n, files) = synthesis_loop (scripted f) s2 (Suc n, files)"
      using round by (simp add: unfold scripted_def)
    have "outputs_recorded f (Suc n) s2"
      using s1(2) take_decision_keeps_outputs [OF s2(1)] by simp
    from less.hyps [OF synthesis_round_rounds_left [OF round] s2(2) this]
    show ?thesis
      unfolding step using False by (metis Suc_leD le_antisym not_less_eq_eq)
  qed
qed

lemma counts_recorded_initial:
  "counts_recorded (ic_maxRepairLoops (inferenceConfig cfg)) (cp_maxResampleBranches (sc_convergencePolicy cfg)) f 0
     (initial_synthesis cfg)"
  by (simp add: counts_recorded_def initial_synthesis_def createDecisionState_def)

lemma outputs_recorded_initial: "outputs_recorded f 0 (initial_synthesis cfg)"
  by (simp add: outputs_recorded_def initial_synthesis_def)

text \<open>The world of the theorem: the calls of the binding mode and the files written.\<close>

definition scripted_mode :: "string \<Rightarrow> (nat \<Rightarrow> binding_output) \<Rightarrow> (nat \<times> (string \<times> string) list) binding_mode_impl" where
  "scripted_mode name f = \<lparr>bm_name = name, bm_execute = (\<lambda>w es cand contracts ctx. scripted f w ctx)\<rparr>"

definition record_file ::
  "nat \<times> (string \<times> string) list \<Rightarrow> string \<Rightarrow> string \<Rightarrow>
     (nat \<times> (string \<times> string) list) \<times> (synthesis_error + unit)" where
  "record_file w path text = ((fst w, snd w @ [(path, text)]), Inr ())"

lemma default_emit_record_file:
  "default_emit record_file w ps dir =
     ((fst w, snd w @ map (\<lambda>p. (full_path dir p, patch_content p)) ps), Inr (map (full_path dir) ps))"
  by (induction ps arbitrary: w) (simp_all add: record_file_def)

definition output_ok :: "(string \<Rightarrow> bool) \<Rightarrow> binding_output \<Rightarrow> bool" where
  "output_ok dt out \<longleftrightarrow> list_all (role_iteration_ok dt) (bo_roleIterations out) \<and>
     list_all validation_outcome_ok (bo_validationOutcomes out) \<and> humanApprovalReason out \<noteq> Some []"

lemma role_iterations_ok_concat:
  "\<forall>i. output_ok dt (f i) \<Longrightarrow>
     list_all (role_iteration_ok dt) (concat (map (\<lambda>i. bo_roleIterations (f i)) xs))"
  by (auto simp: output_ok_def list_all_iff)

lemma branch_nodes_ok:
  "\<forall>i. output_ok dt (f i) \<Longrightarrow> list_all (resample_node_ok dt) (map (branch_node f) xs)"
  by (auto simp: output_ok_def list_all_iff resample_node_ok_def branch_node_def)

lemma terminal_str_nonempty [simp]: "terminal_str v \<noteq> []"
  by (cases v) simp_all

definition run_inputs_ok ::
  "(string \<Rightarrow> bool) \<Rightarrow> (nat \<Rightarrow> string) \<Rightarrow> executable_specification \<Rightarrow> architecture_candidate \<Rightarrow> string \<Rightarrow>
     synthesis_config \<Rightarrow> bool" where
  "run_inputs_ok dt clock es cand mode cfg \<longleftrightarrow>
     (\<forall>i. dt (clock i)) \<and> artifact_id es \<noteq> [] \<and> artifact_id cand \<noteq> [] \<and> snd (topology cand) \<noteq> [] \<and>
     snd (modelBinding cand) \<noteq> [] \<and> mode \<noteq> [] \<and> sc_functionId cfg \<noteq> []"

lemma extractPattern_nonempty [simp]: "extractPattern l \<noteq> []"
  by (simp add: extractPattern_def Let_def)

lemma checkRoleAdherence_valid:
  assumes "dt stamp" and "runId \<noteq> []" and "contracts \<noteq> []"
  shows "\<exists>r. checkRoleAdherence dt runId contracts iterations stamp = Inr r \<and> adherence_report_ok dt r"
  using assms
  by (auto simp: checkRoleAdherence_def Let_def parsed_def adherence_report_ok_def list_all_iff checkRole_def)

lemma memoryWrite_valid:
  assumes "dt stamp" and "layer \<noteq> []" and "key \<noteq> []" and "text \<noteq> []" and "refs \<noteq> []" and "[] \<notin> set refs"
  shows "\<exists>rs. memoryWrite dt stamp layer key text refs records = Inr rs"
  using assms by (simp add: memoryWrite_def parsed_def memory_write_ok_def)

lemma checkCrystallization_valid:
  assumes "dt stamp" and "tl_runId l \<noteq> []"
  shows "\<exists>c. checkCrystallization dt l stamp = Inr c"
  using assms by (auto simp: checkCrystallization_def Let_def parsed_def crystallization_ok_def)

lemma write_proposal_valid:
  assumes "\<forall>i. dt (clock i)" and "runId \<noteq> []"
  shows "\<exists>rs. write_proposal dt clock runId c mem = Inr rs"
proof (cases c)
  case (Some cz)
  show ?thesis
    unfolding write_proposal_def Some option.case
    by (rule memoryWrite_valid) (use assms in auto)
qed (simp add: write_proposal_def)

lemma ALL_ROLE_CONTRACTS_nonempty [simp]: "ALL_ROLE_CONTRACTS \<noteq> []"
  by (simp add: ALL_ROLE_CONTRACTS_def)

lemma synthesis_run_id_nonempty [simp]: "synthesis_run_id millis suffix \<noteq> []"
  by (simp add: synthesis_run_id_def)

lemma conclude_valid:
  assumes inputs: "run_inputs_ok dt clock es cand mode cfg" and "runId \<noteq> []"
    and "list_all (role_iteration_ok dt) (allRoleIterations s)"
    and "list_all (resample_node_ok dt) (allResampleBranches s)"
    and "list_all validation_outcome_ok (latestOutcomes s)"
    and "case st_approval s of None \<Rightarrow> True | Some p \<Rightarrow> ap_reason p \<noteq> []"
  shows "\<exists>r. conclude dt clock runId es cand mode cfg mem s v paths = Inr r \<and>
    syn_verdict r = v \<and> syn_paths r = paths \<and> syn_requiresHumanApproval r = st_requiresApproval s \<and>
    syn_traceLog r = trace_of clock runId es cand mode s v paths \<and>
    checkRoleAdherence dt runId ALL_ROLE_CONTRACTS (allRoleIterations s) (clock 4) = Inr (syn_adherence r)"
proof -
  note dt = inputs [unfolded run_inputs_ok_def]
  define trace where "trace = trace_of clock runId es cand mode s v paths"
  define fid where "fid = fidelity_of clock runId es cand mode cfg s v paths"
  define sel where "sel = \<lparr>sr_synthesisRunId = runId, sr_candidateId = artifact_id cand, sr_topology = snd (topology cand),
        sr_modelBinding = snd (modelBinding cand), sr_objectiveScores = [(''synthesis'', if v = Verdict_pass then 1 else 0)],
        sr_selectionReason = ''Candidate '' @ artifact_id cand @ '' selected for synthesis of '' @ artifact_id es,
        sr_timestamp = clock 3\<rparr>"
  have trace: "trace_log_ok dt trace"
    using dt assms by (simp add: trace_log_ok_def trace_def trace_of_def terminal_decision_ok_def terminal_decision_of_def)
  have fid: "fidelity_input_ok dt fid"
    using dt assms by (simp add: fidelity_input_ok_def fid_def fidelity_of_def)
  have sel: "selection_report_ok dt sel"
    using dt assms by (simp add: selection_report_ok_def sel_def)
  obtain adh where adh: "checkRoleAdherence dt runId ALL_ROLE_CONTRACTS (allRoleIterations s) (clock 4) = Inr adh"
    "adherence_report_ok dt adh"
    using checkRoleAdherence_valid [of dt "clock 4" runId ALL_ROLE_CONTRACTS] dt assms(2) by auto
  have "tl_runId trace \<noteq> []"
    using assms(2) by (simp add: trace_def trace_of_def)
  then obtain c where c: "checkCrystallization dt trace (clock 5) = Inr c"
    using checkCrystallization_valid dt by blast
  obtain mem1 where mem1: "write_proposal dt clock runId c mem = Inr mem1"
    using write_proposal_valid dt assms(2) by blast
  have last: "\<exists>m. memoryWrite dt (clock 7) ''execution'' (''synthesis-complete-'' @ runId)
      (''Synthesis completed: '' @ terminal_str v @ '', '' @ dec (length paths) @ '' files emitted'') [runId] m' = Inr m" for m'
    by (rule memoryWrite_valid) (use dt assms(2) in auto)
  show ?thesis
    unfolding conclude_def trace_def [symmetric] fid_def [symmetric] buildTraceLog_def
      buildFidelityVerificationInput_def buildCandidateSelectionReport_def sel_def [symmetric]
    using trace fid sel adh c mem1 last [of mem] last [of mem1] assms(2,6)
    by (auto simp: parsed_def synthesis_result_ok_def)
qed

lemma verdict_of_decision_pass [simp]:
  "verdict_of_decision d = Verdict_pass \<longleftrightarrow> d = Decide_pass"
  by (cases d) simp_all

lemma start_memory_valid:
  assumes "run_inputs_ok dt clock es cand mode cfg" and "runId \<noteq> []"
  shows "\<exists>mem. memoryWrite dt (clock 1) ''execution'' (''synthesis-start-'' @ runId)
      (''Synthesis started for ExecutableSpecification '' @ artifact_id es @ '' with candidate '' @ artifact_id cand)
      [artifact_id es, artifact_id cand] [] = Inr mem"
  by (rule memoryWrite_valid) (use assms in \<open>auto simp: run_inputs_ok_def\<close>)

lemma trace_parts_ok:
  assumes "\<forall>i. output_ok dt (f i)" and "counts_recorded R S f n s" and "outputs_recorded f (Suc n) s"
    and "latestOutcomes s = bo_validationOutcomes (f n)"
  shows "list_all (role_iteration_ok dt) (allRoleIterations s)"
    and "list_all (resample_node_ok dt) (allResampleBranches s)"
    and "list_all validation_outcome_ok (latestOutcomes s)"
    and "case st_approval s of None \<Rightarrow> True | Some p \<Rightarrow> ap_reason p \<noteq> []"
proof -
  show "list_all (role_iteration_ok dt) (allRoleIterations s)"
    using assms(3) role_iterations_ok_concat [OF assms(1)] unfolding outputs_recorded_def by metis
  show "list_all (resample_node_ok dt) (allResampleBranches s)"
    using assms(2) branch_nodes_ok [OF assms(1)] unfolding counts_recorded_def by metis
  show "list_all validation_outcome_ok (latestOutcomes s)"
    using assms(1,4) by (simp add: output_ok_def)
  show "case st_approval s of None \<Rightarrow> True | Some p \<Rightarrow> ap_reason p \<noteq> []"
    using assms(3) unfolding outputs_recorded_def by blast
qed

text \<open>
  C25. A synthesis run is bounded and follows its verifier. Let the binding mode answer
  \<open>f 0, f 1, \<dots>\<close>, with outputs that satisfy their schemas. The run makes exactly \<open>n + 1\<close> calls, where round
  \<open>n\<close> is the first whose decision is terminal or asks for more than the bounds allow, so at
  most \<open>maxRepairLoops + maxResampleBranches + 1\<close>; it returns; its verdict is the last decision (an
  exhausted bound is \<open>fail\<close>); the trace holds the iterations of every call and one branch per
  granted resample, the counters the granted patches and resamples; a human approval asked
  for in any round is kept; and files are written only on \<open>pass\<close>, exactly the patches of the last
  call, in their order.
\<close>

theorem synthesis_exact:
  assumes outputs: "\<forall>i. output_ok dt (f i)"
    and inputs: "run_inputs_ok dt clock es cand name cfg"
    and R: "R = ic_maxRepairLoops (inferenceConfig cfg)"
    and S: "S = cp_maxResampleBranches (sc_convergencePolicy cfg)"
  shows "\<exists>n r. n \<le> R + S \<and> round_ends R S f n \<and> (\<forall>i<n. \<not> round_ends R S f i) \<and>
    orchestrate dt clock millis suffix es cand (scripted_mode name f) cfg (default_emit record_file) (0, []) =
      ((Suc n, if verifierDecision (f n) = Decide_pass
               then map (\<lambda>p. (full_path (outputDir cfg) p, patch_content p)) (patchProposals (f n)) else []),
       Inr r) \<and>
    syn_verdict r = verdict_of_decision (verifierDecision (f n)) \<and>
    (syn_requiresHumanApproval r \<longleftrightarrow> (\<exists>i\<le>n. bo_requiresHumanApproval (f i))) \<and>
    tl_roleIterations (syn_traceLog r) = concat (map (\<lambda>i. bo_roleIterations (f i)) [0..<Suc n]) \<and>
    tl_resampleBranches (syn_traceLog r) = map (branch_node f) (asked f Decide_resample n) \<and>
    td_repairLoopCount (terminalDecision (syn_traceLog r)) = length (asked f Decide_patch n) \<and>
    td_resampleBranchCount (terminalDecision (syn_traceLog r)) = length (asked f Decide_resample n)"
proof -
  have approvals: "humanApprovalReason (f i) \<noteq> Some []" for i
    using outputs by (simp add: output_ok_def)
  have start: "counts_recorded R S f 0 (initial_synthesis cfg)"
    unfolding R S by (rule counts_recorded_initial)
  obtain n s where run: "n \<le> R + S" "round_ends R S f n" "\<forall>i. 0 \<le> i \<and> i < n \<longrightarrow> \<not> round_ends R S f i"
    "synthesis_loop (scripted f) (initial_synthesis cfg) (0, []) =
       ((Suc n, [] :: (string \<times> string) list), Inr (s, verdict_of_decision (verifierDecision (f n))))"
    "counts_recorded R S f n s" "outputs_recorded f (Suc n) s"
    "latestOutcomes s = bo_validationOutcomes (f n)" "latestPatches s = patchProposals (f n)"
    using synthesis_loop_scripted [of f, OF approvals start outputs_recorded_initial, of "[]"] by blast
  define paths where "paths = (if verifierDecision (f n) = Decide_pass
    then map (full_path (outputDir cfg)) (patchProposals (f n)) else [])"
  obtain mem where mem: "memoryWrite dt (clock 1) ''execution'' (''synthesis-start-'' @ synthesis_run_id millis suffix)
      (''Synthesis started for ExecutableSpecification '' @ artifact_id es @ '' with candidate '' @ artifact_id cand)
      [artifact_id es, artifact_id cand] [] = Inr mem"
    using start_memory_valid [OF inputs synthesis_run_id_nonempty] by blast
  obtain r where r: "conclude dt clock (synthesis_run_id millis suffix) es cand name cfg mem s
      (verdict_of_decision (verifierDecision (f n))) paths = Inr r"
    "syn_verdict r = verdict_of_decision (verifierDecision (f n))"
    "syn_requiresHumanApproval r = st_requiresApproval s"
    "syn_traceLog r = trace_of clock (synthesis_run_id millis suffix) es cand name s
      (verdict_of_decision (verifierDecision (f n))) paths"
    using conclude_valid [OF inputs synthesis_run_id_nonempty trace_parts_ok [OF outputs run(5-7)]] by blast
  have "orchestrate dt clock millis suffix es cand (scripted_mode name f) cfg (default_emit record_file) (0, []) =
      ((Suc n, if verifierDecision (f n) = Decide_pass
               then map (\<lambda>p. (full_path (outputDir cfg) p, patch_content p)) (patchProposals (f n)) else []), Inr r)"
    using run(4,8) mem r(1)
    by (auto simp: orchestrate_def Let_def scripted_mode_def default_emit_record_file paths_def)
  then show ?thesis
    using run r by (intro exI [of _ n] exI [of _ r])
      (auto simp: trace_of_def terminal_decision_of_def counts_recorded_def outputs_recorded_def less_Suc_eq_le)
qed

text \<open>A run that patches, resamples and passes, with one of each allowed.\<close>

definition sample_output :: "verifier_decision \<Rightarrow> binding_output" where
  "sample_output d =
     \<lparr>patchProposals = [\<lparr>targetPath = ''a.ts'', patch_content = ''code'', patch_nodeId = ''n1'', patch_rationale = ''r''\<rparr>],
      bo_validationOutcomes = [], verifierDecision = d,
      bo_roleIterations = [\<lparr>ri_role = Coder_role, ri_iteration = 0, inputFields = [''plan''],
        outputFields = [''patchProposals''], toolCalls = [], durationMs = 0\<rparr>],
      bo_requiresHumanApproval = False, humanApprovalReason = None, bo_scopeViolation = False,
      hardConstraintViolation = False\<rparr>"

definition sample_script :: "nat \<Rightarrow> binding_output" where
  "sample_script i =
     sample_output (if i = 0 then Decide_patch else if i = 1 then Decide_resample else Decide_pass)"

definition sample_spec :: executable_specification where
  "sample_spec =
     \<lparr>artifact_id = ''ES-A'', source_refs = [], explicitness = Explicit, rationale = ''r'',
      es_functionId = ''FN-A'', nodes = [], edges = []\<rparr>"

definition sample_cand :: architecture_candidate where
  "sample_cand =
     \<lparr>artifact_id = ''AC-A'', source_refs = [], explicitness = Explicit, rationale = ''r'',
      ac_sourceIntentSpecificationId = ''IS-A'', ac_sourceExecutableSpecificationId = ''ES-A'',
      candidateStatus = Selected, topology = (Single_node, ''one''), modelBinding = (Fixed, ''m''),
      candidate_toolPolicy = (No_tools, ''none''), convergencePolicy = (Single_pass, ''one'')\<rparr>"

definition sample_synthesis_config :: synthesis_config where
  "sample_synthesis_config =
     \<lparr>inferenceConfig = \<lparr>ic_maxRepairLoops = 1, ic_patchIterationCap = 1\<rparr>,
      sc_convergencePolicy = \<lparr>cp_maxResampleBranches = 1\<rparr>, outputDir = ''out'', sc_functionId = ''FN-A''\<rparr>"

lemma sample_output_ok: "output_ok dt (sample_script i)"
  by (simp add: output_ok_def sample_script_def sample_output_def role_iteration_ok_def)

lemma sample_run_inputs_ok:
  "run_inputs_ok (\<lambda>s. True) (\<lambda>i. ''t'') sample_spec sample_cand ''m'' sample_synthesis_config"
  by (simp add: run_inputs_ok_def sample_spec_def sample_cand_def sample_synthesis_config_def)

lemma sample_script_ends: "round_ends 1 1 sample_script n \<longleftrightarrow> 2 \<le> n" if "n \<le> 2"
proof -
  have "n = 0 \<or> n = 1 \<or> n = 2"
    using that by linarith
  then show ?thesis
    by (auto simp: round_ends_def sample_script_def sample_output_def numeral_2_eq_2)
qed

theorem synthesis_exact_witness:
  "\<exists>r. orchestrate (\<lambda>s. True) (\<lambda>i. ''t'') ''1'' ''x'' sample_spec sample_cand (scripted_mode ''m'' sample_script)
         sample_synthesis_config (default_emit record_file) (0, []) = ((3, [(''out/a.ts'', ''code'')]), Inr r) \<and>
       syn_verdict r = Verdict_pass \<and> td_repairLoopCount (terminalDecision (syn_traceLog r)) = 1 \<and>
       td_resampleBranchCount (terminalDecision (syn_traceLog r)) = 1"
proof -
  have R: "(1 :: nat) = ic_maxRepairLoops (inferenceConfig sample_synthesis_config)"
    and S: "(1 :: nat) = cp_maxResampleBranches (sc_convergencePolicy sample_synthesis_config)"
    by (simp_all add: sample_synthesis_config_def)
  have outputs: "\<forall>i. output_ok (\<lambda>s. True) (sample_script i)"
    by (simp add: sample_output_ok)
  obtain n r where run: "n \<le> 1 + 1" "round_ends 1 1 sample_script n"
    "orchestrate (\<lambda>s. True) (\<lambda>i. ''t'') ''1'' ''x'' sample_spec sample_cand (scripted_mode ''m'' sample_script)
       sample_synthesis_config (default_emit record_file) (0, []) =
     ((Suc n, if verifierDecision (sample_script n) = Decide_pass
         then map (\<lambda>p. (full_path (outputDir sample_synthesis_config) p, patch_content p)) (patchProposals (sample_script n)) else []),
      Inr r)"
    "syn_verdict r = verdict_of_decision (verifierDecision (sample_script n))"
    "td_repairLoopCount (terminalDecision (syn_traceLog r)) = length (asked sample_script Decide_patch n)"
    "td_resampleBranchCount (terminalDecision (syn_traceLog r)) = length (asked sample_script Decide_resample n)"
    using synthesis_exact [OF outputs sample_run_inputs_ok R S, of "''1''" "''x''"] by blast
  have n: "n = 2"
    using run(1,2) sample_script_ends [of n] by simp
  show ?thesis
    using run(3-6) unfolding n numeral_2_eq_2
    by (intro exI [of _ r])
      (simp add: sample_script_def sample_output_def full_path_def sample_synthesis_config_def numeral_3_eq_3)
qed

section \<open>What the adherence report says\<close>

lemma checkRole_compliant:
  "ae_compliant (checkRole c is') \<longleftrightarrow>
     (\<forall>i\<in>set is'. set (inputFields i) \<subseteq> set (reads c) \<and> set (outputFields i) \<subseteq> set (writes c))"
  by (auto simp: checkRole_def Let_def surface_check_of_def unauthorized_def filter_empty_conv)

lemma rc_names: "map rc_name ALL_ROLE_CONTRACTS = [Planner_role, Coder_role, Critic_role, Tester_role, Verifier_role]"
  by (simp add: ALL_ROLE_CONTRACTS_def PlannerContract_def CoderContract_def CriticContract_def
      TesterContract_def VerifierContract_def)

lemma role_contract_exists: "\<exists>c\<in>set ALL_ROLE_CONTRACTS. rc_name c = r"
proof -
  have "r \<in> set (map rc_name ALL_ROLE_CONTRACTS)"
    unfolding rc_names by (cases r) simp_all
  then show ?thesis
    by auto
qed

lemma role_contract_unique:
  assumes "c \<in> set ALL_ROLE_CONTRACTS" and "c' \<in> set ALL_ROLE_CONTRACTS" and "rc_name c = rc_name c'"
  shows "c = c'"
proof -
  have "distinct (map rc_name ALL_ROLE_CONTRACTS)"
    unfolding rc_names by simp
  then show ?thesis
    using assms by (simp add: distinct_map inj_on_def)
qed

text \<open>
  C26. The adherence report of a run has an entry for each of the five roles and is compliant
  exactly when every iteration of the trace read and wrote only fields that the contract of its
  role lists.
\<close>

theorem role_adherence_exact:
  assumes "checkRoleAdherence dt runId ALL_ROLE_CONTRACTS iterations stamp = Inr r"
  shows "map ae_role (ar_entries r) = [Planner_role, Coder_role, Critic_role, Tester_role, Verifier_role] \<and>
    (ar_compliant r \<longleftrightarrow>
      (\<forall>i\<in>set iterations. \<exists>c\<in>set ALL_ROLE_CONTRACTS. rc_name c = ri_role i \<and>
         set (inputFields i) \<subseteq> set (reads c) \<and> set (outputFields i) \<subseteq> set (writes c)))"
proof -
  have r: "ar_entries r = map (\<lambda>c. checkRole c (filter (\<lambda>i. ri_role i = rc_name c) iterations)) ALL_ROLE_CONTRACTS"
    "ar_compliant r = list_all ae_compliant (ar_entries r)"
    using assms by (auto simp: checkRoleAdherence_def Let_def)
  have "ar_compliant r \<longleftrightarrow> (\<forall>c\<in>set ALL_ROLE_CONTRACTS. \<forall>i\<in>set iterations. ri_role i = rc_name c \<longrightarrow>
      set (inputFields i) \<subseteq> set (reads c) \<and> set (outputFields i) \<subseteq> set (writes c))"
    unfolding r by (auto simp: list_all_iff checkRole_compliant)
  also have "\<dots> \<longleftrightarrow> (\<forall>i\<in>set iterations. \<exists>c\<in>set ALL_ROLE_CONTRACTS. rc_name c = ri_role i \<and>
         set (inputFields i) \<subseteq> set (reads c) \<and> set (outputFields i) \<subseteq> set (writes c))"
    using role_contract_exists role_contract_unique by metis
  finally show ?thesis
    using rc_names unfolding r by (simp add: checkRole_def Let_def comp_def)
qed

theorem role_adherence_exact_witness:
  "\<exists>r. checkRoleAdherence (\<lambda>s. True) ''SYN-1'' ALL_ROLE_CONTRACTS
         (injectDoNotViolation Coder_role ''critique'' (bo_roleIterations (sample_script 0))) ''t'' = Inr r \<and>
       length (ar_entries r) = 5 \<and> \<not> ar_compliant r"
proof -
  obtain r where r: "checkRoleAdherence (\<lambda>s. True) ''SYN-1'' ALL_ROLE_CONTRACTS
         (injectDoNotViolation Coder_role ''critique'' (bo_roleIterations (sample_script 0))) ''t'' = Inr r"
    using checkRoleAdherence_valid [of "\<lambda>s. True" "''t''" "''SYN-1''" ALL_ROLE_CONTRACTS] by auto
  note exact = role_adherence_exact [OF r]
  have "length (ar_entries r) = 5"
    using arg_cong [OF conjunct1 [OF exact], of length] by simp
  moreover have "\<not> ar_compliant r"
    using conjunct2 [OF exact]
    by (simp add: injectDoNotViolation_def sample_script_def sample_output_def ALL_ROLE_CONTRACTS_def
      PlannerContract_def CoderContract_def CriticContract_def TesterContract_def VerifierContract_def)
  ultimately show ?thesis
    using r by blast
qed

end
