(* ===== verification/Spec2Isabelle.thy ===== *)
theory Spec2Isabelle
  imports Sample_Inputs Agent_Scheduler Resilience Execution_Governance Function_Authoring Policy_Evolution
    Atom_Synthesis Run_Coordinator Intent_Fidelity Function_Synthesis Artifact_Validator
begin

text \<open>
  A verification library for the Function Factory: a TypeScript system that compiles Markdown
  Intent Specifications into Executable Specifications, decides under governance whether these
  may run, tunes them into execution packets, runs their atoms, hands out work to coding agents
  over a queue, and feeds what it observes back into new intents and new policies.

  \<^bold>\<open>The program and its theories.\<close> Each theory models the files named here, keeps their names,
  and opens with how its state and operations correspond to the code.

  \<^item> Shared: \<open>Factory_Prelude\<close> (strings, ordered sets and maps, errors as sums, and the locales
    \<open>invariant_system\<close> for step relations, \<open>call_system\<close> and its extension \<open>refined_system\<close> for
    components that are called and have an abstract specification), \<open>Js_Numbers\<close> (binary64 arithmetic on rationals, one
    rounding per operation), \<open>Node_Paths\<close> (the file system and \<open>node:path\<close>).
  \<^item> Data (\<open>packages/schemas\<close>): \<open>Artifact_Ids\<close>, \<open>Artifact_Schemas\<close>, \<open>Governance_Schemas\<close>,
    \<open>Execution_Schemas\<close>. A schema is a record with an executable predicate \<open>_ok\<close>; lineage is a
    record that the others extend. \<open>Governance_Ids\<close> has the functions that derive one id from
    another, with the locale \<open>artifact_rename\<close> interpreted for each.
  \<^item> Compiler (\<open>packages/compiler\<close>): \<open>Intent_Markdown\<close> (front matter, sections, pass 0),
    \<open>Compiler_Passes\<close> (passes 1 to 6), \<open>Executable_Assembly\<close> (pass 8 and emission),
    \<open>Compile\<close> (orchestrator, mode, command line), \<open>Instruction_Tuning\<close>.
  \<^item> Verification (\<open>packages/verification\<close>): \<open>Coherence_Verification\<close>, the checks as instances
    of the locale \<open>coverage_check\<close>, the report and its remediation text.
  \<^item> Packets: \<open>Trellis_Canonical_Json\<close>, \<open>Trellis_Packet\<close> (schema, hash, certification).
  \<^item> Governance of execution: \<open>Execution_Governance\<close> (packages \<open>architecture-candidates\<close>,
    \<open>candidate-selection\<close>, \<open>runtime-admission\<close>, \<open>execution-lifecycle\<close>, \<open>controlled-effectors\<close>,
    \<open>effector-realization\<close>, \<open>observability-feedback\<close>).
  \<^item> Self-authoring: \<open>Function_Authoring\<close> (\<open>capability-delta\<close>, \<open>intent-authoring\<close>,
    \<open>recursion-governance\<close>).
  \<^item> Feedback: \<open>Adaptive_Scoring\<close> (\<open>signal-hygiene\<close>, \<open>adaptive-recalibration\<close>,
    \<open>selection-bias\<close>), \<open>Policy_Evolution\<close> (\<open>meta-governance\<close>, \<open>policy-activation\<close>).
  \<^item> Synthesis of atoms (\<open>workers/ff-pipeline/src\<close>): \<open>Layer_Dispatch\<close> (topological layers),
    \<open>Atom_Ledger\<close> (completion ledger, consumer of results, final verdict), \<open>Atom_Synthesis\<close>
    (queues, executors, alarms and retries as a step relation).
  \<^item> Autonomous scheduler (\<open>packages/autonomous-scheduler\<close>): \<open>Agent_Requests\<close> (requests, results
    and events with their validators), \<open>Agent_Queue\<close> (the JSONL queue with claims and leases, and
    the abstract queue that it implements), \<open>Agent_Runner\<close> (commands, worker output, commit, pull
    request), \<open>Agent_Scheduler\<close> (result and bundle of a run, the run, the daemon).
  \<^item> Function synthesis (\<open>packages/function-synthesis\<close>): \<open>Function_Synthesis\<close> (decision state, role
    contracts, the bounded loop over a binding mode, evidence, emission of code).
  \<^item> Compile pipeline and harness runs (\<open>workers/ff-pipeline/src\<close>): \<open>Intent_Fidelity\<close> (anchors, probe,
    gate, remediation loop, drift ledger), \<open>Run_Coordinator\<close> (the Durable Object of a harness run).
  \<^item> Checks before storage and before a run: \<open>Artifact_Validator\<close>
    (\<open>packages/artifact-validator\<close>, harness completeness of \<open>packages/verification\<close>).
  \<^item> Kernel client (\<open>packages/gdk-ts\<close>): \<open>Resilience\<close> (circuit breaker under overlapping calls,
    retries with backoff).

  \<^bold>\<open>How the parts interact.\<close> \<open>Compile\<close> calls the passes in order over an explicit file system;
  the coherence report decides whether assembly runs, and the assembled specification goes to
  instruction tuning with a candidate and an admission of \<open>Execution_Governance\<close>. What
  \<open>Function_Authoring\<close> renders is Markdown that \<open>Intent_Markdown\<close> reads again. The drift score of
  \<open>Adaptive_Scoring\<close> enters the stress report of \<open>Policy_Evolution\<close>. The daemon of
  \<open>Agent_Scheduler\<close> claims from \<open>Agent_Queue\<close>, runs the commands of \<open>Agent_Runner\<close> and completes
  the request in the queue; its properties rest on the refinement of the queue. The properties that span
  several theories are in this one.

  \<^bold>\<open>What the properties show.\<close> C1 to C4: a compile passes by construction except in bootstrap
  mode on a foreign id, fails closed, returns only what it verified, and its graph is tunable. C5
  and C6: the coherence verdict is exact and does not depend on list order. C7: assembly is closed.
  C8 to C10: the cycle search is exact and ends, the tuning gates are exact, every packet is
  certified. C11 to C15: the queue implements its specification, leases exclude each
  other, results are final, an open request is handed out, stored requests read back. C16 to C18:
  only what was verified is pushed, every run records its result, the daemon drains the queue.
  C19 and C20: the circuit breaker refuses exactly when it should and retries are bounded. C21 and
  C22: a finished harness run stays finished and its result is not lost. C23 and C24: a probed
  pass ends and lets nothing through that its gate blocks, and what the probe reports. C25 and
  C26: a synthesis run is bounded and writes code only on a pass, and the adherence report is exact.
  C27: the artifact validator is exact. C28 and C29: atom extraction loses nothing and lists are
  read back. C30 to C32: execution needs a selected candidate, an effector its policy, and a packet
  both. C33 to C35: authored documents read back without loss and compile, and recursion is
  guarded. C36: scores stay in bounds in spite of rounding. C37: policies change only by an
  approval. C38: the layers are a topological order as early as possible. C39 and C40: what the
  ledger counts, and that dispatch respects dependencies in every reachable state. Other results
  stand as lemmas beside them: the lineage of reports, the errors of assembly, the partition of the
  atoms by contracts, the self-consistency of packet hashes, the validity of run artifacts, the
  harness verification, the bound on feedback, and the totals of the drift ledger.

  \<^bold>\<open>Errors, loops, bounds.\<close> A function that throws returns a sum, \<open>Inl\<close> the error. Recursion
  ends by structure or by a measure: the search for cycles counts the unvisited nodes, the layers
  count the remaining atoms, synthesis counts the repairs and resamples left, the probed pass its
  attempts. The daemon may run forever: \<open>daemon_loop\<close> is a partial function
  whose value is \<open>None\<close> when it does not return, and that it returns is proved. Nothing uses fuel.
  Numbers are binary64 where the code computes with fractions (magnitudes below the overflow
  threshold) and naturals or integers where it counts.

  \<^bold>\<open>Parameters.\<close> Code that is not in the repository is an argument: the YAML parser, SHA-256, the
  locale comparison, the clock, the date conversions, the executors of commands and the file
  system, with what is assumed of them stated as
  hypotheses. Strings are lists of characters: letter case and white space are those of ASCII.
  Keys of objects are ids or titles, never array indices, unless the model says otherwise.

  \<^bold>\<open>Not modelled.\<close> The clients of model providers and the agents that drive them (network I/O,
  answers of an external model; in \<open>Atom_Synthesis\<close> they may return anything), console output,
  HTTP routing, and the text of logs. The schemas that no modelled function produces are left
  out. \<open>SynthesisCoordinator.synthesize\<close> throws before the dispatch of phase 2, which is modelled
  as written. Of the autonomous scheduler the repo-tracked run manifest and the spawning of processes
  are left out, and of the pipeline the run log and the formula compiler, which project events into
  object storage and a database. Still open: the function lifecycle of the pipeline, its tool guardrail, and
  the diff engine.
\<close>

section \<open>The compiler, end to end\<close>



text \<open>
  C2. Fail closed: in bootstrap mode, an intent whose id is not \<open>IS-META-\<close> gives a failing
  report that lists the intent id, the report is written all the same, and nothing is
  assembled, emitted or tuned, whatever the options ask for.
\<close>

theorem compile_fails_closed:
  assumes raw: "fs (path_resolve (cwd env) file) = Some raw"
    and n: "normalize (parse_yaml env) raw (path_resolve (cwd env) file) = Inr n"
    and ts: "is_datetime env (or_else (opt_timestamp opts) (now env))"
      "list_all timestamp_char (or_else (opt_timestamp opts) (now env))"
    and mode: "opt_mode opts = Some Bootstrap"
      "\<not> starts_with ''IS-META-'' (artifact_id (draft n))"
  shows "\<exists>res rpath.
    compile env fs file opts = (Inr res, fs(rpath \<mapsto> report_yaml env (report res))) \<and>
    overall (report res) = Fail \<and> reportPath res = rpath \<and> executableSpecification res = None \<and>
    executableSpecificationPath res = None \<and> instructionTuningResult res = None \<and>
    artifact_id (draft n) \<in> set (source_refs (report res))"
proof -
  obtain r rpath where
    r: "r = report_candidate (coherence_input_of (intermediates_of n) (compile_mode opts n))
       (or_else (opt_timestamp opts) (now env))"
    and c: "compile env fs file opts =
       assemble_and_emit env (fs(rpath \<mapsto> report_yaml env r)) (path_resolve (cwd env) file) opts
         (intermediates_of n) (compile_mode opts n)
         (or_else (opt_timestamp opts) (now env)) r rpath"
    and o: "overall r = (if compile_mode opts n = Bootstrap \<and>
        \<not> starts_with ''IS-META-'' (artifact_id (draft n)) then Fail else Pass)"
    using raw n ts by (rule compile_normalized)
  have f: "overall r = Fail" using mode by (simp add: o compile_mode_def)
  have "artifact_id (draft n) \<in> set (source_refs r)"
    by (simp add: r report_source_refs set_cited_ids coherence_input_of_def)
  with f show ?thesis by (simp add: c assemble_and_emit_fail)
qed

lemma compile_fails_closed_witness:
  "\<exists>res rpath.
    compile (sample_env ''IS-A'') sample_files ''s/i/A.md'' (no_options\<lparr>opt_mode := Some Bootstrap\<rparr>) =
      (Inr res, sample_files(rpath \<mapsto> ''report'')) \<and>
    overall (report res) = Fail \<and> executableSpecification res = None"
  using compile_fails_closed [of sample_files "sample_env ''IS-A''" "''s/i/A.md''" sample_markdown
      "sample_normalized ''IS-A''" "no_options\<lparr>opt_mode := Some Bootstrap\<rparr>"]
    sample_path sample_normalize_steady sample_timestamp
  by (auto simp: sample_files_def no_options_def sample_normalized_def sample_draft_def
      sample_env_def)

text \<open>
  C3. Whatever the options, a compile that returns an Executable Specification has verified
  what it assembled: the intermediates are coherent, the report it returns passes and is
  valid, and the specification is the assembly of these very intermediates under this report.
\<close>

theorem compile_sound:
  assumes "compile env fs file opts = (Inr res, fs')" "executableSpecification res = Some es"
  shows "\<exists>n. result_intermediates res = intermediates_of n \<and>
    coherent (coherence_input_of (intermediates_of n) (compile_mode opts n)) \<and>
    coherence_report_ok (is_datetime env) (report res) \<and> overall (report res) = Pass \<and>
    intent_specification_ok (draft n) \<and>
    assembleExecutableSpecification (draft n) (im_atoms (result_intermediates res))
      (im_contracts (result_intermediates res)) (im_invariants (result_intermediates res))
      (im_dependencies (result_intermediates res)) (im_validations (result_intermediates res))
      (report res) = Inr es"
proof -
  from assms obtain n raw where
    n: "normalize (parse_yaml env) raw (path_resolve (cwd env) file) = Inr n"
    and im: "result_intermediates res = intermediates_of n"
    and r: "report res = report_candidate
        (coherence_input_of (intermediates_of n) (compile_mode opts n))
        (or_else (opt_timestamp opts) (now env))"
    and ok: "coherence_report_ok (is_datetime env) (report res)" "overall (report res) = Pass"
    and a: "assembleExecutableSpecification (draft n) (im_atoms (intermediates_of n))
       (im_contracts (intermediates_of n)) (im_invariants (intermediates_of n))
       (im_dependencies (intermediates_of n)) (im_validations (intermediates_of n))
       (report res) = Inr es"
    by (rule compile_sound_result)
  from ok(2) r have "coherent (coherence_input_of (intermediates_of n) (compile_mode opts n))"
    by (simp add: report_overall split: if_splits)
  with im ok a normalize_draft_ok [OF n] show ?thesis by auto
qed

lemma compile_sound_witness:
  "\<exists>res es. fst (compile (sample_env ''IS-META-A'') sample_files ''s/i/A.md'' no_options) = Inr res \<and>
    executableSpecification res = Some es \<and> overall (report res) = Pass"
proof -
  obtain r rpath es espath where
    c: "compile (sample_env ''IS-META-A'') sample_files ''s/i/A.md'' no_options =
       (Inr (passed_result r rpath (intermediates_of (sample_normalized ''IS-META-A''))
          (compile_mode no_options (sample_normalized ''IS-META-A'')) es espath),
        sample_files(rpath \<mapsto> ''report'', espath \<mapsto> ''es''))"
    by (rule sample_compile)
  from compile_sound [OF c, of es] show ?thesis by (auto simp: c passed_result_def)
qed

text \<open>
  C4. The graph of a compiled Executable Specification passes every structural gate of
  instruction tuning: it has nodes, their ids are distinct, every edge joins two nodes, and
  the depth-first search finds no cycle.
\<close>

theorem compiled_graph_tunable:
  assumes "compile env fs file opts = (Inr res, fs')" "executableSpecification res = Some es"
  shows "nodes es \<noteq> [] \<and> firstDuplicate (map node_id (nodes es)) = None \<and>
    find (dangling_edge (map node_id (nodes es))) (edges es) = None \<and>
    \<not> hasCycle (map node_id (nodes es)) (edges es)"
proof -
  from assms obtain n raw where
    "assembleExecutableSpecification (draft n) (im_atoms (intermediates_of n))
       (im_contracts (intermediates_of n)) (im_invariants (intermediates_of n))
       (im_dependencies (intermediates_of n)) (im_validations (intermediates_of n))
       (report res) = Inr es"
    by (rule compile_sound_result)
  from compiled_graph_gates [OF this refl] show ?thesis
    by (simp add: firstDuplicate_None find_None_iff)
qed

lemma compiled_graph_tunable_witness:
  "\<exists>res es. fst (compile (sample_env ''IS-META-A'') sample_files ''s/i/A.md'' no_options) = Inr res \<and>
    executableSpecification res = Some es \<and> \<not> hasCycle (map node_id (nodes es)) (edges es)"
proof -
  obtain r rpath es espath where
    c: "compile (sample_env ''IS-META-A'') sample_files ''s/i/A.md'' no_options =
       (Inr (passed_result r rpath (intermediates_of (sample_normalized ''IS-META-A''))
          (compile_mode no_options (sample_normalized ''IS-META-A'')) es espath),
        sample_files(rpath \<mapsto> ''report'', espath \<mapsto> ''es''))"
    by (rule sample_compile)
  from compiled_graph_tunable [OF c, of es] show ?thesis by (auto simp: c passed_result_def)
qed

text \<open>
  The command line without flags exits 0 on every file that normalizes: the derived mode
  never rejects what the compiler derives. Both artifacts have been written.
\<close>

theorem cli_default_exit:
  assumes "\<not> starts_with ''--'' file"
    and "fs (path_resolve (cwd env) file) = Some raw"
    and "normalize (parse_yaml env) raw (path_resolve (cwd env) file) = Inr n"
    and "is_datetime env (now env)" "list_all timestamp_char (now env)"
  shows "\<exists>rpath espath r es. main_exit env fs [node, script, file] =
    (0, fs(rpath \<mapsto> report_yaml env r, espath \<mapsto> es_yaml env es)) \<and> overall r = Pass"
proof -
  have p: "parseArgs [node, script, file] = Inr (file, no_options)"
    using assms(1) by (auto simp: parseArgs_def no_options_def)
  have m: "compile_mode no_options n = Bootstrap \<Longrightarrow> starts_with ''IS-META-'' (artifact_id (draft n))"
    by (simp add: compile_mode_def no_options_def determineMode_def split: if_splits)
  obtain r rpath es espath where
    "compile env fs file no_options =
       (Inr (passed_result r rpath (intermediates_of n) (compile_mode no_options n) es espath),
        fs(rpath \<mapsto> report_yaml env r, espath \<mapsto> es_yaml env es))" "overall r = Pass"
    by (rule compile_pass_result [of fs env "file" raw n no_options])
       (use assms m in \<open>auto simp: no_options_def\<close>)
  then show ?thesis by (auto simp: main_exit_def p passed_result_def)
qed

lemma cli_default_exit_witness:
  "fst (main_exit (sample_env ''IS-A'') sample_files [''node'', ''cli.js'', ''s/i/A.md'']) = 0"
  using cli_default_exit [of "''s/i/A.md''" sample_files "sample_env ''IS-A''" sample_markdown
      "sample_normalized ''IS-A''" "''node''" "''cli.js''"]
    sample_path sample_normalize_steady sample_timestamp
  by (auto simp: sample_files_def sample_env_def)

section \<open>From the compiler to a packet, under governance\<close>

text \<open>
  C32. A compiled specification becomes an execution packet exactly under governance: with
  the candidate and the admission that the governance packages derive from it, instruction
  tuning emits a packet if and only if the candidate has been marked as selected, bootstrap
  mode is active and the selection admitted is the selected one. In every other case it returns
  a blocked result; in particular the candidate as it is first emitted is never tuned.
\<close>

theorem governed_compile_emits:
  assumes c: "compile env fs file opts = (Inr res, fs')" "executableSpecification res = Some es"
    and isid: "artifact_id_ok isid" "starts_with ''IS-'' isid" "starts_with ''ES-'' (artifact_id es)"
    and refs: "artifact_id_ok sel" "list_all artifact_id_ok refs"
    and ad: "domain_adapter_contract_ok ad" "runtime_profile_ok prof"
      "mode \<in> set (supportedExecutionModes ad)"
    and tm: "tm \<noteq> []" "dt tm" "\<And>s. sha256Hex h s \<noteq> []"
    and ac: "ac = emitArchitectureCandidate isid (artifact_id es) refs"
    and rad: "rad = evaluateRuntimeAdmission (artifact_id es) (artifact_id ac) sel d boot refs"
    and i: "i = \<lparr>in_executableSpecification = Some es, in_candidate = Some (ac\<lparr>candidateStatus := status\<rparr>),
      in_admission = Some rad, in_adapter = Some ad, in_profile = Some prof,
      in_generatedAt = Some tm, in_executionMode = Some (execution_mode_str mode)\<rparr>"
  shows "if status = Selected \<and> boot \<and> d = Sel_selected
    then \<exists>p. tuneInstructions h dt zi i = Inr (Emitted p [])
    else \<exists>ds us. tuneInstructions h dt zi i = Inr (Blocked ds us)"
proof -
  let ?ac = "ac\<lparr>candidateStatus := status\<rparr>" and ?mode = "execution_mode_str mode"
  obtain n where a: "assembleExecutableSpecification (draft n) (im_atoms (intermediates_of n))
       (im_contracts (intermediates_of n)) (im_invariants (intermediates_of n))
       (im_dependencies (intermediates_of n)) (im_validations (intermediates_of n))
       (report res) = Inr es"
    using c by (rule compile_sound_result)
  note es = assemble_Inr(3) [OF a] and graph = compiled_graph_gates [OF a refl]
  have es_id: "artifact_id_ok (artifact_id es)"
    using es by (simp add: executable_specification_ok_def lineage_ok_def)
  have ac_ok: "architecture_candidate_ok ac"
    unfolding ac using isid(1,2) es_id refs(2) by (rule emitArchitectureCandidate_ok)
  then have ids: "artifact_id_ok (artifact_id ac)"
    by (simp add: architecture_candidate_ok_def lineage_ok_def)
  have rad_ok: "runtime_admission_ok rad"
    unfolding rad using es_id isid(3) ids refs by (rule evaluateRuntimeAdmission_ok)
  have ok: "tuning_inputs_ok es ?ac rad ad prof"
    using es ac_ok rad_ok ad isid(2)
    by (simp add: tuning_inputs_ok_def architecture_candidate_ok_def lineage_ok_def ac
        emitArchitectureCandidate_def)
  have dec: "decision rad = Allow \<longleftrightarrow> boot \<and> d = Sel_selected"
    by (simp add: rad evaluateRuntimeAdmission_decision)
  have src: "rad_sourceExecutableSpecificationId rad = artifact_id es"
    "rad_sourceArchitectureCandidateId rad = artifact_id ac"
    "ac_sourceExecutableSpecificationId ac = artifact_id es"
    by (simp_all add: rad ac evaluateRuntimeAdmission_def admission_artifact_def
        emitArchitectureCandidate_def)
  have gates: "tuning_gates es ?ac rad ad ?mode \<longleftrightarrow> status = Selected \<and> boot \<and> d = Sel_selected"
    using graph ad(3) by (auto simp: tuning_gates_def dec src hasCycle_iff)
  have "tuneInstructions h dt zi i = tune_complete h dt zi es ?ac rad ad prof tm ?mode"
    using tm(1) by (simp add: i tuneInstructions_def)
  with tune_complete_emits [where dt = dt and mode = ?mode, OF ok tm(2,3)]
    tune_complete_blocks [of es ?ac rad ad ?mode] gates
  show ?thesis by simp
qed

lemma governed_compile_emits_witness:
  "\<exists>res es. fst (compile (sample_env ''IS-META-A'') sample_files ''s/i/A.md'' no_options) = Inr res \<and>
    executableSpecification res = Some es \<and>
    (\<exists>p. tuneInstructions trivial_host (\<lambda>t. True) (\<lambda>p. [])
      \<lparr>in_executableSpecification = Some es,
       in_candidate = Some ((emitArchitectureCandidate ''IS-META-A'' (artifact_id es) [])\<lparr>candidateStatus := Selected\<rparr>),
       in_admission = Some (evaluateRuntimeAdmission (artifact_id es)
         (artifact_id (emitArchitectureCandidate ''IS-META-A'' (artifact_id es) [])) ''ACS-META-A'' Sel_selected True []),
       in_adapter = Some sample_adapter, in_profile = Some sample_profile,
       in_generatedAt = Some ''T'', in_executionMode = Some ''execute''\<rparr> = Inr (Emitted p []))"
proof -
  obtain r rpath es espath where
    c: "compile (sample_env ''IS-META-A'') sample_files ''s/i/A.md'' no_options =
       (Inr (passed_result r rpath (intermediates_of (sample_normalized ''IS-META-A''))
          (compile_mode no_options (sample_normalized ''IS-META-A'')) es espath),
        sample_files(rpath \<mapsto> ''report'', espath \<mapsto> ''es''))"
    and es: "artifact_id es = ''ES-META-A''"
    by (rule sample_compile_es)
  have ids: "artifact_id_ok ''IS-META-A''" "artifact_id_ok ''ACS-META-A''" by code_simp+
  have ad: "domain_adapter_contract_ok sample_adapter" "runtime_profile_ok sample_profile"
    "Execute \<in> set (supportedExecutionModes sample_adapter)" by code_simp+
  show ?thesis
    using governed_compile_emits [OF c, of es "''IS-META-A''" "''ACS-META-A''" "[]" sample_adapter
        sample_profile Execute "''T''" "\<lambda>t. True" trivial_host, OF _ ids(1) _ _ ids(2) _ ad _ _ _ refl refl refl,
        where d = Sel_selected and boot = True and status = Selected and zi = "\<lambda>p. []"]
    by (auto simp: c passed_result_def es trivial_host_def)
qed



end
